(* ===== verification/Prelude.thy ===== *)
theory Prelude
  imports "HOL-Library.Word"
begin

text \<open>
  The vocabulary every component of the development shares.

  \<^item> Node's \<open>Buffer\<close> is a list of bytes (\<open>8 word list\<close>); the operations the sources call on it
    (\<open>alloc\<close>, \<open>copy\<close>, \<open>subarray\<close>, \<open>readUIntNNBE\<close>, \<open>writeUIntNNBE\<close>) are defined here with their
    range checks: an access past the end, or a value outside the field, is a \<open>RangeError\<close>.
  \<^item> A thrown exception is the \<open>Inl\<close> side of a result \<open>js_error + 'a\<close>. \<open>Error t ns\<close> is
    \<^verbatim>\<open>throw new Error(t)\<close> with the integers the template string interpolates kept in \<open>ns\<close>.
  \<^item> A function that returns \<^verbatim>\<open>string | null\<close> returns an optional \<open>err_msg\<close>.
  \<^item> TypeScript's \<open>bigint\<close>, and the integral \<open>number\<close>s of the wire fields, are \<open>int\<close>.

  The named collections: \<open>res_simps\<close> evaluates results, \<open>buf_simps\<close> computes with buffers.
\<close>

section \<open>Results\<close>

named_theorems res_simps \<open>evaluation of fallible computations\<close>
named_theorems buf_simps \<open>buffer reads and writes on concatenations of fields\<close>

type_synonym byte = "8 word"
type_synonym bytes = "byte list"
type_synonym err_msg = "string \<times> int list"

datatype js_error = RangeError | Error string "int list"

type_synonym 'a res = "js_error + 'a"

text \<open>Sequencing: an exception skips the rest.\<close>

definition rbind :: "'a res \<Rightarrow> ('a \<Rightarrow> 'b res) \<Rightarrow> 'b res" where
  "rbind m f = (case m of Inl e \<Rightarrow> Inl e | Inr x \<Rightarrow> f x)"

lemma rbind_Inl [simp, res_simps]: "rbind (Inl e) f = Inl e"
  by (simp add: rbind_def)

lemma rbind_Inr [simp, res_simps]: "rbind (Inr x) f = f x"
  by (simp add: rbind_def)

lemma rbind_eq_Inr: "rbind m f = Inr y \<longleftrightarrow> (\<exists>x. m = Inr x \<and> f x = Inr y)"
  by (cases m) auto

lemma rbind_assoc: "rbind (rbind m f) g = rbind m (\<lambda>x. rbind (f x) g)"
  by (cases m) auto

lemma rbind_cong [fundef_cong]:
  "m = m' \<Longrightarrow> (\<And>x. m' = Inr x \<Longrightarrow> f x = g x) \<Longrightarrow> rbind m f = rbind m' g"
  by (cases m') auto

text \<open>\<^verbatim>\<open>if (cond) throw e; rest\<close>.\<close>

definition throw_if :: "bool \<Rightarrow> js_error \<Rightarrow> 'a res \<Rightarrow> 'a res" where
  "throw_if c e m = (if c then Inl e else m)"

lemma throw_if_False [simp, res_simps]: "\<not> c \<Longrightarrow> throw_if c e m = m"
  by (simp add: throw_if_def)

lemma throw_if_True [simp, res_simps]: "c \<Longrightarrow> throw_if c e m = Inl e"
  by (simp add: throw_if_def)

lemma throw_if_eq_Inr: "throw_if c e m = Inr x \<longleftrightarrow> \<not> c \<and> m = Inr x"
  by (simp add: throw_if_def)

lemma throw_if_cong [fundef_cong]:
  "c = c' \<Longrightarrow> e = e' \<Longrightarrow> (\<not> c' \<Longrightarrow> m = m') \<Longrightarrow> throw_if c e m = throw_if c' e' m'"
  by (simp add: throw_if_def)

lemmas res_Inr_iff = rbind_eq_Inr throw_if_eq_Inr

section \<open>Big-endian integers\<close>

text \<open>The \<open>n\<close> low-order bytes of an integer, most significant first, and the value of such a list.\<close>

fun be_bytes :: "nat \<Rightarrow> int \<Rightarrow> bytes" where
  "be_bytes 0 v = []"
| "be_bytes (Suc n) v = be_bytes n (v div 256) @ [word_of_int v]"

definition be_val :: "bytes \<Rightarrow> int" where
  "be_val bs = foldl (\<lambda>acc b. acc * 256 + uint b) 0 bs"

lemma length_be_bytes [simp, buf_simps]: "length (be_bytes n v) = n"
  by (induction n arbitrary: v) auto

lemma be_val_Nil [simp]: "be_val [] = 0"
  by (simp add: be_val_def)

lemma be_val_snoc: "be_val (bs @ [b]) = be_val bs * 256 + uint b"
  by (simp add: be_val_def)

lemma be_val_be_bytes_mod: "be_val (be_bytes n v) = v mod 256 ^ n"
proof (induction n arbitrary: v)
  case 0
  then show ?case by simp
next
  case (Suc n)
  have "be_val (be_bytes (Suc n) v) = (v div 256) mod 256 ^ n * 256 + v mod 256"
    by (simp add: be_val_snoc Suc unsigned_of_int take_bit_eq_mod)
  also have "\<dots> = v mod 256 ^ Suc n"
    using zmod_zmult2_eq [of "256 ^ n" v 256] by simp
  finally show ?case .
qed

lemma be_val_be_bytes [simp, buf_simps]:
  "0 \<le> v \<Longrightarrow> v < 256 ^ n \<Longrightarrow> be_val (be_bytes n v) = v"
  by (simp add: be_val_be_bytes_mod)

lemma be_val_nonneg [simp]: "0 \<le> be_val bs"
  by (induction bs rule: rev_induct) (simp_all add: be_val_snoc)

lemma be_val_less: "be_val bs < 256 ^ length bs"
proof (induction bs rule: rev_induct)
  case Nil
  then show ?case by simp
next
  case (snoc b bs)
  have "uint b < 256" using uint_lt2p [of b] by simp
  moreover have "be_val bs + 1 \<le> 256 ^ length bs" using snoc by simp
  then have "(be_val bs + 1) * 256 \<le> 256 ^ length bs * 256" by (rule mult_right_mono) simp
  ultimately show ?case by (simp add: be_val_snoc algebra_simps)
qed

lemma be_bytes_be_val [simp]: "be_bytes (length bs) (be_val bs) = bs"
proof (induction bs rule: rev_induct)
  case Nil
  then show ?case by simp
next
  case (snoc b bs)
  have "0 \<le> uint b" "uint b < 256" using uint_lt2p [of b] by simp_all
  then have "(be_val bs * 256 + uint b) div 256 = be_val bs" by simp
  moreover have "uint (word_of_int (be_val bs * 256 + uint b) :: byte) = uint b"
    using uint_lt2p [of b] by (simp add: unsigned_of_int take_bit_eq_mod del: of_int_add of_int_mult)
  then have "word_of_int (be_val bs * 256 + uint b) = b" by (rule word_uint_eqI)
  ultimately show ?case using snoc by (simp add: be_val_snoc)
qed

lemma be_bytes_be_val_length: "length bs = n \<Longrightarrow> be_bytes n (be_val bs) = bs"
  by auto

lemma be_bytes_inject:
  assumes "0 \<le> v" "v < 256 ^ n" "0 \<le> w" "w < 256 ^ n" "be_bytes n v = be_bytes n w"
  shows "v = w"
  using assms be_val_be_bytes by metis

section \<open>Buffers\<close>

definition alloc :: "nat \<Rightarrow> bytes" where
  "alloc n = replicate n 0"

text \<open>\<^verbatim>\<open>src.copy(buf, off)\<close>: the bytes of \<open>src\<close> that fit overwrite \<open>buf\<close> from \<open>off\<close> on.\<close>

definition copy_to :: "bytes \<Rightarrow> bytes \<Rightarrow> nat \<Rightarrow> bytes" where
  "copy_to src buf off = take off buf @ take (length buf - off) src @ drop (off + length src) buf"

text \<open>\<^verbatim>\<open>data.subarray(a, b)\<close>, clamped to the buffer as JavaScript clamps it.\<close>

definition subarray :: "bytes \<Rightarrow> nat \<Rightarrow> nat \<Rightarrow> bytes" where
  "subarray data a b = take (b - a) (drop a data)"

text \<open>\<^verbatim>\<open>buf.writeUIntNNBE(v, off)\<close> and \<^verbatim>\<open>data.readUIntNNBE(off)\<close> for an \<open>n\<close>-byte field.\<close>

definition writeUIntBE :: "nat \<Rightarrow> bytes \<Rightarrow> int \<Rightarrow> nat \<Rightarrow> bytes res" where
  "writeUIntBE n buf v off =
     (if v < 0 \<or> 256 ^ n \<le> v \<or> length buf < off + n then Inl RangeError
      else Inr (copy_to (be_bytes n v) buf off))"

definition readUIntBE :: "nat \<Rightarrow> bytes \<Rightarrow> nat \<Rightarrow> int res" where
  "readUIntBE n data off =
     (if length data < off + n then Inl RangeError else Inr (be_val (take n (drop off data))))"

abbreviation writeUInt16BE :: "bytes \<Rightarrow> int \<Rightarrow> nat \<Rightarrow> bytes res" where
  "writeUInt16BE \<equiv> writeUIntBE 2"
abbreviation writeUInt32BE :: "bytes \<Rightarrow> int \<Rightarrow> nat \<Rightarrow> bytes res" where
  "writeUInt32BE \<equiv> writeUIntBE 4"
abbreviation writeBigUInt64BE :: "bytes \<Rightarrow> int \<Rightarrow> nat \<Rightarrow> bytes res" where
  "writeBigUInt64BE \<equiv> writeUIntBE 8"
abbreviation readUInt16BE :: "bytes \<Rightarrow> nat \<Rightarrow> int res" where
  "readUInt16BE \<equiv> readUIntBE 2"
abbreviation readUInt32BE :: "bytes \<Rightarrow> nat \<Rightarrow> int res" where
  "readUInt32BE \<equiv> readUIntBE 4"
abbreviation readBigUInt64BE :: "bytes \<Rightarrow> nat \<Rightarrow> int res" where
  "readBigUInt64BE \<equiv> readUIntBE 8"

lemma length_alloc [simp, buf_simps]: "length (alloc n) = n"
  by (simp add: alloc_def)

lemma length_copy_to [simp, buf_simps]: "length (copy_to src buf off) = length buf"
  by (simp add: copy_to_def)

lemma length_subarray [simp, buf_simps]:
  "length (subarray data a b) = min (b - a) (length data - a)"
  by (simp add: subarray_def)

text \<open>
  A message is written field by field into zeroed space. Each write replaces the leading
  zeros of what is left by the field, which is the only fact the encoders need.
\<close>

lemma copy_to_alloc [buf_simps]: "length src \<le> n \<Longrightarrow> copy_to src (alloc n) 0 = src @ alloc (n - length src)"
  by (simp add: copy_to_def alloc_def)

lemma copy_to_field [buf_simps]:
  "length pre = off \<Longrightarrow> length src \<le> n \<Longrightarrow>
   copy_to src (pre @ alloc n) off = (pre @ src) @ alloc (n - length src)"
  by (simp add: copy_to_def alloc_def)

lemma alloc_0 [simp, buf_simps]: "alloc 0 = []"
  by (simp add: alloc_def)

lemma writeUIntBE_alloc [buf_simps]:
  "0 \<le> v \<Longrightarrow> v < 256 ^ n \<Longrightarrow> n \<le> k \<Longrightarrow>
   writeUIntBE n (alloc k) v 0 = Inr (be_bytes n v @ alloc (k - n))"
  by (simp add: writeUIntBE_def copy_to_alloc)

lemma writeUIntBE_field [buf_simps]:
  "length pre = off \<Longrightarrow> 0 \<le> v \<Longrightarrow> v < 256 ^ n \<Longrightarrow> n \<le> k \<Longrightarrow>
   writeUIntBE n (pre @ alloc k) v off = Inr ((pre @ be_bytes n v) @ alloc (k - n))"
  by (simp add: writeUIntBE_def copy_to_field)

text \<open>Reading a field back out of the concatenation it was written into.\<close>

lemma subarray_append_first [buf_simps]:
  "length x = b \<Longrightarrow> subarray (x @ post) 0 b = x"
  by (simp add: subarray_def)

lemma subarray_append_skip [buf_simps]:
  "length pre \<le> a \<Longrightarrow> subarray (pre @ x) a b = subarray x (a - length pre) (b - length pre)"
  by (simp add: subarray_def)

lemma subarray_all [buf_simps]: "length x \<le> b \<Longrightarrow> subarray x 0 b = x"
  by (simp add: subarray_def)

lemma readUIntBE_first [buf_simps]:
  "0 \<le> v \<Longrightarrow> v < 256 ^ n \<Longrightarrow> readUIntBE n (be_bytes n v @ post) 0 = Inr v"
  by (simp add: readUIntBE_def)

lemma readUIntBE_skip [buf_simps]:
  "length pre \<le> a \<Longrightarrow> readUIntBE n (pre @ x) a = readUIntBE n x (a - length pre)"
  by (auto simp: readUIntBE_def)

lemma readUIntBE_only [buf_simps]:
  "0 \<le> v \<Longrightarrow> v < 256 ^ n \<Longrightarrow> readUIntBE n (be_bytes n v) 0 = Inr v"
  by (simp add: readUIntBE_def)

lemma readUIntBE_bounds: "readUIntBE n data off = Inr v \<Longrightarrow> 0 \<le> v \<and> v < 256 ^ n"
  using be_val_less [of "take n (drop off data)"]
  by (auto simp: readUIntBE_def min_absorb2 split: if_splits)

end
