(* ===== verification/ShaChain.thy ===== *)
theory ShaChain
  imports Prelude
begin

text \<open>
  BOLT 3 per-commitment secrets: \<^verbatim>\<open>src/lightning/keys/shachain.ts\<close>. A secret is reached from the
  seed by flipping, from bit 47 down, each bit set in its index and hashing after each flip;
  \<open>ShaChainStore\<close> keeps a logarithmic number of received secrets and re-derives the others.
  \<open>sha256\<close> (Node's crypto) is the parameter \<open>h\<close>; the theorems ask of it only that a digest has
  32 bytes.

  The store's specification is the map it stands for: after the peer has revealed, in order,
  the secrets of indices \<open>MAX_INDEX\<close> down to \<open>i\<close>, a lookup of \<open>k\<close> returns the secret of \<open>k\<close> when
  \<open>i \<le> k\<close> and nothing otherwise. The invariant behind it: the stored indices are the minimal
  elements, in the bit-subset order, of \<open>{i..MAX_INDEX}\<close>, in decreasing order.
\<close>

unbundle bit_operations_syntax

section \<open>Definitions\<close>

definition MAX_INDEX :: int where
  "MAX_INDEX = 0xffffffffffff"

definition INDEX_BITS :: nat where
  "INDEX_BITS = 48"

text \<open>\<^verbatim>\<open>secret[byteIndex] ^= 1 << bitIndex; secret = sha256(secret)\<close>, the body of both loops.\<close>

definition flip_and_hash :: "(bytes \<Rightarrow> bytes) \<Rightarrow> bytes \<Rightarrow> nat \<Rightarrow> bytes" where
  "flip_and_hash h secret b =
     (let byteIndex = b div 8; bitIndex = b mod 8 in
      h (secret[byteIndex := (secret ! byteIndex) XOR push_bit bitIndex 1]))"

text \<open>The loops \<^verbatim>\<open>for (let bit = n - 1; bit >= 0; bit--) if (p(bit)) ...\<close>\<close>

fun flip_bits :: "(bytes \<Rightarrow> bytes) \<Rightarrow> (nat \<Rightarrow> bool) \<Rightarrow> nat \<Rightarrow> bytes \<Rightarrow> bytes" where
  "flip_bits h p 0 secret = secret"
| "flip_bits h p (Suc b) secret =
     flip_bits h p b (if p b then flip_and_hash h secret b else secret)"

definition generateFromSeed :: "(bytes \<Rightarrow> bytes) \<Rightarrow> bytes \<Rightarrow> int \<Rightarrow> bytes res" where
  "generateFromSeed h seed index =
     throw_if (length seed \<noteq> 32) (Error ''Seed must be 32 bytes'' [int (length seed)])
     (throw_if (index < 0 \<or> index > MAX_INDEX) (Error ''Index out of range'' [MAX_INDEX, index])
     (Inr (flip_bits h (bit index) INDEX_BITS seed)))"

definition deriveChild :: "(bytes \<Rightarrow> bytes) \<Rightarrow> bytes \<Rightarrow> int \<Rightarrow> int \<Rightarrow> bytes" where
  "deriveChild h parent fromIndex toIndex =
     flip_bits h (\<lambda>b. \<not> bit fromIndex b \<and> bit toIndex b) INDEX_BITS parent"

definition canDerive :: "int \<Rightarrow> int \<Rightarrow> bool" where
  "canDerive fromIndex toIndex =
     list_all (\<lambda>b. \<not> (bit fromIndex b \<and> \<not> bit toIndex b)) (rev [0..<INDEX_BITS])"

record IShaChainEntry =
  sc_index :: int
  sc_secret :: bytes

record ShaChainStore =
  sc_entries :: "IShaChainEntry list"
  sc_knownCount :: int

definition emptyStore :: ShaChainStore where
  "emptyStore = \<lparr>sc_entries = [], sc_knownCount = 0\<rparr>"

definition addSecret ::
    "(bytes \<Rightarrow> bytes) \<Rightarrow> ShaChainStore \<Rightarrow> int \<Rightarrow> bytes \<Rightarrow> (ShaChainStore \<times> bool) res" where
  "addSecret h st index secret =
     throw_if (length secret \<noteq> 32) (Error ''Secret must be 32 bytes'' [int (length secret)])
     (if list_ex (\<lambda>entry. canDerive index (sc_index entry) \<and>
           deriveChild h secret index (sc_index entry) \<noteq> sc_secret entry) (sc_entries st)
      then Inr (st, False)
      else Inr (st\<lparr>sc_entries :=
             filter (\<lambda>entry. \<not> canDerive index (sc_index entry)) (sc_entries st)
               @ [\<lparr>sc_index = index, sc_secret = secret\<rparr>],
             sc_knownCount := sc_knownCount st + 1\<rparr>, True))"

definition getSecret :: "(bytes \<Rightarrow> bytes) \<Rightarrow> ShaChainStore \<Rightarrow> int \<Rightarrow> bytes option" where
  "getSecret h st index =
     map_option (\<lambda>entry. deriveChild h (sc_secret entry) (sc_index entry) index)
       (find (\<lambda>entry. canDerive (sc_index entry) index) (sc_entries st))"

definition getEntryCount :: "ShaChainStore \<Rightarrow> nat" where
  "getEntryCount st = length (sc_entries st)"

definition getKnownCount :: "ShaChainStore \<Rightarrow> int" where
  "getKnownCount st = sc_knownCount st"

definition getEntries :: "ShaChainStore \<Rightarrow> IShaChainEntry list" where
  "getEntries st =
     map (\<lambda>e. \<lparr>sc_index = sc_index e, sc_secret = sc_secret e\<rparr>) (sc_entries st)"

definition restore :: "IShaChainEntry list \<Rightarrow> int \<Rightarrow> ShaChainStore" where
  "restore es knownCount =
     \<lparr>sc_entries = map (\<lambda>e. \<lparr>sc_index = sc_index e, sc_secret = sc_secret e\<rparr>) es,
      sc_knownCount = knownCount\<rparr>"

text \<open>
  The protocol's use of the store: the peer reveals the secrets of its seed one at a time, from
  \<open>MAX_INDEX\<close> down. \<open>receive_secrets h seed n\<close> is the store after \<open>n\<close> of them; a refused secret
  fails the channel.
\<close>

fun receive_secrets :: "(bytes \<Rightarrow> bytes) \<Rightarrow> bytes \<Rightarrow> nat \<Rightarrow> ShaChainStore res" where
  "receive_secrets h seed 0 = Inr emptyStore"
| "receive_secrets h seed (Suc n) =
     rbind (receive_secrets h seed n) (\<lambda>st.
     rbind (generateFromSeed h seed (MAX_INDEX - int n)) (\<lambda>secret.
     rbind (addSecret h st (MAX_INDEX - int n) secret) (\<lambda>(st', ok).
     throw_if (\<not> ok) (Error ''per-commitment secret refused'' []) (Inr st'))))"

section \<open>Composing derivations\<close>

lemma flip_bits_cong: "(\<And>b. b < n \<Longrightarrow> p b = q b) \<Longrightarrow> flip_bits h p n s = flip_bits h q n s"
  by (induction n arbitrary: s) auto

lemma flip_bits_none: "(\<And>b. b < n \<Longrightarrow> \<not> p b) \<Longrightarrow> flip_bits h p n s = s"
  by (induction n arbitrary: s) auto

text \<open>
  Deriving in two stages equals deriving in one when every bit of the second stage lies below
  every bit of the first: the loops visit the bits from the top.
\<close>

lemma flip_bits_compose:
  assumes "\<And>b. b < n \<Longrightarrow> p b \<Longrightarrow> q b"
    and "\<And>b c. b < n \<Longrightarrow> c < n \<Longrightarrow> q b \<Longrightarrow> \<not> p b \<Longrightarrow> p c \<Longrightarrow> b < c"
  shows "flip_bits h (\<lambda>b. \<not> p b \<and> q b) n (flip_bits h p n s) = flip_bits h q n s"
  using assms
proof (induction n arbitrary: s)
  case 0
  then show ?case by simp
next
  case (Suc n)
  have IH: "flip_bits h (\<lambda>b. \<not> p b \<and> q b) n (flip_bits h p n s') = flip_bits h q n s'" for s'
    by (rule Suc.IH) (use Suc.prems in auto)
  consider "p n" | "\<not> p n" "q n" | "\<not> p n" "\<not> q n" by blast
  then show ?case
  proof cases
    case 1
    then show ?thesis using IH Suc.prems(1) [of n] by simp
  next
    case 2
    then have none: "\<not> p c" if "c < Suc n" for c
      using Suc.prems(2) [of n c] that by auto
    then have "flip_bits h p (Suc n) s = s" by (intro flip_bits_none) auto
    moreover have "flip_bits h (\<lambda>b. \<not> p b \<and> q b) (Suc n) s = flip_bits h q (Suc n) s"
      using none by (intro flip_bits_cong) auto
    ultimately show ?thesis by simp
  next
    case 3
    then show ?thesis using IH by simp
  qed
qed

lemma length_flip_bits:
  "(\<And>x. length (h x) = 32) \<Longrightarrow> length s = 32 \<Longrightarrow> length (flip_bits h p n s) = 32"
  by (induction n arbitrary: s) (auto simp: flip_and_hash_def Let_def)

section \<open>Indices ordered by their bits\<close>

lemma canDerive_iff: "canDerive i k \<longleftrightarrow> (\<forall>b < INDEX_BITS. bit i b \<longrightarrow> bit k b)"
  by (auto simp: canDerive_def list_all_iff)

definition valid_index :: "int \<Rightarrow> bool" where
  "valid_index i \<longleftrightarrow> 0 \<le> i \<and> i \<le> MAX_INDEX"

lemma valid_index_take_bit: "valid_index i \<longleftrightarrow> take_bit INDEX_BITS i = i"
  by (auto simp: valid_index_def take_bit_int_eq_self_iff MAX_INDEX_def INDEX_BITS_def)

lemma valid_index_iff_bits: "valid_index i \<longleftrightarrow> (\<forall>b. bit i b \<longrightarrow> b < INDEX_BITS)"
  by (auto simp: valid_index_take_bit bit_eq_iff [where ?'a = int] bit_take_bit_iff)

lemma valid_index_bit: "valid_index i \<Longrightarrow> bit i b \<Longrightarrow> b < INDEX_BITS"
  by (simp add: valid_index_iff_bits)

lemma canDerive_and:
  assumes "valid_index i" shows "canDerive i k \<longleftrightarrow> i AND k = i"
  using valid_index_bit [OF assms] by (auto simp: canDerive_iff bit_eq_iff bit_and_iff)

lemma canDerive_le: "valid_index i \<Longrightarrow> valid_index k \<Longrightarrow> canDerive i k \<Longrightarrow> i \<le> k"
  using AND_upper2 [of k i] by (simp add: canDerive_and valid_index_def)

lemma canDerive_refl [simp]: "canDerive i i"
  by (simp add: canDerive_iff)

lemma canDerive_trans: "canDerive i j \<Longrightarrow> canDerive j k \<Longrightarrow> canDerive i k"
  by (auto simp: canDerive_iff)

text \<open>Clearing one bit, and clearing all bits below a position.\<close>

lemma unset_bit_valid: "valid_index i \<Longrightarrow> valid_index (unset_bit c i)"
  by (auto simp: valid_index_take_bit bit_eq_iff bit_simps)

lemma canDerive_unset_bit: "canDerive (unset_bit c i) i"
  by (auto simp: canDerive_iff bit_simps)

definition clear_below :: "nat \<Rightarrow> int \<Rightarrow> int" where
  "clear_below b i = push_bit b (drop_bit b i)"

lemma bit_clear_below: "bit (clear_below b i) n \<longleftrightarrow> b \<le> n \<and> bit i n"
  by (auto simp: clear_below_def bit_simps)

lemma clear_below_valid: "valid_index i \<Longrightarrow> valid_index (clear_below b i)"
  by (auto simp: valid_index_take_bit bit_eq_iff bit_clear_below bit_take_bit_iff)

lemma canDerive_clear_below: "canDerive (clear_below b i) i"
  by (auto simp: canDerive_iff bit_clear_below)

lemma clear_below_mono: "i \<le> k \<Longrightarrow> clear_below b i \<le> clear_below b k"
  by (simp add: clear_below_def push_bit_eq_mult drop_bit_eq_div zdiv_mono1)

lemma clear_below_idem [simp]: "clear_below b (clear_below b i) = clear_below b i"
  by (auto simp: bit_eq_iff bit_clear_below)

lemma less_clear_below:
  assumes "valid_index e" "valid_index k" "canDerive e k" "bit k b" "\<not> bit e b"
  shows "e < clear_below b k"
proof (rule ccontr)
  assume "\<not> e < clear_below b k"
  then have "clear_below b k \<le> clear_below b e"
    using clear_below_mono [of "clear_below b k" e b] by simp
  moreover have "canDerive (clear_below b e) (clear_below b k)"
    using assms(3) by (auto simp: canDerive_iff bit_clear_below)
  then have "clear_below b e \<le> clear_below b k"
    using assms by (simp add: canDerive_le clear_below_valid)
  ultimately have "bit (clear_below b k) b = bit (clear_below b e) b" by simp
  then show False using assms by (simp add: bit_clear_below)
qed

section \<open>The minimal indices\<close>

definition minimal_from :: "int \<Rightarrow> int set" where
  "minimal_from i = {m. i \<le> m \<and> valid_index m \<and>
     (\<forall>m'. i \<le> m' \<longrightarrow> valid_index m' \<longrightarrow> canDerive m' m \<longrightarrow> m' = m)}"

lemma minimal_fromD:
  assumes "m \<in> minimal_from i"
  shows "i \<le> m" "valid_index m" "valid_index m' \<Longrightarrow> canDerive m' m \<Longrightarrow> m' \<noteq> m \<Longrightarrow> m' < i"
  using assms by (auto simp: minimal_from_def not_le [symmetric])

lemma minimal_from_top: "minimal_from (MAX_INDEX + 1) = {}"
  by (auto simp: minimal_from_def valid_index_def)

text \<open>One more secret: the new index joins, and what it can derive leaves.\<close>

lemma minimal_from_step:
  assumes "valid_index j"
  shows "minimal_from j = insert j {m \<in> minimal_from (j + 1). \<not> canDerive j m}"
proof (intro set_eqI iffI)
  fix m assume m: "m \<in> minimal_from j"
  show "m \<in> insert j {m \<in> minimal_from (j + 1). \<not> canDerive j m}"
  proof (cases "m = j")
    case False
    with m assms have "\<not> canDerive j m" by (auto simp: minimal_from_def)
    moreover have "m \<in> minimal_from (j + 1)"
      using m False by (auto simp: minimal_from_def)
    ultimately show ?thesis by simp
  qed simp
next
  fix m assume "m \<in> insert j {m \<in> minimal_from (j + 1). \<not> canDerive j m}"
  then consider "m = j" | "m \<in> minimal_from (j + 1)" "\<not> canDerive j m" by auto
  then show "m \<in> minimal_from j"
  proof cases
    case 1
    then show ?thesis
      using assms canDerive_le by (auto simp: minimal_from_def intro: order_antisym)
  next
    case 2
    then show ?thesis
      by (auto simp: minimal_from_def) (metis order_le_less zless_imp_add1_zle)
  qed
qed

text \<open>Every known index lies above some minimal one.\<close>

lemma minimal_below:
  assumes "0 \<le> i" "i \<le> k" "valid_index k"
  obtains m where "m \<in> minimal_from i" "canDerive m k"
proof -
  let ?S = "{m. i \<le> m \<and> valid_index m \<and> canDerive m k}"
  have "?S \<subseteq> {i..k}" using assms canDerive_le by auto
  then have fin: "finite ?S" by (rule finite_subset) simp
  have "k \<in> ?S" using assms by simp
  then have M: "Min ?S \<in> ?S" using fin by (intro Min_in) auto
  have "m' = Min ?S" if "i \<le> m'" "valid_index m'" "canDerive m' (Min ?S)" for m'
  proof -
    have "m' \<in> ?S" using that M canDerive_trans [of m' "Min ?S" k] by simp
    then have "Min ?S \<le> m'" using fin by simp
    moreover have "m' \<le> Min ?S" using that M by (simp add: canDerive_le)
    ultimately show ?thesis by simp
  qed
  then have "Min ?S \<in> minimal_from i" using M by (simp add: minimal_from_def)
  then show ?thesis using M that by simp
qed

text \<open>\<open>tail_of e k\<close>: the bits of \<open>k\<close> beyond those of \<open>e\<close> all lie below the bits of \<open>e\<close>.\<close>

definition tail_of :: "int \<Rightarrow> int \<Rightarrow> bool" where
  "tail_of e k \<longleftrightarrow> (\<forall>b c. bit k b \<longrightarrow> \<not> bit e b \<longrightarrow> bit e c \<longrightarrow> b < c)"

lemma tail_ofI:
  assumes "\<And>b c. bit k b \<Longrightarrow> \<not> bit e b \<Longrightarrow> bit e c \<Longrightarrow> c < b \<Longrightarrow> False"
  shows "tail_of e k"
  unfolding tail_of_def using assms by (metis linorder_neqE_nat)

lemma tail_of_new:
  assumes "valid_index j" "m \<in> minimal_from (j + 1)" "canDerive j m"
  shows "tail_of j m"
proof (rule tail_ofI)
  fix b c assume b: "bit m b" "\<not> bit j b" and c: "bit j c" "c < b"
  have cm: "bit m c" using assms(3) c valid_index_bit [OF assms(1)] by (auto simp: canDerive_iff)
  let ?m = "unset_bit c m"
  have "?m < j + 1"
    by (rule minimal_fromD(3) [OF assms(2)])
      (use cm minimal_fromD(2) [OF assms(2)] in
        \<open>auto simp: unset_bit_valid canDerive_unset_bit bit_eq_iff bit_simps\<close>)
  moreover have "canDerive (set_bit b (unset_bit c j)) ?m"
    using assms(3) b c by (auto simp: canDerive_iff bit_simps)
  then have "set_bit b (unset_bit c j) \<le> ?m"
  proof (rule canDerive_le [rotated -1])
    show "valid_index ?m" using minimal_fromD(2) [OF assms(2)] by (rule unset_bit_valid)
    show "valid_index (set_bit b (unset_bit c j))"
      using assms(1) valid_index_bit [OF minimal_fromD(2) [OF assms(2)] b(1)]
      by (auto simp: valid_index_iff_bits bit_set_bit_iff bit_unset_bit_iff)
  qed
  moreover have "set_bit b (unset_bit c j) = j - 2 ^ c + 2 ^ b"
  proof -
    have "set_bit b (unset_bit c j) = unset_bit c j + 2 ^ b"
      using b by (simp add: set_bit_eq bit_unset_bit_iff)
    then show ?thesis using c by (simp add: unset_bit_eq)
  qed
  moreover have "(2 :: int) ^ c < 2 ^ b" using c(2) by simp
  ultimately show False by simp
qed

lemma tail_of_largest:
  assumes "0 \<le> i" "e \<in> minimal_from i" "valid_index k" "canDerive e k"
    and largest: "\<And>m. m \<in> minimal_from i \<Longrightarrow> canDerive m k \<Longrightarrow> m \<le> e"
  shows "tail_of e k"
proof (rule tail_ofI)
  fix b c assume b: "bit k b" "\<not> bit e b" and c: "bit e c" "c < b"
  note e = minimal_fromD [OF assms(2)]
  have "e < clear_below b k" using e assms(3,4) b by (simp add: less_clear_below)
  then obtain m where m: "m \<in> minimal_from i" "canDerive m (clear_below b k)"
    using minimal_below [of i "clear_below b k"] assms(1,3) e(1) by (auto simp: clear_below_valid)
  have "m \<le> e" using largest m canDerive_trans canDerive_clear_below by blast
  then have "clear_below b m \<le> clear_below b e" by (rule clear_below_mono)
  moreover have "clear_below b m = m"
    using m valid_index_bit [OF minimal_fromD(2) [OF m(1)]]
    by (auto simp: bit_eq_iff bit_clear_below canDerive_iff)
  moreover have "clear_below b e < i"
    by (rule e(3)) (use e(2) c in \<open>auto simp: clear_below_valid canDerive_clear_below
      bit_eq_iff bit_clear_below intro!: exI [of _ c]\<close>)
  ultimately show False using minimal_fromD(1) [OF m(1)] by simp
qed

text \<open>There are at most 48 of them: their lowest set bits differ.\<close>

lemma minimal_from_lowest_bit:
  assumes "e \<in> minimal_from i" "f \<in> minimal_from i" "bit e c" "bit f c"
    and "\<And>b. b < c \<Longrightarrow> \<not> bit e b" "\<And>b. b < c \<Longrightarrow> \<not> bit f b" "e < f"
  shows False
proof -
  note f = minimal_fromD [OF assms(2)]
  have "unset_bit c f < i"
    by (rule f(3)) (use f(2) assms(4) in
      \<open>auto simp: unset_bit_valid canDerive_unset_bit bit_eq_iff bit_simps\<close>)
  then have "f - 2 ^ c < e" using assms(4) minimal_fromD(1) [OF assms(1)] by (simp add: unset_bit_eq)
  moreover have "clear_below c e = e" "clear_below c f = f"
    using assms(5,6) by (auto simp: bit_eq_iff bit_clear_below) (meson not_le)+
  then have "e = e div 2 ^ c * 2 ^ c" "f = f div 2 ^ c * 2 ^ c"
    by (simp_all add: clear_below_def push_bit_eq_mult drop_bit_eq_div)
  then obtain x y where "e = x * 2 ^ c" "f = y * 2 ^ c" by blast
  ultimately have "(y - 1) * 2 ^ c < x * 2 ^ c" "x * 2 ^ c < y * 2 ^ c"
    using assms(7) by (auto simp: left_diff_distrib)
  then show False by simp
qed

lemma minimal_from_card:
  assumes "0 \<le> i" shows "finite (minimal_from i)" "card (minimal_from i) \<le> INDEX_BITS"
proof -
  have "minimal_from i \<subseteq> {i..MAX_INDEX}" by (auto simp: minimal_from_def valid_index_def)
  then show fin: "finite (minimal_from i)" by (rule finite_subset) simp
  show "card (minimal_from i) \<le> INDEX_BITS"
  proof (cases "0 \<in> minimal_from i")
    case True
    have "m = 0" if "m \<in> minimal_from i" for m
    proof (rule ccontr)
      assume "m \<noteq> 0"
      then have "0 < i"
        using minimal_fromD(3) [OF that, of 0] by (simp add: canDerive_iff valid_index_def MAX_INDEX_def)
      then show False using minimal_fromD(1) [OF True] by simp
    qed
    then have "minimal_from i \<subseteq> {0}" by auto
    then have "card (minimal_from i) \<le> card {0 :: int}" by (intro card_mono) simp_all
    then show ?thesis by (simp add: INDEX_BITS_def)
  next
    case False
    define low where "low e = (LEAST b. bit e b)" for e :: int
    have low: "bit e (low e)" "\<And>b. b < low e \<Longrightarrow> \<not> bit e b" if "e \<in> minimal_from i" for e
    proof -
      have "e \<noteq> 0" using that False by auto
      then obtain b where "bit e b" using bit_eq_iff [of e 0] by auto
      then show "bit e (low e)" unfolding low_def by (rule LeastI)
      show "\<not> bit e b" if "b < low e" for b using that unfolding low_def by (rule not_less_Least)
    qed
    have "inj_on low (minimal_from i)"
    proof (rule inj_onI)
      fix e f assume ef: "e \<in> minimal_from i" "f \<in> minimal_from i" and eq: "low e = low f"
      show "e = f"
      proof (cases e f rule: linorder_cases)
        case less
        with minimal_from_lowest_bit [OF ef, of "low e"] low [OF ef(1)] low [OF ef(2)] eq
        show ?thesis by auto
      next
        case greater
        with minimal_from_lowest_bit [OF ef(2,1), of "low e"] low [OF ef(1)] low [OF ef(2)] eq
        show ?thesis by auto
      qed
    qed
    moreover have "low ` minimal_from i \<subseteq> {..<INDEX_BITS}"
      using low(1) valid_index_bit minimal_fromD(2) by blast
    ultimately have "card (minimal_from i) \<le> card {..<INDEX_BITS}"
      by (intro card_inj_on_le) simp_all
    then show ?thesis by simp
  qed
qed

section \<open>The store invariant\<close>

definition secret_of :: "(bytes \<Rightarrow> bytes) \<Rightarrow> bytes \<Rightarrow> int \<Rightarrow> bytes" where
  "secret_of h seed k = flip_bits h (bit k) INDEX_BITS seed"

lemma generateFromSeed_eq:
  "length seed = 32 \<Longrightarrow> valid_index k \<Longrightarrow> generateFromSeed h seed k = Inr (secret_of h seed k)"
  by (simp add: generateFromSeed_def secret_of_def valid_index_def)

lemma deriveChild_secret_of:
  assumes "valid_index e" "canDerive e k" "tail_of e k"
  shows "deriveChild h (secret_of h seed e) e k = secret_of h seed k"
  unfolding deriveChild_def secret_of_def
  by (rule flip_bits_compose) (use assms in \<open>auto simp: canDerive_iff tail_of_def\<close>)

text \<open>\<open>store_inv h seed i st\<close>: the store holds the secrets of \<open>seed\<close> from \<open>i\<close> up.\<close>

definition store_inv :: "(bytes \<Rightarrow> bytes) \<Rightarrow> bytes \<Rightarrow> int \<Rightarrow> ShaChainStore \<Rightarrow> bool" where
  "store_inv h seed i st \<longleftrightarrow>
     sorted_wrt (>) (map sc_index (sc_entries st)) \<and>
     sc_index ` set (sc_entries st) = minimal_from i \<and>
     (\<forall>e \<in> set (sc_entries st). sc_secret e = secret_of h seed (sc_index e)) \<and>
     sc_knownCount st = MAX_INDEX + 1 - i"

lemma store_inv_empty: "store_inv h seed (MAX_INDEX + 1) emptyStore"
  by (simp add: store_inv_def emptyStore_def minimal_from_top)

lemma addSecret_store_inv:
  assumes "store_inv h seed (j + 1) st" "valid_index j" "length (secret_of h seed j) = 32"
  obtains st' where "addSecret h st j (secret_of h seed j) = Inr (st', True)" "store_inv h seed j st'"
proof -
  let ?new = "\<lparr>sc_index = j, sc_secret = secret_of h seed j\<rparr>"
  let ?keep = "filter (\<lambda>entry. \<not> canDerive j (sc_index entry)) (sc_entries st)"
  let ?st = "st\<lparr>sc_entries := ?keep @ [?new], sc_knownCount := sc_knownCount st + 1\<rparr>"
  note inv = assms(1) [unfolded store_inv_def]
  have entry: "sc_index e \<in> minimal_from (j + 1)" "sc_secret e = secret_of h seed (sc_index e)"
    if "e \<in> set (sc_entries st)" for e
    using inv that by auto
  have "deriveChild h (secret_of h seed j) j (sc_index e) = sc_secret e"
    if "e \<in> set (sc_entries st)" "canDerive j (sc_index e)" for e
    using entry [OF that(1)] that(2) tail_of_new [OF assms(2), of "sc_index e"]
    by (simp add: deriveChild_secret_of assms(2))
  then have add: "addSecret h st j (secret_of h seed j) = Inr (?st, True)"
    using assms(3) by (auto simp: addSecret_def list_ex_iff)
  have "sorted_wrt (>) (map sc_index ?keep)"
    using inv by (simp add: sorted_wrt_map sorted_wrt_filter)
  moreover have "j < sc_index e" if "e \<in> set ?keep" for e
    using entry(1) [of e] minimal_fromD(1) that by fastforce
  ultimately have "sorted_wrt (>) (map sc_index (?keep @ [?new]))"
    by (auto simp: sorted_wrt_append)
  moreover have "sc_index ` set (?keep @ [?new]) = minimal_from j"
    using inv by (auto simp: minimal_from_step [OF assms(2)])
  ultimately have "store_inv h seed j ?st"
    using inv by (auto simp: store_inv_def)
  with add show ?thesis by (rule that)
qed

lemma find_largest:
  assumes "sorted_wrt (>) (map f es)" "find P es = Some e" "x \<in> set es" "P x"
  shows "f x \<le> (f e :: int)"
  using assms by (induction es) (auto split: if_splits)

text \<open>
  The same for secrets that come from anywhere: \<open>sec\<close> gives the value accepted for each index. The values of
  the stored indices derive all others.
\<close>

definition chain_inv :: "(bytes \<Rightarrow> bytes) \<Rightarrow> (int \<Rightarrow> bytes) \<Rightarrow> int \<Rightarrow> ShaChainStore \<Rightarrow> bool" where
  "chain_inv h sec i st \<longleftrightarrow>
     sorted_wrt (>) (map sc_index (sc_entries st)) \<and>
     sc_index ` set (sc_entries st) = minimal_from i \<and>
     (\<forall>e \<in> set (sc_entries st). sc_secret e = sec (sc_index e)) \<and>
     (\<forall>e \<in> minimal_from i. \<forall>k. valid_index k \<longrightarrow> canDerive e k \<longrightarrow> tail_of e k \<longrightarrow> deriveChild h (sec e) e k = sec k)"

lemma chain_inv_empty: "chain_inv h sec (MAX_INDEX + 1) emptyStore"
  by (simp add: chain_inv_def emptyStore_def minimal_from_top)

lemma store_inv_chain: "store_inv h seed i st \<Longrightarrow> chain_inv h (secret_of h seed) i st"
  by (auto simp: store_inv_def chain_inv_def deriveChild_secret_of minimal_fromD(2))

lemma getSecret_chain_inv:
  assumes "chain_inv h sec i st" "0 \<le> i" "valid_index k"
  shows "getSecret h st k = (if i \<le> k then Some (sec k) else None)"
proof -
  note inv = assms(1) [unfolded chain_inv_def]
  show ?thesis
  proof (cases "find (\<lambda>e. canDerive (sc_index e) k) (sc_entries st)")
    case None
    then have "\<forall>e \<in> set (sc_entries st). \<not> canDerive (sc_index e) k"
      by (auto simp: find_None_iff)
    then have none: "\<not> canDerive m k" if "m \<in> minimal_from i" for m
      using that inv by (metis imageE)
    have "\<not> i \<le> k"
      using minimal_below [OF assms(2) _ assms(3)] none by blast
    then show ?thesis using None by (simp add: getSecret_def)
  next
    case (Some e)
    then have e: "e \<in> set (sc_entries st)" "canDerive (sc_index e) k"
      by (auto simp: find_Some_iff)
    then have m: "sc_index e \<in> minimal_from i" using inv by auto
    have "m \<le> sc_index e" if "m \<in> minimal_from i" "canDerive m k" for m
    proof -
      have "m \<in> sc_index ` set (sc_entries st)" using that(1) inv by simp
      then obtain x where "x \<in> set (sc_entries st)" "m = sc_index x" by auto
      then show ?thesis
        using find_largest [of sc_index "sc_entries st" _ e x] inv Some that(2) by auto
    qed
    then have "tail_of (sc_index e) k"
      using tail_of_largest [OF assms(2) m assms(3) e(2)] by blast
    then have "deriveChild h (sc_secret e) (sc_index e) k = sec k"
      using inv e m assms(3) by simp
    moreover have "i \<le> k"
      using minimal_fromD(1,2) [OF m] canDerive_le e(2) assms(3) by fastforce
    ultimately show ?thesis using Some by (simp add: getSecret_def)
  qed
qed

lemma getSecret_store_inv:
  assumes "store_inv h seed i st" "0 \<le> i" "valid_index k"
  shows "getSecret h st k = (if i \<le> k then Some (secret_of h seed k) else None)"
  by (rule getSecret_chain_inv [OF store_inv_chain [OF assms(1)] assms(2,3)])

lemma sorted_wrt_gt_distinct: "sorted_wrt (>) (xs :: int list) \<Longrightarrow> distinct xs"
  by (induction xs) auto

lemma getEntryCount_store_inv:
  assumes "store_inv h seed i st" "0 \<le> i"
  shows "getEntryCount st \<le> INDEX_BITS"
proof -
  have "distinct (map sc_index (sc_entries st))"
    using assms(1) by (simp add: store_inv_def sorted_wrt_gt_distinct)
  then have "getEntryCount st = card (minimal_from i)"
    using assms(1) distinct_card [of "map sc_index (sc_entries st)"]
    by (simp add: store_inv_def getEntryCount_def)
  then show ?thesis using minimal_from_card(2) [OF assms(2)] by simp
qed

lemma receive_secrets_inv:
  assumes "length seed = 32" "\<And>x. length (h x) = 32" "int n \<le> MAX_INDEX + 1"
  obtains st where "receive_secrets h seed n = Inr st" "store_inv h seed (MAX_INDEX + 1 - int n) st"
proof -
  have "\<exists>st. receive_secrets h seed n = Inr st \<and> store_inv h seed (MAX_INDEX + 1 - int n) st"
    using assms(3)
  proof (induction n)
    case 0
    then show ?case by (simp add: store_inv_empty)
  next
    case (Suc n)
    let ?j = "MAX_INDEX - int n"
    have j: "valid_index ?j" using Suc.prems by (simp add: valid_index_def)
    from Suc obtain st where st: "receive_secrets h seed n = Inr st" "store_inv h seed (?j + 1) st"
      by (auto simp: algebra_simps)
    have "length (secret_of h seed ?j) = 32"
      using assms(1,2) by (simp add: secret_of_def length_flip_bits)
    with addSecret_store_inv [OF st(2) j] obtain st' where
      "addSecret h st ?j (secret_of h seed ?j) = Inr (st', True)" "store_inv h seed ?j st'"
      by blast
    then show ?case
      using st(1) j assms(1) by (simp add: generateFromSeed_eq algebra_simps)
  qed
  then show ?thesis using that by blast
qed

lemma restore_getEntries: "restore (getEntries st) (getKnownCount st) = st"
proof -
  have "map (\<lambda>e. \<lparr>sc_index = sc_index e, sc_secret = sc_secret e\<rparr>) es = es"
    for es :: "IShaChainEntry list"
    by (induction es) auto
  then show ?thesis by (simp add: restore_def getEntries_def getKnownCount_def)
qed

section \<open>What a new secret must agree with\<close>

text \<open>The entry that guards a known index of the new secret's subtree: the new index plus the
  highest extra bit.\<close>

lemma subtree_guard:
  assumes "valid_index j" "valid_index k" "j < k" "canDerive j k" "tail_of j k"
  obtains b where "set_bit b j \<in> minimal_from (j + 1)" "canDerive j (set_bit b j)"
    "canDerive (set_bit b j) k" "tail_of (set_bit b j) k" "bit k b" "\<not> bit j b"
proof -
  let ?X = "{b. bit k b \<and> \<not> bit j b}"
  have "?X \<subseteq> {..<INDEX_BITS}" using valid_index_bit [OF assms(2)] by auto
  then have fin: "finite ?X" by (rule finite_subset) simp
  have "?X \<noteq> {}"
  proof
    assume "?X = {}"
    then have "canDerive k j" by (auto simp: canDerive_iff)
    then show False using assms canDerive_le [of k j] by simp
  qed
  define b where "b = Max ?X"
  have b: "bit k b" "\<not> bit j b" and top: "\<And>c. bit k c \<Longrightarrow> \<not> bit j c \<Longrightarrow> c \<le> b"
    using Max_in [OF fin \<open>?X \<noteq> {}\<close>] Max_ge [OF fin] by (auto simp: b_def)
  let ?e = "set_bit b j"
  have bj: "b < c" if "bit j c" for c using assms(5) b that by (auto simp: tail_of_def)
  have val: "valid_index ?e"
    using assms(1) valid_index_bit [OF assms(2) b(1)]
    by (auto simp: valid_index_iff_bits bit_set_bit_iff)
  have eq: "?e = j + 2 ^ b" using b by (simp add: set_bit_eq)
  have "m = ?e" if m: "j + 1 \<le> m" "valid_index m" "canDerive m ?e" for m
  proof -
    have sub: "bit m c \<Longrightarrow> bit j c \<or> c = b" for c
      using m(3) valid_index_bit [OF m(2)] by (auto simp: canDerive_iff bit_set_bit_iff)
    have "bit m b"
    proof (rule ccontr)
      assume "\<not> bit m b"
      then have "canDerive m j" using sub by (auto simp: canDerive_iff)
      then show False using canDerive_le [OF m(2) assms(1)] m(1) by simp
    qed
    moreover have "bit m c" if "bit j c" for c
    proof (rule ccontr)
      assume "\<not> bit m c"
      then have "canDerive m (set_bit b (unset_bit c j))"
        using sub by (auto simp: canDerive_iff bit_set_bit_iff bit_unset_bit_iff)
      moreover have "valid_index (set_bit b (unset_bit c j))"
        using val by (auto simp: valid_index_iff_bits bit_set_bit_iff bit_unset_bit_iff)
      ultimately have "m \<le> set_bit b (unset_bit c j)" using canDerive_le m(2) by blast
      also have "\<dots> = j - 2 ^ c + 2 ^ b"
      proof -
        have "set_bit b (unset_bit c j) = unset_bit c j + 2 ^ b"
          using b by (simp add: set_bit_eq bit_unset_bit_iff)
        then show ?thesis using that by (simp add: unset_bit_eq)
      qed
      also have "\<dots> \<le> j" using bj [OF that] by simp
      finally show False using m(1) by simp
    qed
    ultimately show ?thesis
      using sub by (auto simp: bit_eq_iff [where ?'a = int] bit_set_bit_iff)
  qed
  then have "?e \<in> minimal_from (j + 1)" using val eq by (simp add: minimal_from_def)
  moreover have "tail_of ?e k"
    using top bj by (fastforce simp: tail_of_def bit_set_bit_iff)
  moreover have "canDerive j ?e" "canDerive ?e k"
    using b assms(4) by (auto simp: canDerive_iff bit_set_bit_iff)
  ultimately show ?thesis using that b by blast
qed

lemma deriveChild_via:
  assumes "canDerive j e" "canDerive e k" "tail_of e k"
  shows "deriveChild h (deriveChild h s j e) e k = deriveChild h s j k"
proof -
  let ?p = "\<lambda>b. \<not> bit j b \<and> bit e b" and ?q = "\<lambda>b. \<not> bit j b \<and> bit k b"
  have "flip_bits h (\<lambda>b. \<not> ?p b \<and> ?q b) INDEX_BITS (flip_bits h ?p INDEX_BITS s) =
      flip_bits h ?q INDEX_BITS s"
    by (rule flip_bits_compose) (use assms in \<open>auto simp: canDerive_iff tail_of_def\<close>)
  moreover have "flip_bits h (\<lambda>b. \<not> ?p b \<and> ?q b) INDEX_BITS x =
      flip_bits h (\<lambda>b. \<not> bit e b \<and> bit k b) INDEX_BITS x" for x
    using assms(1) by (intro flip_bits_cong) (auto simp: canDerive_iff)
  ultimately show ?thesis by (simp add: deriveChild_def)
qed

lemma addSecret_accepts:
  assumes "store_inv h seed (j + 1) st" "valid_index j" "length s = 32"
  shows "(\<exists>st'. addSecret h st j s = Inr (st', True)) \<longleftrightarrow>
    (\<forall>k. valid_index k \<longrightarrow> j < k \<longrightarrow> canDerive j k \<longrightarrow> tail_of j k \<longrightarrow>
      deriveChild h s j k = secret_of h seed k)"
    (is "?acc \<longleftrightarrow> ?all")
proof -
  have inv: "sc_index ` set (sc_entries st) = minimal_from (j + 1)"
    and secs: "\<forall>e \<in> set (sc_entries st). sc_secret e = secret_of h seed (sc_index e)"
    using assms(1) by (simp_all add: store_inv_def)
  have acc: "?acc \<longleftrightarrow> (\<forall>m \<in> minimal_from (j + 1). canDerive j m \<longrightarrow>
      deriveChild h s j m = secret_of h seed m)"
  proof -
    have "?acc \<longleftrightarrow> (\<forall>e \<in> set (sc_entries st). canDerive j (sc_index e) \<longrightarrow>
        deriveChild h s j (sc_index e) = sc_secret e)"
      using assms(3) by (simp add: addSecret_def list_ex_iff)
    also have "\<dots> \<longleftrightarrow> (\<forall>m \<in> sc_index ` set (sc_entries st). canDerive j m \<longrightarrow>
        deriveChild h s j m = secret_of h seed m)"
      using secs by auto
    finally show ?thesis using inv by simp
  qed
  show ?thesis
  proof
    assume all: ?all
    show ?acc unfolding acc
    proof (intro ballI impI)
      fix m assume m: "m \<in> minimal_from (j + 1)" "canDerive j m"
      have "valid_index m" "j < m" using minimal_fromD(1,2) [OF m(1)] by simp_all
      with all m(2) tail_of_new [OF assms(2) m]
      show "deriveChild h s j m = secret_of h seed m" by blast
    qed
  next
    assume ?acc
    show ?all
    proof (intro allI impI)
      fix k assume k: "valid_index k" "j < k" "canDerive j k" "tail_of j k"
      obtain b where b: "set_bit b j \<in> minimal_from (j + 1)" "canDerive j (set_bit b j)"
        "canDerive (set_bit b j) k" "tail_of (set_bit b j) k"
        using subtree_guard [OF assms(2) k] by blast
      have "deriveChild h s j (set_bit b j) = secret_of h seed (set_bit b j)"
        using \<open>?acc\<close> [unfolded acc] b(1,2) by blast
      then show "deriveChild h s j k = secret_of h seed k"
        using deriveChild_via [OF b(2,3,4), of h s]
          deriveChild_secret_of [OF minimal_fromD(2) [OF b(1)] b(3,4), of h seed] by metis
    qed
  qed
qed

text \<open>An accepted secret changes no secret the store already gives.\<close>

lemma addSecret_chain_inv:
  assumes "chain_inv h sec (j + 1) st" "valid_index j" "addSecret h st j s = Inr (st', True)"
  shows "chain_inv h (sec(j := s)) j st'"
proof -
  let ?keep = "filter (\<lambda>entry. \<not> canDerive j (sc_index entry)) (sc_entries st)"
  note inv = assms(1) [unfolded chain_inv_def]
  have check: "deriveChild h s j (sc_index e) = sc_secret e" if "e \<in> set (sc_entries st)" "canDerive j (sc_index e)" for e
    using assms(3) that by (auto simp: addSecret_def list_ex_iff throw_if_def split: if_splits)
  have st': "sc_entries st' = ?keep @ [\<lparr>sc_index = j, sc_secret = s\<rparr>]"
    using assms(3) by (auto simp: addSecret_def throw_if_def split: if_splits)
  have above: "j < e" "valid_index e" if "e \<in> minimal_from (j + 1)" for e
    using minimal_fromD(1,2) [OF that] by simp_all
  have entry: "sc_index e \<in> minimal_from (j + 1)" if "e \<in> set (sc_entries st)" for e
    using inv that by auto
  have step: "minimal_from j = insert j {e \<in> minimal_from (j + 1). \<not> canDerive j e}"
    by (rule minimal_from_step [OF assms(2)])
  have "sorted_wrt (>) (map sc_index ?keep)"
    using inv by (simp add: sorted_wrt_map sorted_wrt_filter)
  moreover have "j < sc_index e" if "e \<in> set ?keep" for e
    using entry above(1) that by auto
  ultimately have 1: "sorted_wrt (>) (map sc_index (sc_entries st'))"
    unfolding st' by (auto simp: sorted_wrt_append)
  have 2: "sc_index ` set (sc_entries st') = minimal_from j"
    unfolding st' step using inv by auto
  have 3: "sc_secret e = (sec(j := s)) (sc_index e)" if "e \<in> set (sc_entries st')" for e
    using that inv above(1) [OF entry] unfolding st' by fastforce
  have 4: "deriveChild h ((sec(j := s)) e) e k = (sec(j := s)) k"
    if "e \<in> minimal_from j" "valid_index k" "canDerive e k" "tail_of e k" for e k
  proof (cases "e = j")
    case True
    note v = that(2)
    show ?thesis
    proof (cases "k = j")
      case True
      then show ?thesis using \<open>e = j\<close> by (simp add: deriveChild_def flip_bits_none)
    next
      case False
      then have k: "j < k" "canDerive j k" "tail_of j k"
        using canDerive_le [OF assms(2) that(2)] that \<open>e = j\<close> by auto
      obtain b where b: "set_bit b j \<in> minimal_from (j + 1)" "canDerive j (set_bit b j)"
        "canDerive (set_bit b j) k" "tail_of (set_bit b j) k"
        using subtree_guard [OF assms(2) v k] by blast
      from b(1) inv obtain x where x: "x \<in> set (sc_entries st)" "sc_index x = set_bit b j" by (metis imageE)
      then have "deriveChild h s j (set_bit b j) = sec (set_bit b j)"
        using check [of x] b(2) inv by simp
      then have "deriveChild h s j k = sec k"
        using deriveChild_via [OF b(2,3,4), of h s] inv b v by metis
      then show ?thesis using False \<open>e = j\<close> by simp
    qed
  next
    case False
    then have e: "e \<in> minimal_from (j + 1)" using that(1) by (simp add: step)
    then have "k \<noteq> j" using canDerive_le [OF above(2) [OF e] that(2,3)] above(1) [OF e] by auto
    then show ?thesis using inv e that False by simp
  qed
  show ?thesis unfolding chain_inv_def using 1 2 3 4 by blast
qed

text \<open>A secret offered for index \<open>j\<close> is consistent with the store when it derives every known
  secret of its subtree: the indices that extend \<open>j\<close> below its lowest set bit.\<close>

definition subtree_consistent :: "(bytes \<Rightarrow> bytes) \<Rightarrow> ShaChainStore \<Rightarrow> int \<Rightarrow> bytes \<Rightarrow> bool" where
  "subtree_consistent h st j s \<longleftrightarrow>
    (\<forall>k. j < k \<and> k \<le> MAX_INDEX \<and> canDerive j k \<and> tail_of j k \<longrightarrow>
      getSecret h st k = Some (deriveChild h s j k))"

text \<open>The store after the peer revealed any sequence of secrets, all of them accepted.\<close>

fun accept_secrets :: "(bytes \<Rightarrow> bytes) \<Rightarrow> bytes list \<Rightarrow> (ShaChainStore \<times> int) option" where
  "accept_secrets h [] = Some (emptyStore, MAX_INDEX)"
| "accept_secrets h (s # ss) =
     (case accept_secrets h ss of
        None \<Rightarrow> None
      | Some (st, j) \<Rightarrow> (case addSecret h st j s of Inr (st', True) \<Rightarrow> Some (st', j - 1) | _ \<Rightarrow> None))"

lemma accept_secrets_inv:
  assumes "accept_secrets h ss = Some (st, j)" "int (length ss) \<le> MAX_INDEX + 1"
  shows "j = MAX_INDEX - int (length ss) \<and>
    chain_inv h (\<lambda>k. if j < k \<and> k \<le> MAX_INDEX then rev ss ! nat (MAX_INDEX - k) else []) (j + 1) st"
  using assms
proof (induction ss arbitrary: st j)
  case Nil
  then show ?case using chain_inv_empty by auto
next
  case (Cons s ss)
  from Cons.prems obtain st0 where st0: "accept_secrets h ss = Some (st0, j + 1)"
    "addSecret h st0 (j + 1) s = Inr (st, True)"
    by (auto split: option.splits sum.splits prod.splits bool.splits)
  have "int (length ss) \<le> MAX_INDEX + 1" using Cons.prems(2) by simp
  note IH = Cons.IH [OF st0(1) this]
  have j: "j + 1 = MAX_INDEX - int (length ss)" using IH by blast
  have inv: "chain_inv h (\<lambda>k. if j + 1 < k \<and> k \<le> MAX_INDEX then rev ss ! nat (MAX_INDEX - k) else []) (j + 1 + 1) st0"
    using IH by blast
  have v: "valid_index (j + 1)" using j Cons.prems(2) by (simp add: valid_index_def)
  have sec: "(\<lambda>k. if j < k \<and> k \<le> MAX_INDEX then rev (s # ss) ! nat (MAX_INDEX - k) else []) =
      ((\<lambda>k. if j + 1 < k \<and> k \<le> MAX_INDEX then rev ss ! nat (MAX_INDEX - k) else [])(j + 1 := s))"
    using j v by (intro ext) (auto simp: nth_append valid_index_def)
  have "j = MAX_INDEX - int (length (s # ss))" using j by simp
  moreover note addSecret_chain_inv [OF inv v st0(2)]
  ultimately show ?case unfolding sec by blast
qed

section \<open>Properties\<close>

text \<open>C7: the store refines the map of revealed secrets. After the peer has revealed the secrets of
  the \<open>n\<close> highest indices in order, every one of them was accepted; looking up an index among
  them gives exactly the secret \<open>generateFromSeed\<close> computes, looking up any other gives nothing,
  and the count is \<open>n\<close>.\<close>

theorem ShaChainStore_refines:
  assumes "length seed = 32" "\<And>x. length (h x) = 32"
    and "int n \<le> MAX_INDEX + 1" "0 \<le> k" "k \<le> MAX_INDEX"
  shows "\<exists>st. receive_secrets h seed n = Inr st \<and>
    map_option Inr (getSecret h st k) =
      (if MAX_INDEX - int n < k then Some (generateFromSeed h seed k) else None) \<and>
    getKnownCount st = int n"
proof -
  obtain st where st: "receive_secrets h seed n = Inr st"
    "store_inv h seed (MAX_INDEX + 1 - int n) st"
    by (rule receive_secrets_inv [OF assms(1,2,3)])
  have k: "valid_index k" using assms(4,5) by (simp add: valid_index_def)
  have "getKnownCount st = int n" using st(2) by (simp add: getKnownCount_def store_inv_def)
  moreover have "generateFromSeed h seed k = Inr (secret_of h seed k)"
    using assms(1) k by (rule generateFromSeed_eq)
  ultimately show ?thesis
    using st(1) getSecret_store_inv [OF st(2) _ k] assms(3) by (intro exI [of _ st]) simp
qed

theorem ShaChainStore_refines_witness:
  "\<exists>st. receive_secrets (\<lambda>_. replicate 32 1) (replicate 32 7) 3 = Inr st \<and>
    map_option Inr (getSecret (\<lambda>_. replicate 32 1) st MAX_INDEX) =
      (if MAX_INDEX - int 3 < MAX_INDEX
       then Some (generateFromSeed (\<lambda>_. replicate 32 1) (replicate 32 7) MAX_INDEX) else None) \<and>
    getKnownCount st = int 3"
  by (rule ShaChainStore_refines) (simp_all add: MAX_INDEX_def)

text \<open>the store stays logarithmic: however many secrets were revealed, it holds at most 48
  entries.\<close>

theorem ShaChainStore_bounded:
  assumes "length seed = 32" "\<And>x. length (h x) = 32" "int n \<le> MAX_INDEX + 1"
  shows "\<exists>st. receive_secrets h seed n = Inr st \<and> getEntryCount st \<le> 48"
proof -
  obtain st where "receive_secrets h seed n = Inr st"
    "store_inv h seed (MAX_INDEX + 1 - int n) st"
    by (rule receive_secrets_inv [OF assms])
  then show ?thesis
    using getEntryCount_store_inv [of h seed "MAX_INDEX + 1 - int n"] assms(3)
    by (intro exI conjI) (simp_all add: INDEX_BITS_def)
qed

theorem ShaChainStore_bounded_witness:
  "\<exists>st. receive_secrets (\<lambda>_. replicate 32 1) (replicate 32 7) 1000000 = Inr st \<and>
    getEntryCount st \<le> 48"
  by (rule ShaChainStore_bounded) (simp_all add: MAX_INDEX_def)

text \<open>C40: whatever secrets a peer reveals, honestly derived or not, once they were all accepted the store
  gives back each of them at its own index: a revocation that was accepted stays usable, because an
  accepted secret changes none of the secrets known before.\<close>

theorem accepted_secrets_kept:
  assumes "accept_secrets h ss = Some (st, j)" "int (length ss) \<le> MAX_INDEX + 1" "n < length ss"
  shows "getSecret h st (MAX_INDEX - int n) = Some (rev ss ! n)"
proof -
  note inv = accept_secrets_inv [OF assms(1,2)]
  then have "0 \<le> j + 1" "valid_index (MAX_INDEX - int n)" "j < MAX_INDEX - int n"
    using assms(2,3) by (simp_all add: valid_index_def)
  then show ?thesis using getSecret_chain_inv [OF conjunct2 [OF inv]] by simp
qed

theorem accepted_secrets_kept_witness:
  "getSecret (map ((+) 1))
     \<lparr>sc_entries = [\<lparr>sc_index = MAX_INDEX - 1, sc_secret = replicate 32 5\<rparr>], sc_knownCount = 2\<rparr> (MAX_INDEX - int 0) =
   Some (rev [replicate 32 5, 5 # replicate 31 6] ! 0)"
proof (rule accepted_secrets_kept)
  show "accept_secrets (map ((+) 1)) [replicate 32 5, 5 # replicate 31 6] =
    Some (\<lparr>sc_entries = [\<lparr>sc_index = MAX_INDEX - 1, sc_secret = replicate 32 5\<rparr>], sc_knownCount = 2\<rparr>, MAX_INDEX - 2)"
    by code_simp
qed (simp_all add: MAX_INDEX_def)

text \<open>C13: a store filled with the secrets of one seed accepts the next secret exactly when it is
  consistent with everything revealed before: the 32-byte value offered for the next index \<open>j\<close> is stored iff, for each known index of
  its subtree (the indices that extend \<open>j\<close> below its lowest set bit), the value derived from it is
  the one the store returns.\<close>

theorem addSecret_accepts_consistent:
  assumes "length seed = 32" "\<And>x. length (h x) = 32" "int n \<le> MAX_INDEX" "length s = 32"
    and "receive_secrets h seed n = Inr st" "j = MAX_INDEX - int n"
  shows "(\<exists>st'. addSecret h st j s = Inr (st', True)) = subtree_consistent h st j s"
proof -
  have "int n \<le> MAX_INDEX + 1" using assms(3) by simp
  then obtain st' where st': "receive_secrets h seed n = Inr st'"
    "store_inv h seed (MAX_INDEX + 1 - int n) st'"
    by (rule receive_secrets_inv [OF assms(1,2)])
  have "j + 1 = MAX_INDEX + 1 - int n" using assms(6) by simp
  moreover have "st' = st" using st'(1) assms(5) by simp
  ultimately have inv: "store_inv h seed (j + 1) st" using st'(2) by metis
  have j: "valid_index j" using assms(3,6) by (simp add: valid_index_def)
  have "getSecret h st k = Some (secret_of h seed k)" if "j < k" "k \<le> MAX_INDEX" for k
    using getSecret_store_inv [OF inv _, of k] that j by (simp add: valid_index_def)
  then show ?thesis
    unfolding addSecret_accepts [OF inv j assms(4)] subtree_consistent_def
    using j by (auto simp: valid_index_def)
qed

theorem addSecret_accepts_consistent_witness:
  "(\<exists>st'. addSecret (\<lambda>_. replicate 32 1)
      \<lparr>sc_entries = [\<lparr>sc_index = MAX_INDEX, sc_secret = replicate 32 1\<rparr>], sc_knownCount = 1\<rparr>
      (MAX_INDEX - 1) (replicate 32 5) = Inr (st', True)) =
    subtree_consistent (\<lambda>_. replicate 32 1)
      \<lparr>sc_entries = [\<lparr>sc_index = MAX_INDEX, sc_secret = replicate 32 1\<rparr>], sc_knownCount = 1\<rparr>
      (MAX_INDEX - 1) (replicate 32 5)"
proof (rule addSecret_accepts_consistent [where n = 1 and seed = "replicate 32 7"])
  have *: "flip_bits (\<lambda>_. replicate 32 1) p b s = replicate 32 1"
    if "s = replicate 32 1 \<or> (\<exists>c < b. p c)" for p b s
    using that by (induction b arbitrary: s) (auto simp: flip_and_hash_def less_Suc_eq)
  have "generateFromSeed (\<lambda>_. replicate 32 1) (replicate 32 7) MAX_INDEX = Inr (replicate 32 1)"
    by (auto simp: generateFromSeed_def MAX_INDEX_def INDEX_BITS_def intro!: * exI [of _ 0])
  then show "receive_secrets (\<lambda>_. replicate 32 1) (replicate 32 7) 1 =
    Inr \<lparr>sc_entries = [\<lparr>sc_index = MAX_INDEX, sc_secret = replicate 32 1\<rparr>], sc_knownCount = 1\<rparr>"
    by (simp add: addSecret_def emptyStore_def)
qed (simp_all add: MAX_INDEX_def)

end
