(* ===== verification/Codec.thy ===== *)
theory Codec
  imports Prelude
begin

text \<open>
  BOLT 1 integers and framing: \<^verbatim>\<open>src/lightning/message/codec.ts\<close>. BigSize encoding, the
  canonical decoder, the allocation-free decoder for hot loops (\<open>readBigSizeParts\<close>) and the
  two-byte message header. The lemmas show the round trip, that decoding accepts exactly the
  canonical encodings, and that the two decoders agree on every input, errors included.
\<close>

unbundle bit_operations_syntax

section \<open>Definitions\<close>

definition encodeBigSize :: "int \<Rightarrow> bytes res" where
  "encodeBigSize value =
     (if value < 0 then Inl (Error ''BigSize value must be non-negative'' [])
      else if value < 0xfd then Inr [word_of_int value]
      else if value < 0x10000 then
        writeUInt16BE ((alloc 3)[0 := 0xfd]) value 1
      else if value < 0x100000000 then
        writeUInt32BE ((alloc 5)[0 := 0xfe]) value 1
      else writeBigUInt64BE ((alloc 9)[0 := 0xff]) value 1)"

record IBigSizeResult =
  bs_value :: int
  bs_bytesRead :: nat

definition decodeBigSize :: "bytes \<Rightarrow> nat \<Rightarrow> IBigSizeResult res" where
  "decodeBigSize data offset =
     (if length data \<le> offset then Inl (Error ''BigSize: unexpected end of data'' [])
      else let first = uint (data ! offset) in
        if first < 0xfd then Inr \<lparr>bs_value = first, bs_bytesRead = 1\<rparr>
        else if first = 0xfd then
          throw_if (offset + 3 > length data)
            (Error ''BigSize: unexpected end of data for 2-byte value'' [])
            (rbind (readUInt16BE data (offset + 1)) (\<lambda>value.
             throw_if (value < 0xfd) (Error ''BigSize: non-canonical encoding for value'' [value])
               (Inr \<lparr>bs_value = value, bs_bytesRead = 3\<rparr>)))
        else if first = 0xfe then
          throw_if (offset + 5 > length data)
            (Error ''BigSize: unexpected end of data for 4-byte value'' [])
            (rbind (readUInt32BE data (offset + 1)) (\<lambda>value.
             throw_if (value < 0x10000) (Error ''BigSize: non-canonical encoding for value'' [value])
               (Inr \<lparr>bs_value = value, bs_bytesRead = 5\<rparr>)))
        else
          throw_if (offset + 9 > length data)
            (Error ''BigSize: unexpected end of data for 8-byte value'' [])
            (rbind (readBigUInt64BE data (offset + 1)) (\<lambda>value.
             throw_if (value < 0x100000000) (Error ''BigSize: non-canonical encoding for value'' [value])
               (Inr \<lparr>bs_value = value, bs_bytesRead = 9\<rparr>))))"

text \<open>
  \<open>readU32Unchecked\<close> adds the top byte by multiplication and joins the other three by shifts
  and \<^verbatim>\<open>|\<close>, which in JavaScript work on 32-bit integers; below \<open>2 ^ 24\<close> no sign bit is reached.
\<close>

definition readU32Unchecked :: "bytes \<Rightarrow> nat \<Rightarrow> int" where
  "readU32Unchecked data offset =
     uint (data ! offset) * 0x1000000 +
     (push_bit 16 (uint (data ! (offset + 1))) OR push_bit 8 (uint (data ! (offset + 2)))
      OR uint (data ! (offset + 3)))"

record BigSizeParts =
  hi :: int
  lo :: int

definition readBigSizeParts :: "bytes \<Rightarrow> nat \<Rightarrow> (BigSizeParts \<times> nat) res" where
  "readBigSizeParts data offset =
     (if length data \<le> offset then Inl (Error ''BigSize: unexpected end of data'' [])
      else let first = uint (data ! offset) in
        if first < 0xfd then Inr (\<lparr>hi = 0, lo = first\<rparr>, 1)
        else if first = 0xfd then
          throw_if (offset + 3 > length data)
            (Error ''BigSize: unexpected end of data for 2-byte value'' [])
            (let value = push_bit 8 (uint (data ! (offset + 1))) OR uint (data ! (offset + 2)) in
             throw_if (value < 0xfd) (Error ''BigSize: non-canonical encoding for value'' [value])
               (Inr (\<lparr>hi = 0, lo = value\<rparr>, 3)))
        else if first = 0xfe then
          throw_if (offset + 5 > length data)
            (Error ''BigSize: unexpected end of data for 4-byte value'' [])
            (let value = readU32Unchecked data (offset + 1) in
             throw_if (value < 0x10000) (Error ''BigSize: non-canonical encoding for value'' [value])
               (Inr (\<lparr>hi = 0, lo = value\<rparr>, 5)))
        else
          throw_if (offset + 9 > length data)
            (Error ''BigSize: unexpected end of data for 8-byte value'' [])
            (let h = readU32Unchecked data (offset + 1); l = readU32Unchecked data (offset + 5) in
             throw_if (h = 0) (Error ''BigSize: non-canonical encoding for value'' [l])
               (Inr (\<lparr>hi = h, lo = l\<rparr>, 9))))"

definition encodeMessage :: "int \<Rightarrow> bytes \<Rightarrow> bytes res" where
  "encodeMessage type payload =
     throw_if (type < 0 \<or> type > 0xffff) (Error ''Message type must be 0-65535'' [type])
       (rbind (writeUInt16BE (alloc 2) type 0) (\<lambda>header. Inr (header @ payload)))"

record IDecodedMessage =
  dm_type :: int
  dm_payload :: bytes

definition decodeMessage :: "bytes \<Rightarrow> IDecodedMessage res" where
  "decodeMessage data =
     throw_if (length data < 2) (Error ''Message too short: must be at least 2 bytes'' [])
       (rbind (readUInt16BE data 0) (\<lambda>type.
        Inr \<lparr>dm_type = type, dm_payload = drop 2 data\<rparr>))"

section \<open>BigSize: round trip and canonicity\<close>

text \<open>The encoded form in closed terms: a tag byte and the big-endian value.\<close>

definition bigsize_bytes :: "int \<Rightarrow> bytes" where
  "bigsize_bytes v =
     (if v < 0xfd then [word_of_int v] else if v < 0x10000 then 0xfd # be_bytes 2 v
      else if v < 0x100000000 then 0xfe # be_bytes 4 v else 0xff # be_bytes 8 v)"

lemma alloc_set_first: "(alloc (Suc n))[0 := b] = [b] @ alloc n"
  by (simp add: alloc_def)

lemma encodeBigSize_eq:
  assumes "0 \<le> v" "v < 2 ^ 64"
  shows "encodeBigSize v = Inr (bigsize_bytes v)"
proof -
  have w: "writeUIntBE n ((alloc (Suc n))[0 := b]) v 1 = Inr (b # be_bytes n v)"
    if "v < 256 ^ n" for n b
    using writeUIntBE_field [of "[b]" 1 v n n] that assms by (simp add: alloc_set_first)
  show ?thesis
    using assms w [of 2] w [of 4] w [of 8]
    by (auto simp: encodeBigSize_def bigsize_bytes_def)
qed

lemma encodeBigSize_Inr_iff:
  "encodeBigSize v = Inr bs \<longleftrightarrow> 0 \<le> v \<and> v < 2 ^ 64 \<and> bs = bigsize_bytes v"
proof (cases "0 \<le> v \<and> v < 2 ^ 64")
  case True
  then show ?thesis by (auto simp: encodeBigSize_eq)
next
  case False
  then show ?thesis by (auto simp: encodeBigSize_def writeUIntBE_def)
qed

lemma decodeBigSize_drop: "decodeBigSize data off = decodeBigSize (drop off data) 0"
proof (cases "length data \<le> off")
  case True
  then show ?thesis by (simp add: decodeBigSize_def)
next
  case False
  have "readUIntBE n data (off + 1) = readUIntBE n (drop off data) 1" for n
    using False by (auto simp: readUIntBE_def)
  moreover have "off + n > length data \<longleftrightarrow> 0 + n > length (drop off data)" for n
    using False by auto
  ultimately show ?thesis
    using False by (simp add: decodeBigSize_def Let_def)
qed

lemma readUIntBE_Cons [buf_simps]: "readUIntBE n (x # xs) (Suc k) = readUIntBE n xs k"
  by (simp add: readUIntBE_def)

lemma decodeBigSize_bytes:
  assumes "0 \<le> v" "v < 2 ^ 64"
  shows "decodeBigSize (bigsize_bytes v @ post) 0 =
    Inr \<lparr>bs_value = v, bs_bytesRead = length (bigsize_bytes v)\<rparr>"
proof (cases "v < 0xfd")
  case True
  then have "uint (word_of_int v :: byte) = v"
    using assms by (simp add: unsigned_of_int take_bit_eq_mod)
  with True show ?thesis
    by (simp add: decodeBigSize_def bigsize_bytes_def)
next
  case False
  have u: "uint (0xfd :: byte) = 253" "uint (0xfe :: byte) = 254" "uint (0xff :: byte) = 255"
    by simp_all
  show ?thesis
    using assms False unfolding decodeBigSize_def bigsize_bytes_def Let_def
    by (simp add: buf_simps u)
qed

lemma length_bigsize_bytes: "length (bigsize_bytes v) > 0" "length (bigsize_bytes v) \<le> 9"
  by (auto simp: bigsize_bytes_def)

lemma decodeBigSize_roundtrip_at:
  assumes "0 \<le> v" "v < 2 ^ 64" "length pre = off"
  shows "decodeBigSize (pre @ bigsize_bytes v @ post) off =
    Inr \<lparr>bs_value = v, bs_bytesRead = length (bigsize_bytes v)\<rparr>"
  using decodeBigSize_drop [of "pre @ bigsize_bytes v @ post" off] assms
  by (simp add: decodeBigSize_bytes)

lemma byte_tag_cases:
  obtains "uint (b :: byte) < 253" | "b = 0xfd" | "b = 0xfe" | "b = 0xff"
proof -
  have "uint b < 256" using uint_lt2p [of b] by simp
  then have "uint b < 253 \<or> uint b = uint (0xfd :: byte) \<or> uint b = uint (0xfe :: byte)
      \<or> uint b = uint (0xff :: byte)"
    by (simp, arith)
  then show ?thesis using that by (auto simp only: word_uint_eq_iff)
qed

text \<open>Conversely, only canonical encodings decode: the bytes read are those the encoder writes.\<close>

lemma decodeBigSize_0_canonical:
  assumes "decodeBigSize data 0 = Inr r"
  shows "0 \<le> bs_value r \<and> bs_value r < 2 ^ 64 \<and> bs_bytesRead r \<le> length data \<and>
    bigsize_bytes (bs_value r) = take (bs_bytesRead r) data"
proof (cases data)
  case Nil
  then show ?thesis using assms by (simp add: decodeBigSize_def)
next
  case (Cons b bs)
  have be: "be_bytes n (be_val (take n bs)) = take n bs"
    and lt: "be_val (take n bs) < 256 ^ n" if "n \<le> length bs" for n
    using be_bytes_be_val_length [of "take n bs" n] be_val_less [of "take n bs"] that
    by (simp_all add: min_absorb2)
  consider "uint b < 253" | "b = 0xfd" | "b = 0xfe" | "b = 0xff"
    by (rule byte_tag_cases)
  then show ?thesis
  proof cases
    case 1
    with assms Cons show ?thesis
      by (auto simp: decodeBigSize_def bigsize_bytes_def)
  next
    case 2
    with assms Cons have "2 \<le> length bs" "r = \<lparr>bs_value = be_val (take 2 bs), bs_bytesRead = 3\<rparr>"
      "\<not> be_val (take 2 bs) < 253"
      by (auto simp: decodeBigSize_def readUIntBE_def res_Inr_iff split: if_splits)
    then show ?thesis using 2 Cons be [of 2] lt [of 2]
      by (auto simp: bigsize_bytes_def take_Cons')
  next
    case 3
    with assms Cons have "4 \<le> length bs" "r = \<lparr>bs_value = be_val (take 4 bs), bs_bytesRead = 5\<rparr>"
      "\<not> be_val (take 4 bs) < 65536"
      by (auto simp: decodeBigSize_def readUIntBE_def res_Inr_iff split: if_splits)
    then show ?thesis using 3 Cons be [of 4] lt [of 4]
      by (auto simp: bigsize_bytes_def take_Cons')
  next
    case 4
    with assms Cons have "8 \<le> length bs" "r = \<lparr>bs_value = be_val (take 8 bs), bs_bytesRead = 9\<rparr>"
      "\<not> be_val (take 8 bs) < 4294967296"
      by (auto simp: decodeBigSize_def readUIntBE_def res_Inr_iff split: if_splits)
    then show ?thesis using 4 Cons be [of 8] lt [of 8]
      by (auto simp: bigsize_bytes_def take_Cons')
  qed
qed

lemma decodeBigSize_canonical:
  assumes "decodeBigSize data off = Inr r"
  shows "0 \<le> bs_value r \<and> bs_value r < 2 ^ 64 \<and> off + bs_bytesRead r \<le> length data \<and>
    bigsize_bytes (bs_value r) = take (bs_bytesRead r) (drop off data)"
  using decodeBigSize_0_canonical [of "drop off data" r] assms decodeBigSize_drop [of data off]
  by (cases "off < length data") (auto simp: decodeBigSize_def)

section \<open>The allocation-free decoder\<close>

lemma push_bit_or_low:
  assumes "0 \<le> (y :: int)" "y < 2 ^ n"
  shows "push_bit n x OR y = x * 2 ^ n + y"
proof -
  have y: "y = take_bit n y" using assms by (simp add: take_bit_int_eq_self)
  have "push_bit n x AND take_bit n y = 0"
    by (rule bit_eqI) (auto simp: bit_simps)
  then have "push_bit n x AND y = 0" by (simp only: y [symmetric])
  then show ?thesis by (simp add: disjunctive_add_eq_or [symmetric] push_bit_eq_mult)
qed

lemma byte_pair_less: "uint (a :: byte) * 256 + uint (b :: byte) < 65536"
  using uint_lt2p [of a] uint_lt2p [of b] by simp

lemma uint_byte_bounds [simp]: "0 \<le> uint (b :: byte)" "uint (b :: byte) < 256"
  using uint_lt2p [of b] by simp_all

lemma take_drop_2:
  "k + 2 \<le> length xs \<Longrightarrow> take 2 (drop k xs) = [xs ! k, xs ! (k + 1)]"
  by (simp add: numeral_2_eq_2 take_Suc_conv_app_nth)

lemma take_drop_4:
  "k + 4 \<le> length xs \<Longrightarrow> take 4 (drop k xs) = [xs ! k, xs ! (k + 1), xs ! (k + 2), xs ! (k + 3)]"
  by (simp add: eval_nat_numeral take_Suc_conv_app_nth)

lemma readUInt16BE_bytes:
  "k + 2 \<le> length data \<Longrightarrow>
   readUInt16BE data k = Inr (push_bit 8 (uint (data ! k)) OR uint (data ! (k + 1)))"
  by (simp add: readUIntBE_def take_drop_2 push_bit_or_low be_val_def)

lemma readU32Unchecked_val:
  "readU32Unchecked data k = be_val [data ! k, data ! (k + 1), data ! (k + 2), data ! (k + 3)]"
proof -
  let ?b = "\<lambda>i. uint (data ! (k + i))"
  have "push_bit 8 (?b 2) OR ?b 3 = ?b 2 * 2 ^ 8 + ?b 3"
    by (simp add: push_bit_or_low)
  moreover have "?b 2 * 2 ^ 8 + ?b 3 < 2 ^ 16"
    using byte_pair_less [of "data ! (k + 2)" "data ! (k + 3)"] by simp
  then have "push_bit 16 (?b 1) OR (?b 2 * 2 ^ 8 + ?b 3) = ?b 1 * 2 ^ 16 + (?b 2 * 2 ^ 8 + ?b 3)"
    by (intro push_bit_or_low) simp_all
  ultimately show ?thesis
    by (simp add: readU32Unchecked_def or.assoc be_val_def algebra_simps)
qed

lemma readUInt32BE_unchecked:
  "k + 4 \<le> length data \<Longrightarrow> readUInt32BE data k = Inr (readU32Unchecked data k)"
  by (simp add: readUIntBE_def take_drop_4 readU32Unchecked_val)

lemma readU32Unchecked_bounds: "0 \<le> readU32Unchecked data k" "readU32Unchecked data k < 2 ^ 32"
  using be_val_less [of "[data ! k, data ! (k + 1), data ! (k + 2), data ! (k + 3)]"]
  by (simp_all add: readU32Unchecked_val)

lemma be_val_append: "be_val (xs @ ys) = be_val xs * 256 ^ length ys + be_val ys"
  by (induction ys rule: rev_induct)
    (simp_all add: be_val_snoc append_assoc [symmetric] algebra_simps del: append_assoc)

lemma readBigUInt64BE_unchecked:
  assumes "k + 8 \<le> length data"
  shows "readBigUInt64BE data k =
    Inr (readU32Unchecked data k * 2 ^ 32 + readU32Unchecked data (k + 4))"
proof -
  have "take 8 (drop k data) = take 4 (drop k data) @ take 4 (drop (k + 4) data)"
    using take_add [of 4 4 "drop k data"] by (simp add: add.commute)
  then have "be_val (take 8 (drop k data)) =
      be_val (take 4 (drop k data)) * 2 ^ 32 + be_val (take 4 (drop (k + 4) data))"
    using assms by (simp add: be_val_append del: append_take_drop_id)
  then show ?thesis
    using assms by (simp add: readUIntBE_def take_drop_4 readU32Unchecked_val add.commute)
qed

section \<open>Properties\<close>

text \<open>C15: encoding any 64-bit value as a BigSize and decoding it, at any position of a larger
  buffer, gives the value back and consumes exactly the encoded bytes.\<close>

theorem BigSize_roundtrip:
  assumes "0 \<le> v" "v < 2 ^ 64"
  shows "\<exists>enc. encodeBigSize v = Inr enc \<and>
    decodeBigSize (pre @ enc @ post) (length pre) =
      Inr \<lparr>bs_value = v, bs_bytesRead = length enc\<rparr>"
  using assms by (simp add: encodeBigSize_eq decodeBigSize_roundtrip_at)

theorem BigSize_roundtrip_witness:
  "\<exists>enc. encodeBigSize 70000 = Inr enc \<and>
    decodeBigSize ([7] @ enc @ [9]) (length [7 :: byte]) =
      Inr \<lparr>bs_value = 70000, bs_bytesRead = length enc\<rparr>"
  by (rule BigSize_roundtrip) simp_all

text \<open>C16: \<open>decodeBigSize\<close> accepts only canonical encodings: whatever it decodes, the bytes it
  consumed are the ones \<open>encodeBigSize\<close> produces for that value, so no value has two encodings.\<close>

theorem BigSize_canonical:
  assumes "decodeBigSize data off = Inr r"
  shows "off + bs_bytesRead r \<le> length data \<and>
    encodeBigSize (bs_value r) = Inr (subarray data off (off + bs_bytesRead r))"
  using decodeBigSize_canonical [OF assms] by (simp add: encodeBigSize_eq subarray_def)

theorem BigSize_canonical_witness:
  "2 + 3 \<le> length [0, 1, 0xfd, 2, 3 :: byte] \<and>
   encodeBigSize 515 = Inr (subarray [0, 1, 0xfd, 2, 3] 2 (2 + 3))"
proof -
  have "decodeBigSize [0, 1, 0xfd, 2, 3] 2 = Inr \<lparr>bs_value = 515, bs_bytesRead = 3\<rparr>"
    by code_simp
  from BigSize_canonical [OF this] show ?thesis by simp
qed

text \<open>the allocation-free decoder agrees with \<open>decodeBigSize\<close> on every buffer and offset: it
  raises the same errors with the same numbers, consumes the same bytes, and its two 32-bit
  halves are the quotient and remainder of the value by \<open>2 ^ 32\<close>.\<close>

theorem readBigSizeParts_equiv:
  "readBigSizeParts data off =
     rbind (decodeBigSize data off) (\<lambda>r.
       Inr (\<lparr>hi = bs_value r div 2 ^ 32, lo = bs_value r mod 2 ^ 32\<rparr>, bs_bytesRead r))"
proof (cases "length data \<le> off")
  case True
  then show ?thesis by (simp add: readBigSizeParts_def decodeBigSize_def)
next
  case False
  let ?h = "readU32Unchecked data (off + 1)" and ?l = "readU32Unchecked data (off + 5)"
  note b = readU32Unchecked_bounds [of data "off + 1"] readU32Unchecked_bounds [of data "off + 5"]
  consider "uint (data ! off) < 253" | "data ! off = 0xfd" | "data ! off = 0xfe" | "data ! off = 0xff"
    by (rule byte_tag_cases)
  then show ?thesis
  proof cases
    case 1
    with False show ?thesis
      by (simp add: readBigSizeParts_def decodeBigSize_def)
  next
    case 2
    let ?v = "push_bit 8 (uint (data ! (off + 1))) OR uint (data ! (off + 1 + 1))"
    have "0 \<le> ?v" "?v < 2 ^ 32"
      using byte_pair_less [of "data ! (off + 1)" "data ! (off + 1 + 1)"]
      by (simp_all add: push_bit_or_low)
    with False 2 show ?thesis
      by (cases "off + 3 > length data"; cases "?v < 253")
        (simp_all add: readBigSizeParts_def decodeBigSize_def readUInt16BE_bytes)
  next
    case 3
    with False b show ?thesis
      by (cases "off + 5 > length data"; cases "?h < 65536")
        (simp_all add: readBigSizeParts_def decodeBigSize_def readUInt32BE_unchecked)
  next
    case 4
    have "?h * 2 ^ 32 + ?l < 2 ^ 32 \<longleftrightarrow> ?h = 0"
      using b by auto
    moreover have "(?h * 2 ^ 32 + ?l) div 2 ^ 32 = ?h" "(?h * 2 ^ 32 + ?l) mod 2 ^ 32 = ?l"
      using b by simp_all
    moreover have "readBigUInt64BE data (off + 1) = Inr (?h * 2 ^ 32 + ?l)"
      if "off + 9 \<le> length data"
      using readBigUInt64BE_unchecked [of "off + 1" data] that by (simp add: add.commute)
    ultimately show ?thesis
      using False 4 b
      by (cases "off + 9 > length data"; cases "?h = 0")
        (simp_all add: readBigSizeParts_def decodeBigSize_def)
  qed
qed

text \<open>C17: a framed message decodes to its type and payload, for every type the header can carry;
  any other type is refused.\<close>

theorem encodeMessage_roundtrip:
  "(case encodeMessage t payload of
      Inr framed \<Rightarrow> 0 \<le> t \<and> t \<le> 0xffff \<and>
        decodeMessage framed = Inr \<lparr>dm_type = t, dm_payload = payload\<rparr>
    | Inl e \<Rightarrow> \<not> (0 \<le> t \<and> t \<le> 0xffff))"
  by (cases "0 \<le> t \<and> t \<le> 0xffff")
    (auto simp: encodeMessage_def decodeMessage_def buf_simps)

end
