(* ===== verification/Tlv.thy ===== *)
theory Tlv
  imports Codec
begin

text \<open>
  BOLT 1 TLV streams: \<^verbatim>\<open>src/lightning/message/tlv.ts\<close>. The decoder's \<^verbatim>\<open>while\<close> loop is a
  function of its position with a termination proof (each record consumes at least one byte).
  \<^verbatim>\<open>Number(lengthResult.value)\<close> is kept exact: a length the double cannot represent is far past
  any buffer's end and is refused by the same check.

  The lemmas show the round trip, that a decoded stream re-encodes to the very bytes read
  (so a stream has one encoding), and that accepted streams are strictly ordered and contain
  no unknown even type.
\<close>

section \<open>Definitions\<close>

record ITlvRecord =
  tlv_type :: int
  tlv_value :: bytes

definition encodeTlvRecord :: "ITlvRecord \<Rightarrow> bytes res" where
  "encodeTlvRecord record =
     rbind (encodeBigSize (tlv_type record)) (\<lambda>typeBytes.
     rbind (encodeBigSize (int (length (tlv_value record)))) (\<lambda>lengthBytes.
     Inr (typeBytes @ lengthBytes @ tlv_value record)))"

text \<open>The ordering check, then the concatenation of the encoded records.\<close>

fun checkTlvOrder :: "ITlvRecord list \<Rightarrow> unit res" where
  "checkTlvOrder (a # b # rs) =
     throw_if (tlv_type b \<le> tlv_type a)
       (Error ''TLV records must be in strictly increasing order'' [tlv_type b, tlv_type a])
       (checkTlvOrder (b # rs))"
| "checkTlvOrder rs = Inr ()"

fun encodeTlvRecords :: "ITlvRecord list \<Rightarrow> bytes res" where
  "encodeTlvRecords [] = Inr []"
| "encodeTlvRecords (r # rs) =
     rbind (encodeTlvRecord r) (\<lambda>b. rbind (encodeTlvRecords rs) (\<lambda>bs. Inr (b @ bs)))"

definition encodeTlvStream :: "ITlvRecord list \<Rightarrow> bytes res" where
  "encodeTlvStream records = rbind (checkTlvOrder records) (\<lambda>_. encodeTlvRecords records)"

record ITlvStreamResult =
  ts_records :: "ITlvRecord list"
  ts_bytesRead :: nat

lemma decodeBigSize_bytesRead_pos: "decodeBigSize data off = Inr r \<Longrightarrow> 0 < bs_bytesRead r"
  by (auto simp: decodeBigSize_def Let_def res_Inr_iff split: if_splits)

text \<open>\<^verbatim>\<open>knownTypes && recordType % 2n === 0n && !knownTypes.has(recordType)\<close>\<close>

definition unknownRequired :: "int set option \<Rightarrow> int \<Rightarrow> bool" where
  "unknownRequired knownTypes recordType =
     (case knownTypes of None \<Rightarrow> False
      | Some known \<Rightarrow> recordType mod 2 = 0 \<and> recordType \<notin> known)"

function decodeTlvLoop ::
    "bytes \<Rightarrow> int set option \<Rightarrow> nat \<Rightarrow> int \<Rightarrow> ITlvRecord list \<Rightarrow> (ITlvRecord list \<times> nat) res" where
  "decodeTlvLoop data knownTypes pos lastType records =
     (if pos < length data then
        rbind (decodeBigSize data pos) (\<lambda>typeResult.
        let pos1 = pos + bs_bytesRead typeResult; recordType = bs_value typeResult in
        throw_if (recordType \<le> lastType) (Error ''TLV stream not in order'' [recordType, lastType])
        (rbind (decodeBigSize data pos1) (\<lambda>lengthResult.
        let pos2 = pos1 + bs_bytesRead lengthResult; recordLength = nat (bs_value lengthResult) in
        throw_if (pos2 + recordLength > length data)
          (Error ''TLV record: not enough bytes''
            [recordType, int recordLength, int (length data) - int pos2])
        (throw_if (unknownRequired knownTypes recordType)
          (Error ''Unknown required TLV type'' [recordType])
        (decodeTlvLoop data knownTypes (pos2 + recordLength) recordType
          (records @ [\<lparr>tlv_type = recordType,
                       tlv_value = subarray data pos2 (pos2 + recordLength)\<rparr>]))))))
      else Inr (records, pos))"
  by pat_completeness auto
termination
  by (relation "measure (\<lambda>(data, _, pos, _, _). length data - pos)")
    (auto dest!: decodeBigSize_bytesRead_pos)

declare decodeTlvLoop.simps [simp del]

definition decodeTlvStream :: "bytes \<Rightarrow> nat \<Rightarrow> int set option \<Rightarrow> ITlvStreamResult res" where
  "decodeTlvStream data offset knownTypes =
     rbind (decodeTlvLoop data knownTypes offset (-1) []) (\<lambda>(records, pos).
     Inr \<lparr>ts_records = records, ts_bytesRead = pos - offset\<rparr>)"

definition findTlvRecord :: "ITlvRecord list \<Rightarrow> int \<Rightarrow> bytes option" where
  "findTlvRecord records type = map_option tlv_value (find (\<lambda>r. tlv_type r = type) records)"

section \<open>Encoded form\<close>

definition tlv_bytes :: "ITlvRecord \<Rightarrow> bytes" where
  "tlv_bytes r =
     bigsize_bytes (tlv_type r) @ bigsize_bytes (int (length (tlv_value r))) @ tlv_value r"

text \<open>A record the wire can carry, and the decoder's condition on unknown types.\<close>

definition tlv_fits :: "ITlvRecord \<Rightarrow> bool" where
  "tlv_fits r \<longleftrightarrow> 0 \<le> tlv_type r \<and> tlv_type r < 2 ^ 64 \<and> int (length (tlv_value r)) < 2 ^ 64"

abbreviation tlv_known :: "int set option \<Rightarrow> ITlvRecord \<Rightarrow> bool" where
  "tlv_known knownTypes r \<equiv> \<not> unknownRequired knownTypes (tlv_type r)"

lemma unknownRequired_None [simp]: "\<not> unknownRequired None t"
  by (simp add: unknownRequired_def)

lemma unknownRequired_Some [simp]: "unknownRequired (Some known) t \<longleftrightarrow> even t \<and> t \<notin> known"
  by (simp add: unknownRequired_def even_iff_mod_2_eq_zero)

definition tlv_above :: "int \<Rightarrow> ITlvRecord list \<Rightarrow> bool" where
  "tlv_above lastType rs \<longleftrightarrow> sorted_wrt (<) (lastType # map tlv_type rs)"

lemma tlv_above_Nil [simp]: "tlv_above t []"
  by (simp add: tlv_above_def)

lemma tlv_above_Cons [simp]:
  "tlv_above t (r # rs) \<longleftrightarrow> t < tlv_type r \<and> tlv_above (tlv_type r) rs"
  by (auto simp: tlv_above_def)

lemma encodeTlvRecord_Inr_iff:
  "encodeTlvRecord r = Inr b \<longleftrightarrow> tlv_fits r \<and> b = tlv_bytes r"
  by (auto simp: encodeTlvRecord_def rbind_eq_Inr encodeBigSize_Inr_iff tlv_fits_def tlv_bytes_def)

lemma encodeTlvRecords_Inr_iff:
  "encodeTlvRecords rs = Inr b \<longleftrightarrow> (\<forall>r \<in> set rs. tlv_fits r) \<and> b = concat (map tlv_bytes rs)"
  by (induction rs arbitrary: b) (auto simp: rbind_eq_Inr encodeTlvRecord_Inr_iff)

lemma checkTlvOrder_Inr_iff: "checkTlvOrder rs = Inr () \<longleftrightarrow> sorted_wrt (<) (map tlv_type rs)"
proof (induction rs rule: checkTlvOrder.induct)
  case (1 a b rs)
  have "sorted_wrt (<) (map tlv_type (a # b # rs)) \<longleftrightarrow>
      tlv_type a < tlv_type b \<and> sorted_wrt (<) (map tlv_type (b # rs))"
    by auto
  then show ?case using 1 by (auto simp: throw_if_def simp del: sorted_wrt.simps)
qed auto

lemma encodeTlvStream_Inr_iff:
  "encodeTlvStream rs = Inr b \<longleftrightarrow>
     sorted_wrt (<) (map tlv_type rs) \<and> (\<forall>r \<in> set rs. tlv_fits r) \<and> b = concat (map tlv_bytes rs)"
  by (auto simp: encodeTlvStream_def rbind_eq_Inr encodeTlvRecords_Inr_iff checkTlvOrder_Inr_iff
      simp flip: checkTlvOrder_Inr_iff)

lemma tlv_above_sorted:
  "(\<forall>r \<in> set rs. tlv_fits r) \<Longrightarrow> tlv_above (-1) rs \<longleftrightarrow> sorted_wrt (<) (map tlv_type rs)"
  by (force simp: tlv_above_def tlv_fits_def)

section \<open>Decoding what was encoded\<close>

lemma length_tlv_bytes_pos: "0 < length (tlv_bytes r)"
  using length_bigsize_bytes(1) [of "tlv_type r"] by (simp add: tlv_bytes_def)

lemma decodeTlvLoop_step:
  assumes "tlv_fits r" "tlv_known known r" "lastType < tlv_type r" "length pre = pos"
  shows "decodeTlvLoop (pre @ tlv_bytes r @ post) known pos lastType acc =
    decodeTlvLoop (pre @ tlv_bytes r @ post) known (pos + length (tlv_bytes r)) (tlv_type r) (acc @ [r])"
proof -
  let ?tb = "bigsize_bytes (tlv_type r)" and ?n = "int (length (tlv_value r))"
  let ?lb = "bigsize_bytes ?n"
  let ?d = "pre @ tlv_bytes r @ post"
  have f: "0 \<le> tlv_type r" "tlv_type r < 2 ^ 64" "?n < 2 ^ 64"
    using assms(1) by (auto simp: tlv_fits_def)
  have d1: "decodeBigSize ?d pos = Inr \<lparr>bs_value = tlv_type r, bs_bytesRead = length ?tb\<rparr>"
    using decodeBigSize_roundtrip_at [OF f(1,2) assms(4), of "?lb @ tlv_value r @ post"]
    by (simp add: tlv_bytes_def)
  have d2: "decodeBigSize ?d (pos + length ?tb) = Inr \<lparr>bs_value = ?n, bs_bytesRead = length ?lb\<rparr>"
    using decodeBigSize_roundtrip_at [of ?n "pre @ ?tb" "pos + length ?tb" "tlv_value r @ post"]
      f(3) assms(4)
    by (simp add: tlv_bytes_def)
  have lt: "pos < length ?d" using length_tlv_bytes_pos [of r] assms(4) by simp
  have sub: "subarray ?d (pos + length ?tb + length ?lb)
      (pos + length ?tb + length ?lb + length (tlv_value r)) = tlv_value r"
    using assms(4) by (simp add: subarray_def tlv_bytes_def)
  have eta: "\<lparr>tlv_type = tlv_type r, tlv_value = tlv_value r\<rparr> = r" by simp
  show ?thesis
    using lt assms(2,3,4)
    by (subst decodeTlvLoop.simps)
      (simp add: d1 d2 sub Let_def eta, simp add: tlv_bytes_def add.assoc)
qed

lemma decodeTlvLoop_records:
  assumes "\<forall>r \<in> set rs. tlv_fits r \<and> tlv_known known r" "tlv_above lastType rs" "length pre = pos"
  shows "decodeTlvLoop (pre @ concat (map tlv_bytes rs)) known pos lastType acc =
    Inr (acc @ rs, pos + length (concat (map tlv_bytes rs)))"
  using assms
proof (induction rs arbitrary: pre pos lastType acc)
  case Nil
  then show ?case by (subst decodeTlvLoop.simps) simp
next
  case (Cons r rs)
  have "decodeTlvLoop (pre @ tlv_bytes r @ concat (map tlv_bytes rs)) known pos lastType acc =
      decodeTlvLoop ((pre @ tlv_bytes r) @ concat (map tlv_bytes rs)) known
        (pos + length (tlv_bytes r)) (tlv_type r) (acc @ [r])"
    using Cons.prems by (simp add: decodeTlvLoop_step)
  also have "\<dots> = Inr ((acc @ [r]) @ rs,
      pos + length (tlv_bytes r) + length (concat (map tlv_bytes rs)))"
    by (rule Cons.IH) (use Cons.prems in auto)
  finally show ?case by (simp add: add.assoc)
qed

lemma decodeTlvStream_encoded:
  assumes "encodeTlvStream rs = Inr enc" "\<forall>r \<in> set rs. tlv_known known r" "length pre = off"
  shows "decodeTlvStream (pre @ enc) off known = Inr \<lparr>ts_records = rs, ts_bytesRead = length enc\<rparr>"
proof -
  have e: "enc = concat (map tlv_bytes rs)" "\<forall>r \<in> set rs. tlv_fits r" "tlv_above (-1) rs"
    using assms(1) by (auto simp: encodeTlvStream_Inr_iff tlv_above_sorted)
  have "decodeTlvLoop (pre @ enc) known off (-1) [] = Inr ([] @ rs, off + length enc)"
    unfolding e(1) by (rule decodeTlvLoop_records) (use e assms in auto)
  then show ?thesis by (simp add: decodeTlvStream_def)
qed

section \<open>Re-encoding what was decoded\<close>

lemma decodeTlvLoop_sound:
  assumes "decodeTlvLoop data known pos lastType acc = Inr (rs, end_pos)" "pos \<le> length data"
  shows "\<exists>new. rs = acc @ new \<and> end_pos = length data \<and>
    (\<forall>r \<in> set new. tlv_fits r \<and> tlv_known known r) \<and> tlv_above lastType new \<and>
    drop pos data = concat (map tlv_bytes new)"
  using assms
proof (induction data known pos lastType acc rule: decodeTlvLoop.induct)
  case (1 data known pos lastType acc)
  show ?case
  proof (cases "pos < length data")
    case False
    with 1(2,3) show ?thesis by (simp add: decodeTlvLoop.simps [of data known pos lastType acc])
  next
    case True
    from 1(2) True obtain t l where
      t: "decodeBigSize data pos = Inr t" "lastType < bs_value t" and
      l: "decodeBigSize data (pos + bs_bytesRead t) = Inr l"
        "pos + bs_bytesRead t + bs_bytesRead l + nat (bs_value l) \<le> length data" and
      k: "\<not> unknownRequired known (bs_value t)" and
      rec: "decodeTlvLoop data known (pos + bs_bytesRead t + bs_bytesRead l + nat (bs_value l))
        (bs_value t) (acc @ [\<lparr>tlv_type = bs_value t,
          tlv_value = subarray data (pos + bs_bytesRead t + bs_bytesRead l)
            (pos + bs_bytesRead t + bs_bytesRead l + nat (bs_value l))\<rparr>]) = Inr (rs, end_pos)"
      unfolding decodeTlvLoop.simps [of data known pos lastType acc]
      by (auto simp: res_Inr_iff Let_def)
    let ?p2 = "pos + bs_bytesRead t + bs_bytesRead l"
    let ?r = "\<lparr>tlv_type = bs_value t, tlv_value = subarray data ?p2 (?p2 + nat (bs_value l))\<rparr>"
    from 1(1) [OF True t(1) refl refl _ l(1) refl refl _ _ rec] t(2) l(2) k
    obtain new where new: "rs = (acc @ [?r]) @ new" "end_pos = length data"
      "\<forall>r \<in> set new. tlv_fits r \<and> tlv_known known r" "tlv_above (bs_value t) new"
      "drop (?p2 + nat (bs_value l)) data = concat (map tlv_bytes new)"
      by auto
    note ct = decodeBigSize_canonical [OF t(1)] and cl = decodeBigSize_canonical [OF l(1)]
    have len: "int (length (tlv_value ?r)) = bs_value l"
      using l(2) cl by simp
    have split: "drop p data = take n (drop p data) @ drop (p + n) data" for p n
      using append_take_drop_id [of n "drop p data"] by (simp add: add.commute)
    have "drop pos data = take (bs_bytesRead t) (drop pos data) @
        take (bs_bytesRead l) (drop (pos + bs_bytesRead t) data) @
        take (nat (bs_value l)) (drop ?p2 data) @ drop (?p2 + nat (bs_value l)) data"
      using split [of pos "bs_bytesRead t"] split [of "pos + bs_bytesRead t" "bs_bytesRead l"]
        split [of ?p2 "nat (bs_value l)"] by metis
    then have "drop pos data = tlv_bytes ?r @ concat (map tlv_bytes new)"
      using ct cl len new(5) by (simp add: tlv_bytes_def subarray_def)
    moreover have "tlv_fits ?r" using ct cl len by (simp add: tlv_fits_def)
    ultimately show ?thesis
      using new t(2) k by (intro exI [of _ "?r # new"]) auto
  qed
qed

lemma decodeTlvStream_sound:
  assumes "decodeTlvStream data off known = Inr res" "off \<le> length data"
  shows "encodeTlvStream (ts_records res) = Inr (drop off data) \<and>
    ts_bytesRead res = length data - off \<and>
    (\<forall>r \<in> set (ts_records res). tlv_known known r)"
proof -
  from assms(1) obtain rs e where
    "decodeTlvLoop data known off (-1) [] = Inr (rs, e)"
    "res = \<lparr>ts_records = rs, ts_bytesRead = e - off\<rparr>"
    by (auto simp: decodeTlvStream_def rbind_eq_Inr)
  with decodeTlvLoop_sound [of data known off "-1" "[]" rs e] assms(2) show ?thesis
    by (auto simp: encodeTlvStream_Inr_iff tlv_above_sorted)
qed

section \<open>Properties\<close>

text \<open>C18: a TLV stream that encodes, placed at the end of any buffer, decodes to the same records
  and consumes exactly the encoded bytes, provided every even type is one the reader knows.\<close>

theorem TlvStream_roundtrip:
  assumes "encodeTlvStream rs = Inr enc"
    and "\<forall>r \<in> set rs. \<not> unknownRequired known (tlv_type r)"
  shows "decodeTlvStream (pre @ enc) (length pre) known =
    Inr \<lparr>ts_records = rs, ts_bytesRead = length enc\<rparr>"
  using assms by (simp add: decodeTlvStream_encoded)

theorem TlvStream_roundtrip_witness:
  "decodeTlvStream ([9, 9] @ [1, 2, 5, 6, 0xfd, 1, 0, 0]) (length [9, 9 :: byte]) (Some {256}) =
    Inr \<lparr>ts_records = [\<lparr>tlv_type = 1, tlv_value = [5, 6]\<rparr>, \<lparr>tlv_type = 256, tlv_value = []\<rparr>],
         ts_bytesRead = length [1, 2, 5, 6, 0xfd, 1, 0, 0 :: byte]\<rparr>"
proof (rule TlvStream_roundtrip)
  show "encodeTlvStream [\<lparr>tlv_type = 1, tlv_value = [5, 6]\<rparr>, \<lparr>tlv_type = 256, tlv_value = []\<rparr>] =
      Inr [1, 2, 5, 6, 0xfd, 1, 0, 0]"
    by code_simp
qed simp

text \<open>C19: whatever \<open>decodeTlvStream\<close> accepts is canonical: re-encoding the records gives back the
  bytes read to the end of the buffer, the types strictly increase, and no even type is unknown.\<close>

theorem TlvStream_canonical:
  assumes "decodeTlvStream data off known = Inr res" and "off \<le> length data"
  shows "encodeTlvStream (ts_records res) = Inr (drop off data) \<and>
    off + ts_bytesRead res = length data \<and>
    sorted_wrt (<) (map tlv_type (ts_records res)) \<and>
    (\<forall>r \<in> set (ts_records res). \<not> unknownRequired known (tlv_type r))"
  using decodeTlvStream_sound [OF assms] assms(2) by (auto simp: encodeTlvStream_Inr_iff)

theorem TlvStream_canonical_witness:
  "encodeTlvStream [\<lparr>tlv_type = 3, tlv_value = [7]\<rparr>] = Inr (drop 1 [0, 3, 1, 7]) \<and>
    1 + 3 = length [0, 3, 1, 7 :: byte] \<and>
    sorted_wrt (<) (map tlv_type [\<lparr>tlv_type = 3, tlv_value = [7]\<rparr>])"
proof -
  have "decodeTlvStream [0, 3, 1, 7] 1 (Some {}) =
      Inr \<lparr>ts_records = [\<lparr>tlv_type = 3, tlv_value = [7]\<rparr>], ts_bytesRead = 3\<rparr>"
    by code_simp
  from TlvStream_canonical [OF this] show ?thesis by simp
qed

end
