(* ===== verification/Wire.thy ===== *)
theory Wire
  imports Tlv
begin

text \<open>
  What the message codecs of \<^verbatim>\<open>src/lightning/message/\<close> share: single-byte and signed 64-bit
  fields, the loop over decoded TLV records, the TLV tail after the fixed fields, and the contract
  of a codec as the locale \<open>wire_codec\<close>. Every message theory interprets the locale on its own
  encoder and decoder; the lemmas of the locale (injectivity, the framed round trip, stability of
  re-encoding) then hold of each message.
\<close>

section \<open>Byte, signed and little-endian fields\<close>

text \<open>\<^verbatim>\<open>buf[off] = v\<close>: the low byte of \<open>v\<close>, ignored past the end.\<close>

definition setByte :: "bytes \<Rightarrow> nat \<Rightarrow> int \<Rightarrow> bytes" where
  "setByte buf off v = buf[off := word_of_int v]"

definition writeBigInt64BE :: "bytes \<Rightarrow> int \<Rightarrow> nat \<Rightarrow> bytes res" where
  "writeBigInt64BE buf v off =
     (if v < - (2 ^ 63) \<or> 2 ^ 63 \<le> v \<or> length buf < off + 8 then Inl RangeError
      else Inr (copy_to (be_bytes 8 v) buf off))"

definition readBigInt64BE :: "bytes \<Rightarrow> nat \<Rightarrow> int res" where
  "readBigInt64BE data off =
     rbind (readUIntBE 8 data off) (\<lambda>u. Inr (if u < 2 ^ 63 then u else u - 2 ^ 64))"

lemma length_setByte [simp, buf_simps]: "length (setByte buf off v) = length buf"
  by (simp add: setByte_def)

lemma alloc_Suc: "alloc (Suc k) = 0 # alloc k"
  by (simp add: alloc_def)

lemma setByte_alloc [buf_simps]:
  "0 < k \<Longrightarrow> setByte (alloc k) 0 v = [word_of_int v] @ alloc (k - 1)"
  by (cases k) (simp_all add: setByte_def alloc_Suc)

lemma setByte_field [buf_simps]:
  "length pre = off \<Longrightarrow> 0 < k \<Longrightarrow>
   setByte (pre @ alloc k) off v = (pre @ [word_of_int v]) @ alloc (k - 1)"
  by (cases k) (auto simp: setByte_def alloc_Suc)

lemma nth_append_skip [buf_simps]: "length pre \<le> a \<Longrightarrow> (pre @ x) ! a = x ! (a - length pre)"
  by (simp add: nth_append)

lemma subarray_Cons_skip [buf_simps]:
  "0 < a \<Longrightarrow> subarray (x # xs) a b = subarray xs (a - 1) (b - 1)"
  by (cases a; cases b) (auto simp: subarray_def)

lemma readUIntBE_Cons_skip [buf_simps]:
  "0 < a \<Longrightarrow> readUIntBE n (x # xs) a = readUIntBE n xs (a - 1)"
  using readUIntBE_skip [of "[x]" a n xs] by simp

lemma uint_word_of_int_byte [buf_simps]:
  "0 \<le> v \<Longrightarrow> v < 256 \<Longrightarrow> uint (word_of_int v :: byte) = v"
  by (simp add: unsigned_of_int take_bit_eq_mod)

lemma writeBigInt64BE_alloc [buf_simps]:
  "- (2 ^ 63) \<le> v \<Longrightarrow> v < 2 ^ 63 \<Longrightarrow> 8 \<le> k \<Longrightarrow>
   writeBigInt64BE (alloc k) v 0 = Inr (be_bytes 8 v @ alloc (k - 8))"
  by (simp add: writeBigInt64BE_def copy_to_alloc)

lemma writeBigInt64BE_field [buf_simps]:
  "length pre = off \<Longrightarrow> - (2 ^ 63) \<le> v \<Longrightarrow> v < 2 ^ 63 \<Longrightarrow> 8 \<le> k \<Longrightarrow>
   writeBigInt64BE (pre @ alloc k) v off = Inr ((pre @ be_bytes 8 v) @ alloc (k - 8))"
  by (simp add: writeBigInt64BE_def copy_to_field)

lemma be_val_signed:
  assumes "- (2 ^ 63) \<le> v" "v < 2 ^ 63"
  shows "(if be_val (be_bytes 8 v) < 2 ^ 63 then be_val (be_bytes 8 v)
          else be_val (be_bytes 8 v) - 2 ^ 64) = v"
proof (cases "0 \<le> v")
  case True
  then show ?thesis using assms by (simp add: be_val_be_bytes_mod)
next
  case False
  have "v mod 2 ^ 64 = (v + 2 ^ 64) mod 2 ^ 64" by simp
  also have "\<dots> = v + 2 ^ 64" using assms False by (intro mod_pos_pos_trivial) simp_all
  finally have "be_val (be_bytes 8 v) = v + 2 ^ 64" by (simp add: be_val_be_bytes_mod)
  then show ?thesis using assms False by simp
qed

lemma readBigInt64BE_first [buf_simps]:
  assumes "- (2 ^ 63) \<le> v" "v < 2 ^ 63"
  shows "readBigInt64BE (be_bytes 8 v @ post) 0 = Inr v"
  using be_val_signed [OF assms] by (simp add: readBigInt64BE_def readUIntBE_def)

lemma readBigInt64BE_skip [buf_simps]:
  "length pre \<le> a \<Longrightarrow> readBigInt64BE (pre @ x) a = readBigInt64BE x (a - length pre)"
  by (simp add: readBigInt64BE_def readUIntBE_skip)

lemma readBigInt64BE_only [buf_simps]:
  "- (2 ^ 63) \<le> v \<Longrightarrow> v < 2 ^ 63 \<Longrightarrow> readBigInt64BE (be_bytes 8 v) 0 = Inr v"
  using readBigInt64BE_first [of v "[]"] by simp

lemma readBigInt64BE_bounds: "readBigInt64BE data off = Inr v \<Longrightarrow> - (2 ^ 63) \<le> v \<and> v < 2 ^ 63"
  by (auto simp: readBigInt64BE_def rbind_eq_Inr dest!: readUIntBE_bounds)

text \<open>The range of an \<open>n\<close>-byte unsigned field and of a signed 64-bit field.\<close>

definition u_fits :: "nat \<Rightarrow> int \<Rightarrow> bool" where
  "u_fits n v \<longleftrightarrow> 0 \<le> v \<and> v < 256 ^ n"

definition s64_fits :: "int \<Rightarrow> bool" where
  "s64_fits v \<longleftrightarrow> - (2 ^ 63) \<le> v \<and> v < 2 ^ 63"

lemma writeUIntBE_fits [buf_simps]:
  "u_fits n v \<Longrightarrow> n \<le> k \<Longrightarrow> writeUIntBE n (alloc k) v 0 = Inr (be_bytes n v @ alloc (k - n))"
  "length pre = off \<Longrightarrow> u_fits n v \<Longrightarrow> n \<le> k \<Longrightarrow>
   writeUIntBE n (pre @ alloc k) v off = Inr ((pre @ be_bytes n v) @ alloc (k - n))"
  by (simp_all add: u_fits_def writeUIntBE_alloc writeUIntBE_field del: append_assoc)

lemma readUIntBE_fits [buf_simps]:
  "u_fits n v \<Longrightarrow> readUIntBE n (be_bytes n v @ post) 0 = Inr v"
  "u_fits n v \<Longrightarrow> readUIntBE n (be_bytes n v) 0 = Inr v"
  by (simp_all add: u_fits_def readUIntBE_first readUIntBE_only)

lemma writeBigInt64BE_fits [buf_simps]:
  "s64_fits v \<Longrightarrow> 8 \<le> k \<Longrightarrow> writeBigInt64BE (alloc k) v 0 = Inr (be_bytes 8 v @ alloc (k - 8))"
  "length pre = off \<Longrightarrow> s64_fits v \<Longrightarrow> 8 \<le> k \<Longrightarrow>
   writeBigInt64BE (pre @ alloc k) v off = Inr ((pre @ be_bytes 8 v) @ alloc (k - 8))"
  by (simp_all add: s64_fits_def writeBigInt64BE_alloc writeBigInt64BE_field del: append_assoc)

lemma readBigInt64BE_fits [buf_simps]:
  "s64_fits v \<Longrightarrow> readBigInt64BE (be_bytes 8 v @ post) 0 = Inr v"
  "s64_fits v \<Longrightarrow> readBigInt64BE (be_bytes 8 v) 0 = Inr v"
  by (simp_all add: s64_fits_def readBigInt64BE_first readBigInt64BE_only)

lemma uint_word_of_int_fits [buf_simps]: "u_fits (Suc 0) v \<Longrightarrow> uint (word_of_int v :: byte) = v"
  by (simp add: u_fits_def uint_word_of_int_byte)

text \<open>\<^verbatim>\<open>writeUIntNNLE\<close> and \<^verbatim>\<open>readUIntNNLE\<close> for the witness data, which is in Bitcoin's byte order.\<close>

definition writeUIntLE :: "nat \<Rightarrow> bytes \<Rightarrow> int \<Rightarrow> nat \<Rightarrow> bytes res" where
  "writeUIntLE n buf v off =
     (if v < 0 \<or> 256 ^ n \<le> v \<or> length buf < off + n then Inl RangeError
      else Inr (copy_to (rev (be_bytes n v)) buf off))"

definition readUIntLE :: "nat \<Rightarrow> bytes \<Rightarrow> nat \<Rightarrow> int res" where
  "readUIntLE n data off =
     (if length data < off + n then Inl RangeError
      else Inr (be_val (rev (take n (drop off data)))))"

lemma writeUIntLE_fits [buf_simps]:
  "length pre = off \<Longrightarrow> u_fits n v \<Longrightarrow> n \<le> k \<Longrightarrow>
   writeUIntLE n (pre @ alloc k) v off = Inr ((pre @ rev (be_bytes n v)) @ alloc (k - n))"
  by (simp add: writeUIntLE_def u_fits_def copy_to_field del: append_assoc)

lemma readUIntLE_fits [buf_simps]:
  "u_fits n v \<Longrightarrow> length pre = off \<Longrightarrow> readUIntLE n (pre @ rev (be_bytes n v) @ post) off = Inr v"
  by (simp add: readUIntLE_def u_fits_def)

named_theorems fits_intros \<open>ranges of decoded fields\<close>

lemma readUIntBE_u_fits [fits_intros]: "readUIntBE n data off = Inr v \<Longrightarrow> u_fits n v"
  using readUIntBE_bounds by (simp add: u_fits_def)

lemma readBigInt64BE_s64_fits [fits_intros]: "readBigInt64BE data off = Inr v \<Longrightarrow> s64_fits v"
  using readBigInt64BE_bounds by (simp add: s64_fits_def)

lemma readUInt16_less: "readUInt16BE data off = Inr v \<Longrightarrow> nat v < 65536"
  using readUIntBE_bounds [of 2 data off v] by auto

lemma uint_u_fits [simp]: "u_fits (Suc 0) (uint (b :: byte))"
  by (simp add: u_fits_def)

lemma u_fits_length:
  "u_fits 2 (int (length x)) \<longleftrightarrow> length x < 65536"
  by (auto simp: u_fits_def)

lemma u_fits_nat [simp]: "u_fits n v \<Longrightarrow> int (nat v) = v"
  by (simp add: u_fits_def)

section \<open>The TLV tail\<close>

text \<open>\<^verbatim>\<open>for (const record of records) ...\<close> with a body that may throw.\<close>

fun for_each :: "('s \<Rightarrow> 'r \<Rightarrow> 's res) \<Rightarrow> 'r list \<Rightarrow> 's \<Rightarrow> 's res" where
  "for_each f [] s = Inr s"
| "for_each f (r # rs) s = rbind (f s r) (for_each f rs)"

lemma for_each_inv:
  assumes "for_each f rs s = Inr s'" "P s"
    and "\<And>s r s'. r \<in> set rs \<Longrightarrow> P s \<Longrightarrow> f s r = Inr s' \<Longrightarrow> P s'"
  shows "P s'"
  using assms by (induction rs arbitrary: s) (auto simp: rbind_eq_Inr)

text \<open>\<^verbatim>\<open>if (msg.x) records.push({ type, value: msg.x })\<close>; a \<open>Buffer\<close> is truthy, an absent field is
  not.\<close>

definition opt_rec :: "int \<Rightarrow> bytes option \<Rightarrow> ITlvRecord list" where
  "opt_rec t x = (case x of None \<Rightarrow> [] | Some v \<Rightarrow> [\<lparr>tlv_type = t, tlv_value = v\<rparr>])"

lemma opt_rec_None [simp]: "opt_rec t None = []"
  by (simp add: opt_rec_def)

lemma opt_rec_Some [simp]: "opt_rec t (Some v) = [\<lparr>tlv_type = t, tlv_value = v\<rparr>]"
  by (simp add: opt_rec_def)

text \<open>\<^verbatim>\<open>if (msg.x && msg.x.length !== n)\<close>, and the length its message interpolates.\<close>

definition bad_len :: "nat \<Rightarrow> bytes option \<Rightarrow> bool" where
  "bad_len n x = (case x of None \<Rightarrow> False | Some v \<Rightarrow> length v \<noteq> n)"

definition opt_len :: "bytes option \<Rightarrow> int" where
  "opt_len x = (case x of None \<Rightarrow> 0 | Some v \<Rightarrow> int (length v))"

definition opt_has_len :: "nat \<Rightarrow> bytes option \<Rightarrow> bool" where
  "opt_has_len n x = (case x of None \<Rightarrow> True | Some v \<Rightarrow> length v = n)"

lemma bad_len_iff [simp]: "bad_len n x \<longleftrightarrow> \<not> opt_has_len n x"
  by (simp add: bad_len_def opt_has_len_def split: option.splits)

lemma opt_has_len_simps [simp]: "opt_has_len n None" "opt_has_len n (Some v) \<longleftrightarrow> length v = n"
  by (simp_all add: opt_has_len_def)

text \<open>A value of unlimited length still has to fit a TLV record.\<close>

definition opt_tlv :: "bytes option \<Rightarrow> bool" where
  "opt_tlv x = (case x of None \<Rightarrow> True | Some v \<Rightarrow> int (length v) < 2 ^ 64)"

lemma opt_tlv_simps [simp]: "opt_tlv None" "opt_tlv (Some v) \<longleftrightarrow> int (length v) < 2 ^ 64"
  by (simp_all add: opt_tlv_def)

text \<open>\<^verbatim>\<open>if (records.length > 0) parts.push(encodeTlvStream(records)); return Buffer.concat(parts)\<close>.\<close>

definition tlv_tail :: "bytes \<Rightarrow> ITlvRecord list \<Rightarrow> bytes res" where
  "tlv_tail buf records =
     (if records = [] then Inr buf else rbind (encodeTlvStream records) (\<lambda>t. Inr (buf @ t)))"

text \<open>\<^verbatim>\<open>const { records } = decodeTlvStream(payload, offset, known);
  for (const record of records) body\<close>, and the same under \<^verbatim>\<open>if (offset < payload.length)\<close>.\<close>

definition decode_tlvs ::
    "bytes \<Rightarrow> nat \<Rightarrow> int set \<Rightarrow> ('s \<Rightarrow> ITlvRecord \<Rightarrow> 's res) \<Rightarrow> 's \<Rightarrow> 's res" where
  "decode_tlvs payload offset known body init =
     rbind (decodeTlvStream payload offset (Some known)) (\<lambda>r. for_each body (ts_records r) init)"

definition decode_tail ::
    "bytes \<Rightarrow> nat \<Rightarrow> int set \<Rightarrow> ('s \<Rightarrow> ITlvRecord \<Rightarrow> 's res) \<Rightarrow> 's \<Rightarrow> 's res" where
  "decode_tail payload offset known body init =
     (if offset < length payload then decode_tlvs payload offset known body init else Inr init)"

text \<open>The records of a message: ordered, of encodable size, and of known types.\<close>

definition tlv_ok :: "int set \<Rightarrow> ITlvRecord list \<Rightarrow> bool" where
  "tlv_ok known rs \<longleftrightarrow> sorted_wrt (<) (map tlv_type rs) \<and>
     (\<forall>r \<in> set rs. tlv_fits r \<and> tlv_known (Some known) r)"

abbreviation tlvs :: "ITlvRecord list \<Rightarrow> bytes" where
  "tlvs rs \<equiv> concat (map tlv_bytes rs)"

lemma tlv_tail_eq: "tlv_ok known rs \<Longrightarrow> tlv_tail buf rs = Inr (buf @ tlvs rs)"
  using encodeTlvStream_Inr_iff [of rs "tlvs rs"]
  by (simp add: tlv_tail_def tlv_ok_def)

lemma tlv_record_eq: "tlv_fits r \<Longrightarrow> encodeTlvRecord r = Inr (tlv_bytes r)"
  by (simp add: encodeTlvRecord_Inr_iff)

lemma tlv_stream_eq: "tlv_ok known rs \<Longrightarrow> encodeTlvStream rs = Inr (tlvs rs)"
  by (simp add: encodeTlvStream_Inr_iff tlv_ok_def)

lemma decode_stream_eq:
  assumes "tlv_ok known rs" "length pre = off"
  shows "decodeTlvStream (pre @ tlvs rs) off (Some known) =
    Inr \<lparr>ts_records = rs, ts_bytesRead = length (tlvs rs)\<rparr>"
  using assms decodeTlvStream_encoded [OF tlv_stream_eq [OF assms(1)], of "Some known" pre off]
  by (simp add: tlv_ok_def)

lemma decode_tlvs_eq:
  assumes "tlv_ok known rs" "length pre = off"
  shows "decode_tlvs (pre @ tlvs rs) off known body init = for_each body rs init"
  using assms by (simp add: decode_tlvs_def decode_stream_eq)

lemma decode_tail_eq:
  assumes "tlv_ok known rs" "length pre = off"
  shows "decode_tail (pre @ tlvs rs) off known body init = for_each body rs init"
proof (cases rs)
  case Nil
  then show ?thesis using assms by (simp add: decode_tail_def)
next
  case (Cons r rs')
  then have "0 < length (tlvs rs)" using length_tlv_bytes_pos [of r] by simp
  then show ?thesis
    using assms by (simp add: decode_tail_def decode_tlvs_eq)
qed

text \<open>What every decoded record preserves holds of the result; a decoded record fits the wire.\<close>

lemma decode_tlvs_inv:
  assumes "decode_tlvs payload off known body init = Inr s" "off \<le> length payload" "P init"
    and "\<And>s r s'. tlv_fits r \<Longrightarrow> P s \<Longrightarrow> body s r = Inr s' \<Longrightarrow> P s'"
  shows "P s"
proof -
  from assms(1) obtain res where res: "decodeTlvStream payload off (Some known) = Inr res"
    "for_each body (ts_records res) init = Inr s"
    by (auto simp: decode_tlvs_def rbind_eq_Inr)
  have "encodeTlvStream (ts_records res) = Inr (drop off payload)"
    using decodeTlvStream_sound [OF res(1) assms(2)] by simp
  then have "\<forall>r \<in> set (ts_records res). tlv_fits r" by (simp add: encodeTlvStream_Inr_iff)
  with for_each_inv [OF res(2), of P] assms(3,4) show ?thesis by blast
qed

lemma decode_tail_inv:
  assumes "decode_tail payload off known body init = Inr s" "P init"
    and "\<And>s r s'. tlv_fits r \<Longrightarrow> P s \<Longrightarrow> body s r = Inr s' \<Longrightarrow> P s'"
  shows "P s"
proof (cases "off < length payload")
  case True
  then show ?thesis
    using decode_tlvs_inv [of payload off known body init s P] assms by (simp add: decode_tail_def)
next
  case False
  with assms show ?thesis by (simp add: decode_tail_def)
qed

lemma tlv_ok_Nil [simp]: "tlv_ok known []"
  by (simp add: tlv_ok_def)

lemma tlv_ok_Cons:
  "tlv_ok known (r # rs) \<longleftrightarrow> tlv_fits r \<and> tlv_known (Some known) r \<and>
     (\<forall>r' \<in> set rs. tlv_type r < tlv_type r') \<and> tlv_ok known rs"
  by (auto simp: tlv_ok_def)

lemma sort_tlvs [simp]: "sorted_wrt (<) (map tlv_type rs) \<Longrightarrow> sort_key tlv_type rs = rs"
  by (intro sort_key_id_if_sorted strict_sorted_imp_sorted)

lemmas tlv_simps = tlv_ok_Cons tlv_fits_def opt_rec_def

section \<open>The contract of a message codec\<close>

text \<open>
  \<open>wf\<close> says which messages the wire can carry: the lengths and ranges of the fields. The encoder
  accepts every one of them and the decoder inverts it.
\<close>

locale wire_encoder =
  fixes enc :: "'m \<Rightarrow> bytes res" and dec :: "bytes \<Rightarrow> 'm res" and wf :: "'m \<Rightarrow> bool"
  assumes roundtrip: "wf m \<Longrightarrow> \<exists>b. enc m = Inr b \<and> dec b = Inr m"
begin

lemma dec_enc: "wf m \<Longrightarrow> enc m = Inr b \<Longrightarrow> dec b = Inr m"
  using roundtrip [of m] by auto

lemma enc_injective:
  assumes "wf m" "wf m'" "enc m = enc m'"
  shows "m = m'"
proof -
  obtain b where "enc m = Inr b" "dec b = Inr m" using roundtrip [OF assms(1)] by blast
  moreover have "enc m' = Inr b" using \<open>enc m = Inr b\<close> assms(3) by metis
  then have "dec b = Inr m'" by (rule dec_enc [OF assms(2)])
  ultimately show ?thesis by simp
qed

text \<open>Through the two-byte message header.\<close>

lemma framed_roundtrip:
  assumes "wf m" "0 \<le> t" "t < 65536"
  shows "rbind (rbind (enc m) (encodeMessage t)) (\<lambda>wire. rbind (decodeMessage wire) (\<lambda>d.
    rbind (dec (dm_payload d)) (\<lambda>m'. Inr (dm_type d, m')))) = Inr (t, m)"
proof -
  obtain b where b: "enc m = Inr b" "dec b = Inr m" using roundtrip [OF assms(1)] by blast
  have "encodeMessage t b = Inr (be_bytes 2 t @ b)"
    "decodeMessage (be_bytes 2 t @ b) = Inr \<lparr>dm_type = t, dm_payload = b\<rparr>"
    using assms(2,3) by (simp_all add: encodeMessage_def decodeMessage_def buf_simps)
  then show ?thesis by (simp add: b)
qed

end

text \<open>A codec whose decoder returns only messages its encoder accepts: re-encoding what was received
  gives a payload that decodes to the same message.\<close>

locale wire_codec = wire_encoder +
  assumes dec_wf: "dec b = Inr m \<Longrightarrow> wf m"
begin

lemma reencode: "dec b = Inr m \<Longrightarrow> \<exists>b'. enc m = Inr b' \<and> dec b' = Inr m"
  by (rule roundtrip [OF dec_wf])

end

end
