(* ===== verification/Quiescence.thy ===== *)
theory Quiescence
  imports Wire
begin

text \<open>
  The stfu handshake: \<^verbatim>\<open>src/lightning/channel/quiescence.ts\<close> and the part of the channel that drives it
  (\<^verbatim>\<open>initiateQuiescence\<close>, \<^verbatim>\<open>handleStfuMessage\<close>, \<^verbatim>\<open>_maybeAnswerOwedStfu\<close>, \<^verbatim>\<open>exitQuiescence\<close> of
  \<^verbatim>\<open>src/lightning/channel/channel.ts\<close>). The manager is a record with the class's two fields. An endpoint
  adds the channel fields the handshake reads: the role and the owed reply. Two endpoints joined by
  two FIFO queues of stfu messages make the system whose step relation the properties are about.
\<close>

section \<open>Definitions\<close>

subsection \<open>The manager\<close>

datatype QuiescenceState = NORMAL | SENT_STFU | RECEIVED_STFU | QUIESCENT

record QuiescenceManager =
  qstate :: QuiescenceState
  initiator_flag :: bool

definition newQuiescenceManager :: QuiescenceManager where
  "newQuiescenceManager = \<lparr>qstate = NORMAL, initiator_flag = False\<rparr>"

definition isQuiescent :: "QuiescenceManager \<Rightarrow> bool" where
  "isQuiescent q \<longleftrightarrow> qstate q = QUIESCENT"

definition isQuiescing :: "QuiescenceManager \<Rightarrow> bool" where
  "isQuiescing q \<longleftrightarrow> qstate q \<noteq> NORMAL"

definition peerHasSentStfu :: "QuiescenceManager \<Rightarrow> bool" where
  "peerHasSentStfu q \<longleftrightarrow> qstate q = RECEIVED_STFU \<or> qstate q = QUIESCENT"

definition isInitiator :: "QuiescenceManager \<Rightarrow> bool" where
  "isInitiator q = initiator_flag q"

definition initiate :: "QuiescenceManager \<Rightarrow> bool \<times> QuiescenceManager" where
  "initiate q =
     (if qstate q \<noteq> NORMAL then (False, q)
      else (True, q\<lparr>qstate := SENT_STFU, initiator_flag := True\<rparr>))"

record StfuResult =
  shouldRespond :: bool
  stfu_error :: "string option"

definition handlePeerStfu ::
  "bool \<Rightarrow> bool \<Rightarrow> QuiescenceManager \<Rightarrow> StfuResult \<times> QuiescenceManager" where
  "handlePeerStfu peerInitiator localIsOpener q =
     (case qstate q of
        NORMAL \<Rightarrow>
          (\<lparr>shouldRespond = True, stfu_error = None\<rparr>,
           q\<lparr>qstate := RECEIVED_STFU, initiator_flag := False\<rparr>)
      | SENT_STFU \<Rightarrow>
          (\<lparr>shouldRespond = False, stfu_error = None\<rparr>,
           (let q' = q\<lparr>qstate := QUIESCENT\<rparr>
            in if peerInitiator then q'\<lparr>initiator_flag := localIsOpener\<rparr> else q'))
      | _ \<Rightarrow>
          (\<lparr>shouldRespond = False, stfu_error = Some ''Unexpected STFU in current state''\<rparr>, q))"

definition completeHandshake :: "QuiescenceManager \<Rightarrow> QuiescenceManager" where
  "completeHandshake q = (if qstate q = RECEIVED_STFU then q\<lparr>qstate := QUIESCENT\<rparr> else q)"

definition exitQuiescence :: "QuiescenceManager \<Rightarrow> bool \<times> QuiescenceManager" where
  "exitQuiescence q =
     (if qstate q \<noteq> QUIESCENT then (False, q)
      else (True, q\<lparr>qstate := NORMAL, initiator_flag := False\<rparr>))"

definition reset :: "QuiescenceManager \<Rightarrow> QuiescenceManager" where
  "reset q = q\<lparr>qstate := NORMAL, initiator_flag := False\<rparr>"

subsection \<open>The channel's handshake\<close>

text \<open>
  One endpoint of the channel: the manager, whether the role is the opener, and the owed reply. A
  handler returns the endpoint, the initiator flags of the stfu messages it sends, and the messages
  of the ERROR actions it returns. The state test, the fast-forward refusal (the message of
  \<^verbatim>\<open>_fforUpdateRefusal\<close>, on a peer stfu the text the channel is failed with) and the pending-update
  test of the channel are inputs. The follow-up actions of \<^verbatim>\<open>handleStfuMessage\<close> for a parked splice,
  conflict revert or ff_activate read the result and are not part of the handshake.
\<close>

record endpoint =
  mgr :: QuiescenceManager
  opener :: bool
  stfuReplyOwed :: bool
  fforStfuReplyStale :: bool

type_synonym stfu_result = "endpoint \<times> bool list \<times> string list"

definition initiateQuiescence ::
  "bool \<Rightarrow> string option \<Rightarrow> bool \<Rightarrow> endpoint \<Rightarrow> stfu_result" where
  "initiateQuiescence normalState refusal pending e =
     (if \<not> normalState then (e, [], [''Cannot quiesce: channel not in NORMAL state''])
      else if refusal \<noteq> None then (e, [], [''Cannot quiesce: '' @ the refusal])
      else if pending then (e, [], [''Cannot quiesce: pending HTLCs exist''])
      else case initiate (mgr e) of
        (False, q) \<Rightarrow> (e\<lparr>mgr := q\<rparr>, [], [''Cannot quiesce: already quiescing''])
      | (True, q) \<Rightarrow> (e\<lparr>mgr := q\<rparr>, [True], []))"

definition handleStfuMessage ::
  "bool \<Rightarrow> string option \<Rightarrow> bool \<Rightarrow> bool \<Rightarrow> endpoint \<Rightarrow> stfu_result" where
  "handleStfuMessage admits refusal pending msg_initiator e =
     (if fforStfuReplyStale e \<and> \<not> msg_initiator then (e\<lparr>fforStfuReplyStale := False\<rparr>, [], [])
      else if \<not> admits then (e, [], [''Unexpected STFU: channel not in NORMAL state''])
      else if refusal \<noteq> None then (e, [], [the refusal])
      else if pending then
        (if qstate (mgr e) \<noteq> NORMAL then (e, [], [''Cannot accept STFU: pending HTLCs exist''])
         else case handlePeerStfu msg_initiator (opener e) (mgr e) of (r, q) \<Rightarrow>
           (case stfu_error r of
              Some err \<Rightarrow> (e\<lparr>mgr := q\<rparr>, [], [err])
            | None \<Rightarrow> (e\<lparr>mgr := q, stfuReplyOwed := True\<rparr>, [], [])))
      else case handlePeerStfu msg_initiator (opener e) (mgr e) of (r, q) \<Rightarrow>
        (case stfu_error r of
           Some err \<Rightarrow> (e\<lparr>mgr := q\<rparr>, [], [err])
         | None \<Rightarrow>
             (if shouldRespond r then (e\<lparr>mgr := completeHandshake q\<rparr>, [False], [])
              else (e\<lparr>mgr := q\<rparr>, [], []))))"

definition maybeAnswerOwedStfu :: "bool \<Rightarrow> bool \<Rightarrow> endpoint \<Rightarrow> stfu_result" where
  "maybeAnswerOwedStfu admits pending e =
     (if \<not> stfuReplyOwed e then (e, [], [])
      else if \<not> admits then (e, [], [])
      else if pending then (e, [], [])
      else (e\<lparr>stfuReplyOwed := False, mgr := completeHandshake (mgr e)\<rparr>, [False], []))"

definition channelExitQuiescence :: "endpoint \<Rightarrow> stfu_result" where
  "channelExitQuiescence e =
     (case exitQuiescence (mgr e) of
        (False, q) \<Rightarrow> (e\<lparr>mgr := q\<rparr>, [], [''Cannot exit quiescence: not quiescent''])
      | (True, q) \<Rightarrow> (e\<lparr>mgr := q\<rparr>, [], []))"

definition resetOnDisconnect :: "endpoint \<Rightarrow> endpoint" where
  "resetOnDisconnect e = e\<lparr>mgr := reset (mgr e), stfuReplyOwed := False, fforStfuReplyStale := False\<rparr>"

subsection \<open>Two endpoints\<close>

text \<open>
  The two ends of one channel, the stfu messages in flight in each direction (the transport keeps
  their order), the errors a peer's stfu was refused with and whether an end has left a session,
  both since the last disconnect. A step is a call of \<^verbatim>\<open>initiateQuiescence\<close> or
  \<^verbatim>\<open>exitQuiescence\<close> on one end, which may fail and then reports to its caller, the delivery of the
  oldest message, an attempt to answer a latched stfu, or a disconnect, which loses what is in flight.
  The channel state, the fast-forward refusal and whether updates are pending are up to the
  environment in every step. A fast-forward abort, which alone marks an awaited reply as stale, is
  no step of this system.
\<close>

record stfu_sys =
  left_end :: endpoint
  right_end :: endpoint
  to_right :: "bool list"
  to_left :: "bool list"
  refused :: "string list"
  exited :: bool

definition mirror :: "stfu_sys \<Rightarrow> stfu_sys" where
  "mirror s = \<lparr>left_end = right_end s, right_end = left_end s, to_right = to_left s,
     to_left = to_right s, refused = refused s, exited = exited s\<rparr>"

definition newEndpoint :: "bool \<Rightarrow> endpoint" where
  "newEndpoint isOpener = \<lparr>mgr = newQuiescenceManager, opener = isOpener, stfuReplyOwed = False,
     fforStfuReplyStale = False\<rparr>"

definition stfu_start :: "bool \<Rightarrow> stfu_sys" where
  "stfu_start leftOpens = \<lparr>left_end = newEndpoint leftOpens, right_end = newEndpoint (\<not> leftOpens),
     to_right = [], to_left = [], refused = [], exited = False\<rparr>"

fun left_outcome :: "stfu_result \<Rightarrow> stfu_sys \<Rightarrow> stfu_sys" where
  "left_outcome (e, sent, errs) s = s\<lparr>left_end := e, to_right := to_right s @ sent\<rparr>"

fun left_delivery :: "stfu_result \<Rightarrow> stfu_sys \<Rightarrow> stfu_sys" where
  "left_delivery (e, sent, errs) s =
     s\<lparr>left_end := e, to_right := to_right s @ sent, refused := refused s @ errs\<rparr>"

inductive left_step :: "stfu_sys \<Rightarrow> stfu_sys \<Rightarrow> bool" where
  initiates: "left_step s (left_outcome (initiateQuiescence normalState refusal pending (left_end s)) s)"
| receives: "to_left s = m # ms \<Longrightarrow>
    left_step s (left_delivery (handleStfuMessage admits refusal pending m (left_end s)) (s\<lparr>to_left := ms\<rparr>))"
| answers: "left_step s (left_outcome (maybeAnswerOwedStfu admits pending (left_end s)) s)"
| exits: "left_step s ((left_outcome (channelExitQuiescence (left_end s)) s)
    \<lparr>exited := exited s \<or> isQuiescent (mgr (left_end s))\<rparr>)"
| disconnects: "left_step s (s\<lparr>left_end := resetOnDisconnect (left_end s),
    right_end := resetOnDisconnect (right_end s), to_right := [], to_left := [], refused := [],
    exited := False\<rparr>)"

inductive stfu_step :: "stfu_sys \<Rightarrow> stfu_sys \<Rightarrow> bool" where
  left: "left_step s t \<Longrightarrow> stfu_step s t"
| right: "left_step (mirror s) (mirror t) \<Longrightarrow> stfu_step s t"

inductive stfu_reachable :: "bool \<Rightarrow> stfu_sys \<Rightarrow> bool" for leftOpens where
  start: "stfu_reachable leftOpens (stfu_start leftOpens)"
| step: "stfu_reachable leftOpens s \<Longrightarrow> stfu_step s t \<Longrightarrow> stfu_reachable leftOpens t"

section \<open>The invariant\<close>

text \<open>
  The joint states of the two ends, up to their exchange: the end under consideration, its peer,
  what is in flight to each of them, whether no stfu was refused and whether an end has left a
  session. The states below \<^verbatim>\<open>agreed\<close> arise when one end leaves a session its peer is still in, the last
  four when an stfu is refused.
\<close>

definition ep :: "QuiescenceState \<Rightarrow> bool \<Rightarrow> bool \<Rightarrow> bool \<Rightarrow> endpoint" where
  "ep st ini isOpener owed = \<lparr>mgr = \<lparr>qstate = st, initiator_flag = ini\<rparr>, opener = isOpener,
     stfuReplyOwed = owed, fforStfuReplyStale = False\<rparr>"

inductive phase ::
  "bool \<Rightarrow> endpoint \<Rightarrow> endpoint \<Rightarrow> bool list \<Rightarrow> bool list \<Rightarrow> bool \<Rightarrow> bool \<Rightarrow> bool" for r where
  idle: "phase r (ep NORMAL False r False) (ep NORMAL False (\<not> r) False) [] [] True x"
| opened: "phase r (ep SENT_STFU True r False) (ep NORMAL False (\<not> r) False) [] [True] True x"
| crossed: "phase r (ep SENT_STFU True r False) (ep SENT_STFU True (\<not> r) False) [True] [True] True x"
| latched: "phase r (ep SENT_STFU True r False) (ep RECEIVED_STFU False (\<not> r) True) [] [] True x"
| replied: "phase r (ep SENT_STFU True r False) (ep QUIESCENT False (\<not> r) False) [False] [] True x"
| broken: "phase r (ep SENT_STFU True r False) (ep QUIESCENT (\<not> r) (\<not> r) False) [True] [] True x"
| agreed: "phase r (ep QUIESCENT i r False) (ep QUIESCENT (\<not> i) (\<not> r) False) [] [] True x"
| alone: "phase r (ep QUIESCENT i r False) (ep NORMAL False (\<not> r) False) [] [] True True"
| reply_exited: "phase r (ep SENT_STFU True r False) (ep NORMAL False (\<not> r) False) [False] [] True True"
| broken_exited: "phase r (ep SENT_STFU True r False) (ep NORMAL False (\<not> r) False) [True] [] True True"
| stale: "phase r (ep SENT_STFU True r False) (ep QUIESCENT i (\<not> r) False) [] [True] True True"
| re_replied: "phase r (ep SENT_STFU True r False) (ep SENT_STFU True (\<not> r) False) [False, True] [] True True"
| re_crossed: "phase r (ep SENT_STFU True r False) (ep SENT_STFU True (\<not> r) False) [True, True] [] True True"
| refused_open: "phase r (ep SENT_STFU True r False) (ep NORMAL False (\<not> r) False) [] [] False x"
| refused_crossed: "phase r (ep SENT_STFU True r False) (ep SENT_STFU True (\<not> r) False) [] [True] False x"
| refused_reply: "phase r (ep SENT_STFU True r False) (ep QUIESCENT i (\<not> r) False) [] [] False x"
| refused_both: "phase r (ep SENT_STFU True r False) (ep SENT_STFU True (\<not> r) False) [] [] False x"

definition joint ::
  "bool \<Rightarrow> endpoint \<Rightarrow> endpoint \<Rightarrow> bool list \<Rightarrow> bool list \<Rightarrow> bool \<Rightarrow> bool \<Rightarrow> bool" where
  "joint r a b qa qb ok x \<longleftrightarrow> phase r a b qa qb ok x \<or> phase (\<not> r) b a qb qa ok x"

definition stfu_inv :: "bool \<Rightarrow> stfu_sys \<Rightarrow> bool" where
  "stfu_inv r s \<longleftrightarrow>
     joint r (left_end s) (right_end s) (to_left s) (to_right s) (refused s = []) (exited s)"

lemmas manager_defs = isQuiescent_def isQuiescing_def peerHasSentStfu_def isInitiator_def
  initiate_def handlePeerStfu_def completeHandshake_def exitQuiescence_def reset_def

lemmas handshake_defs = initiateQuiescence_def handleStfuMessage_def maybeAnswerOwedStfu_def
  channelExitQuiescence_def resetOnDisconnect_def

lemma ep_sel [simp]:
  "qstate (mgr (ep st i r w)) = st" "isInitiator (mgr (ep st i r w)) = i" "opener (ep st i r w) = r"
  "stfuReplyOwed (ep st i r w) = w"
  by (simp_all add: ep_def isInitiator_def)

lemma ep_inject [simp]: "ep st i r w = ep st' i' r' w' \<longleftrightarrow> st = st' \<and> i = i' \<and> r = r' \<and> w = w'"
  by (auto simp: ep_def)

lemma ep_initiate:
  "initiateQuiescence normalState refusal pending (ep st i r w) = (a, sent, errs) \<Longrightarrow>
     a = ep st i r w \<and> sent = [] \<or> st = NORMAL \<and> a = ep SENT_STFU True r w \<and> sent = [True]"
  by (auto simp: handshake_defs manager_defs ep_def split: if_splits)

lemma ep_receive:
  "handleStfuMessage admits refusal pending m (ep st i r w) = (a, sent, errs) \<Longrightarrow>
     a = ep st i r w \<and> sent = [] \<and> errs \<noteq> []
   \<or> st = NORMAL \<and> a = ep RECEIVED_STFU False r True \<and> sent = [] \<and> errs = []
   \<or> st = NORMAL \<and> a = ep QUIESCENT False r w \<and> sent = [False] \<and> errs = []
   \<or> st = SENT_STFU \<and> a = ep QUIESCENT (if m then r else i) r w \<and> sent = [] \<and> errs = []"
  by (auto simp: handshake_defs manager_defs ep_def Let_def split: if_splits QuiescenceState.splits)

lemma ep_answer:
  "maybeAnswerOwedStfu admits pending (ep st i r w) = (a, sent, errs) \<Longrightarrow>
     a = ep st i r w \<and> sent = []
   \<or> w \<and> a = ep (if st = RECEIVED_STFU then QUIESCENT else st) i r False \<and> sent = [False]"
  by (auto simp: handshake_defs manager_defs ep_def split: if_splits)

lemma ep_exit:
  "channelExitQuiescence (ep st i r w) =
     (if st = QUIESCENT then (ep NORMAL False r w, [], [])
      else (ep st i r w, [], [''Cannot exit quiescence: not quiescent'']))"
  by (simp add: handshake_defs manager_defs ep_def)

lemma ep_reset: "resetOnDisconnect (ep st i r w) = ep NORMAL False r False"
  by (simp add: handshake_defs manager_defs ep_def)

lemma jointE:
  assumes "joint r a b qa qb ok x"
  obtains "phase r a b qa qb ok x" | "phase (\<not> r) b a qb qa ok x"
  using assms by (auto simp: joint_def)

lemma joint_swap: "joint (\<not> r) b a qb qa ok x = joint r a b qa qb ok x"
  by (auto simp: joint_def)

lemma jointI1: "phase r a b qa qb ok x \<Longrightarrow> joint r a b qa qb ok x"
  by (simp add: joint_def)

lemma jointI2: "phase (\<not> r) b a qb qa ok x \<Longrightarrow> joint r a b qa qb ok x"
  by (simp add: joint_def)

lemmas joint_phases = phase.intros [THEN jointI1] phase.intros [THEN jointI2, simplified]
  phase.agreed [of _ True, THEN jointI1, simplified] phase.agreed [of _ False, THEN jointI1, simplified]
  phase.agreed [of _ "\<not> i" for i, THEN jointI1, simplified]

lemma joint_initiate:
  assumes "joint r a b qa qb ok x" "initiateQuiescence normalState refusal pending a = (a', sent, errs)"
  shows "joint r a' b qa (qb @ sent) ok x"
  using assms
  by (elim jointE phase.cases) (auto intro: joint_phases dest!: ep_initiate)

lemma joint_receive:
  assumes "joint r a b (m # ms) qb ok x" "handleStfuMessage admits refusal pending m a = (a', sent, errs)"
  shows "joint r a' b ms (qb @ sent) (ok \<and> errs = []) x"
  using assms
  by (elim jointE phase.cases) (auto intro: joint_phases dest!: ep_receive)

lemma joint_answer:
  assumes "joint r a b qa qb ok x" "maybeAnswerOwedStfu admits pending a = (a', sent, errs)"
  shows "joint r a' b qa (qb @ sent) ok x"
  using assms
  by (elim jointE phase.cases) (auto intro: joint_phases dest!: ep_answer)

lemma joint_exit:
  assumes "joint r a b qa qb ok x" "channelExitQuiescence a = (a', sent, errs)"
  shows "joint r a' b qa (qb @ sent) ok (x \<or> isQuiescent (mgr a))"
  using assms
  by (elim jointE phase.cases; clarsimp simp: ep_exit isQuiescent_def split: if_splits)
    (auto intro: joint_phases)

lemma joint_reset:
  assumes "joint r a b qa qb ok x"
  shows "joint r (resetOnDisconnect a) (resetOnDisconnect b) [] [] True False"
  using assms
  by (elim jointE phase.cases) (auto simp: ep_reset intro: joint_phases)

lemma left_step_inv:
  assumes "left_step s t" "stfu_inv r s"
  shows "stfu_inv r t"
proof -
  note j = assms(2) [unfolded stfu_inv_def]
  from assms(1) show ?thesis
  proof (cases rule: left_step.cases)
    case (initiates normalState refusal pending)
    then show ?thesis
      using joint_initiate [OF j, of normalState refusal pending]
      by (cases "initiateQuiescence normalState refusal pending (left_end s)") (simp add: stfu_inv_def)
  next
    case (receives m ms admits refusal pending)
    then show ?thesis
      using joint_receive [OF j [unfolded receives(2)], of admits refusal pending]
      by (cases "handleStfuMessage admits refusal pending m (left_end s)") (simp add: stfu_inv_def)
  next
    case (answers admits pending)
    then show ?thesis
      using joint_answer [OF j, of admits pending]
      by (cases "maybeAnswerOwedStfu admits pending (left_end s)") (simp add: stfu_inv_def)
  next
    case exits
    then show ?thesis
      using joint_exit [OF j] by (cases "channelExitQuiescence (left_end s)") (simp add: stfu_inv_def)
  next
    case disconnects
    then show ?thesis using joint_reset [OF j] by (simp add: stfu_inv_def)
  qed
qed

lemma mirror_mirror [simp]: "mirror (mirror s) = s"
  by (simp add: mirror_def)

lemma stfu_inv_mirror: "stfu_inv r (mirror s) = stfu_inv (\<not> r) s"
  by (simp add: stfu_inv_def mirror_def joint_swap [of "\<not> r", simplified])

lemma stfu_step_inv: "stfu_step s t \<Longrightarrow> stfu_inv r s \<Longrightarrow> stfu_inv r t"
  using left_step_inv [of s t r] left_step_inv [of "mirror s" "mirror t" "\<not> r"]
  by (auto elim!: stfu_step.cases simp: stfu_inv_mirror)

lemma stfu_reachable_inv: "stfu_reachable r s \<Longrightarrow> stfu_inv r s"
proof (induction rule: stfu_reachable.induct)
  case start
  have "phase r (newEndpoint r) (newEndpoint (\<not> r)) [] [] True False"
    using phase.idle [of r False] by (simp add: newEndpoint_def newQuiescenceManager_def ep_def)
  then show ?case by (simp add: stfu_inv_def stfu_start_def joint_def)
next
  case (step s t)
  then show ?case by (blast intro: stfu_step_inv)
qed

lemma left_initiatesI:
  "initiateQuiescence True None False (left_end s) = r \<Longrightarrow> t = left_outcome r s \<Longrightarrow> left_step s t"
  by (metis left_step.initiates)

lemma left_receivesI:
  "to_left s = m # ms \<Longrightarrow> handleStfuMessage True None False m (left_end s) = r \<Longrightarrow>
    t = left_delivery r (s\<lparr>to_left := ms\<rparr>) \<Longrightarrow> left_step s t"
  by (metis left_step.receives)

text \<open>
  A run in which the two initiations cross: the ends start, both initiate, and each receives the
  other's stfu.
\<close>

definition stfu_crossed :: stfu_sys where
  "stfu_crossed = \<lparr>left_end = ep QUIESCENT True True False, right_end = ep QUIESCENT False False False,
     to_right = [], to_left = [], refused = [], exited = False\<rparr>"

lemma stfu_crossed_run: "stfu_reachable True stfu_crossed"
proof -
  let ?s = "\<lambda>a b x y. \<lparr>left_end = a, right_end = b, to_right = x, to_left = y, refused = [], exited = False\<rparr>"
  have n: "newEndpoint r = ep NORMAL False r False" for r
    by (simp add: newEndpoint_def newQuiescenceManager_def ep_def)
  have i: "initiateQuiescence True None False (ep NORMAL False r False) = (ep SENT_STFU True r False, [True], [])"
    and h: "handleStfuMessage True None False True (ep SENT_STFU True r False) = (ep QUIESCENT r r False, [], [])" for r
    by (simp_all add: handshake_defs manager_defs ep_def Let_def)
  have 0: "stfu_reachable True (?s (ep NORMAL False True False) (ep NORMAL False False False) [] [])"
    using stfu_reachable.start [of True] by (simp add: stfu_start_def n)
  have 1: "stfu_reachable True (?s (ep SENT_STFU True True False) (ep NORMAL False False False) [True] [])"
    by (rule stfu_reachable.step [OF 0], rule stfu_step.left, rule left_initiatesI, (simp add: i)+)
  have 2: "stfu_reachable True (?s (ep SENT_STFU True True False) (ep SENT_STFU True False False) [True] [True])"
    by (rule stfu_reachable.step [OF 1], rule stfu_step.right, rule left_initiatesI, (simp add: i mirror_def)+)
  have 3: "stfu_reachable True (?s (ep QUIESCENT True True False) (ep SENT_STFU True False False) [True] [])"
    by (rule stfu_reachable.step [OF 2], rule stfu_step.left, rule left_receivesI, (simp add: h)+)
  have 4: "stfu_reachable True (?s (ep QUIESCENT True True False) (ep QUIESCENT False False False) [] [])"
    by (rule stfu_reachable.step [OF 3], rule stfu_step.right, rule left_receivesI, (simp add: h mirror_def)+)
  then show ?thesis by (simp add: stfu_crossed_def)
qed

section \<open>Properties\<close>

text \<open>C8: whatever the two ends do, whatever their channel states, refusals and pending updates are,
  and however their stfu messages cross, two quiescent ends never both believe they are the session
  initiator nor both believe they are not, and no stfu was refused since the last disconnect. Once
  nothing is in flight, no reply is owed and no stfu was refused, neither end is left half way through
  the handshake, and unless one of them left a session the two agree on whether the channel is
  quiescent.\<close>

theorem quiescence_agreement:
  assumes "stfu_reachable leftOpens s"
  shows "(isQuiescent (mgr (left_end s)) \<and> isQuiescent (mgr (right_end s)) \<longrightarrow>
            isInitiator (mgr (left_end s)) \<noteq> isInitiator (mgr (right_end s)) \<and> refused s = [])
    \<and> (refused s = [] \<and> to_left s = [] \<and> to_right s = [] \<and>
       \<not> stfuReplyOwed (left_end s) \<and> \<not> stfuReplyOwed (right_end s) \<longrightarrow>
         (isQuiescing (mgr (left_end s)) \<longrightarrow> isQuiescent (mgr (left_end s))) \<and>
         (isQuiescing (mgr (right_end s)) \<longrightarrow> isQuiescent (mgr (right_end s))) \<and>
         (\<not> exited s \<longrightarrow> isQuiescent (mgr (left_end s)) = isQuiescent (mgr (right_end s))))"
proof -
  have "joint leftOpens (left_end s) (right_end s) (to_left s) (to_right s) (refused s = []) (exited s)"
    using stfu_reachable_inv [OF assms] by (simp add: stfu_inv_def)
  then show ?thesis
    by (elim jointE phase.cases) (simp_all add: isQuiescent_def isQuiescing_def)
qed

theorem quiescence_agreement_witness:
  "stfu_reachable True stfu_crossed \<and> isQuiescent (mgr (left_end stfu_crossed)) \<and>
     isQuiescent (mgr (right_end stfu_crossed)) \<and>
     isInitiator (mgr (left_end stfu_crossed)) \<noteq> isInitiator (mgr (right_end stfu_crossed))"
proof -
  have "isQuiescent (mgr (left_end stfu_crossed))" "isQuiescent (mgr (right_end stfu_crossed))"
    by (simp_all add: stfu_crossed_def isQuiescent_def)
  then show ?thesis using quiescence_agreement [OF stfu_crossed_run] stfu_crossed_run by blast
qed

end
