(* ===== verification/Features.thy ===== *)
theory Features
  imports Wire
begin

text \<open>
  BOLT 9 feature flags: \<^verbatim>\<open>src/lightning/features/flags.ts\<close>. A \<open>FeatureFlags\<close> object is its one field,
  the big-endian byte buffer. The lemmas read the buffer as a set of bit positions: every method is
  the corresponding operation on that set, and the trimmed serialization is a canonical form.
\<close>

unbundle bit_operations_syntax

section \<open>Definitions\<close>

datatype Feature =
    DATA_LOSS_PROTECT
  | UPFRONT_SHUTDOWN_SCRIPT
  | GOSSIP_QUERIES
  | TLV_ONION
  | GOSSIP_QUERIES_EX
  | STATIC_REMOTE_KEY
  | PAYMENT_SECRET
  | BASIC_MPP
  | LARGE_CHANNELS
  | ANCHOR_OUTPUTS
  | ANCHOR_ZERO_FEE_HTLC
  | ROUTE_BLINDING
  | SHUTDOWN_ANY_SEGWIT
  | DUAL_FUND
  | ONION_MESSAGES
  | PROVIDE_STORAGE
  | QUIESCE
  | CHANNEL_TYPE
  | SCID_ALIAS
  | ZERO_CONF
  | KEYSEND
  | SIMPLE_CLOSE
  | SPLICE
  | OPTION_ZERO_RESERVE
  | OPTION_TAPROOT
  | OPTION_WILL_FUND
  | ASYNC_RECEIVE_SERVICE
  | OPTION_FF_RECEIVE
  | OPTION_FF_CONCURRENT
  | OPTION_COMPOSITE_SPLICE_INPUTS

fun featureBit :: "Feature \<Rightarrow> int" where
  "featureBit DATA_LOSS_PROTECT = 0"
| "featureBit UPFRONT_SHUTDOWN_SCRIPT = 4"
| "featureBit GOSSIP_QUERIES = 6"
| "featureBit TLV_ONION = 8"
| "featureBit GOSSIP_QUERIES_EX = 10"
| "featureBit STATIC_REMOTE_KEY = 12"
| "featureBit PAYMENT_SECRET = 14"
| "featureBit BASIC_MPP = 16"
| "featureBit LARGE_CHANNELS = 18"
| "featureBit ANCHOR_OUTPUTS = 20"
| "featureBit ANCHOR_ZERO_FEE_HTLC = 22"
| "featureBit ROUTE_BLINDING = 24"
| "featureBit SHUTDOWN_ANY_SEGWIT = 26"
| "featureBit DUAL_FUND = 28"
| "featureBit ONION_MESSAGES = 38"
| "featureBit PROVIDE_STORAGE = 42"
| "featureBit QUIESCE = 34"
| "featureBit CHANNEL_TYPE = 44"
| "featureBit SCID_ALIAS = 46"
| "featureBit ZERO_CONF = 50"
| "featureBit KEYSEND = 54"
| "featureBit SIMPLE_CLOSE = 60"
| "featureBit SPLICE = 62"
| "featureBit OPTION_ZERO_RESERVE = 64"
| "featureBit OPTION_TAPROOT = 180"
| "featureBit OPTION_WILL_FUND = 112"
| "featureBit ASYNC_RECEIVE_SERVICE = 444"
| "featureBit OPTION_FF_RECEIVE = 440"
| "featureBit OPTION_FF_CONCURRENT = 442"
| "featureBit OPTION_COMPOSITE_SPLICE_INPUTS = 454"

type_synonym FeatureFlags = bytes

definition emptyFlags :: FeatureFlags where
  "emptyFlags = alloc 0"

definition setBit :: "FeatureFlags \<Rightarrow> int \<Rightarrow> FeatureFlags res" where
  "setBit flags b =
     throw_if (b < 0) (Error ''Bit position must be non-negative'' [b])
     (let byteIndex = nat (b div 8); bitIndex = nat (b mod 8);
          neededLength = byteIndex + 1;
          flags = (if neededLength > length flags
                   then copy_to flags (alloc neededLength) (neededLength - length flags) else flags);
          bufIndex = length flags - 1 - byteIndex in
      Inr (flags[bufIndex := flags ! bufIndex OR push_bit bitIndex 1]))"

text \<open>The guard \<^verbatim>\<open>bufIndex < 0 || bufIndex >= this.flags.length\<close> of the two readers below: no byte of
  the buffer holds the bit.\<close>

definition outside :: "FeatureFlags \<Rightarrow> int \<Rightarrow> bool" where
  "outside flags b \<longleftrightarrow>
    (let bufIndex = int (length flags) - 1 - b div 8 in bufIndex < 0 \<or> bufIndex \<ge> int (length flags))"

definition clearBit :: "FeatureFlags \<Rightarrow> int \<Rightarrow> FeatureFlags" where
  "clearBit flags b =
     (if outside flags b then flags
      else let bufIndex = nat (int (length flags) - 1 - b div 8); bitIndex = nat (b mod 8) in
        flags[bufIndex := flags ! bufIndex AND NOT (push_bit bitIndex 1)])"

definition hasBit :: "FeatureFlags \<Rightarrow> int \<Rightarrow> bool" where
  "hasBit flags b =
     (if outside flags b then False
      else let bufIndex = nat (int (length flags) - 1 - b div 8); bitIndex = nat (b mod 8) in
        flags ! bufIndex AND push_bit bitIndex 1 \<noteq> 0)"

definition setCompulsory :: "FeatureFlags \<Rightarrow> Feature \<Rightarrow> FeatureFlags res" where
  "setCompulsory flags feature = setBit flags (featureBit feature)"

definition setOptional :: "FeatureFlags \<Rightarrow> Feature \<Rightarrow> FeatureFlags res" where
  "setOptional flags feature = setBit flags (featureBit feature + 1)"

definition hasFeature :: "FeatureFlags \<Rightarrow> Feature \<Rightarrow> bool" where
  "hasFeature flags feature \<longleftrightarrow>
     hasBit flags (featureBit feature) \<or> hasBit flags (featureBit feature + 1)"

definition isCompulsory :: "FeatureFlags \<Rightarrow> Feature \<Rightarrow> bool" where
  "isCompulsory flags feature = hasBit flags (featureBit feature)"

definition isOptional :: "FeatureFlags \<Rightarrow> Feature \<Rightarrow> bool" where
  "isOptional flags feature = hasBit flags (featureBit feature + 1)"

text \<open>The scan from the front of the buffer: the position of a byte is the number of bytes after
  it.\<close>

fun maxBit :: "FeatureFlags \<Rightarrow> int" where
  "maxBit [] = - 1"
| "maxBit (b # bs) =
     (if b \<noteq> 0 then
        case find (\<lambda>k. b AND push_bit k 1 \<noteq> 0) (rev [0..<8]) of
          Some k \<Rightarrow> int (length bs * 8 + k) | None \<Rightarrow> maxBit bs
      else maxBit bs)"

text \<open>\<^verbatim>\<open>for (let bit = 0; bit <= maxBit; bit += 2)\<close>\<close>

definition evenBits :: "int \<Rightarrow> int list" where
  "evenBits m = map (\<lambda>k. 2 * int k) [0..<nat (m div 2 + 1)]"

definition isCompatible :: "FeatureFlags \<Rightarrow> FeatureFlags \<Rightarrow> Feature list \<Rightarrow> bool" where
  "isCompatible flags remote localKnown =
     list_all (\<lambda>b. hasBit remote b \<longrightarrow> list_ex (\<lambda>f. featureBit f = b) localKnown)
       (evenBits (max (maxBit flags) (maxBit remote)))"

definition toBuffer :: "FeatureFlags \<Rightarrow> bytes" where
  "toBuffer flags =
    (let start = length (takeWhile (\<lambda>b. b = 0) flags) in
     if start = length flags then alloc 0 else subarray flags start (length flags))"

definition listSetBits :: "FeatureFlags \<Rightarrow> nat list" where
  "listSetBits flags =
     sort (concat (map (\<lambda>i. let bytePos = length flags - 1 - i in
       map (\<lambda>k. bytePos * 8 + k) (filter (\<lambda>k. flags ! i AND push_bit k 1 \<noteq> 0) [0..<8]))
       (rev [0..<length flags])))"

definition IMPLEMENTED :: "Feature list" where
  "IMPLEMENTED =
     [DATA_LOSS_PROTECT, GOSSIP_QUERIES, TLV_ONION, STATIC_REMOTE_KEY, PAYMENT_SECRET,
      BASIC_MPP, LARGE_CHANNELS, ANCHOR_ZERO_FEE_HTLC, ROUTE_BLINDING, SHUTDOWN_ANY_SEGWIT,
      DUAL_FUND, QUIESCE, ONION_MESSAGES, CHANNEL_TYPE, SCID_ALIAS, ZERO_CONF, KEYSEND,
      SPLICE, OPTION_ZERO_RESERVE, SIMPLE_CLOSE, PROVIDE_STORAGE, OPTION_FF_RECEIVE,
      OPTION_FF_CONCURRENT, OPTION_COMPOSITE_SPLICE_INPUTS]"

definition implementedFeatures :: "FeatureFlags res" where
  "implementedFeatures = for_each setOptional IMPLEMENTED emptyFlags"

definition hasUnsupportedRequiredFeatures :: "FeatureFlags \<Rightarrow> FeatureFlags \<Rightarrow> int list res" where
  "hasUnsupportedRequiredFeatures localFeatures remoteFeatures =
     rbind implementedFeatures (\<lambda>implemented.
     Inr (filter (\<lambda>b. hasBit remoteFeatures b \<and>
       ((b = featureBit OPTION_FF_CONCURRENT \<and>
           \<not> (hasBit localFeatures b \<or> hasBit localFeatures (b + 1))) \<or>
        (\<not> hasBit localFeatures b \<and> \<not> hasBit localFeatures (b + 1) \<and>
         \<not> hasBit implemented b \<and> \<not> hasBit implemented (b + 1))))
       (evenBits (maxBit remoteFeatures))))"

section \<open>The buffer as a set of bits\<close>

text \<open>A bit of the big-endian value is a bit of one byte.\<close>

lemma bit_be_val_snoc:
  "bit (be_val (bs @ [b])) n \<longleftrightarrow> (if n < 8 then bit b n else bit (be_val bs) (n - 8))"
proof -
  have "be_val (bs @ [b]) = concat_bit 8 (uint b) (be_val bs)"
    by (simp add: be_val_snoc concat_bit_eq push_bit_eq_mult take_bit_int_eq_self)
  then show ?thesis by (auto simp: bit_concat_bit_iff bit_uint_iff dest: bit_imp_le_length)
qed

lemma bit_be_val:
  "bit (be_val bs) n \<longleftrightarrow> n div 8 < length bs \<and> bit (bs ! (length bs - 1 - n div 8)) (n mod 8)"
proof (induction bs arbitrary: n rule: rev_induct)
  case Nil
  then show ?case by simp
next
  case (snoc b bs)
  show ?case
  proof (cases "n < 8")
    case True
    then show ?thesis by (simp add: bit_be_val_snoc)
  next
    case False
    then have "n div 8 = Suc ((n - 8) div 8)" "n mod 8 = (n - 8) mod 8"
      by (simp_all add: div_if [of n 8] mod_if [of n 8])
    with False show ?thesis by (auto simp: bit_be_val_snoc snoc nth_append)
  qed
qed

lemma and_push_bit_one_eq: "(b :: byte) AND push_bit k 1 \<noteq> 0 \<longleftrightarrow> bit b k"
  by (simp add: and_exp_eq_0_iff_not_bit)

lemma nat_bit_split: "nat (int n div 8) = n div 8" "nat (int n mod 8) = n mod 8"
  by (simp_all add: nat_div_distrib nat_mod_distrib)

lemma outside_iff: "outside flags (int n) \<longleftrightarrow> length flags \<le> n div 8"
proof -
  have "int n div 8 = int (n div 8)" by (simp add: zdiv_int)
  then show ?thesis by (auto simp: outside_def Let_def)
qed

lemma bufIndex_eq: "nat (int (length (flags :: bytes)) - 1 - int n div 8) = length flags - 1 - n div 8"
proof -
  have "int n div 8 = int (n div 8)" by (simp add: zdiv_int)
  then show ?thesis by simp
qed

lemma hasBit_neg: "b < 0 \<Longrightarrow> \<not> hasBit flags b"
proof -
  assume "b < 0"
  then have "b div 8 < 0" by simp
  then show ?thesis by (simp add: hasBit_def outside_def Let_def)
qed

lemma hasBit_int: "hasBit flags (int n) \<longleftrightarrow> bit (be_val flags) n"
  unfolding hasBit_def bit_be_val
  by (simp only: outside_iff bufIndex_eq nat_bit_split Let_def and_push_bit_one_eq) auto

lemma hasBit_bit: "hasBit flags b \<longleftrightarrow> 0 \<le> b \<and> bit (be_val flags) (nat b)"
  using hasBit_neg [of b flags] hasBit_int [of flags "nat b"] by (cases "0 \<le> b") auto

lemma flags_eq_iff: "be_val f = be_val g \<longleftrightarrow> (\<forall>b. hasBit f b = hasBit g b)"
proof
  assume *: "\<forall>b. hasBit f b = hasBit g b"
  show "be_val f = be_val g" by (rule bit_eqI) (use * hasBit_int in metis)
qed (simp add: hasBit_bit)

lemma be_val_pad: "be_val (alloc k @ bs) = be_val bs"
proof (rule bit_eqI)
  fix n
  show "bit (be_val (alloc k @ bs)) n = bit (be_val bs) n"
    by (auto simp: bit_be_val nth_append alloc_def)
qed

text \<open>Updating the byte that holds bit \<open>n\<close>.\<close>

lemma be_val_update:
  assumes "n div 8 < length bs"
  shows "bit (be_val (bs[length bs - 1 - n div 8 := y])) m \<longleftrightarrow>
    (if m div 8 = n div 8 then bit y (m mod 8) else bit (be_val bs) m)"
  using assms by (auto simp: bit_be_val nth_list_update)

lemma div_mod_8_eq: "m div 8 = n div 8 \<Longrightarrow> m mod 8 = n mod 8 \<longleftrightarrow> m = (n :: nat)"
  by (metis div_mult_mod_eq)

lemma byte_or: "bit (x OR push_bit k 1 :: byte) j \<longleftrightarrow> bit x j \<or> (j = k \<and> j < 8)"
  by (auto simp: bit_or_iff bit_exp_iff possible_bit_word)

lemma byte_and_not: "j < 8 \<Longrightarrow> bit (x AND NOT (push_bit k 1) :: byte) j \<longleftrightarrow> bit x j \<and> j \<noteq> k"
  by (auto simp: bit_and_iff bit_not_iff bit_exp_iff possible_bit_word)

lemma setBit_eq:
  assumes "0 \<le> b"
  obtains f where "setBit flags b = Inr f" "be_val f = set_bit (nat b) (be_val flags)"
proof -
  define n where "n = nat b"
  define fl where "fl = (if n div 8 + 1 > length flags
    then copy_to flags (alloc (n div 8 + 1)) (n div 8 + 1 - length flags) else flags)"
  have fl: "n div 8 < length fl" "be_val fl = be_val flags"
  proof -
    show "n div 8 < length fl" by (simp add: fl_def)
    have "copy_to flags (alloc (n div 8 + 1)) (n div 8 + 1 - length flags) =
        alloc (n div 8 + 1 - length flags) @ flags" if "n div 8 + 1 > length flags"
      using that by (simp add: copy_to_def alloc_def del: replicate_Suc)
    then show "be_val fl = be_val flags" using be_val_pad by (simp add: fl_def)
  qed
  define f where "f = fl[length fl - 1 - n div 8 :=
    fl ! (length fl - 1 - n div 8) OR push_bit (n mod 8) 1]"
  have "setBit flags b = Inr f"
    using assms
    by (simp add: setBit_def f_def fl_def n_def Let_def nat_div_distrib nat_mod_distrib)
  moreover have "be_val f = set_bit n (be_val flags)"
  proof (rule bit_eqI)
    fix m
    show "bit (be_val f) m = bit (set_bit n (be_val flags)) m"
      unfolding f_def be_val_update [OF fl(1)] byte_or fl(2) [symmetric]
      using fl(1) by (auto simp: bit_set_bit_iff div_mod_8_eq bit_be_val)
  qed
  ultimately show ?thesis using that by (simp add: n_def)
qed

lemma clearBit_eq: "0 \<le> b \<Longrightarrow> be_val (clearBit flags b) = unset_bit (nat b) (be_val flags)"
proof (rule bit_eqI)
  fix m assume b: "0 \<le> b"
  define n where "n = nat b"
  have b': "b = int n" using b by (simp add: n_def)
  show "bit (be_val (clearBit flags b)) m = bit (unset_bit (nat b) (be_val flags)) m"
  proof (cases "outside flags b")
    case True
    then show ?thesis
      by (auto simp: clearBit_def bit_unset_bit_iff bit_be_val b' outside_iff)
  next
    case False
    then have n: "n div 8 < length flags" by (simp add: b' outside_iff)
    have clear: "clearBit flags b = flags[length flags - 1 - n div 8 :=
        flags ! (length flags - 1 - n div 8) AND NOT (push_bit (n mod 8) 1)]"
      using False unfolding clearBit_def b'
      by (simp only: bufIndex_eq nat_bit_split Let_def if_False)
    have "m mod 8 < 8" by simp
    then show ?thesis
      unfolding clear be_val_update [OF n] byte_and_not [OF \<open>m mod 8 < 8\<close>]
      using n by (auto simp: bit_unset_bit_iff div_mod_8_eq bit_be_val b')
  qed
qed

lemma hasBit_setBit:
  "0 \<le> b \<Longrightarrow> \<exists>f. setBit flags b = Inr f \<and> (\<forall>c. hasBit f c \<longleftrightarrow> c = b \<or> hasBit flags c)"
proof -
  assume b: "0 \<le> b"
  then obtain f where f: "setBit flags b = Inr f" "be_val f = set_bit (nat b) (be_val flags)"
    by (rule setBit_eq)
  have "hasBit f c \<longleftrightarrow> c = b \<or> hasBit flags c" for c
    using b by (auto simp: hasBit_bit f(2) bit_set_bit_iff)
  with f(1) show ?thesis by blast
qed

lemma hasBit_clearBit: "0 \<le> b \<Longrightarrow> hasBit (clearBit flags b) c \<longleftrightarrow> hasBit flags c \<and> c \<noteq> b"
  by (auto simp: hasBit_bit clearBit_eq bit_unset_bit_iff)

lemma hasBit_empty: "\<not> hasBit emptyFlags b"
  by (simp add: hasBit_bit emptyFlags_def)

section \<open>Sets of bits as an interface\<close>

locale bit_set =
  fixes emp :: 's and ins :: "'s \<Rightarrow> int \<Rightarrow> 's res" and has :: "'s \<Rightarrow> int \<Rightarrow> bool"
  assumes has_emp: "\<not> has emp b"
    and has_ins: "0 \<le> b \<Longrightarrow> \<exists>t. ins s b = Inr t \<and> (\<forall>c. has t c \<longleftrightarrow> c = b \<or> has s c)"
begin

lemma has_ins_all:
  "\<forall>b \<in> set bs. 0 \<le> b \<Longrightarrow>
   \<exists>t. for_each ins bs s = Inr t \<and> (\<forall>c. has t c \<longleftrightarrow> c \<in> set bs \<or> has s c)"
proof (induction bs arbitrary: s)
  case Nil
  then show ?case by simp
next
  case (Cons b bs)
  from has_ins [of b s] Cons.prems obtain t where
    t: "ins s b = Inr t" "\<forall>c. has t c \<longleftrightarrow> c = b \<or> has s c" by auto
  from Cons.IH [of t] Cons.prems obtain u where
    u: "for_each ins bs t = Inr u" "\<forall>c. has u c \<longleftrightarrow> c \<in> set bs \<or> has t c" by auto
  from t u show ?case by auto
qed

lemma from_list:
  "\<forall>b \<in> set bs. 0 \<le> b \<Longrightarrow> \<exists>t. for_each ins bs emp = Inr t \<and> (\<forall>c. has t c \<longleftrightarrow> c \<in> set bs)"
  using has_ins_all [of bs emp] has_emp by simp

end

interpretation flag_bits: bit_set emptyFlags setBit hasBit
  by unfold_locales (simp_all add: hasBit_empty hasBit_setBit)

lemma for_each_map: "for_each f (map g xs) s = for_each (\<lambda>s x. f s (g x)) xs s"
  by (induction xs arbitrary: s) (simp_all add: fun_eq_iff cong: rbind_cong)

section \<open>Serialization and scans\<close>

lemma toBuffer_dropWhile: "toBuffer flags = dropWhile (\<lambda>b. b = 0) flags"
  by (auto simp: toBuffer_def Let_def subarray_def alloc_def dropWhile_eq_drop)

lemma be_val_toBuffer: "be_val (toBuffer flags) = be_val flags"
proof -
  have "takeWhile (\<lambda>b. b = 0) flags = alloc (length (takeWhile (\<lambda>b. b = 0) flags))"
    using set_takeWhileD [of _ "\<lambda>b. b = 0" flags]
    by (intro nth_equalityI) (auto simp: alloc_def dest: nth_mem)
  then have "flags = alloc (length (takeWhile (\<lambda>b. b = 0) flags)) @ toBuffer flags"
    by (metis takeWhile_dropWhile_id toBuffer_dropWhile)
  then show ?thesis using be_val_pad by metis
qed

lemma be_val_lower:
  assumes "bs \<noteq> []" "hd bs \<noteq> 0"
  shows "256 ^ (length bs - 1) \<le> be_val bs"
  using assms
proof (induction bs rule: rev_induct)
  case (snoc b bs)
  show ?case
  proof (cases bs)
    case Nil
    then have "uint b \<noteq> 0" using snoc.prems by (simp add: unsigned_eq_0_iff)
    then have "1 \<le> uint b" using uint_ge_0 [of b] by linarith
    then show ?thesis by (simp add: Nil be_val_def)
  next
    case (Cons c cs)
    then have "256 ^ (length bs - 1) \<le> be_val bs" using snoc by simp
    then have "256 ^ (length bs - 1) * 256 \<le> be_val bs * 256 + uint b"
      by (meson add_increasing2 mult_right_mono uint_ge_0 zero_le_numeral)
    moreover have "(256 :: int) ^ (length bs - 1) * 256 = 256 ^ length bs" using Cons by simp
    moreover have "length (bs @ [b]) - 1 = length bs" by simp
    ultimately show ?thesis by (simp only: be_val_snoc)
  qed
qed simp

lemma be_val_trimmed_inj:
  assumes "xs = [] \<or> hd xs \<noteq> 0" "ys = [] \<or> hd ys \<noteq> 0" "be_val xs = be_val ys"
  shows "xs = ys"
proof -
  have len: "length xs \<le> length ys"
    if "xs = [] \<or> hd xs \<noteq> 0" "be_val xs = be_val ys" for xs ys :: bytes
  proof (rule ccontr)
    assume "\<not> length xs \<le> length ys"
    then have "xs \<noteq> []" "length ys \<le> length xs - 1" by auto
    then have "(256 :: int) ^ length ys \<le> 256 ^ (length xs - 1)" by (intro power_increasing) auto
    also have "\<dots> \<le> be_val ys" using be_val_lower [of xs] \<open>xs \<noteq> []\<close> that by metis
    finally show False using be_val_less [of ys] by simp
  qed
  have "length xs = length ys" using len [of xs ys] len [of ys xs] assms by simp
  then show ?thesis using assms(3) be_bytes_be_val by metis
qed

lemma toBuffer_trimmed: "toBuffer flags = [] \<or> hd (toBuffer flags) \<noteq> 0"
  using hd_dropWhile [of "\<lambda>b. b = 0" flags] by (auto simp: toBuffer_dropWhile)

lemma toBuffer_canonical: "toBuffer f = toBuffer g \<longleftrightarrow> be_val f = be_val g"
  using be_val_trimmed_inj [OF toBuffer_trimmed toBuffer_trimmed, of f g]
  by (metis be_val_toBuffer)

lemma maxBit_Some:
  "b \<noteq> 0 \<Longrightarrow> \<exists>k. find (\<lambda>k. (b :: byte) AND push_bit k 1 \<noteq> 0) (rev [0..<8]) = Some k \<and>
     k < 8 \<and> bit b k \<and> (\<forall>j. bit b j \<longrightarrow> j \<le> k)"
proof -
  assume "b \<noteq> 0"
  then obtain j where j: "j < 8" "bit b j" by (auto simp: bit_eq_iff)
  show ?thesis
  proof (cases "find (\<lambda>k. b AND push_bit k 1 \<noteq> 0) (rev [0..<8])")
    case None
    then have "\<forall>k < 8. \<not> bit b k" unfolding find_None_iff and_push_bit_one_eq by auto
    with j show ?thesis by auto
  next
    case (Some k)
    then obtain i where i: "i < 8" "bit b (rev [0..<8] ! i)" "k = rev [0..<8] ! i"
      "\<forall>j < i. \<not> bit b (rev [0..<8] ! j)"
      unfolding find_Some_iff and_push_bit_one_eq by auto
    have nth: "rev [0..<8] ! i = 7 - i" if "i < 8" for i using that by (simp add: rev_nth)
    have "j \<le> k" if "bit b j" for j
    proof (rule ccontr)
      assume "\<not> j \<le> k"
      moreover have "j < 8" using that bit_imp_le_length by force
      ultimately have "7 - j < i" using i nth by simp
      then show False using i(4) that \<open>j < 8\<close> nth [of "7 - j"] by auto
    qed
    then show ?thesis using Some i nth by auto
  qed
qed

lemma bit_be_val_Cons:
  "bit (be_val (b # bs)) n \<longleftrightarrow> (if n div 8 = length bs then bit b (n mod 8) else bit (be_val bs) n)"
proof -
  have "(b # bs) ! (length bs - n div 8) = bs ! (length bs - 1 - n div 8)" if "n div 8 < length bs"
    using that by (simp add: nth_Cons')
  then show ?thesis by (auto simp: bit_be_val)
qed

lemma maxBit_nonzero:
  assumes "b \<noteq> 0"
  obtains k where "maxBit (b # bs) = int (length bs * 8 + k)" "k < 8" "bit b k"
    "\<And>j. bit b j \<Longrightarrow> j \<le> k"
proof -
  from maxBit_Some [OF assms] obtain k where
    k: "find (\<lambda>k. b AND push_bit k 1 \<noteq> 0) (rev [0..<8]) = Some k" "k < 8" "bit b k"
      "\<forall>j. bit b j \<longrightarrow> j \<le> k" by blast
  have "maxBit (b # bs) = int (length bs * 8 + k)"
    by (simp only: maxBit.simps k(1) option.case assms if_True not_False_eq_True)
  with k(2-4) show ?thesis using that by blast
qed

lemma maxBit_upper: "bit (be_val f) n \<Longrightarrow> int n \<le> maxBit f"
proof (induction f)
  case Nil
  then show ?case by simp
next
  case (Cons b bs)
  show ?case
  proof (cases "b = 0")
    case True
    then show ?thesis using Cons by (auto simp: bit_be_val_Cons split: if_splits)
  next
    case False
    then obtain k where k: "maxBit (b # bs) = int (length bs * 8 + k)" "\<And>j. bit b j \<Longrightarrow> j \<le> k"
      using maxBit_nonzero by blast
    have "n div 8 \<le> length bs" using Cons.prems by (simp add: bit_be_val)
    show ?thesis
    proof (cases "n div 8 = length bs")
      case True
      then have "n mod 8 \<le> k" using Cons.prems k(2) by (simp add: bit_be_val_Cons)
      then show ?thesis unfolding k(1) using True div_mult_mod_eq [of n 8] by linarith
    next
      case False
      then have "n < length bs * 8" using \<open>n div 8 \<le> length bs\<close> by simp
      then show ?thesis unfolding k(1) by linarith
    qed
  qed
qed

lemma maxBit_set: "maxBit f = - 1 \<or> (0 \<le> maxBit f \<and> bit (be_val f) (nat (maxBit f)))"
proof (induction f)
  case Nil
  then show ?case by simp
next
  case (Cons b bs)
  show ?case
  proof (cases "b = 0")
    case True
    then show ?thesis
      using Cons by (auto simp: bit_be_val_Cons) (simp add: bit_be_val)
  next
    case False
    then obtain k where k: "maxBit (b # bs) = int (length bs * 8 + k)" "k < 8" "bit b k"
      using maxBit_nonzero by blast
    then show ?thesis unfolding k(1) nat_int bit_be_val_Cons by simp
  qed
qed

lemma evenBits_iff: "b \<in> set (evenBits m) \<longleftrightarrow> even b \<and> 0 \<le> b \<and> b \<le> m"
proof
  assume "b \<in> set (evenBits m)"
  then show "even b \<and> 0 \<le> b \<and> b \<le> m" by (auto simp: evenBits_def)
next
  assume b: "even b \<and> 0 \<le> b \<and> b \<le> m"
  then have "b = (\<lambda>k. 2 * int k) (nat (b div 2))" "nat (b div 2) \<in> {0..<nat (m div 2 + 1)}" by auto
  then show "b \<in> set (evenBits m)" unfolding evenBits_def set_map set_upt by (rule image_eqI)
qed

lemma sorted_evenBits: "sorted_wrt (<) (evenBits m)"
  by (auto simp: evenBits_def sorted_wrt_map sorted_wrt_iff_nth_less)

lemma hasBit_evenBits: "even b \<Longrightarrow> hasBit f b \<Longrightarrow> maxBit f \<le> m \<Longrightarrow> b \<in> set (evenBits m)"
  using maxBit_upper [of f "nat b"] by (simp add: evenBits_iff hasBit_bit)

lemma listSetBits_mem: "n \<in> set (listSetBits f) \<longleftrightarrow> hasBit f (int n)"
proof -
  have "n \<in> set (listSetBits f) \<longleftrightarrow>
      (\<exists>i < length f. \<exists>k < 8. n = (length f - 1 - i) * 8 + k \<and> bit (f ! i) k)"
    unfolding listSetBits_def and_push_bit_one_eq by (auto simp: Let_def)
  also have "\<dots> \<longleftrightarrow> bit (be_val f) n"
  proof
    assume "\<exists>i < length f. \<exists>k < 8. n = (length f - 1 - i) * 8 + k \<and> bit (f ! i) k"
    then obtain i k where ik: "i < length f" "k < 8" "n = (length f - 1 - i) * 8 + k" "bit (f ! i) k"
      by blast
    then have "n div 8 = length f - 1 - i" "n mod 8 = k" by simp_all
    with ik show "bit (be_val f) n" by (simp add: bit_be_val)
  next
    assume "bit (be_val f) n"
    then have "n div 8 < length f" "bit (f ! (length f - 1 - n div 8)) (n mod 8)"
      by (simp_all add: bit_be_val)
    then show "\<exists>i < length f. \<exists>k < 8. n = (length f - 1 - i) * 8 + k \<and> bit (f ! i) k"
      by (intro exI [of _ "length f - 1 - n div 8"] conjI exI [of _ "n mod 8"]) simp_all
  qed
  finally show ?thesis by (simp add: hasBit_int)
qed

lemma featureBit_even: "even (featureBit f)"
  by (cases f) simp_all

lemma featureBit_nonneg: "0 \<le> featureBit f"
  by (cases f) simp_all

lemma implementedFeatures_bits:
  "\<exists>impl. implementedFeatures = Inr impl \<and>
     (\<forall>b. hasBit impl b \<longleftrightarrow> b \<in> (\<lambda>f. featureBit f + 1) ` set IMPLEMENTED)"
proof -
  have "\<forall>b \<in> set (map (\<lambda>f. featureBit f + 1) IMPLEMENTED). 0 \<le> b"
    using featureBit_nonneg by (auto intro: add_nonneg_nonneg)
  from flag_bits.from_list [OF this] show ?thesis
    by (simp add: implementedFeatures_def for_each_map setOptional_def [abs_def])
qed

text \<open>What this node understands: what it advertises, and every implemented feature but the one an
  operator may switch off.\<close>

definition understood :: "FeatureFlags \<Rightarrow> int \<Rightarrow> bool" where
  "understood l b \<longleftrightarrow> hasBit l b \<or> hasBit l (b + 1) \<or>
     (b \<noteq> featureBit OPTION_FF_CONCURRENT \<and> b \<in> featureBit ` set IMPLEMENTED)"

section \<open>Properties\<close>

text \<open>C29: feature flags behave as a set of bit positions: setting a bit adds exactly it (and fails
  only for a negative position), clearing a bit removes exactly it, the list of set bits is sorted
  and complete, and the highest bit is right.\<close>

theorem FeatureFlags_set:
  "(case setBit f b of Inr f' \<Rightarrow> 0 \<le> b \<and> (\<forall>c. hasBit f' c = (c = b \<or> hasBit f c)) | Inl e \<Rightarrow> b < 0) \<and>
   (if 0 \<le> b then \<forall>c. hasBit (clearBit f b) c = (hasBit f c \<and> c \<noteq> b) else clearBit f b = f) \<and>
   (\<forall>n. (n \<in> set (listSetBits f)) = hasBit f (int n)) \<and> sorted (listSetBits f) \<and>
   (if \<exists>c. hasBit f c then hasBit f (maxBit f) \<and> Max {c. hasBit f c} = maxBit f else maxBit f = - 1)"
proof (intro conjI)
  show "case setBit f b of Inr f' \<Rightarrow> 0 \<le> b \<and> (\<forall>c. hasBit f' c = (c = b \<or> hasBit f c)) | Inl e \<Rightarrow> b < 0"
    using hasBit_setBit [of b f] by (cases "0 \<le> b") (auto simp: setBit_def)
  show "if 0 \<le> b then \<forall>c. hasBit (clearBit f b) c = (hasBit f c \<and> c \<noteq> b) else clearBit f b = f"
  proof (cases "0 \<le> b")
    case False
    then have "b div 8 < 0" by simp
    with False show ?thesis by (simp add: clearBit_def outside_def)
  qed (simp add: hasBit_clearBit)
  show "\<forall>n. (n \<in> set (listSetBits f)) = hasBit f (int n)" by (simp add: listSetBits_mem)
  show "sorted (listSetBits f)" by (simp add: listSetBits_def)
  have upper: "c \<le> maxBit f" if "hasBit f c" for c
    using that maxBit_upper [of f "nat c"] by (simp add: hasBit_bit)
  have fin: "finite {c. hasBit f c}"
    by (rule finite_subset [of _ "{0..maxBit f}"]) (use upper in \<open>auto simp: hasBit_bit\<close>)
  show "if \<exists>c. hasBit f c then hasBit f (maxBit f) \<and> Max {c. hasBit f c} = maxBit f
    else maxBit f = - 1"
  proof (cases "maxBit f = - 1")
    case True
    then have "\<not> hasBit f c" for c using upper [of c] by (auto simp: hasBit_bit)
    with True show ?thesis by simp
  next
    case False
    then have "hasBit f (maxBit f)" using maxBit_set [of f] by (simp add: hasBit_bit)
    moreover from this have "Max {c. hasBit f c} = maxBit f" using upper fin by (intro Max_eqI) auto
    ultimately show ?thesis by auto
  qed
qed

text \<open>C30: the serialized form is canonical: two flag sets serialize to the same bytes exactly when
  they have the same bits, the serialization has no leading zero byte, and reading it back loses no
  bit.\<close>

theorem toBuffer_canonical_form:
  "(toBuffer f = toBuffer g \<longleftrightarrow> (\<forall>b. hasBit f b = hasBit g b)) \<and>
   dropWhile (\<lambda>x. x = 0) (toBuffer f) = toBuffer f \<and> (\<forall>b. hasBit (toBuffer f) b = hasBit f b)"
proof -
  have "dropWhile (\<lambda>x. x = 0) (toBuffer f) = toBuffer f"
    using toBuffer_trimmed [of f] by (cases "toBuffer f") simp_all
  then show ?thesis
    using toBuffer_canonical [of f g] flags_eq_iff [of f g] by (simp add: hasBit_bit be_val_toBuffer)
qed

text \<open>C31: the disconnect test of the \<open>init\<close> handshake reports, in increasing order, exactly the even
  bits the peer requires and this node does not understand.\<close>

theorem unsupported_exact:
  "\<exists>u. hasUnsupportedRequiredFeatures l r = Inr u \<and> sorted_wrt (<) u \<and>
     set u = {b. even b \<and> hasBit r b \<and> \<not> understood l b}"
proof -
  obtain impl where impl: "implementedFeatures = Inr impl"
    "\<And>b. hasBit impl b \<longleftrightarrow> b \<in> (\<lambda>f. featureBit f + 1) ` set IMPLEMENTED"
    using implementedFeatures_bits by blast
  have odd: "\<not> hasBit impl b" if "even b" for b
  proof
    assume "hasBit impl b"
    then obtain f where "b = featureBit f + 1" unfolding impl(2) by blast
    with that featureBit_even [of f] show False by simp
  qed
  have succ: "hasBit impl (b + 1) \<longleftrightarrow> b \<in> featureBit ` set IMPLEMENTED" for b
    unfolding impl(2) by (simp add: image_iff)
  let ?bad = "\<lambda>b. hasBit r b \<and> ((b = featureBit OPTION_FF_CONCURRENT \<and>
      \<not> (hasBit l b \<or> hasBit l (b + 1))) \<or> (\<not> hasBit l b \<and> \<not> hasBit l (b + 1) \<and>
      \<not> hasBit impl b \<and> \<not> hasBit impl (b + 1)))"
  have bad: "?bad b \<longleftrightarrow> hasBit r b \<and> \<not> understood l b" if "even b" for b
    unfolding understood_def succ using odd [OF that] by blast
  have "set (filter ?bad (evenBits (maxBit r))) = {b. even b \<and> hasBit r b \<and> \<not> understood l b}"
  proof (rule set_eqI)
    fix b
    show "b \<in> set (filter ?bad (evenBits (maxBit r))) \<longleftrightarrow>
        b \<in> {b. even b \<and> hasBit r b \<and> \<not> understood l b}"
      unfolding set_filter mem_Collect_eq
      using bad [of b] hasBit_evenBits [of b r "maxBit r"] evenBits_iff [of b "maxBit r"] by blast
  qed
  moreover have "sorted_wrt (<) (filter ?bad (evenBits (maxBit r)))"
    using sorted_evenBits by (rule sorted_wrt_filter)
  moreover have "hasUnsupportedRequiredFeatures l r = Inr (filter ?bad (evenBits (maxBit r)))"
    by (simp only: hasUnsupportedRequiredFeatures_def impl(1) rbind_Inr)
  ultimately show ?thesis by blast
qed

text \<open>\<open>isCompatible\<close> accepts a peer exactly when every even bit the peer sets is the bit of a
  known feature; the node's own flags do not matter.\<close>

theorem isCompatible_iff:
  "isCompatible f r known = ({b. even b \<and> hasBit r b} \<subseteq> featureBit ` set known)"
  using hasBit_evenBits [of _ r "max (maxBit f) (maxBit r)"]
  by (auto simp: isCompatible_def list_all_iff list_ex_iff evenBits_iff)

end
