(* ===== verification/ChannelTypes.thy ===== *)
theory ChannelTypes
  imports Features
begin

text \<open>
  Channel data types: \<^verbatim>\<open>src/lightning/channel/types.ts\<close>. The channel_type predicates, the admission check
  for dual-funded channel types, the enums, the HTLC entry and the channel configuration. An optional
  boolean field of an entry is a \<open>bool option\<close>; \<open>is_false\<close> is the comparison \<^verbatim>\<open>=== false\<close>, which an
  absent field does not satisfy.
\<close>

unbundle bit_operations_syntax

section \<open>Definitions\<close>

definition isAnchorChannel :: "bytes option \<Rightarrow> bool" where
  "isAnchorChannel channelType =
     (case channelType of
        None \<Rightarrow> False
      | Some flags \<Rightarrow>
          flags \<noteq> [] \<and> (hasFeature flags ANCHOR_ZERO_FEE_HTLC \<or> hasFeature flags OPTION_TAPROOT))"

definition isTaprootChannel :: "bytes option \<Rightarrow> bool" where
  "isTaprootChannel channelType =
     (case channelType of
        None \<Rightarrow> False
      | Some flags \<Rightarrow> flags \<noteq> [] \<and> hasFeature flags OPTION_TAPROOT)"

definition hasScidAliasChannelType :: "bytes option \<Rightarrow> bool" where
  "hasScidAliasChannelType channelType =
     (case channelType of
        None \<Rightarrow> False
      | Some flags \<Rightarrow> flags \<noteq> [] \<and> hasFeature flags SCID_ALIAS)"

text \<open>The allowed bits of a dual-funded channel type, serialized.\<close>

definition v2Mask :: "bytes res" where
  "v2Mask =
     rbind (setCompulsory emptyFlags STATIC_REMOTE_KEY) (\<lambda>allowed.
     rbind (setCompulsory allowed ANCHOR_ZERO_FEE_HTLC) (\<lambda>allowed.
     rbind (setCompulsory allowed SCID_ALIAS) (\<lambda>allowed.
     rbind (setCompulsory allowed ZERO_CONF) (\<lambda>allowed. Inr (toBuffer allowed)))))"

text \<open>One \<^verbatim>\<open>channel_type ... was not negotiated\<close> pair of tests.\<close>

definition notNegotiated ::
  "string \<Rightarrow> Feature \<Rightarrow> FeatureFlags option \<Rightarrow> FeatureFlags option \<Rightarrow> string option" where
  "notNegotiated name feature localFeatures remoteFeatures =
     (if (case localFeatures of None \<Rightarrow> False | Some f \<Rightarrow> \<not> hasFeature f feature)
      then Some (''channel_type '' @ name @ '' was not negotiated: this node does not advertise it'')
      else if (case remoteFeatures of None \<Rightarrow> False | Some f \<Rightarrow> \<not> hasFeature f feature)
      then Some (''channel_type '' @ name @ '' was not negotiated: the peer does not advertise it'')
      else None)"

definition orElse :: "'a option \<Rightarrow> 'a option \<Rightarrow> 'a option" where
  "orElse a b = (case a of None \<Rightarrow> b | Some x \<Rightarrow> Some x)"

definition validateV2ChannelType ::
  "bytes option \<Rightarrow> FeatureFlags option \<Rightarrow> FeatureFlags option \<Rightarrow> string option res" where
  "validateV2ChannelType channelType localFeatures remoteFeatures =
     (case channelType of
        None \<Rightarrow> Inr (Some ''open_channel2 requires a channel_type'')
      | Some [] \<Rightarrow> Inr (Some ''open_channel2 requires a channel_type'')
      | Some (b # bs) \<Rightarrow>
          (let flags = b # bs in
           if b = 0 then Inr (Some ''channel_type must use a minimal encoding'')
           else if hasFeature flags OPTION_TAPROOT
           then Inr (Some ''channel_type option_taproot is not supported for dual-funded (v2) channels'')
           else rbind v2Mask (\<lambda>mask. Inr
             (if list_ex (\<lambda>i.
                  let bits = flags ! (length flags - 1 - i);
                      permitted = (if i < length mask then mask ! (length mask - 1 - i) else 0)
                  in bits AND NOT permitted \<noteq> 0) [0..<length flags]
              then Some ''channel_type is not a recognized dual-funded (v2) combination''
              else if \<not> hasFeature flags STATIC_REMOTE_KEY
              then Some ''channel_type must include static_remotekey''
              else if hasFeature flags ZERO_CONF \<and> \<not> hasFeature flags SCID_ALIAS
              then Some ''channel_type zero_conf requires option_scid_alias''
              else orElse
                (if hasFeature flags ANCHOR_ZERO_FEE_HTLC
                 then notNegotiated ''anchors_zero_fee_htlc_tx'' ANCHOR_ZERO_FEE_HTLC
                        localFeatures remoteFeatures
                 else None)
                (orElse
                  (notNegotiated ''static_remotekey'' STATIC_REMOTE_KEY localFeatures remoteFeatures)
                (orElse
                  (if hasFeature flags SCID_ALIAS
                   then notNegotiated ''scid_alias'' SCID_ALIAS localFeatures remoteFeatures
                   else None)
                  (if hasFeature flags ZERO_CONF
                   then notNegotiated ''zero_conf'' ZERO_CONF localFeatures remoteFeatures
                   else None)))))))"

definition scidAliasAnnounceRefusal :: "bytes option \<Rightarrow> bool \<Rightarrow> string option" where
  "scidAliasAnnounceRefusal channelType announceChannel =
     (if \<not> announceChannel then None
      else case channelType of
        None \<Rightarrow> None
      | Some flags \<Rightarrow>
          (if flags = [] then None
           else if \<not> hasFeature flags SCID_ALIAS then None
           else Some ''a channel_type carrying option_scid_alias cannot be announced''))"

datatype ChannelRole = OPENER | ACCEPTOR

datatype HtlcDirection = OFFERED | RECEIVED

datatype HtlcState = PENDING | COMMITTED | FULFILLED | FAILED

record IHtlcEntry =
  entry_id :: int
  amountMsat :: int
  paymentHash :: bytes
  cltvExpiry :: int
  onionRoutingPacket :: bytes
  direction :: HtlcDirection
  entry_state :: HtlcState
  blindingPoint :: "bytes option"
  addRemoteCommitted :: "bool option"
  removalRemoteCommitted :: "bool option"
  commitCoverPending :: "bool option"
  addLocallyRevoked :: "bool option"
  removalLocallyRevoked :: "bool option"
  addRemotelyRevoked :: "bool option"
  addCoverPending :: "bool option"
  addRemoteSigned :: "bool option"
  forwardEmitted :: "bool option"
  fforVoucher :: "bool option"
  fforMismatch :: "bool option"
  dustExposureFailback :: "bool option"
  expiredOnArrival :: "bool option"
  funderFeeFailback :: "bool option"
  addedWhileRestoreUnproven :: "bool option"
  addedWhileFundingUnaccounted :: "bool option"

definition is_false :: "bool option \<Rightarrow> bool" where
  "is_false b \<longleftrightarrow> b = Some False"

definition receivedAddIrrevocablyCommitted :: "IHtlcEntry \<Rightarrow> bool" where
  "receivedAddIrrevocablyCommitted entry \<longleftrightarrow>
     entry_state entry = COMMITTED \<and> \<not> is_false (addLocallyRevoked entry) \<and>
     \<not> is_false (addRemotelyRevoked entry)"

record IChannelConfig =
  dustLimitSatoshis :: int
  maxHtlcValueInFlightMsat :: int
  channelReserveSatoshis :: int
  htlcMinimumMsat :: int
  toSelfDelay :: int
  maxAcceptedHtlcs :: int
  feeratePerKw :: int

definition MAX_ACCEPTED_HTLCS :: int where "MAX_ACCEPTED_HTLCS = 483"
definition MAX_FUNDING_SATOSHIS :: int where "MAX_FUNDING_SATOSHIS = 16777215"
definition MAX_WUMBO_FUNDING_SATOSHIS :: int where "MAX_WUMBO_FUNDING_SATOSHIS = 1000000000"
definition MIN_DUST_LIMIT_SATOSHIS :: int where "MIN_DUST_LIMIT_SATOSHIS = 354"
definition MAX_DUST_LIMIT_SATOSHIS :: int where "MAX_DUST_LIMIT_SATOSHIS = 1062"
definition MAX_MINIMUM_DEPTH :: int where "MAX_MINIMUM_DEPTH = 144"
definition U64_MAX :: int where "U64_MAX = 0xffffffffffffffff"

definition DEFAULT_CHANNEL_CONFIG :: IChannelConfig where
  "DEFAULT_CHANNEL_CONFIG = \<lparr>dustLimitSatoshis = 354, maxHtlcValueInFlightMsat = U64_MAX,
     channelReserveSatoshis = 10000, htlcMinimumMsat = 1000, toSelfDelay = 144,
     maxAcceptedHtlcs = 483, feeratePerKw = 253\<rparr>"

section \<open>Dual-funded channel types\<close>

text \<open>The six combinations BOLT 2 admits, as minimal encodings.\<close>

definition v2_channel_types :: "bytes list" where
  "v2_channel_types =
     [[0x10, 0], [0x40, 0x10, 0],
      [0x40, 0, 0, 0, 0x10, 0], [0x40, 0, 0, 0x40, 0x10, 0],
      [4, 0x40, 0, 0, 0, 0x10, 0], [4, 0x40, 0, 0, 0x40, 0x10, 0]]"

definition advertises_all :: "FeatureFlags option \<Rightarrow> bytes \<Rightarrow> bool" where
  "advertises_all features channelType =
     (case features of
        None \<Rightarrow> True
      | Some f \<Rightarrow> list_all (hasFeature f)
          (List.filter (hasFeature channelType)
            [STATIC_REMOTE_KEY, ANCHOR_ZERO_FEE_HTLC, SCID_ALIAS, ZERO_CONF]))"

lemma v2Mask_eq: "v2Mask = Inr [4, 0x40, 0, 0, 0x40, 0x10, 0]"
  by code_simp

definition v2_masked :: "bytes \<Rightarrow> bool" where
  "v2_masked flags \<longleftrightarrow> \<not> list_ex (\<lambda>i.
     let bits = flags ! (length flags - 1 - i); mask = [4, 0x40, 0, 0, 0x40, 0x10, 0];
         permitted = (if i < length mask then mask ! (length mask - 1 - i) else 0)
     in bits AND NOT permitted \<noteq> 0) [0..<length flags]"

lemma and_not_power:
  "(x :: byte) AND NOT (2 ^ k) = 0 \<longleftrightarrow> x = 0 \<or> x = 2 ^ k" if "k < 8"
proof
  assume z: "x AND NOT (2 ^ k) = 0"
  have other: "\<not> bit x n" if "n \<noteq> k" for n
  proof
    assume b: "bit x n"
    then have "n < 8" using bit_imp_le_length [of x n] by simp
    then have "bit (x AND NOT (2 ^ k)) n"
      using b \<open>n \<noteq> k\<close> by (simp add: bit_and_iff bit_not_iff bit_exp_iff)
    then show False by (simp add: z)
  qed
  show "x = 0 \<or> x = 2 ^ k"
  proof (cases "bit x k")
    case True
    then have "x = 2 ^ k" by (intro bit_word_eqI) (use other in \<open>auto simp: bit_exp_iff\<close>)
    then show ?thesis ..
  next
    case False
    then have "x = 0" by (intro bit_word_eqI) (use other in \<open>metis bit_0_eq bot_apply bot_bool_def\<close>)
    then show ?thesis ..
  qed
qed (auto simp: bit_eq_iff bit_and_iff bit_not_iff)

lemmas and_not_masks = and_not_power [of 2, simplified] and_not_power [of 4, simplified]
  and_not_power [of 6, simplified]

lemma v2_masked_short:
  assumes "v2_masked (b # bs)" "b \<noteq> 0"
  shows "length bs < 7"
proof (rule ccontr)
  assume "\<not> length bs < 7"
  then have "b AND NOT 0 = 0"
    using assms(1) by (auto simp: v2_masked_def list_ex_iff Let_def dest!: bspec [of _ _ "length bs"])
  then show False using assms(2) by simp
qed

lemma upt_8: "[0..<2] = [0, 1 :: nat]" "[0..<3] = [0, 1, 2 :: nat]" "[0..<4] = [0, 1, 2, 3 :: nat]"
  "[0..<5] = [0, 1, 2, 3, 4 :: nat]" "[0..<6] = [0, 1, 2, 3, 4, 5 :: nat]"
  "[0..<7] = [0, 1, 2, 3, 4, 5, 6 :: nat]"
  by (simp_all add: upt_rec)

lemma length_split:
  assumes "length (bs :: 'a list) < 7"
  shows "bs = [] \<or> (\<exists>a. bs = [a]) \<or> (\<exists>a b. bs = [a, b]) \<or> (\<exists>a b c. bs = [a, b, c]) \<or>
    (\<exists>a b c d. bs = [a, b, c, d]) \<or> (\<exists>a b c d e. bs = [a, b, c, d, e]) \<or>
    (\<exists>a b c d e f. bs = [a, b, c, d, e, f])"
  using assms by (auto simp: less_Suc_eq numeral_eq_Suc length_Suc_conv)

definition v2_candidates :: "bytes list" where
  "v2_candidates =
     [[16, 0], [64, 0, 0], [64, 16, 0], [64, 0, 0, 0, 0, 0], [64, 0, 0, 0, 16, 0], [64, 0,
      0, 64, 0, 0], [64, 0, 0, 64, 16, 0], [4, 0, 0, 0, 0, 0, 0], [4, 0, 0, 0, 0, 16, 0],
      [4, 0, 0, 0, 64, 0, 0], [4, 0, 0, 0, 64, 16, 0], [4, 64, 0, 0, 0, 0, 0], [4, 64, 0,
      0, 0, 16, 0], [4, 64, 0, 0, 64, 0, 0], [4, 64, 0, 0, 64, 16, 0]]"

lemma v2_masked_list:
  assumes "v2_masked (b # bs)" "b \<noteq> 0"
  shows "b # bs \<in> set v2_candidates"
  using length_split [OF v2_masked_short [OF assms]] assms
  by (elim disjE exE) (auto simp: v2_masked_def upt_8 and_not_masks v2_candidates_def)

lemma v2_candidates_check:
  "list_all (\<lambda>c. (hasFeature c STATIC_REMOTE_KEY \<and> (hasFeature c ZERO_CONF \<longrightarrow> hasFeature c SCID_ALIAS)) =
     (c \<in> set v2_channel_types)) v2_candidates"
  by code_simp

lemma v2_types_check:
  "list_all (\<lambda>c. hd c \<noteq> 0 \<and> v2_masked c \<and> \<not> hasFeature c OPTION_TAPROOT \<and> c \<in> set v2_candidates)
     v2_channel_types"
  by code_simp

lemma orElse_None: "orElse a b = None \<longleftrightarrow> a = None \<and> b = None"
  by (cases a) (simp_all add: orElse_def)

definition offers :: "FeatureFlags option \<Rightarrow> Feature \<Rightarrow> bool" where
  "offers features f = (case features of None \<Rightarrow> True | Some g \<Rightarrow> hasFeature g f)"

lemma notNegotiated_None: "notNegotiated name f l r = None \<longleftrightarrow> offers l f \<and> offers r f"
  by (cases l; cases r) (simp_all add: notNegotiated_def offers_def)

lemma advertises_all_offers:
  "advertises_all l ct \<longleftrightarrow>
     (hasFeature ct STATIC_REMOTE_KEY \<longrightarrow> offers l STATIC_REMOTE_KEY) \<and>
     (hasFeature ct ANCHOR_ZERO_FEE_HTLC \<longrightarrow> offers l ANCHOR_ZERO_FEE_HTLC) \<and>
     (hasFeature ct SCID_ALIAS \<longrightarrow> offers l SCID_ALIAS) \<and> (hasFeature ct ZERO_CONF \<longrightarrow> offers l ZERO_CONF)"
  by (cases l) (simp_all add: advertises_all_def offers_def)

lemma if_None: "(if P then x else None) = None \<longleftrightarrow> (P \<longrightarrow> x = None)"
  "(if P then Some y else z) = None \<longleftrightarrow> \<not> P \<and> z = None"
  "(if P then Inr (Some y) else w) = (Inr None :: 'a option res) \<longleftrightarrow> \<not> P \<and> w = Inr None"
  by auto

lemma v2_reads: "validateV2ChannelType (Some (b # bs)) l r = Inr None \<longleftrightarrow>
    b \<noteq> 0 \<and> v2_masked (b # bs) \<and> \<not> hasFeature (b # bs) OPTION_TAPROOT \<and>
    hasFeature (b # bs) STATIC_REMOTE_KEY \<and>
    (hasFeature (b # bs) ZERO_CONF \<longrightarrow> hasFeature (b # bs) SCID_ALIAS) \<and>
    advertises_all l (b # bs) \<and> advertises_all r (b # bs)"
proof -
  have *: "validateV2ChannelType (Some (b # bs)) l r = Inr None \<longleftrightarrow>
    b \<noteq> 0 \<and> \<not> hasFeature (b # bs) OPTION_TAPROOT \<and> v2_masked (b # bs) \<and>
    hasFeature (b # bs) STATIC_REMOTE_KEY \<and>
    \<not> (hasFeature (b # bs) ZERO_CONF \<and> \<not> hasFeature (b # bs) SCID_ALIAS) \<and>
    (hasFeature (b # bs) ANCHOR_ZERO_FEE_HTLC \<longrightarrow>
       offers l ANCHOR_ZERO_FEE_HTLC \<and> offers r ANCHOR_ZERO_FEE_HTLC) \<and>
    (offers l STATIC_REMOTE_KEY \<and> offers r STATIC_REMOTE_KEY) \<and>
    (hasFeature (b # bs) SCID_ALIAS \<longrightarrow> offers l SCID_ALIAS \<and> offers r SCID_ALIAS) \<and>
    (hasFeature (b # bs) ZERO_CONF \<longrightarrow> offers l ZERO_CONF \<and> offers r ZERO_CONF)"
    unfolding validateV2ChannelType_def v2Mask_eq v2_masked_def option.case list.case Let_def
      if_None orElse_None notNegotiated_None rbind_Inr sum.inject not_not ..
  show ?thesis unfolding * advertises_all_offers by blast
qed

section \<open>Properties\<close>

text \<open>C34: a dual-funded channel type is accepted exactly when its bytes are the minimal encoding of one
  of the six admitted combinations and every feature in it is advertised by each side whose feature
  vector is known; an absent or empty type is always refused.\<close>

theorem validateV2ChannelType_exact:
  "validateV2ChannelType channelType l r = Inr None \<longleftrightarrow>
     (\<exists>ct. channelType = Some ct \<and> ct \<in> set v2_channel_types \<and> advertises_all l ct \<and> advertises_all r ct)"
proof (cases "channelType = None \<or> channelType = Some []")
  case True
  then show ?thesis by (auto simp: validateV2ChannelType_def v2_channel_types_def)
next
  case False
  then obtain b bs where c: "channelType = Some (b # bs)"
    by (metis list.exhaust option.exhaust)
  have 1: "b \<noteq> 0 \<and> v2_masked (b # bs) \<and> \<not> hasFeature (b # bs) OPTION_TAPROOT \<and>
      b # bs \<in> set v2_candidates" if "b # bs \<in> set v2_channel_types"
    using v2_types_check that unfolding list_all_iff by (metis list.sel(1))
  have 2: "(hasFeature (b # bs) STATIC_REMOTE_KEY \<and>
      (hasFeature (b # bs) ZERO_CONF \<longrightarrow> hasFeature (b # bs) SCID_ALIAS)) = (b # bs \<in> set v2_channel_types)"
    if "b # bs \<in> set v2_candidates"
    using v2_candidates_check that by (simp add: list_all_iff)
  show ?thesis
    unfolding c v2_reads option.inject using 1 2 v2_masked_list [of b bs] by blast
qed

end
