(* ===== verification/MsgBasic.thy ===== *)
theory MsgBasic
  imports Wire
begin

text \<open>
  BOLT 1 housekeeping: \<^verbatim>\<open>src/lightning/message/\<close>\<open>stfu.ts\<close>, \<open>ping.ts\<close>, \<open>error.ts\<close> and
  \<open>peer-storage.ts\<close>. Text is a list of characters; \<^verbatim>\<open>Buffer.from(message, 'ascii')\<close> keeps the low
  byte of each.
\<close>

section \<open>Definitions\<close>

record IStfuMessage =
  stfu_channelId :: bytes
  stfu_initiator :: bool

definition encodeStfuMessage :: "IStfuMessage \<Rightarrow> bytes res" where
  "encodeStfuMessage msg =
    (let buf = alloc 33 in
     let buf = copy_to (stfu_channelId msg) buf 0 in
     let buf = setByte buf 32 (if stfu_initiator msg then 1 else 0) in
     Inr buf)"

definition decodeStfuMessage :: "bytes \<Rightarrow> IStfuMessage res" where
  "decodeStfuMessage payload =
     throw_if (length payload < 33) (Error ''STFU message too short'' [])
     (Inr \<lparr>stfu_channelId = subarray payload 0 32, stfu_initiator = (uint (payload ! 32) = 1)\<rparr>)"

record IPingMessage =
  png_numPongBytes :: int
  png_byteslen :: int

record IPongMessage =
  pon_byteslen :: int

definition encodePingMessage :: "int \<Rightarrow> int \<Rightarrow> bytes res" where
  "encodePingMessage numPongBytes paddingLen =
     throw_if (numPongBytes < 0 \<or> numPongBytes > 65531)
       (Error ''num_pong_bytes must be 0-65531'' [numPongBytes]) (
     throw_if (paddingLen < 0 \<or> paddingLen > 65531)
       (Error ''Padding length must be 0-65531'' [paddingLen]) (
     let buf = alloc (4 + nat paddingLen) in
     rbind (writeUInt16BE buf numPongBytes 0) (\<lambda>buf.
     writeUInt16BE buf paddingLen 2)))"

definition decodePingMessage :: "bytes \<Rightarrow> IPingMessage res" where
  "decodePingMessage payload =
     throw_if (length payload < 4) (Error ''Ping message too short: need at least 4 bytes'' []) (
     rbind (readUInt16BE payload 0) (\<lambda>numPongBytes.
     rbind (readUInt16BE payload 2) (\<lambda>byteslen.
     throw_if (length payload < 4 + nat byteslen)
       (Error ''Ping message truncated'' [4 + byteslen, int (length payload)])
       (Inr \<lparr>png_numPongBytes = numPongBytes, png_byteslen = byteslen\<rparr>))))"

definition encodePongMessage :: "int \<Rightarrow> bytes res" where
  "encodePongMessage byteslen =
     throw_if (byteslen < 0 \<or> byteslen > 65531)
       (Error ''byteslen must be 0-65531'' [byteslen])
       (writeUInt16BE (alloc (2 + nat byteslen)) byteslen 0)"

definition decodePongMessage :: "bytes \<Rightarrow> IPongMessage res" where
  "decodePongMessage payload =
     throw_if (length payload < 2) (Error ''Pong message too short: need at least 2 bytes'' []) (
     rbind (readUInt16BE payload 0) (\<lambda>byteslen.
     throw_if (length payload < 2 + nat byteslen)
       (Error ''Pong message truncated'' [2 + byteslen, int (length payload)])
       (Inr \<lparr>pon_byteslen = byteslen\<rparr>)))"

record IErrorMessage =
  err_channelId :: bytes
  err_data :: bytes

definition ALL_CHANNELS :: bytes where
  "ALL_CHANNELS = alloc 32"

definition canScopeWireError :: "bytes \<Rightarrow> bool" where
  "canScopeWireError channelId \<longleftrightarrow> length channelId = 32 \<and> \<not> list_all (\<lambda>b. b = 0) channelId"

definition encodeErrorMessage :: "IErrorMessage \<Rightarrow> bytes res" where
  "encodeErrorMessage msg =
     throw_if (length (err_channelId msg) \<noteq> 32)
       (Error ''Channel ID must be 32 bytes'' [int (length (err_channelId msg))])
     (rbind (writeUInt16BE (alloc 2) (int (length (err_data msg))) 0) (\<lambda>len.
      Inr (err_channelId msg @ len @ err_data msg)))"

definition decodeErrorMessage :: "bytes \<Rightarrow> IErrorMessage res" where
  "decodeErrorMessage payload =
     throw_if (length payload < 34) (Error ''Error message too short: need at least 34 bytes'' []) (
     let channelId = subarray payload 0 32 in
     rbind (readUInt16BE payload 32) (\<lambda>len.
     throw_if (34 + nat len > length payload) (Error ''Error: data length exceeds payload'' [])
     (Inr \<lparr>err_channelId = channelId, err_data = subarray payload 34 (34 + nat len)\<rparr>)))"

definition ascii_bytes :: "string \<Rightarrow> bytes" where
  "ascii_bytes = map of_char"

definition createError :: "bytes \<Rightarrow> string \<Rightarrow> IErrorMessage" where
  "createError channelId message = \<lparr>err_channelId = channelId, err_data = ascii_bytes message\<rparr>"

definition createConnectionError :: "string \<Rightarrow> IErrorMessage" where
  "createConnectionError message =
     \<lparr>err_channelId = ALL_CHANNELS, err_data = ascii_bytes message\<rparr>"

definition isConnectionError :: "IErrorMessage \<Rightarrow> bool" where
  "isConnectionError msg \<longleftrightarrow> err_channelId msg = ALL_CHANNELS"

definition MAX_ERROR_TEXT_LENGTH :: nat where
  "MAX_ERROR_TEXT_LENGTH = 1024"

definition shown_char :: "byte \<Rightarrow> char" where
  "shown_char b = (if 0x20 \<le> uint b \<and> uint b \<le> 0x7e then char_of (unat b) else CHR ''?'')"

definition getErrorText :: "IErrorMessage \<Rightarrow> string" where
  "getErrorText msg =
    (let shown = subarray (err_data msg) 0 MAX_ERROR_TEXT_LENGTH in
     let text = map shown_char shown in
     if length (err_data msg) > length shown then text @ ''...'' else text)"

record IPeerStorageMessage =
  pst_blob :: bytes

definition encodeBlobMessage :: "IPeerStorageMessage \<Rightarrow> string \<Rightarrow> bytes res" where
  "encodeBlobMessage msg name =
     throw_if (length (pst_blob msg) > 65531)
       (Error (name @ '' blob too large'') [int (length (pst_blob msg)), 65531]) (
     let buf = alloc (2 + length (pst_blob msg)) in
     rbind (writeUInt16BE buf (int (length (pst_blob msg))) 0) (\<lambda>buf.
     Inr (copy_to (pst_blob msg) buf 2)))"

definition decodeBlobMessage :: "bytes \<Rightarrow> string \<Rightarrow> IPeerStorageMessage res" where
  "decodeBlobMessage payload name =
     throw_if (length payload < 2) (Error (name @ '' message too short'') []) (
     rbind (readUInt16BE payload 0) (\<lambda>len.
     throw_if (len > 65531) (Error (name @ '' blob too large'') [len, 65531]) (
     throw_if (length payload < 2 + nat len) (Error (name @ '' truncated'') [len])
     (Inr \<lparr>pst_blob = subarray payload 2 (2 + nat len)\<rparr>))))"

definition encodePeerStorageMessage :: "IPeerStorageMessage \<Rightarrow> bytes res" where
  "encodePeerStorageMessage msg = encodeBlobMessage msg ''peer_storage''"

definition decodePeerStorageMessage :: "bytes \<Rightarrow> IPeerStorageMessage res" where
  "decodePeerStorageMessage payload = decodeBlobMessage payload ''peer_storage''"

definition encodePeerStorageRetrievalMessage :: "IPeerStorageMessage \<Rightarrow> bytes res" where
  "encodePeerStorageRetrievalMessage msg = encodeBlobMessage msg ''peer_storage_retrieval''"

definition decodePeerStorageRetrievalMessage :: "bytes \<Rightarrow> IPeerStorageMessage res" where
  "decodePeerStorageRetrievalMessage payload = decodeBlobMessage payload ''peer_storage_retrieval''"

section \<open>Round trips\<close>

definition wf_stfu :: "IStfuMessage \<Rightarrow> bool" where
  "wf_stfu m \<longleftrightarrow> length (stfu_channelId m) = 32"

lemma stfu_roundtrip: "wf_stfu m \<Longrightarrow> \<exists>b. encodeStfuMessage m = Inr b \<and> decodeStfuMessage b = Inr m"
  by (simp add: encodeStfuMessage_def decodeStfuMessage_def wf_stfu_def Let_def buf_simps)

lemma stfu_dec_wf: "decodeStfuMessage b = Inr m \<Longrightarrow> wf_stfu m"
  by (auto simp: decodeStfuMessage_def res_Inr_iff wf_stfu_def)

interpretation stfu: wire_codec encodeStfuMessage decodeStfuMessage wf_stfu
  by unfold_locales (use stfu_roundtrip stfu_dec_wf in blast)+

text \<open>Pings and pongs carry only sizes. A peer may announce sizes our encoder refuses, so these
  are encoders rather than full codecs.\<close>

definition wf_png :: "IPingMessage \<Rightarrow> bool" where
  "wf_png m \<longleftrightarrow> 0 \<le> png_numPongBytes m \<and> png_numPongBytes m \<le> 65531 \<and>
     0 \<le> png_byteslen m \<and> png_byteslen m \<le> 65531"

abbreviation encodePing :: "IPingMessage \<Rightarrow> bytes res" where
  "encodePing m \<equiv> encodePingMessage (png_numPongBytes m) (png_byteslen m)"

lemma png_roundtrip: "wf_png m \<Longrightarrow> \<exists>b. encodePing m = Inr b \<and> decodePingMessage b = Inr m"
  using writeUIntBE_field [of "be_bytes 2 (png_numPongBytes m)" 2 "png_byteslen m" 2
      "2 + nat (png_byteslen m)"]
  by (simp add: encodePingMessage_def decodePingMessage_def wf_png_def buf_simps)

interpretation ping: wire_encoder encodePing decodePingMessage wf_png
  by unfold_locales (rule png_roundtrip)

definition wf_pon :: "IPongMessage \<Rightarrow> bool" where
  "wf_pon m \<longleftrightarrow> 0 \<le> pon_byteslen m \<and> pon_byteslen m \<le> 65531"

abbreviation encodePong :: "IPongMessage \<Rightarrow> bytes res" where
  "encodePong m \<equiv> encodePongMessage (pon_byteslen m)"

lemma pon_roundtrip: "wf_pon m \<Longrightarrow> \<exists>b. encodePong m = Inr b \<and> decodePongMessage b = Inr m"
  by (simp add: encodePongMessage_def decodePongMessage_def wf_pon_def buf_simps)

interpretation pong: wire_encoder encodePong decodePongMessage wf_pon
  by unfold_locales (rule pon_roundtrip)

definition wf_err :: "IErrorMessage \<Rightarrow> bool" where
  "wf_err m \<longleftrightarrow> length (err_channelId m) = 32 \<and> length (err_data m) < 65536"

lemma err_roundtrip: "wf_err m \<Longrightarrow> \<exists>b. encodeErrorMessage m = Inr b \<and> decodeErrorMessage b = Inr m"
  by (simp add: encodeErrorMessage_def decodeErrorMessage_def wf_err_def buf_simps u_fits_length)

lemma err_dec_wf: "decodeErrorMessage b = Inr m \<Longrightarrow> wf_err m"
  by (auto simp: decodeErrorMessage_def Let_def res_Inr_iff wf_err_def dest: readUInt16_less)

interpretation wire_error: wire_codec encodeErrorMessage decodeErrorMessage wf_err
  by unfold_locales (use err_roundtrip err_dec_wf in blast)+

definition wf_pst :: "IPeerStorageMessage \<Rightarrow> bool" where
  "wf_pst m \<longleftrightarrow> length (pst_blob m) \<le> 65531"

lemma pst_roundtrip:
  "wf_pst m \<Longrightarrow> \<exists>b. encodeBlobMessage m n = Inr b \<and> decodeBlobMessage b n' = Inr m"
  by (simp add: encodeBlobMessage_def decodeBlobMessage_def wf_pst_def Let_def buf_simps
      u_fits_length)

lemma pst_dec_wf: "decodeBlobMessage b n = Inr m \<Longrightarrow> wf_pst m"
  by (auto simp: decodeBlobMessage_def res_Inr_iff wf_pst_def)

interpretation peer_storage: wire_codec encodePeerStorageMessage decodePeerStorageMessage wf_pst
  unfolding encodePeerStorageMessage_def decodePeerStorageMessage_def
  by unfold_locales (use pst_roundtrip pst_dec_wf in blast)+

interpretation peer_storage_retrieval:
    wire_codec encodePeerStorageRetrievalMessage decodePeerStorageRetrievalMessage wf_pst
  unfolding encodePeerStorageRetrievalMessage_def decodePeerStorageRetrievalMessage_def
  by unfold_locales (use pst_roundtrip pst_dec_wf in blast)+

text \<open>Error texts.\<close>

abbreviation printable :: "char \<Rightarrow> bool" where
  "printable c \<equiv> 0x20 \<le> (of_char c :: nat) \<and> (of_char c :: nat) \<le> 0x7e"

lemma printable_shown_char: "printable (shown_char b)"
proof (cases "0x20 \<le> uint b \<and> uint b \<le> 0x7e")
  case True
  moreover have "int (unat b) = uint b" by simp
  ultimately have "0x20 \<le> unat b" "unat b \<le> 0x7e" by linarith+
  then have "unat b mod 256 = unat b" "0x20 \<le> unat b" "unat b \<le> 0x7e" by simp_all
  moreover have "shown_char b = char_of (unat b)" using True by (simp only: shown_char_def if_True simp_thms)
  ultimately show ?thesis by (simp only: of_char_of)
qed (auto simp: shown_char_def)

section \<open>Properties\<close>

text \<open>C20: \<open>stfu\<close>, \<open>ping\<close>, \<open>pong\<close>, \<open>error\<close> and \<open>peer_storage\<close> survive encoding and decoding within the
  sizes their encoders accept.\<close>

theorem basic_messages_roundtrip:
  assumes "wf_stfu m0"
    and "wf_png m1"
    and "wf_pon m2"
    and "wf_err m3"
    and "wf_pst m4"
  shows "(\<exists>b. encodeStfuMessage m0 = Inr b \<and> decodeStfuMessage b = Inr m0) \<and>
    (\<exists>b. encodePing m1 = Inr b \<and> decodePingMessage b = Inr m1) \<and>
    (\<exists>b. encodePong m2 = Inr b \<and> decodePongMessage b = Inr m2) \<and>
    (\<exists>b. encodeErrorMessage m3 = Inr b \<and> decodeErrorMessage b = Inr m3) \<and>
    (\<exists>b. encodePeerStorageMessage m4 = Inr b \<and> decodePeerStorageMessage b = Inr m4)"
  using stfu.roundtrip [OF assms(1)]
    ping.roundtrip [OF assms(2)]
    pong.roundtrip [OF assms(3)]
    wire_error.roundtrip [OF assms(4)]
    peer_storage.roundtrip [OF assms(5)]
  by (intro conjI)

theorem basic_messages_roundtrip_witness:
  "(\<exists>b. encodeStfuMessage \<lparr>stfu_channelId = replicate 32 1, stfu_initiator = True\<rparr> = Inr b \<and>
     decodeStfuMessage b = Inr \<lparr>stfu_channelId = replicate 32 1, stfu_initiator = True\<rparr>) \<and>
   (\<exists>b. encodePing \<lparr>png_numPongBytes = 16, png_byteslen = 3\<rparr> = Inr b \<and>
     decodePingMessage b = Inr \<lparr>png_numPongBytes = 16, png_byteslen = 3\<rparr>) \<and>
   (\<exists>b. encodePong \<lparr>pon_byteslen = 16\<rparr> = Inr b \<and>
     decodePongMessage b = Inr \<lparr>pon_byteslen = 16\<rparr>) \<and>
   (\<exists>b. encodeErrorMessage \<lparr>err_channelId = replicate 32 1, err_data = [110, 111]\<rparr> = Inr b \<and>
     decodeErrorMessage b = Inr \<lparr>err_channelId = replicate 32 1, err_data = [110, 111]\<rparr>) \<and>
   (\<exists>b. encodePeerStorageMessage \<lparr>pst_blob = [1, 2, 3]\<rparr> = Inr b \<and>
     decodePeerStorageMessage b = Inr \<lparr>pst_blob = [1, 2, 3]\<rparr>)"
  by (rule basic_messages_roundtrip) (simp_all add: wf_stfu_def wf_png_def wf_pon_def wf_err_def wf_pst_def u_fits_def s64_fits_def)

text \<open>a peer's error text reaches a log only as printable ASCII of bounded length: every
  character shown is between space and tilde, and there are at most 1024 of them plus an ellipsis.\<close>

theorem getErrorText_printable:
  "list_all (\<lambda>c. 0x20 \<le> (of_char c :: nat) \<and> (of_char c :: nat) \<le> 0x7e) (getErrorText msg) \<and>
   length (getErrorText msg) \<le> 1027"
  using printable_shown_char
  by (auto simp: getErrorText_def Let_def list_all_iff MAX_ERROR_TEXT_LENGTH_def)

end
