(* ===== verification/MsgUpdate.thy ===== *)
theory MsgUpdate
  imports Wire
begin

text \<open>
  BOLT 2 HTLC and fee updates: \<^verbatim>\<open>src/lightning/message/channel-update.ts\<close>. Each encoder writes
  its fields into a zeroed buffer at the offsets of the source, each decoder reads them back;
  \<open>update_add_htlc\<close> carries two optional TLV records.
\<close>

section \<open>Definitions\<close>

record IUpdateAddHtlcMessage =
  uah_channelId :: bytes
  uah_id :: int
  uah_amountMsat :: int
  uah_paymentHash :: bytes
  uah_cltvExpiry :: int
  uah_onionRoutingPacket :: bytes
  uah_blindingPoint :: "bytes option"
  uah_skimmedFeeMsat :: "int option"

definition encodeUpdateAddHtlcMessage :: "IUpdateAddHtlcMessage \<Rightarrow> bytes res" where
  "encodeUpdateAddHtlcMessage msg =
    (let buf = alloc 1450 in
     let buf = copy_to (uah_channelId msg) buf 0 in
     rbind (writeBigUInt64BE buf (uah_id msg) 32) (\<lambda>buf.
     rbind (writeBigUInt64BE buf (uah_amountMsat msg) 40) (\<lambda>buf.
     let buf = copy_to (uah_paymentHash msg) buf 48 in
     rbind (writeUInt32BE buf (uah_cltvExpiry msg) 80) (\<lambda>buf.
     let buf = copy_to (uah_onionRoutingPacket msg) buf 84 in
     rbind (case uah_blindingPoint msg of None \<Rightarrow> Inr []
            | Some p \<Rightarrow> throw_if (length p \<noteq> 33) (Error ''blindingPoint must be 33 bytes'' [])
                (encodeTlvRecord \<lparr>tlv_type = 0, tlv_value = p\<rparr>)) (\<lambda>part1.
     rbind (case uah_skimmedFeeMsat msg of None \<Rightarrow> Inr []
            | Some fee \<Rightarrow> rbind (writeBigUInt64BE (alloc 8) fee 0) (\<lambda>value.
                encodeTlvRecord \<lparr>tlv_type = 65537, tlv_value = value\<rparr>)) (\<lambda>part2.
     Inr (buf @ part1 @ part2)))))))"

definition uah_tlv_body :: "IUpdateAddHtlcMessage \<Rightarrow> ITlvRecord \<Rightarrow> IUpdateAddHtlcMessage res" where
  "uah_tlv_body result record =
     (if tlv_type record = 0 then
        throw_if (length (tlv_value record) \<noteq> 33)
          (Error ''update_add_htlc: blinding_point must be 33 bytes''
            [int (length (tlv_value record))])
          (Inr (result\<lparr>uah_blindingPoint := Some (tlv_value record)\<rparr>))
      else if tlv_type record = 65537 then
        throw_if (length (tlv_value record) \<noteq> 8)
          (Error ''update_add_htlc: skimmed_fee_msat must be 8 bytes'' [])
          (rbind (readBigUInt64BE (tlv_value record) 0) (\<lambda>fee.
           Inr (result\<lparr>uah_skimmedFeeMsat := Some fee\<rparr>)))
      else Inr result)"

definition decodeUpdateAddHtlcMessage :: "bytes \<Rightarrow> IUpdateAddHtlcMessage res" where
  "decodeUpdateAddHtlcMessage payload =
     throw_if (length payload < 1450)
       (Error ''update_add_htlc too short'' [1450, int (length payload)]) (
     let channelId = subarray payload 0 32 in
     rbind (readBigUInt64BE payload 32) (\<lambda>htlcId.
     rbind (readBigUInt64BE payload 40) (\<lambda>amountMsat.
     let paymentHash = subarray payload 48 80 in
     rbind (readUInt32BE payload 80) (\<lambda>cltvExpiry.
     let onionRoutingPacket = subarray payload 84 1450 in
     decode_tail payload 1450 {0, 65537} uah_tlv_body
       \<lparr>uah_channelId = channelId, uah_id = htlcId, uah_amountMsat = amountMsat,
        uah_paymentHash = paymentHash, uah_cltvExpiry = cltvExpiry,
        uah_onionRoutingPacket = onionRoutingPacket,
        uah_blindingPoint = None, uah_skimmedFeeMsat = None\<rparr>))))"

record IUpdateFulfillHtlcMessage =
  ufh_channelId :: bytes
  ufh_id :: int
  ufh_paymentPreimage :: bytes

definition encodeUpdateFulfillHtlcMessage :: "IUpdateFulfillHtlcMessage \<Rightarrow> bytes res" where
  "encodeUpdateFulfillHtlcMessage msg =
    (let buf = alloc 72 in
     let buf = copy_to (ufh_channelId msg) buf 0 in
     rbind (writeBigUInt64BE buf (ufh_id msg) 32) (\<lambda>buf.
     let buf = copy_to (ufh_paymentPreimage msg) buf 40 in
     Inr buf))"

definition decodeUpdateFulfillHtlcMessage :: "bytes \<Rightarrow> IUpdateFulfillHtlcMessage res" where
  "decodeUpdateFulfillHtlcMessage payload =
    (throw_if (length payload < 72)
       (Error ''update_fulfill_htlc too short'' [72, int (length payload)]) (
     let channelId = subarray payload 0 32 in
     rbind (readBigUInt64BE payload 32) (\<lambda>htlcId.
     let paymentPreimage = subarray payload 40 72 in
     Inr \<lparr>ufh_channelId = channelId, ufh_id = htlcId,
        ufh_paymentPreimage = paymentPreimage\<rparr>)))"

record IUpdateFailHtlcMessage =
  ufl_channelId :: bytes
  ufl_id :: int
  ufl_reason :: bytes

definition encodeUpdateFailHtlcMessage :: "IUpdateFailHtlcMessage \<Rightarrow> bytes res" where
  "encodeUpdateFailHtlcMessage msg =
    (let buf = alloc (42 + length (ufl_reason msg)) in
     let buf = copy_to (ufl_channelId msg) buf 0 in
     rbind (writeBigUInt64BE buf (ufl_id msg) 32) (\<lambda>buf.
     rbind (writeUInt16BE buf (int (length (ufl_reason msg))) 40) (\<lambda>buf.
     let buf = copy_to (ufl_reason msg) buf 42 in
     Inr buf)))"

definition decodeUpdateFailHtlcMessage :: "bytes \<Rightarrow> IUpdateFailHtlcMessage res" where
  "decodeUpdateFailHtlcMessage payload =
    (throw_if (length payload < 42)
       (Error ''update_fail_htlc too short'' [42, int (length payload)]) (
     let channelId = subarray payload 0 32 in
     rbind (readBigUInt64BE payload 32) (\<lambda>htlcId.
     rbind (readUInt16BE payload 40) (\<lambda>reasonLen.
     throw_if ((42 + nat reasonLen) > length payload)
       (Error ''update_fail_htlc reason length exceeds payload'' [reasonLen]) (
     let reason = subarray payload 42 (42 + nat reasonLen) in
     Inr \<lparr>ufl_channelId = channelId, ufl_id = htlcId, ufl_reason = reason\<rparr>)))))"

record IUpdateFailMalformedHtlcMessage =
  ufm_channelId :: bytes
  ufm_id :: int
  ufm_sha256OfOnion :: bytes
  ufm_failureCode :: int

definition encodeUpdateFailMalformedHtlcMessage :: "IUpdateFailMalformedHtlcMessage \<Rightarrow> bytes res" where
  "encodeUpdateFailMalformedHtlcMessage msg =
    (let buf = alloc 74 in
     let buf = copy_to (ufm_channelId msg) buf 0 in
     rbind (writeBigUInt64BE buf (ufm_id msg) 32) (\<lambda>buf.
     let buf = copy_to (ufm_sha256OfOnion msg) buf 40 in
     rbind (writeUInt16BE buf (ufm_failureCode msg) 72) (\<lambda>buf.
     Inr buf)))"

definition decodeUpdateFailMalformedHtlcMessage :: "bytes \<Rightarrow> IUpdateFailMalformedHtlcMessage res" where
  "decodeUpdateFailMalformedHtlcMessage payload =
    (throw_if (length payload < 74)
       (Error ''update_fail_malformed_htlc too short'' [74, int (length payload)]) (
     let channelId = subarray payload 0 32 in
     rbind (readBigUInt64BE payload 32) (\<lambda>htlcId.
     let sha256OfOnion = subarray payload 40 72 in
     rbind (readUInt16BE payload 72) (\<lambda>failureCode.
     Inr \<lparr>ufm_channelId = channelId, ufm_id = htlcId, ufm_sha256OfOnion = sha256OfOnion,
        ufm_failureCode = failureCode\<rparr>))))"

record IUpdateFeeMessage =
  ufe_channelId :: bytes
  ufe_feeratePerKw :: int

definition encodeUpdateFeeMessage :: "IUpdateFeeMessage \<Rightarrow> bytes res" where
  "encodeUpdateFeeMessage msg =
    (let buf = alloc 36 in
     let buf = copy_to (ufe_channelId msg) buf 0 in
     rbind (writeUInt32BE buf (ufe_feeratePerKw msg) 32) (\<lambda>buf.
     Inr buf))"

definition decodeUpdateFeeMessage :: "bytes \<Rightarrow> IUpdateFeeMessage res" where
  "decodeUpdateFeeMessage payload =
    (throw_if (length payload < 36)
       (Error ''update_fee too short'' [36, int (length payload)]) (
     let channelId = subarray payload 0 32 in
     rbind (readUInt32BE payload 32) (\<lambda>feeratePerKw.
     Inr \<lparr>ufe_channelId = channelId, ufe_feeratePerKw = feeratePerKw\<rparr>)))"

record IUpdateBlockheightMessage =
  ubh_channelId :: bytes
  ubh_blockheight :: int

definition encodeUpdateBlockheightMessage :: "IUpdateBlockheightMessage \<Rightarrow> bytes res" where
  "encodeUpdateBlockheightMessage msg =
    (let buf = alloc 36 in
     let buf = copy_to (ubh_channelId msg) buf 0 in
     rbind (writeUInt32BE buf (ubh_blockheight msg) 32) (\<lambda>buf.
     Inr buf))"

definition decodeUpdateBlockheightMessage :: "bytes \<Rightarrow> IUpdateBlockheightMessage res" where
  "decodeUpdateBlockheightMessage payload =
    (throw_if (length payload < 36)
       (Error ''update_blockheight too short'' [36, int (length payload)]) (
     let channelId = subarray payload 0 32 in
     rbind (readUInt32BE payload 32) (\<lambda>blockheight.
     Inr \<lparr>ubh_channelId = channelId, ubh_blockheight = blockheight\<rparr>)))"

section \<open>Round trips\<close>

definition wf_uah :: "IUpdateAddHtlcMessage \<Rightarrow> bool" where
  "wf_uah m \<longleftrightarrow> length (uah_channelId m) = 32 \<and> u_fits 8 (uah_id m) \<and>
     u_fits 8 (uah_amountMsat m) \<and> length (uah_paymentHash m) = 32 \<and>
     u_fits 4 (uah_cltvExpiry m) \<and> length (uah_onionRoutingPacket m) = 1366 \<and>
     opt_has_len 33 (uah_blindingPoint m) \<and>
     pred_option (u_fits 8) (uah_skimmedFeeMsat m)"

abbreviation uah_fixed :: "IUpdateAddHtlcMessage \<Rightarrow> bytes" where
  "uah_fixed m \<equiv> uah_channelId m @ be_bytes 8 (uah_id m) @ be_bytes 8 (uah_amountMsat m) @
     uah_paymentHash m @ be_bytes 4 (uah_cltvExpiry m) @ uah_onionRoutingPacket m"

definition uah_tlvs :: "IUpdateAddHtlcMessage \<Rightarrow> ITlvRecord list" where
  "uah_tlvs m = opt_rec 0 (uah_blindingPoint m) @
     opt_rec 65537 (map_option (be_bytes 8) (uah_skimmedFeeMsat m))"

lemma uah_tlv_ok: "wf_uah m \<Longrightarrow> tlv_ok {0, 65537} (uah_tlvs m)"
  by (auto simp: wf_uah_def uah_tlvs_def tlv_simps split: option.splits)

lemma uah_enc:
  assumes "wf_uah m"
  shows "encodeUpdateAddHtlcMessage m = Inr (uah_fixed m @ tlvs (uah_tlvs m))"
  using assms
  by (cases "uah_blindingPoint m"; cases "uah_skimmedFeeMsat m")
    (simp_all add: encodeUpdateAddHtlcMessage_def wf_uah_def uah_tlvs_def Let_def buf_simps
      tlv_record_eq tlv_fits_def del: append_assoc)

lemma uah_dec:
  assumes "wf_uah m"
  shows "decodeUpdateAddHtlcMessage (uah_fixed m @ tlvs (uah_tlvs m)) = Inr m"
  using assms decode_tail_eq [OF uah_tlv_ok [OF assms], of "uah_fixed m" 1450 uah_tlv_body]
  by (cases "uah_blindingPoint m"; cases "uah_skimmedFeeMsat m")
    (simp_all add: decodeUpdateAddHtlcMessage_def wf_uah_def uah_tlvs_def uah_tlv_body_def buf_simps)

lemma uah_tlv_wf: "tlv_fits r \<Longrightarrow> wf_uah s \<Longrightarrow> uah_tlv_body s r = Inr s' \<Longrightarrow> wf_uah s'"
  by (auto simp: wf_uah_def uah_tlv_body_def res_Inr_iff intro: fits_intros split: if_splits)

lemma uah_dec_wf: "decodeUpdateAddHtlcMessage b = Inr m \<Longrightarrow> wf_uah m"
  by (auto simp: decodeUpdateAddHtlcMessage_def Let_def res_Inr_iff
      elim!: decode_tail_inv [where P = wf_uah] intro: uah_tlv_wf)
    (auto simp: wf_uah_def intro: fits_intros)

interpretation update_add_htlc:
    wire_codec encodeUpdateAddHtlcMessage decodeUpdateAddHtlcMessage wf_uah
  by unfold_locales (use uah_enc uah_dec uah_dec_wf in blast)+

definition wf_ufh :: "IUpdateFulfillHtlcMessage \<Rightarrow> bool" where
  "wf_ufh m \<longleftrightarrow> length (ufh_channelId m) = 32 \<and> u_fits 8 (ufh_id m) \<and>
     length (ufh_paymentPreimage m) = 32"

abbreviation ufh_fixed :: "IUpdateFulfillHtlcMessage \<Rightarrow> bytes" where
  "ufh_fixed m \<equiv> ufh_channelId m @ be_bytes 8 (ufh_id m) @ ufh_paymentPreimage m"

lemma ufh_enc:
  assumes "wf_ufh m"
  shows "encodeUpdateFulfillHtlcMessage m = Inr (ufh_fixed m)"
  using assms
  by (simp add: encodeUpdateFulfillHtlcMessage_def wf_ufh_def Let_def buf_simps u_fits_length del: append_assoc)

lemma ufh_dec:
  assumes "wf_ufh m"
  shows "decodeUpdateFulfillHtlcMessage (ufh_fixed m) = Inr m"
  using assms by (simp add: decodeUpdateFulfillHtlcMessage_def wf_ufh_def buf_simps u_fits_length)

lemma ufh_dec_wf: "decodeUpdateFulfillHtlcMessage b = Inr m \<Longrightarrow> wf_ufh m"
  by (auto simp: decodeUpdateFulfillHtlcMessage_def Let_def res_Inr_iff wf_ufh_def intro: fits_intros dest: readUInt16_less)

interpretation update_fulfill_htlc: wire_codec encodeUpdateFulfillHtlcMessage decodeUpdateFulfillHtlcMessage wf_ufh
  by unfold_locales (use ufh_enc ufh_dec ufh_dec_wf in blast)+

definition wf_ufl :: "IUpdateFailHtlcMessage \<Rightarrow> bool" where
  "wf_ufl m \<longleftrightarrow> length (ufl_channelId m) = 32 \<and> u_fits 8 (ufl_id m) \<and>
     length (ufl_reason m) < 65536"

abbreviation ufl_fixed :: "IUpdateFailHtlcMessage \<Rightarrow> bytes" where
  "ufl_fixed m \<equiv> ufl_channelId m @ be_bytes 8 (ufl_id m) @
     be_bytes 2 (int (length (ufl_reason m))) @ ufl_reason m"

lemma ufl_enc:
  assumes "wf_ufl m"
  shows "encodeUpdateFailHtlcMessage m = Inr (ufl_fixed m)"
  using assms
  by (simp add: encodeUpdateFailHtlcMessage_def wf_ufl_def Let_def buf_simps u_fits_length del: append_assoc)

lemma ufl_dec:
  assumes "wf_ufl m"
  shows "decodeUpdateFailHtlcMessage (ufl_fixed m) = Inr m"
  using assms by (simp add: decodeUpdateFailHtlcMessage_def wf_ufl_def buf_simps u_fits_length)

lemma ufl_dec_wf: "decodeUpdateFailHtlcMessage b = Inr m \<Longrightarrow> wf_ufl m"
  by (auto simp: decodeUpdateFailHtlcMessage_def Let_def res_Inr_iff wf_ufl_def intro: fits_intros dest: readUInt16_less)

interpretation update_fail_htlc: wire_codec encodeUpdateFailHtlcMessage decodeUpdateFailHtlcMessage wf_ufl
  by unfold_locales (use ufl_enc ufl_dec ufl_dec_wf in blast)+

definition wf_ufm :: "IUpdateFailMalformedHtlcMessage \<Rightarrow> bool" where
  "wf_ufm m \<longleftrightarrow> length (ufm_channelId m) = 32 \<and> u_fits 8 (ufm_id m) \<and>
     length (ufm_sha256OfOnion m) = 32 \<and> u_fits 2 (ufm_failureCode m)"

abbreviation ufm_fixed :: "IUpdateFailMalformedHtlcMessage \<Rightarrow> bytes" where
  "ufm_fixed m \<equiv> ufm_channelId m @ be_bytes 8 (ufm_id m) @ ufm_sha256OfOnion m @
     be_bytes 2 (ufm_failureCode m)"

lemma ufm_enc:
  assumes "wf_ufm m"
  shows "encodeUpdateFailMalformedHtlcMessage m = Inr (ufm_fixed m)"
  using assms
  by (simp add: encodeUpdateFailMalformedHtlcMessage_def wf_ufm_def Let_def buf_simps u_fits_length del: append_assoc)

lemma ufm_dec:
  assumes "wf_ufm m"
  shows "decodeUpdateFailMalformedHtlcMessage (ufm_fixed m) = Inr m"
  using assms by (simp add: decodeUpdateFailMalformedHtlcMessage_def wf_ufm_def buf_simps u_fits_length)

lemma ufm_dec_wf: "decodeUpdateFailMalformedHtlcMessage b = Inr m \<Longrightarrow> wf_ufm m"
  by (auto simp: decodeUpdateFailMalformedHtlcMessage_def Let_def res_Inr_iff wf_ufm_def intro: fits_intros dest: readUInt16_less)

interpretation update_fail_malformed_htlc: wire_codec encodeUpdateFailMalformedHtlcMessage decodeUpdateFailMalformedHtlcMessage wf_ufm
  by unfold_locales (use ufm_enc ufm_dec ufm_dec_wf in blast)+

definition wf_ufe :: "IUpdateFeeMessage \<Rightarrow> bool" where
  "wf_ufe m \<longleftrightarrow> length (ufe_channelId m) = 32 \<and> u_fits 4 (ufe_feeratePerKw m)"

abbreviation ufe_fixed :: "IUpdateFeeMessage \<Rightarrow> bytes" where
  "ufe_fixed m \<equiv> ufe_channelId m @ be_bytes 4 (ufe_feeratePerKw m)"

lemma ufe_enc:
  assumes "wf_ufe m"
  shows "encodeUpdateFeeMessage m = Inr (ufe_fixed m)"
  using assms
  by (simp add: encodeUpdateFeeMessage_def wf_ufe_def Let_def buf_simps u_fits_length del: append_assoc)

lemma ufe_dec:
  assumes "wf_ufe m"
  shows "decodeUpdateFeeMessage (ufe_fixed m) = Inr m"
  using assms by (simp add: decodeUpdateFeeMessage_def wf_ufe_def buf_simps u_fits_length)

lemma ufe_dec_wf: "decodeUpdateFeeMessage b = Inr m \<Longrightarrow> wf_ufe m"
  by (auto simp: decodeUpdateFeeMessage_def Let_def res_Inr_iff wf_ufe_def intro: fits_intros dest: readUInt16_less)

interpretation update_fee: wire_codec encodeUpdateFeeMessage decodeUpdateFeeMessage wf_ufe
  by unfold_locales (use ufe_enc ufe_dec ufe_dec_wf in blast)+

definition wf_ubh :: "IUpdateBlockheightMessage \<Rightarrow> bool" where
  "wf_ubh m \<longleftrightarrow> length (ubh_channelId m) = 32 \<and> u_fits 4 (ubh_blockheight m)"

abbreviation ubh_fixed :: "IUpdateBlockheightMessage \<Rightarrow> bytes" where
  "ubh_fixed m \<equiv> ubh_channelId m @ be_bytes 4 (ubh_blockheight m)"

lemma ubh_enc:
  assumes "wf_ubh m"
  shows "encodeUpdateBlockheightMessage m = Inr (ubh_fixed m)"
  using assms
  by (simp add: encodeUpdateBlockheightMessage_def wf_ubh_def Let_def buf_simps u_fits_length del: append_assoc)

lemma ubh_dec:
  assumes "wf_ubh m"
  shows "decodeUpdateBlockheightMessage (ubh_fixed m) = Inr m"
  using assms by (simp add: decodeUpdateBlockheightMessage_def wf_ubh_def buf_simps u_fits_length)

lemma ubh_dec_wf: "decodeUpdateBlockheightMessage b = Inr m \<Longrightarrow> wf_ubh m"
  by (auto simp: decodeUpdateBlockheightMessage_def Let_def res_Inr_iff wf_ubh_def intro: fits_intros dest: readUInt16_less)

interpretation update_blockheight: wire_codec encodeUpdateBlockheightMessage decodeUpdateBlockheightMessage wf_ubh
  by unfold_locales (use ubh_enc ubh_dec ubh_dec_wf in blast)+

section \<open>Properties\<close>

text \<open>C21: every HTLC and fee update whose fields have their wire sizes is encoded without error, and
  decoding the payload gives the same update, optional records included.\<close>

theorem update_messages_roundtrip:
  assumes "wf_uah m0"
    and "wf_ufh m1"
    and "wf_ufl m2"
    and "wf_ufm m3"
    and "wf_ufe m4"
    and "wf_ubh m5"
  shows "(\<exists>b. encodeUpdateAddHtlcMessage m0 = Inr b \<and> decodeUpdateAddHtlcMessage b = Inr m0) \<and>
    (\<exists>b. encodeUpdateFulfillHtlcMessage m1 = Inr b \<and> decodeUpdateFulfillHtlcMessage b = Inr m1) \<and>
    (\<exists>b. encodeUpdateFailHtlcMessage m2 = Inr b \<and> decodeUpdateFailHtlcMessage b = Inr m2) \<and>
    (\<exists>b. encodeUpdateFailMalformedHtlcMessage m3 = Inr b \<and> decodeUpdateFailMalformedHtlcMessage b = Inr m3) \<and>
    (\<exists>b. encodeUpdateFeeMessage m4 = Inr b \<and> decodeUpdateFeeMessage b = Inr m4) \<and>
    (\<exists>b. encodeUpdateBlockheightMessage m5 = Inr b \<and> decodeUpdateBlockheightMessage b = Inr m5)"
  using update_add_htlc.roundtrip [OF assms(1)]
    update_fulfill_htlc.roundtrip [OF assms(2)]
    update_fail_htlc.roundtrip [OF assms(3)]
    update_fail_malformed_htlc.roundtrip [OF assms(4)]
    update_fee.roundtrip [OF assms(5)]
    update_blockheight.roundtrip [OF assms(6)]
  by (intro conjI)

theorem update_messages_roundtrip_witness:
  "(\<exists>b. encodeUpdateAddHtlcMessage \<lparr>uah_channelId = replicate 32 1, uah_id = 7, uah_amountMsat = 250000,
      uah_paymentHash = replicate 32 2, uah_cltvExpiry = 800000,
      uah_onionRoutingPacket = replicate 1366 3, uah_blindingPoint = Some (replicate 33 4),
      uah_skimmedFeeMsat = Some 9\<rparr> = Inr b \<and>
     decodeUpdateAddHtlcMessage b = Inr \<lparr>uah_channelId = replicate 32 1, uah_id = 7, uah_amountMsat = 250000,
      uah_paymentHash = replicate 32 2, uah_cltvExpiry = 800000,
      uah_onionRoutingPacket = replicate 1366 3, uah_blindingPoint = Some (replicate 33 4),
      uah_skimmedFeeMsat = Some 9\<rparr>) \<and>
   (\<exists>b. encodeUpdateFulfillHtlcMessage \<lparr>ufh_channelId = replicate 32 1, ufh_id = 14,
      ufh_paymentPreimage = replicate 32 3\<rparr> = Inr b \<and>
     decodeUpdateFulfillHtlcMessage b = Inr \<lparr>ufh_channelId = replicate 32 1, ufh_id = 14,
      ufh_paymentPreimage = replicate 32 3\<rparr>) \<and>
   (\<exists>b. encodeUpdateFailHtlcMessage \<lparr>ufl_channelId = replicate 32 1, ufl_id = 14, ufl_reason = [3, 4]\<rparr> = Inr b \<and>
     decodeUpdateFailHtlcMessage b = Inr \<lparr>ufl_channelId = replicate 32 1, ufl_id = 14, ufl_reason = [3, 4]\<rparr>) \<and>
   (\<exists>b. encodeUpdateFailMalformedHtlcMessage \<lparr>ufm_channelId = replicate 32 1, ufm_id = 14,
      ufm_sha256OfOnion = replicate 32 3, ufm_failureCode = 28\<rparr> = Inr b \<and>
     decodeUpdateFailMalformedHtlcMessage b = Inr \<lparr>ufm_channelId = replicate 32 1, ufm_id = 14,
      ufm_sha256OfOnion = replicate 32 3, ufm_failureCode = 28\<rparr>) \<and>
   (\<exists>b. encodeUpdateFeeMessage \<lparr>ufe_channelId = replicate 32 1, ufe_feeratePerKw = 14\<rparr> = Inr b \<and>
     decodeUpdateFeeMessage b = Inr \<lparr>ufe_channelId = replicate 32 1, ufe_feeratePerKw = 14\<rparr>) \<and>
   (\<exists>b. encodeUpdateBlockheightMessage \<lparr>ubh_channelId = replicate 32 1, ubh_blockheight = 14\<rparr> = Inr b \<and>
     decodeUpdateBlockheightMessage b = Inr \<lparr>ubh_channelId = replicate 32 1, ubh_blockheight = 14\<rparr>)"
  by (rule update_messages_roundtrip) (simp_all add: wf_uah_def wf_ufh_def wf_ufl_def wf_ufm_def wf_ufe_def wf_ubh_def u_fits_def s64_fits_def)

end
