(* ===== verification/MsgCommitment.thy ===== *)
theory MsgCommitment
  imports Wire
begin

text \<open>
  BOLT 2 commitment exchange: \<^verbatim>\<open>src/lightning/message/channel-commitment.ts\<close>
  (\<open>commitment_signed\<close> with its list of HTLC signatures, and \<open>revoke_and_ack\<close>).
\<close>

section \<open>Definitions\<close>

record ICommitmentSignedMessage =
  csg_channelId :: bytes
  csg_signature :: bytes
  csg_htlcSignatures :: "bytes list"
  csg_fundingTxid :: "bytes option"
  csg_partialSignatureWithNonce :: "bytes option"

text \<open>\<^verbatim>\<open>for (const sig of msg.htlcSignatures) { sig.copy(buf, offset); offset += 64; }\<close>\<close>

fun copy_sigs :: "bytes list \<Rightarrow> bytes \<Rightarrow> nat \<Rightarrow> bytes" where
  "copy_sigs [] buf offset = buf"
| "copy_sigs (sig # sigs) buf offset = copy_sigs sigs (copy_to sig buf offset) (offset + 64)"

definition encodeCommitmentSignedMessage :: "ICommitmentSignedMessage \<Rightarrow> bytes res" where
  "encodeCommitmentSignedMessage msg =
    (let numHtlcs = length (csg_htlcSignatures msg) in
     let buf = alloc (98 + numHtlcs * 64) in
     let buf = copy_to (csg_channelId msg) buf 0 in
     let buf = copy_to (csg_signature msg) buf 32 in
     rbind (writeUInt16BE buf (int numHtlcs) 96) (\<lambda>buf.
     let buf = copy_sigs (csg_htlcSignatures msg) buf 98 in
     throw_if (bad_len 32 (csg_fundingTxid msg))
       (Error ''commitment_signed funding_txid must be 32 bytes'' [opt_len (csg_fundingTxid msg)]) (
     throw_if (bad_len 98 (csg_partialSignatureWithNonce msg))
       (Error ''partial_signature_with_nonce must be 98 bytes''
         [opt_len (csg_partialSignatureWithNonce msg)]) (
     tlv_tail buf (sort_key tlv_type
       (opt_rec 1 (csg_fundingTxid msg) @ opt_rec 2 (csg_partialSignatureWithNonce msg)))))))"

fun read_sigs :: "bytes \<Rightarrow> nat \<Rightarrow> nat \<Rightarrow> bytes list" where
  "read_sigs payload offset 0 = []"
| "read_sigs payload offset (Suc n) =
     subarray payload offset (offset + 64) # read_sigs payload (offset + 64) n"

definition csg_tlv_body ::
    "ICommitmentSignedMessage \<Rightarrow> ITlvRecord \<Rightarrow> ICommitmentSignedMessage res" where
  "csg_tlv_body result record =
     (if tlv_type record = 1 \<and> length (tlv_value record) = 32 then
        Inr (result\<lparr>csg_fundingTxid := Some (tlv_value record)\<rparr>)
      else if tlv_type record = 2 \<and> length (tlv_value record) = 98 then
        Inr (result\<lparr>csg_partialSignatureWithNonce := Some (tlv_value record)\<rparr>)
      else Inr result)"

definition decodeCommitmentSignedMessage :: "bytes \<Rightarrow> ICommitmentSignedMessage res" where
  "decodeCommitmentSignedMessage payload =
     throw_if (length payload < 98)
       (Error ''commitment_signed too short'' [98, int (length payload)]) (
     let channelId = subarray payload 0 32 in
     let signature = subarray payload 32 96 in
     rbind (readUInt16BE payload 96) (\<lambda>numHtlcs.
     let expectedLength = 98 + nat numHtlcs * 64 in
     throw_if (length payload < expectedLength)
       (Error ''commitment_signed too short for HTLCs''
         [numHtlcs, int expectedLength, int (length payload)]) (
     let htlcSignatures = read_sigs payload 98 (nat numHtlcs) in
     decode_tail payload expectedLength {1, 2} csg_tlv_body
       \<lparr>csg_channelId = channelId, csg_signature = signature,
        csg_htlcSignatures = htlcSignatures, csg_fundingTxid = None,
        csg_partialSignatureWithNonce = None\<rparr>)))"

record IRevokeAndAckMessage =
  raa_channelId :: bytes
  raa_perCommitmentSecret :: bytes
  raa_nextPerCommitmentPoint :: bytes
  raa_nextLocalNonce :: "bytes option"

definition encodeRevokeAndAckMessage :: "IRevokeAndAckMessage \<Rightarrow> bytes res" where
  "encodeRevokeAndAckMessage msg =
    (let buf = alloc 97 in
     let buf = copy_to (raa_channelId msg) buf 0 in
     let buf = copy_to (raa_perCommitmentSecret msg) buf 32 in
     let buf = copy_to (raa_nextPerCommitmentPoint msg) buf 64 in
     throw_if (bad_len 66 (raa_nextLocalNonce msg))
       (Error ''revoke_and_ack next_local_nonce must be 66 bytes'' [opt_len (raa_nextLocalNonce msg)]) (
     tlv_tail buf (opt_rec 4 (raa_nextLocalNonce msg))))"

definition raa_tlv_body :: "IRevokeAndAckMessage \<Rightarrow> ITlvRecord \<Rightarrow> IRevokeAndAckMessage res" where
  "raa_tlv_body result record =
     (if tlv_type record = 4 \<and> length (tlv_value record) = 66 then
        Inr (result\<lparr>raa_nextLocalNonce := Some (tlv_value record)\<rparr>)
      else Inr result)"

definition decodeRevokeAndAckMessage :: "bytes \<Rightarrow> IRevokeAndAckMessage res" where
  "decodeRevokeAndAckMessage payload =
    (throw_if (length payload < 97)
       (Error ''revoke_and_ack too short'' [97, int (length payload)]) (
     let channelId = subarray payload 0 32 in
     let perCommitmentSecret = subarray payload 32 64 in
     let nextPerCommitmentPoint = subarray payload 64 97 in
     decode_tail payload 97 {4} raa_tlv_body
       \<lparr>raa_channelId = channelId, raa_perCommitmentSecret = perCommitmentSecret,
        raa_nextPerCommitmentPoint = nextPerCommitmentPoint, raa_nextLocalNonce = None\<rparr>))"

section \<open>Round trips\<close>

lemma copy_sigs_fields [buf_simps]:
  assumes "\<forall>sig \<in> set sigs. length sig = 64" "length pre = off" "n = 64 * length sigs"
  shows "copy_sigs sigs (pre @ alloc n) off = pre @ concat sigs"
  using assms
proof (induction sigs arbitrary: pre off n)
  case Nil
  then show ?case by simp
next
  case (Cons sig sigs)
  then have "copy_to sig (pre @ alloc n) off = (pre @ sig) @ alloc (64 * length sigs)"
    by (simp add: buf_simps del: append_assoc)
  with Cons.IH [of "pre @ sig" "off + 64" "64 * length sigs"] Cons.prems show ?case
    by (simp del: append_assoc)
qed

lemma read_sigs_fields [buf_simps]:
  assumes "\<forall>sig \<in> set sigs. length sig = 64" "length pre = off" "n = length sigs"
  shows "read_sigs (pre @ concat sigs @ post) off n = sigs"
  using assms
proof (induction sigs arbitrary: pre off n)
  case Nil
  then show ?case by simp
next
  case (Cons sig sigs)
  then show ?case
    using Cons.IH [of "pre @ sig" "off + 64" "length sigs"] by (simp add: buf_simps)
qed

lemma length_read_sigs [simp]: "length (read_sigs payload off n) = n"
  by (induction n arbitrary: off) auto

lemma read_sigs_lengths:
  "sig \<in> set (read_sigs payload off n) \<Longrightarrow> off + n * 64 \<le> length payload \<Longrightarrow> length sig = 64"
  by (induction n arbitrary: off) fastforce+

lemma length_concat_sigs:
  "\<forall>sig \<in> set sigs. length sig = 64 \<Longrightarrow> length (concat sigs) = length sigs * 64"
  by (induction sigs) auto

definition wf_csg :: "ICommitmentSignedMessage \<Rightarrow> bool" where
  "wf_csg m \<longleftrightarrow> length (csg_channelId m) = 32 \<and> length (csg_signature m) = 64 \<and>
     length (csg_htlcSignatures m) < 65536 \<and>
     (\<forall>sig \<in> set (csg_htlcSignatures m). length sig = 64) \<and>
     opt_has_len 32 (csg_fundingTxid m) \<and> opt_has_len 98 (csg_partialSignatureWithNonce m)"

abbreviation csg_fixed :: "ICommitmentSignedMessage \<Rightarrow> bytes" where
  "csg_fixed m \<equiv> csg_channelId m @ csg_signature m @
     be_bytes 2 (int (length (csg_htlcSignatures m))) @ concat (csg_htlcSignatures m)"

definition csg_tlvs :: "ICommitmentSignedMessage \<Rightarrow> ITlvRecord list" where
  "csg_tlvs m = opt_rec 1 (csg_fundingTxid m) @ opt_rec 2 (csg_partialSignatureWithNonce m)"

lemma csg_tlv_ok: "wf_csg m \<Longrightarrow> tlv_ok {1, 2} (csg_tlvs m)"
  by (auto simp: wf_csg_def csg_tlvs_def tlv_simps split: option.splits)

lemma csg_enc:
  assumes "wf_csg m"
  shows "encodeCommitmentSignedMessage m = Inr (csg_fixed m @ tlvs (csg_tlvs m))"
  using assms tlv_tail_eq [OF csg_tlv_ok [OF assms]]
  by (cases "csg_fundingTxid m"; cases "csg_partialSignatureWithNonce m")
    (simp_all add: encodeCommitmentSignedMessage_def wf_csg_def csg_tlvs_def Let_def buf_simps
      u_fits_length del: append_assoc)

lemma csg_dec:
  assumes "wf_csg m"
  shows "decodeCommitmentSignedMessage (csg_fixed m @ tlvs (csg_tlvs m)) = Inr m"
proof -
  note wf = assms [unfolded wf_csg_def]
  let ?sigs = "csg_htlcSignatures m" and ?t = "tlvs (csg_tlvs m)"
  let ?hd = "csg_channelId m @ csg_signature m @ be_bytes 2 (int (length ?sigs))"
  have len: "length (concat ?sigs) = length ?sigs * 64" using wf by (simp add: length_concat_sigs)
  have sigs: "read_sigs (?hd @ concat ?sigs @ ?t) 98 (length ?sigs) = ?sigs"
    using wf by (intro read_sigs_fields) simp_all
  have tail: "decode_tail (csg_fixed m @ ?t) (98 + length ?sigs * 64) {1, 2} csg_tlv_body s =
      for_each csg_tlv_body (csg_tlvs m) s" for s
    using wf len by (intro decode_tail_eq csg_tlv_ok assms) simp
  show ?thesis
    using wf len sigs tail
    by (cases "csg_fundingTxid m"; cases "csg_partialSignatureWithNonce m")
      (simp_all add: decodeCommitmentSignedMessage_def csg_tlvs_def csg_tlv_body_def buf_simps
        u_fits_length)
qed

lemma csg_tlv_wf: "tlv_fits r \<Longrightarrow> wf_csg s \<Longrightarrow> csg_tlv_body s r = Inr s' \<Longrightarrow> wf_csg s'"
  by (auto simp: wf_csg_def csg_tlv_body_def split: if_splits)

lemma csg_dec_wf: "decodeCommitmentSignedMessage b = Inr m \<Longrightarrow> wf_csg m"
  by (auto simp: decodeCommitmentSignedMessage_def Let_def res_Inr_iff
      elim!: decode_tail_inv [where P = wf_csg] intro: csg_tlv_wf)
    (auto simp: wf_csg_def dest: readUInt16_less read_sigs_lengths)

interpretation commitment_signed:
    wire_codec encodeCommitmentSignedMessage decodeCommitmentSignedMessage wf_csg
  by unfold_locales (use csg_enc csg_dec csg_dec_wf in blast)+

definition wf_raa :: "IRevokeAndAckMessage \<Rightarrow> bool" where
  "wf_raa m \<longleftrightarrow> length (raa_channelId m) = 32 \<and> length (raa_perCommitmentSecret m) = 32 \<and>
     length (raa_nextPerCommitmentPoint m) = 33 \<and>
     opt_has_len 66 (raa_nextLocalNonce m)"

abbreviation raa_fixed :: "IRevokeAndAckMessage \<Rightarrow> bytes" where
  "raa_fixed m \<equiv> raa_channelId m @ raa_perCommitmentSecret m @ raa_nextPerCommitmentPoint m"

definition raa_tlvs :: "IRevokeAndAckMessage \<Rightarrow> ITlvRecord list" where
  "raa_tlvs m = opt_rec 4 (raa_nextLocalNonce m)"

lemma raa_tlv_ok: "wf_raa m \<Longrightarrow> tlv_ok {4} (raa_tlvs m)"
  by (auto simp: wf_raa_def raa_tlvs_def tlv_simps split: option.splits)

lemma raa_enc:
  assumes "wf_raa m"
  shows "encodeRevokeAndAckMessage m = Inr (raa_fixed m @ tlvs (raa_tlvs m))"
  using assms tlv_tail_eq [OF raa_tlv_ok [OF assms]]
  by (cases "raa_nextLocalNonce m")
    (simp_all add: encodeRevokeAndAckMessage_def wf_raa_def raa_tlvs_def Let_def buf_simps u_fits_length
      del: append_assoc)

lemma raa_dec:
  assumes "wf_raa m"
  shows "decodeRevokeAndAckMessage (raa_fixed m @ tlvs (raa_tlvs m)) = Inr m"
  using assms decode_tail_eq [OF raa_tlv_ok [OF assms], of "raa_fixed m" 97 raa_tlv_body]
  by (cases "raa_nextLocalNonce m")
    (simp_all add: decodeRevokeAndAckMessage_def wf_raa_def raa_tlvs_def raa_tlv_body_def buf_simps u_fits_length)

lemma raa_tlv_wf: "tlv_fits r \<Longrightarrow> wf_raa s \<Longrightarrow> raa_tlv_body s r = Inr s' \<Longrightarrow> wf_raa s'"
  by (auto simp: wf_raa_def raa_tlv_body_def res_Inr_iff tlv_fits_def intro: fits_intros split: if_splits)

lemma raa_dec_wf: "decodeRevokeAndAckMessage b = Inr m \<Longrightarrow> wf_raa m"
  by (auto simp: decodeRevokeAndAckMessage_def Let_def res_Inr_iff elim!: decode_tail_inv [where P = wf_raa]
      intro: raa_tlv_wf) (auto simp: wf_raa_def intro: fits_intros dest: readUInt16_less)

interpretation revoke_and_ack: wire_codec encodeRevokeAndAckMessage decodeRevokeAndAckMessage wf_raa
  by unfold_locales (use raa_enc raa_dec raa_dec_wf in blast)+

section \<open>Properties\<close>

text \<open>C22: \<open>commitment_signed\<close>, with any number of HTLC signatures the count field can carry, and
  \<open>revoke_and_ack\<close> survive encoding and decoding, optional records included.\<close>

theorem commitment_messages_roundtrip:
  assumes "wf_csg m0"
    and "wf_raa m1"
  shows "(\<exists>b. encodeCommitmentSignedMessage m0 = Inr b \<and> decodeCommitmentSignedMessage b = Inr m0) \<and>
    (\<exists>b. encodeRevokeAndAckMessage m1 = Inr b \<and> decodeRevokeAndAckMessage b = Inr m1)"
  using commitment_signed.roundtrip [OF assms(1)]
    revoke_and_ack.roundtrip [OF assms(2)]
  by (intro conjI)

theorem commitment_messages_roundtrip_witness:
  "(\<exists>b. encodeCommitmentSignedMessage \<lparr>csg_channelId = replicate 32 1, csg_signature = replicate 64 2,
      csg_htlcSignatures = [replicate 64 3, replicate 64 4],
      csg_fundingTxid = Some (replicate 32 5), csg_partialSignatureWithNonce = None\<rparr> = Inr b \<and>
     decodeCommitmentSignedMessage b = Inr \<lparr>csg_channelId = replicate 32 1, csg_signature = replicate 64 2,
      csg_htlcSignatures = [replicate 64 3, replicate 64 4],
      csg_fundingTxid = Some (replicate 32 5), csg_partialSignatureWithNonce = None\<rparr>) \<and>
   (\<exists>b. encodeRevokeAndAckMessage \<lparr>raa_channelId = replicate 32 1, raa_perCommitmentSecret = replicate 32 2,
      raa_nextPerCommitmentPoint = replicate 33 3,
      raa_nextLocalNonce = Some (replicate 66 4)\<rparr> = Inr b \<and>
     decodeRevokeAndAckMessage b = Inr \<lparr>raa_channelId = replicate 32 1, raa_perCommitmentSecret = replicate 32 2,
      raa_nextPerCommitmentPoint = replicate 33 3,
      raa_nextLocalNonce = Some (replicate 66 4)\<rparr>)"
  by (rule commitment_messages_roundtrip) (simp_all add: wf_csg_def wf_raa_def u_fits_def s64_fits_def)

end
