(* ===== verification/MsgReestablish.thy ===== *)
theory MsgReestablish
  imports Wire
begin

text \<open>
  BOLT 2 reconnection: \<^verbatim>\<open>src/lightning/message/channel-reestablish.ts\<close>, with the epoch record of
  \<^verbatim>\<open>src/lightning/ffor/messages.ts\<close> (TLV 55001) it embeds. A malformed epoch record is dropped, not
  fatal; the legacy \<open>next_funding\<close> record (type 0) is accepted beside the current one (type 1).
\<close>

section \<open>Definitions\<close>

record IFforReestablishTlv =
  ffr_epochId :: bytes
  ffr_state :: int
  ffr_lastSeq :: int
  ffr_activationHash :: bytes

definition assert32 :: "bytes \<Rightarrow> string \<Rightarrow> 'a res \<Rightarrow> 'a res" where
  "assert32 b name rest =
     throw_if (length b \<noteq> 32) (Error (name @ '' must be 32 bytes'') [int (length b)]) rest"

definition encodeFforReestablishTlv :: "IFforReestablishTlv \<Rightarrow> ITlvRecord res" where
  "encodeFforReestablishTlv tlv =
     assert32 (ffr_epochId tlv) ''epoch_id'' (
     assert32 (ffr_activationHash tlv) ''activation_hash'' (
     rbind (writeUInt16BE (alloc 2) (ffr_lastSeq tlv) 0) (\<lambda>lastSeq.
     Inr \<lparr>tlv_type = 55001,
       tlv_value = ffr_epochId tlv @ [word_of_int (ffr_state tlv)] @ lastSeq @ ffr_activationHash tlv\<rparr>)))"

definition decodeFforReestablishTlv :: "bytes \<Rightarrow> IFforReestablishTlv res" where
  "decodeFforReestablishTlv value =
     throw_if (length value \<noteq> 67)
       (Error ''reestablish TLV 55001 must be 67 bytes'' [int (length value)]) (
     let state = uint (value ! 32) in
     throw_if (state > 6) (Error ''reestablish TLV 55001: unknown state'' [state]) (
     rbind (readUInt16BE value 33) (\<lambda>lastSeq.
     Inr \<lparr>ffr_epochId = subarray value 0 32, ffr_state = state, ffr_lastSeq = lastSeq,
       ffr_activationHash = subarray value 35 67\<rparr>)))"

record IChannelReestablishMessage =
  cre_channelId :: bytes
  cre_nextCommitmentNumber :: int
  cre_nextRevocationNumber :: int
  cre_yourLastPerCommitmentSecret :: bytes
  cre_myCurrentPerCommitmentPoint :: bytes
  cre_nextFundingTxid :: "bytes option"
  cre_nextFundingRetransmitFlags :: "int option"
  cre_nextLocalNonce :: "bytes option"
  cre_ffor :: "IFforReestablishTlv option"

text \<open>\<^verbatim>\<open>msg.nextFundingRetransmitFlags ?? 0\<close>\<close>

definition flags_or_zero :: "int option \<Rightarrow> int" where
  "flags_or_zero x = (case x of None \<Rightarrow> 0 | Some f \<Rightarrow> f)"

definition encodeChannelReestablishMessage :: "IChannelReestablishMessage \<Rightarrow> bytes res" where
  "encodeChannelReestablishMessage msg =
    (let buf = alloc 113 in
     let buf = copy_to (cre_channelId msg) buf 0 in
     rbind (writeBigUInt64BE buf (cre_nextCommitmentNumber msg) 32) (\<lambda>buf.
     rbind (writeBigUInt64BE buf (cre_nextRevocationNumber msg) 40) (\<lambda>buf.
     let buf = copy_to (cre_yourLastPerCommitmentSecret msg) buf 48 in
     let buf = copy_to (cre_myCurrentPerCommitmentPoint msg) buf 80 in
     throw_if (bad_len 32 (cre_nextFundingTxid msg))
       (Error ''next_funding_txid must be 32 bytes'' [opt_len (cre_nextFundingTxid msg)]) (
     throw_if (bad_len 66 (cre_nextLocalNonce msg))
       (Error ''next_local_nonce must be 66 bytes'' [opt_len (cre_nextLocalNonce msg)]) (
     rbind (case cre_ffor msg of None \<Rightarrow> Inr []
            | Some ffor \<Rightarrow> rbind (encodeFforReestablishTlv ffor) (\<lambda>r. Inr [r])) (\<lambda>fforRecords.
     tlv_tail buf
       (opt_rec 1 (map_option
          (\<lambda>txid. txid @ [word_of_int (flags_or_zero (cre_nextFundingRetransmitFlags msg))])
          (cre_nextFundingTxid msg)) @
        opt_rec 4 (cre_nextLocalNonce msg) @ fforRecords)))))))"

definition cre_tlv_body ::
    "IChannelReestablishMessage \<Rightarrow> ITlvRecord \<Rightarrow> IChannelReestablishMessage res" where
  "cre_tlv_body result record =
    (let value = tlv_value record in
     if (tlv_type record = 1 \<or> tlv_type record = 0) \<and> length value \<ge> 32 then
       Inr (let result = result\<lparr>cre_nextFundingTxid := Some (subarray value 0 32)\<rparr> in
            if length value \<ge> 33
            then result\<lparr>cre_nextFundingRetransmitFlags := Some (uint (value ! 32))\<rparr> else result)
     else if tlv_type record = 4 \<and> length value = 66 then
       Inr (result\<lparr>cre_nextLocalNonce := Some value\<rparr>)
     else if tlv_type record = 55001 then
       (case decodeFforReestablishTlv value of
          Inr ffor \<Rightarrow> Inr (result\<lparr>cre_ffor := Some ffor\<rparr>) | Inl _ \<Rightarrow> Inr result)
     else Inr result)"

definition decodeChannelReestablishMessage :: "bytes \<Rightarrow> IChannelReestablishMessage res" where
  "decodeChannelReestablishMessage payload =
     throw_if (length payload < 113)
       (Error ''channel_reestablish too short'' [113, int (length payload)]) (
     let channelId = subarray payload 0 32 in
     rbind (readBigUInt64BE payload 32) (\<lambda>nextCommitmentNumber.
     rbind (readBigUInt64BE payload 40) (\<lambda>nextRevocationNumber.
     let yourLastPerCommitmentSecret = subarray payload 48 80 in
     let myCurrentPerCommitmentPoint = subarray payload 80 113 in
     decode_tail payload 113 {0, 1, 4, 55001} cre_tlv_body
       \<lparr>cre_channelId = channelId, cre_nextCommitmentNumber = nextCommitmentNumber,
        cre_nextRevocationNumber = nextRevocationNumber,
        cre_yourLastPerCommitmentSecret = yourLastPerCommitmentSecret,
        cre_myCurrentPerCommitmentPoint = myCurrentPerCommitmentPoint,
        cre_nextFundingTxid = None, cre_nextFundingRetransmitFlags = None,
        cre_nextLocalNonce = None, cre_ffor = None\<rparr>)))"

section \<open>Round trips\<close>

definition wf_ffr :: "IFforReestablishTlv \<Rightarrow> bool" where
  "wf_ffr f \<longleftrightarrow> length (ffr_epochId f) = 32 \<and> 0 \<le> ffr_state f \<and> ffr_state f \<le> 6 \<and>
     u_fits 2 (ffr_lastSeq f) \<and> length (ffr_activationHash f) = 32"

definition ffr_bytes :: "IFforReestablishTlv \<Rightarrow> bytes" where
  "ffr_bytes f = ffr_epochId f @ [word_of_int (ffr_state f)] @ be_bytes 2 (ffr_lastSeq f) @
     ffr_activationHash f"

lemma length_ffr_bytes [simp]: "wf_ffr f \<Longrightarrow> length (ffr_bytes f) = 67"
  by (simp add: wf_ffr_def ffr_bytes_def)

lemma ffr_enc:
  "wf_ffr f \<Longrightarrow> encodeFforReestablishTlv f = Inr \<lparr>tlv_type = 55001, tlv_value = ffr_bytes f\<rparr>"
  by (simp add: encodeFforReestablishTlv_def assert32_def wf_ffr_def ffr_bytes_def buf_simps)

lemma ffr_dec: "wf_ffr f \<Longrightarrow> decodeFforReestablishTlv (ffr_bytes f) = Inr f"
  by (simp add: decodeFforReestablishTlv_def wf_ffr_def ffr_bytes_def buf_simps Let_def)

text \<open>The encoder always writes the flags byte, so a message that survives names it.\<close>

definition wf_cre :: "IChannelReestablishMessage \<Rightarrow> bool" where
  "wf_cre m \<longleftrightarrow> length (cre_channelId m) = 32 \<and> u_fits 8 (cre_nextCommitmentNumber m) \<and>
     u_fits 8 (cre_nextRevocationNumber m) \<and> length (cre_yourLastPerCommitmentSecret m) = 32 \<and>
     length (cre_myCurrentPerCommitmentPoint m) = 33 \<and> opt_has_len 32 (cre_nextFundingTxid m) \<and>
     (cre_nextFundingTxid m = None \<longleftrightarrow> cre_nextFundingRetransmitFlags m = None) \<and>
     pred_option (u_fits 1) (cre_nextFundingRetransmitFlags m) \<and>
     opt_has_len 66 (cre_nextLocalNonce m) \<and> pred_option wf_ffr (cre_ffor m)"

abbreviation cre_fixed :: "IChannelReestablishMessage \<Rightarrow> bytes" where
  "cre_fixed m \<equiv> cre_channelId m @ be_bytes 8 (cre_nextCommitmentNumber m) @
     be_bytes 8 (cre_nextRevocationNumber m) @ cre_yourLastPerCommitmentSecret m @
     cre_myCurrentPerCommitmentPoint m"

definition cre_tlvs :: "IChannelReestablishMessage \<Rightarrow> ITlvRecord list" where
  "cre_tlvs m = opt_rec 1 (map_option
       (\<lambda>txid. txid @ [word_of_int (flags_or_zero (cre_nextFundingRetransmitFlags m))])
       (cre_nextFundingTxid m)) @
     opt_rec 4 (cre_nextLocalNonce m) @ opt_rec 55001 (map_option ffr_bytes (cre_ffor m))"

lemma cre_tlv_ok: "wf_cre m \<Longrightarrow> tlv_ok {0, 1, 4, 55001} (cre_tlvs m)"
  by (auto simp: wf_cre_def cre_tlvs_def tlv_simps split: option.splits)

lemma cre_enc:
  assumes "wf_cre m"
  shows "encodeChannelReestablishMessage m = Inr (cre_fixed m @ tlvs (cre_tlvs m))"
  using assms tlv_tail_eq [OF cre_tlv_ok [OF assms]]
  by (cases "cre_ffor m")
    (simp_all add: encodeChannelReestablishMessage_def wf_cre_def cre_tlvs_def ffr_enc Let_def
      buf_simps del: append_assoc)

lemma cre_dec:
  assumes "wf_cre m"
  shows "decodeChannelReestablishMessage (cre_fixed m @ tlvs (cre_tlvs m)) = Inr m"
proof -
  have tail: "decode_tail (cre_fixed m @ tlvs (cre_tlvs m)) 113 {0, 1, 4, 55001} cre_tlv_body s =
      for_each cre_tlv_body (cre_tlvs m) s" for s
    using assms by (intro decode_tail_eq cre_tlv_ok) (simp_all add: wf_cre_def)
  have fold: "for_each cre_tlv_body (cre_tlvs m)
      \<lparr>cre_channelId = cre_channelId m, cre_nextCommitmentNumber = cre_nextCommitmentNumber m,
       cre_nextRevocationNumber = cre_nextRevocationNumber m,
       cre_yourLastPerCommitmentSecret = cre_yourLastPerCommitmentSecret m,
       cre_myCurrentPerCommitmentPoint = cre_myCurrentPerCommitmentPoint m,
       cre_nextFundingTxid = None, cre_nextFundingRetransmitFlags = None,
       cre_nextLocalNonce = None, cre_ffor = None\<rparr> = Inr m"
    using assms
    by (cases "cre_nextFundingTxid m"; cases "cre_nextFundingRetransmitFlags m";
        cases "cre_nextLocalNonce m"; cases "cre_ffor m")
      (simp_all add: wf_cre_def cre_tlvs_def cre_tlv_body_def flags_or_zero_def ffr_dec buf_simps
        Let_def)
  show ?thesis
    using assms tail fold
    by (simp add: decodeChannelReestablishMessage_def wf_cre_def buf_simps)
qed

interpretation channel_reestablish:
    wire_encoder encodeChannelReestablishMessage decodeChannelReestablishMessage wf_cre
  by unfold_locales (use cre_enc cre_dec in blast)

section \<open>Properties\<close>

text \<open>C23: \<open>channel_reestablish\<close> survives encoding and decoding: the commitment and revocation numbers,
  the in-flight funding txid with its flags, the nonce and the epoch record.\<close>

theorem channel_reestablish_roundtrip:
  assumes "wf_cre m0"
  shows "(\<exists>b. encodeChannelReestablishMessage m0 = Inr b \<and> decodeChannelReestablishMessage b = Inr m0)"
  using channel_reestablish.roundtrip [OF assms(1)]
  by this

theorem channel_reestablish_roundtrip_witness:
  "(\<exists>b. encodeChannelReestablishMessage \<lparr>cre_channelId = replicate 32 1, cre_nextCommitmentNumber = 8,
      cre_nextRevocationNumber = 7, cre_yourLastPerCommitmentSecret = replicate 32 2,
      cre_myCurrentPerCommitmentPoint = replicate 33 3,
      cre_nextFundingTxid = Some (replicate 32 4), cre_nextFundingRetransmitFlags = Some 1,
      cre_nextLocalNonce = None,
      cre_ffor = Some \<lparr>ffr_epochId = replicate 32 5, ffr_state = 3, ffr_lastSeq = 9,
        ffr_activationHash = replicate 32 6\<rparr>\<rparr> = Inr b \<and>
     decodeChannelReestablishMessage b = Inr \<lparr>cre_channelId = replicate 32 1, cre_nextCommitmentNumber = 8,
      cre_nextRevocationNumber = 7, cre_yourLastPerCommitmentSecret = replicate 32 2,
      cre_myCurrentPerCommitmentPoint = replicate 33 3,
      cre_nextFundingTxid = Some (replicate 32 4), cre_nextFundingRetransmitFlags = Some 1,
      cre_nextLocalNonce = None,
      cre_ffor = Some \<lparr>ffr_epochId = replicate 32 5, ffr_state = 3, ffr_lastSeq = 9,
        ffr_activationHash = replicate 32 6\<rparr>\<rparr>)"
  by (rule channel_reestablish_roundtrip) (simp_all add: wf_cre_def u_fits_def s64_fits_def wf_ffr_def)

end
