(* ===== verification/MsgClose.thy ===== *)
theory MsgClose
  imports Wire
begin

text \<open>
  BOLT 2 cooperative close: \<^verbatim>\<open>src/lightning/message/channel-close.ts\<close> (\<open>shutdown\<close>,
  \<open>closing_signed\<close>, and the \<open>option_simple_close\<close> pair \<open>closing_complete\<close> / \<open>closing_sig\<close>, which share
  one layout). A taproot \<open>closing_signed\<close> zeroes the fixed signature, so its contract covers the
  messages whose fixed signature is zero when a partial signature is present.
\<close>

section \<open>Definitions\<close>

record IShutdownMessage =
  shd_channelId :: bytes
  shd_scriptPubkey :: bytes
  shd_shutdownNonce :: "bytes option"

definition encodeShutdownMessage :: "IShutdownMessage \<Rightarrow> bytes res" where
  "encodeShutdownMessage msg =
    (let buf = alloc (34 + length (shd_scriptPubkey msg)) in
     let buf = copy_to (shd_channelId msg) buf 0 in
     rbind (writeUInt16BE buf (int (length (shd_scriptPubkey msg))) 32) (\<lambda>buf.
     let buf = copy_to (shd_scriptPubkey msg) buf 34 in
     throw_if (bad_len 66 (shd_shutdownNonce msg))
       (Error ''shutdown_nonce must be 66 bytes'' [opt_len (shd_shutdownNonce msg)]) (
     tlv_tail buf (opt_rec 8 (shd_shutdownNonce msg)))))"

definition shd_tlv_body :: "IShutdownMessage \<Rightarrow> ITlvRecord \<Rightarrow> IShutdownMessage res" where
  "shd_tlv_body result record =
     (if tlv_type record = 8 then
        throw_if (length (tlv_value record) \<noteq> 66)
          (Error ''shutdown_nonce must be 66 bytes'' [int (length (tlv_value record))])
          (Inr (result\<lparr>shd_shutdownNonce := Some (tlv_value record)\<rparr>))
      else Inr result)"

definition decodeShutdownMessage :: "bytes \<Rightarrow> IShutdownMessage res" where
  "decodeShutdownMessage payload =
    (throw_if (length payload < 34)
       (Error ''shutdown too short'' [34, int (length payload)]) (
     let channelId = subarray payload 0 32 in
     rbind (readUInt16BE payload 32) (\<lambda>scriptPubkeyLen.
     throw_if ((34 + nat scriptPubkeyLen) > length payload)
       (Error ''shutdown scriptpubkey length exceeds payload'' [scriptPubkeyLen]) (
     let scriptPubkey = subarray payload 34 (34 + nat scriptPubkeyLen) in
     decode_tail payload (34 + nat scriptPubkeyLen) {8} shd_tlv_body
       \<lparr>shd_channelId = channelId, shd_scriptPubkey = scriptPubkey,
        shd_shutdownNonce = None\<rparr>))))"

record IClosingSignedMessage =
  csd_channelId :: bytes
  csd_feeSatoshis :: int
  csd_signature :: bytes
  csd_partialSignature :: "bytes option"

definition encodeClosingSignedMessage :: "IClosingSignedMessage \<Rightarrow> bytes res" where
  "encodeClosingSignedMessage msg =
    (let buf = alloc 104 in
     let buf = copy_to (csd_channelId msg) buf 0 in
     rbind (writeBigUInt64BE buf (csd_feeSatoshis msg) 32) (\<lambda>buf.
     case csd_partialSignature msg of
       None \<Rightarrow> Inr (copy_to (csd_signature msg) buf 40)
     | Some ps \<Rightarrow>
         throw_if (length ps \<noteq> 32)
           (Error ''closing partial signature must be 32 bytes'' [int (length ps)])
           (rbind (encodeTlvStream [\<lparr>tlv_type = 6, tlv_value = ps\<rparr>]) (\<lambda>tlv. Inr (buf @ tlv)))))"

definition csd_tlv_body :: "IClosingSignedMessage \<Rightarrow> ITlvRecord \<Rightarrow> IClosingSignedMessage res" where
  "csd_tlv_body msg r =
     (if tlv_type r = 6 then
        throw_if (length (tlv_value r) \<noteq> 32)
          (Error ''closing partial signature must be 32 bytes'' [int (length (tlv_value r))])
          (Inr (msg\<lparr>csd_partialSignature := Some (tlv_value r)\<rparr>))
      else Inr msg)"

definition decodeClosingSignedMessage :: "bytes \<Rightarrow> IClosingSignedMessage res" where
  "decodeClosingSignedMessage payload =
     throw_if (length payload < 104) (Error ''closing_signed too short'' [104, int (length payload)]) (
     let channelId = subarray payload 0 32 in
     rbind (readBigUInt64BE payload 32) (\<lambda>feeSatoshis.
     let signature = subarray payload 40 104 in
     decode_tail payload 104 {6} csd_tlv_body
       \<lparr>csd_channelId = channelId, csd_feeSatoshis = feeSatoshis, csd_signature = signature,
        csd_partialSignature = None\<rparr>))"

record IClosingCompleteMessage =
  ccm_channelId :: bytes
  ccm_closerScriptPubkey :: bytes
  ccm_closeeScriptPubkey :: bytes
  ccm_feeSatoshis :: int
  ccm_locktime :: int
  ccm_closerOutputOnlySig :: "bytes option"
  ccm_closeeOutputOnlySig :: "bytes option"
  ccm_closerAndCloseeSig :: "bytes option"

definition pushSig :: "int \<Rightarrow> bytes option \<Rightarrow> ITlvRecord list \<Rightarrow> ITlvRecord list res" where
  "pushSig type sig sigRecords =
     (case sig of None \<Rightarrow> Inr sigRecords
      | Some s \<Rightarrow> throw_if (length s \<noteq> 64)
          (Error ''closing signature must be 64 bytes'' [int (length s)])
          (Inr (sigRecords @ [\<lparr>tlv_type = type, tlv_value = s\<rparr>])))"

definition encodeSimpleCloseMessage :: "IClosingCompleteMessage \<Rightarrow> bytes res" where
  "encodeSimpleCloseMessage msg =
     rbind (pushSig 1 (ccm_closerOutputOnlySig msg) []) (\<lambda>sigRecords.
     rbind (pushSig 2 (ccm_closeeOutputOnlySig msg) sigRecords) (\<lambda>sigRecords.
     rbind (pushSig 3 (ccm_closerAndCloseeSig msg) sigRecords) (\<lambda>sigRecords.
     throw_if (sigRecords = []) (Error ''closing message requires at least one signature TLV'' []) (
     let closerLen = length (ccm_closerScriptPubkey msg) in
     let closeeLen = length (ccm_closeeScriptPubkey msg) in
     let fixed = alloc (32 + 2 + closerLen + 2 + closeeLen + 8 + 4) in
     let fixed = copy_to (ccm_channelId msg) fixed 0 in
     rbind (writeUInt16BE fixed (int closerLen) 32) (\<lambda>fixed.
     let fixed = copy_to (ccm_closerScriptPubkey msg) fixed 34 in
     rbind (writeUInt16BE fixed (int closeeLen) (34 + closerLen)) (\<lambda>fixed.
     let fixed = copy_to (ccm_closeeScriptPubkey msg) fixed (36 + closerLen) in
     rbind (writeBigUInt64BE fixed (ccm_feeSatoshis msg) (36 + closerLen + closeeLen)) (\<lambda>fixed.
     rbind (writeUInt32BE fixed (ccm_locktime msg) (44 + closerLen + closeeLen)) (\<lambda>fixed.
     rbind (encodeTlvStream sigRecords) (\<lambda>tlv. Inr (fixed @ tlv))))))))))"

text \<open>The local \<open>readScript\<close> of the decoder: a length-prefixed script and the offset after it.\<close>

definition readScript :: "bytes \<Rightarrow> string \<Rightarrow> string \<Rightarrow> nat \<Rightarrow> (bytes \<times> nat) res" where
  "readScript payload name label offset =
     throw_if (offset + 2 > length payload) (Error (name @ '': truncated '' @ label @ '' length'') []) (
     rbind (readUInt16BE payload offset) (\<lambda>len.
     throw_if (offset + 2 + nat len > length payload)
       (Error (name @ '': '' @ label @ '' length exceeds payload'') [len])
       (Inr (subarray payload (offset + 2) (offset + 2 + nat len), offset + 2 + nat len))))"

definition simpleClose_tlv_body ::
    "string \<Rightarrow> IClosingCompleteMessage \<Rightarrow> ITlvRecord \<Rightarrow> IClosingCompleteMessage res" where
  "simpleClose_tlv_body name msg record =
     (if tlv_type record \<notin> {1, 2, 3} then Inr msg
      else throw_if (length (tlv_value record) \<noteq> 64)
        (Error (name @ '': closing signature TLV must be 64 bytes'')
          [tlv_type record, int (length (tlv_value record))])
        (if tlv_type record = 1 then Inr (msg\<lparr>ccm_closerOutputOnlySig := Some (tlv_value record)\<rparr>)
         else if tlv_type record = 2 then
           Inr (msg\<lparr>ccm_closeeOutputOnlySig := Some (tlv_value record)\<rparr>)
         else Inr (msg\<lparr>ccm_closerAndCloseeSig := Some (tlv_value record)\<rparr>)))"

definition decodeSimpleCloseMessage :: "bytes \<Rightarrow> string \<Rightarrow> IClosingCompleteMessage res" where
  "decodeSimpleCloseMessage payload name =
     throw_if (length payload < 32 + 2 + 2 + 8 + 4)
       (Error (name @ '' too short'') [int (length payload)]) (
     let channelId = subarray payload 0 32 in
     rbind (readScript payload name ''closer_scriptpubkey'' 32) (\<lambda>(closerScriptPubkey, offset).
     rbind (readScript payload name ''closee_scriptpubkey'' offset) (\<lambda>(closeeScriptPubkey, offset).
     throw_if (offset + 12 > length payload) (Error (name @ '': truncated fee/locktime'') []) (
     rbind (readBigUInt64BE payload offset) (\<lambda>feeSatoshis.
     rbind (readUInt32BE payload (offset + 8)) (\<lambda>locktime.
     rbind (decode_tlvs payload (offset + 12) {1, 2, 3} (simpleClose_tlv_body name)
       \<lparr>ccm_channelId = channelId, ccm_closerScriptPubkey = closerScriptPubkey,
        ccm_closeeScriptPubkey = closeeScriptPubkey, ccm_feeSatoshis = feeSatoshis,
        ccm_locktime = locktime, ccm_closerOutputOnlySig = None,
        ccm_closeeOutputOnlySig = None, ccm_closerAndCloseeSig = None\<rparr>) (\<lambda>msg.
     throw_if (ccm_closerOutputOnlySig msg = None \<and> ccm_closeeOutputOnlySig msg = None \<and>
         ccm_closerAndCloseeSig msg = None)
       (Error (name @ '': no closing signature TLV present'') [])
       (Inr msg))))))))"

definition encodeClosingCompleteMessage :: "IClosingCompleteMessage \<Rightarrow> bytes res" where
  "encodeClosingCompleteMessage msg = encodeSimpleCloseMessage msg"

definition decodeClosingCompleteMessage :: "bytes \<Rightarrow> IClosingCompleteMessage res" where
  "decodeClosingCompleteMessage payload = decodeSimpleCloseMessage payload ''closing_complete''"

definition encodeClosingSigMessage :: "IClosingCompleteMessage \<Rightarrow> bytes res" where
  "encodeClosingSigMessage msg = encodeSimpleCloseMessage msg"

definition decodeClosingSigMessage :: "bytes \<Rightarrow> IClosingCompleteMessage res" where
  "decodeClosingSigMessage payload = decodeSimpleCloseMessage payload ''closing_sig''"

section \<open>Round trips\<close>

definition wf_shd :: "IShutdownMessage \<Rightarrow> bool" where
  "wf_shd m \<longleftrightarrow> length (shd_channelId m) = 32 \<and> length (shd_scriptPubkey m) < 65536 \<and>
     opt_has_len 66 (shd_shutdownNonce m)"

abbreviation shd_fixed :: "IShutdownMessage \<Rightarrow> bytes" where
  "shd_fixed m \<equiv> shd_channelId m @ be_bytes 2 (int (length (shd_scriptPubkey m))) @
     shd_scriptPubkey m"

definition shd_tlvs :: "IShutdownMessage \<Rightarrow> ITlvRecord list" where
  "shd_tlvs m = opt_rec 8 (shd_shutdownNonce m)"

lemma shd_tlv_ok: "wf_shd m \<Longrightarrow> tlv_ok {8} (shd_tlvs m)"
  by (auto simp: wf_shd_def shd_tlvs_def tlv_simps split: option.splits)

lemma shd_enc:
  assumes "wf_shd m"
  shows "encodeShutdownMessage m = Inr (shd_fixed m @ tlvs (shd_tlvs m))"
  using assms tlv_tail_eq [OF shd_tlv_ok [OF assms]]
  by (cases "shd_shutdownNonce m")
    (simp_all add: encodeShutdownMessage_def wf_shd_def shd_tlvs_def Let_def buf_simps u_fits_length
      del: append_assoc)

lemma shd_dec:
  assumes "wf_shd m"
  shows "decodeShutdownMessage (shd_fixed m @ tlvs (shd_tlvs m)) = Inr m"
  using assms decode_tail_eq [OF shd_tlv_ok [OF assms], of "shd_fixed m" "34 + length (shd_scriptPubkey m)" shd_tlv_body]
  by (cases "shd_shutdownNonce m")
    (simp_all add: decodeShutdownMessage_def wf_shd_def shd_tlvs_def shd_tlv_body_def buf_simps u_fits_length)

lemma shd_tlv_wf: "tlv_fits r \<Longrightarrow> wf_shd s \<Longrightarrow> shd_tlv_body s r = Inr s' \<Longrightarrow> wf_shd s'"
  by (auto simp: wf_shd_def shd_tlv_body_def res_Inr_iff tlv_fits_def intro: fits_intros split: if_splits)

lemma shd_dec_wf: "decodeShutdownMessage b = Inr m \<Longrightarrow> wf_shd m"
  by (auto simp: decodeShutdownMessage_def Let_def res_Inr_iff elim!: decode_tail_inv [where P = wf_shd]
      intro: shd_tlv_wf) (auto simp: wf_shd_def intro: fits_intros dest: readUInt16_less)

interpretation shutdown: wire_codec encodeShutdownMessage decodeShutdownMessage wf_shd
  by unfold_locales (use shd_enc shd_dec shd_dec_wf in blast)+

definition wf_csd :: "IClosingSignedMessage \<Rightarrow> bool" where
  "wf_csd m \<longleftrightarrow> length (csd_channelId m) = 32 \<and> u_fits 8 (csd_feeSatoshis m) \<and>
     length (csd_signature m) = 64 \<and> opt_has_len 32 (csd_partialSignature m) \<and>
     (csd_partialSignature m = None \<or> csd_signature m = alloc 64)"

abbreviation csd_fixed :: "IClosingSignedMessage \<Rightarrow> bytes" where
  "csd_fixed m \<equiv> csd_channelId m @ be_bytes 8 (csd_feeSatoshis m) @ csd_signature m"

definition csd_tlvs :: "IClosingSignedMessage \<Rightarrow> ITlvRecord list" where
  "csd_tlvs m = opt_rec 6 (csd_partialSignature m)"

lemma csd_tlv_ok: "wf_csd m \<Longrightarrow> tlv_ok {6} (csd_tlvs m)"
  by (auto simp: wf_csd_def csd_tlvs_def tlv_simps split: option.splits)

lemma csd_enc:
  assumes "wf_csd m"
  shows "encodeClosingSignedMessage m = Inr (csd_fixed m @ tlvs (csd_tlvs m))"
  using assms tlv_stream_eq [OF csd_tlv_ok [OF assms]]
  by (cases "csd_partialSignature m")
    (simp_all add: encodeClosingSignedMessage_def wf_csd_def csd_tlvs_def Let_def buf_simps
      del: append_assoc)

lemma csd_dec:
  assumes "wf_csd m"
  shows "decodeClosingSignedMessage (csd_fixed m @ tlvs (csd_tlvs m)) = Inr m"
  using assms decode_tail_eq [OF csd_tlv_ok [OF assms], of "csd_fixed m" 104 csd_tlv_body]
  by (cases "csd_partialSignature m")
    (simp_all add: decodeClosingSignedMessage_def wf_csd_def csd_tlvs_def csd_tlv_body_def buf_simps)

interpretation closing_signed:
    wire_encoder encodeClosingSignedMessage decodeClosingSignedMessage wf_csd
  by unfold_locales (use csd_enc csd_dec in blast)

definition wf_ccm :: "IClosingCompleteMessage \<Rightarrow> bool" where
  "wf_ccm m \<longleftrightarrow> length (ccm_channelId m) = 32 \<and> length (ccm_closerScriptPubkey m) < 65536 \<and>
     length (ccm_closeeScriptPubkey m) < 65536 \<and> u_fits 8 (ccm_feeSatoshis m) \<and>
     u_fits 4 (ccm_locktime m) \<and> opt_has_len 64 (ccm_closerOutputOnlySig m) \<and>
     opt_has_len 64 (ccm_closeeOutputOnlySig m) \<and> opt_has_len 64 (ccm_closerAndCloseeSig m) \<and>
     \<not> (ccm_closerOutputOnlySig m = None \<and> ccm_closeeOutputOnlySig m = None \<and>
       ccm_closerAndCloseeSig m = None)"

abbreviation ccm_fixed :: "IClosingCompleteMessage \<Rightarrow> bytes" where
  "ccm_fixed m \<equiv> ccm_channelId m @ be_bytes 2 (int (length (ccm_closerScriptPubkey m))) @
     ccm_closerScriptPubkey m @ be_bytes 2 (int (length (ccm_closeeScriptPubkey m))) @
     ccm_closeeScriptPubkey m @ be_bytes 8 (ccm_feeSatoshis m) @ be_bytes 4 (ccm_locktime m)"

definition ccm_tlvs :: "IClosingCompleteMessage \<Rightarrow> ITlvRecord list" where
  "ccm_tlvs m = opt_rec 1 (ccm_closerOutputOnlySig m) @ opt_rec 2 (ccm_closeeOutputOnlySig m) @
     opt_rec 3 (ccm_closerAndCloseeSig m)"

lemma ccm_tlv_ok: "wf_ccm m \<Longrightarrow> tlv_ok {1, 2, 3} (ccm_tlvs m)"
  by (auto simp: wf_ccm_def ccm_tlvs_def tlv_simps split: option.splits)

lemma pushSig_eq: "opt_has_len 64 sig \<Longrightarrow> pushSig t sig rs = Inr (rs @ opt_rec t sig)"
  by (cases sig) (simp_all add: pushSig_def)

lemma ccm_tlvs_nonempty: "wf_ccm m \<Longrightarrow> ccm_tlvs m \<noteq> []"
  by (auto simp: wf_ccm_def ccm_tlvs_def opt_rec_def split: option.splits)

lemma ccm_enc:
  assumes "wf_ccm m"
  shows "encodeSimpleCloseMessage m = Inr (ccm_fixed m @ tlvs (ccm_tlvs m))"
proof -
  have sigs: "rbind (pushSig 1 (ccm_closerOutputOnlySig m) []) (\<lambda>r.
      rbind (pushSig 2 (ccm_closeeOutputOnlySig m) r) (\<lambda>r.
      rbind (pushSig 3 (ccm_closerAndCloseeSig m) r) f)) = f (ccm_tlvs m)" for f :: "_ \<Rightarrow> bytes res"
    using assms by (simp add: wf_ccm_def pushSig_eq ccm_tlvs_def)
  show ?thesis
    unfolding encodeSimpleCloseMessage_def sigs
    using assms tlv_stream_eq [OF ccm_tlv_ok [OF assms]] ccm_tlvs_nonempty [OF assms]
    by (simp add: wf_ccm_def Let_def buf_simps u_fits_length del: append_assoc)
qed

lemma ccm_dec:
  assumes "wf_ccm m"
  shows "decodeSimpleCloseMessage (ccm_fixed m @ tlvs (ccm_tlvs m)) name = Inr m"
  using assms decode_tlvs_eq [OF ccm_tlv_ok [OF assms], of "ccm_fixed m"
      "48 + (length (ccm_closerScriptPubkey m) + length (ccm_closeeScriptPubkey m))"
      "simpleClose_tlv_body name"]
  by (cases "ccm_closerOutputOnlySig m"; cases "ccm_closeeOutputOnlySig m";
      cases "ccm_closerAndCloseeSig m")
    (simp_all add: decodeSimpleCloseMessage_def wf_ccm_def ccm_tlvs_def simpleClose_tlv_body_def
      readScript_def buf_simps u_fits_length)

interpretation closing_complete:
    wire_encoder encodeClosingCompleteMessage decodeClosingCompleteMessage wf_ccm
  unfolding encodeClosingCompleteMessage_def decodeClosingCompleteMessage_def
  by unfold_locales (use ccm_enc ccm_dec in blast)

interpretation closing_sig:
    wire_encoder encodeClosingSigMessage decodeClosingSigMessage wf_ccm
  unfolding encodeClosingSigMessage_def decodeClosingSigMessage_def
  by unfold_locales (use ccm_enc ccm_dec in blast)

section \<open>Properties\<close>

text \<open>C24: the closing messages survive encoding and decoding: \<open>shutdown\<close> with its script and nonce,
  \<open>closing_signed\<close> (with the fixed signature zero when a partial signature is carried), and
  \<open>closing_complete\<close> and \<open>closing_sig\<close>, each with two scripts and one to three signatures.\<close>

theorem closing_messages_roundtrip:
  assumes "wf_shd m0"
    and "wf_csd m1"
    and "wf_ccm m2"
    and "wf_ccm m3"
  shows "(\<exists>b. encodeShutdownMessage m0 = Inr b \<and> decodeShutdownMessage b = Inr m0) \<and>
    (\<exists>b. encodeClosingSignedMessage m1 = Inr b \<and> decodeClosingSignedMessage b = Inr m1) \<and>
    (\<exists>b. encodeClosingCompleteMessage m2 = Inr b \<and> decodeClosingCompleteMessage b = Inr m2) \<and>
    (\<exists>b. encodeClosingSigMessage m3 = Inr b \<and> decodeClosingSigMessage b = Inr m3)"
  using shutdown.roundtrip [OF assms(1)]
    closing_signed.roundtrip [OF assms(2)]
    closing_complete.roundtrip [OF assms(3)]
    closing_sig.roundtrip [OF assms(4)]
  by (intro conjI)

theorem closing_messages_roundtrip_witness:
  "(\<exists>b. encodeShutdownMessage \<lparr>shd_channelId = replicate 32 1, shd_scriptPubkey = [2, 3],
      shd_shutdownNonce = Some (replicate 66 3)\<rparr> = Inr b \<and>
     decodeShutdownMessage b = Inr \<lparr>shd_channelId = replicate 32 1, shd_scriptPubkey = [2, 3],
      shd_shutdownNonce = Some (replicate 66 3)\<rparr>) \<and>
   (\<exists>b. encodeClosingSignedMessage \<lparr>csd_channelId = replicate 32 1, csd_feeSatoshis = 500,
      csd_signature = alloc 64, csd_partialSignature = Some (replicate 32 2)\<rparr> = Inr b \<and>
     decodeClosingSignedMessage b = Inr \<lparr>csd_channelId = replicate 32 1, csd_feeSatoshis = 500,
      csd_signature = alloc 64, csd_partialSignature = Some (replicate 32 2)\<rparr>) \<and>
   (\<exists>b. encodeClosingCompleteMessage \<lparr>ccm_channelId = replicate 32 1, ccm_closerScriptPubkey = [1, 2],
      ccm_closeeScriptPubkey = [3], ccm_feeSatoshis = 300, ccm_locktime = 0,
      ccm_closerOutputOnlySig = Some (replicate 64 4), ccm_closeeOutputOnlySig = None,
      ccm_closerAndCloseeSig = Some (replicate 64 5)\<rparr> = Inr b \<and>
     decodeClosingCompleteMessage b = Inr \<lparr>ccm_channelId = replicate 32 1, ccm_closerScriptPubkey = [1, 2],
      ccm_closeeScriptPubkey = [3], ccm_feeSatoshis = 300, ccm_locktime = 0,
      ccm_closerOutputOnlySig = Some (replicate 64 4), ccm_closeeOutputOnlySig = None,
      ccm_closerAndCloseeSig = Some (replicate 64 5)\<rparr>) \<and>
   (\<exists>b. encodeClosingSigMessage \<lparr>ccm_channelId = replicate 32 1, ccm_closerScriptPubkey = [1, 2],
      ccm_closeeScriptPubkey = [3], ccm_feeSatoshis = 300, ccm_locktime = 0,
      ccm_closerOutputOnlySig = None, ccm_closeeOutputOnlySig = None,
      ccm_closerAndCloseeSig = Some (replicate 64 6)\<rparr> = Inr b \<and>
     decodeClosingSigMessage b = Inr \<lparr>ccm_channelId = replicate 32 1, ccm_closerScriptPubkey = [1, 2],
      ccm_closeeScriptPubkey = [3], ccm_feeSatoshis = 300, ccm_locktime = 0,
      ccm_closerOutputOnlySig = None, ccm_closeeOutputOnlySig = None,
      ccm_closerAndCloseeSig = Some (replicate 64 6)\<rparr>)"
  by (rule closing_messages_roundtrip) (simp_all add: wf_shd_def wf_csd_def wf_ccm_def u_fits_def s64_fits_def)

end
