(* ===== verification/MsgFunding.thy ===== *)
theory MsgFunding
  imports Wire
begin

text \<open>
  BOLT 2 channel funding: \<^verbatim>\<open>src/lightning/message/channel-funding.ts\<close> (\<open>funding_created\<close>,
  \<open>funding_signed\<close>, \<open>channel_ready\<close>).
\<close>

section \<open>Definitions\<close>

record IFundingCreatedMessage =
  fcr_temporaryChannelId :: bytes
  fcr_fundingTxid :: bytes
  fcr_fundingOutputIndex :: int
  fcr_signature :: bytes
  fcr_partialSignatureWithNonce :: "bytes option"

definition encodeFundingCreatedMessage :: "IFundingCreatedMessage \<Rightarrow> bytes res" where
  "encodeFundingCreatedMessage msg =
    (let buf = alloc 130 in
     let buf = copy_to (fcr_temporaryChannelId msg) buf 0 in
     let buf = copy_to (fcr_fundingTxid msg) buf 32 in
     rbind (writeUInt16BE buf (fcr_fundingOutputIndex msg) 64) (\<lambda>buf.
     let buf = copy_to (fcr_signature msg) buf 66 in
     throw_if (bad_len 98 (fcr_partialSignatureWithNonce msg))
       (Error ''partial_signature_with_nonce must be 98 bytes'' [opt_len (fcr_partialSignatureWithNonce msg)]) (
     tlv_tail buf (opt_rec 2 (fcr_partialSignatureWithNonce msg)))))"

definition fcr_tlv_body :: "IFundingCreatedMessage \<Rightarrow> ITlvRecord \<Rightarrow> IFundingCreatedMessage res" where
  "fcr_tlv_body result record =
     (if tlv_type record = 2 \<and> length (tlv_value record) = 98 then
        Inr (result\<lparr>fcr_partialSignatureWithNonce := Some (tlv_value record)\<rparr>)
      else Inr result)"

definition decodeFundingCreatedMessage :: "bytes \<Rightarrow> IFundingCreatedMessage res" where
  "decodeFundingCreatedMessage payload =
    (throw_if (length payload < 130)
       (Error ''funding_created too short'' [130, int (length payload)]) (
     let temporaryChannelId = subarray payload 0 32 in
     let fundingTxid = subarray payload 32 64 in
     rbind (readUInt16BE payload 64) (\<lambda>fundingOutputIndex.
     let signature = subarray payload 66 130 in
     decode_tail payload 130 {2} fcr_tlv_body
       \<lparr>fcr_temporaryChannelId = temporaryChannelId, fcr_fundingTxid = fundingTxid,
        fcr_fundingOutputIndex = fundingOutputIndex, fcr_signature = signature,
        fcr_partialSignatureWithNonce = None\<rparr>)))"

record IFundingSignedMessage =
  fsi_channelId :: bytes
  fsi_signature :: bytes
  fsi_partialSignatureWithNonce :: "bytes option"

definition encodeFundingSignedMessage :: "IFundingSignedMessage \<Rightarrow> bytes res" where
  "encodeFundingSignedMessage msg =
    (let buf = alloc 96 in
     let buf = copy_to (fsi_channelId msg) buf 0 in
     let buf = copy_to (fsi_signature msg) buf 32 in
     throw_if (bad_len 98 (fsi_partialSignatureWithNonce msg))
       (Error ''partial_signature_with_nonce must be 98 bytes'' [opt_len (fsi_partialSignatureWithNonce msg)]) (
     tlv_tail buf (opt_rec 2 (fsi_partialSignatureWithNonce msg))))"

definition fsi_tlv_body :: "IFundingSignedMessage \<Rightarrow> ITlvRecord \<Rightarrow> IFundingSignedMessage res" where
  "fsi_tlv_body result record =
     (if tlv_type record = 2 \<and> length (tlv_value record) = 98 then
        Inr (result\<lparr>fsi_partialSignatureWithNonce := Some (tlv_value record)\<rparr>)
      else Inr result)"

definition decodeFundingSignedMessage :: "bytes \<Rightarrow> IFundingSignedMessage res" where
  "decodeFundingSignedMessage payload =
    (throw_if (length payload < 96)
       (Error ''funding_signed too short'' [96, int (length payload)]) (
     let channelId = subarray payload 0 32 in
     let signature = subarray payload 32 96 in
     decode_tail payload 96 {2} fsi_tlv_body
       \<lparr>fsi_channelId = channelId, fsi_signature = signature,
        fsi_partialSignatureWithNonce = None\<rparr>))"

record IChannelReadyMessage =
  crd_channelId :: bytes
  crd_secondPerCommitmentPoint :: bytes
  crd_shortChannelId :: "bytes option"
  crd_nextLocalNonce :: "bytes option"

definition encodeChannelReadyMessage :: "IChannelReadyMessage \<Rightarrow> bytes res" where
  "encodeChannelReadyMessage msg =
    (let buf = alloc 65 in
     let buf = copy_to (crd_channelId msg) buf 0 in
     let buf = copy_to (crd_secondPerCommitmentPoint msg) buf 32 in
     throw_if (bad_len 66 (crd_nextLocalNonce msg))
       (Error ''channel_ready next_local_nonce must be 66 bytes'' [opt_len (crd_nextLocalNonce msg)]) (
     tlv_tail buf (sort_key tlv_type (opt_rec 1 (crd_shortChannelId msg) @ opt_rec 4 (crd_nextLocalNonce msg)))))"

definition crd_tlv_body :: "IChannelReadyMessage \<Rightarrow> ITlvRecord \<Rightarrow> IChannelReadyMessage res" where
  "crd_tlv_body result record =
     (if tlv_type record = 1 then
        Inr (result\<lparr>crd_shortChannelId := Some (tlv_value record)\<rparr>)
      else if tlv_type record = 4 \<and> length (tlv_value record) = 66 then
        Inr (result\<lparr>crd_nextLocalNonce := Some (tlv_value record)\<rparr>)
      else Inr result)"

definition decodeChannelReadyMessage :: "bytes \<Rightarrow> IChannelReadyMessage res" where
  "decodeChannelReadyMessage payload =
    (throw_if (length payload < 65)
       (Error ''channel_ready too short'' [65, int (length payload)]) (
     let channelId = subarray payload 0 32 in
     let secondPerCommitmentPoint = subarray payload 32 65 in
     decode_tail payload 65 {1, 4} crd_tlv_body
       \<lparr>crd_channelId = channelId,
        crd_secondPerCommitmentPoint = secondPerCommitmentPoint,
        crd_shortChannelId = None, crd_nextLocalNonce = None\<rparr>))"

section \<open>Round trips\<close>

definition wf_fcr :: "IFundingCreatedMessage \<Rightarrow> bool" where
  "wf_fcr m \<longleftrightarrow> length (fcr_temporaryChannelId m) = 32 \<and>
     length (fcr_fundingTxid m) = 32 \<and> u_fits 2 (fcr_fundingOutputIndex m) \<and>
     length (fcr_signature m) = 64 \<and>
     opt_has_len 98 (fcr_partialSignatureWithNonce m)"

abbreviation fcr_fixed :: "IFundingCreatedMessage \<Rightarrow> bytes" where
  "fcr_fixed m \<equiv> fcr_temporaryChannelId m @ fcr_fundingTxid m @
     be_bytes 2 (fcr_fundingOutputIndex m) @ fcr_signature m"

definition fcr_tlvs :: "IFundingCreatedMessage \<Rightarrow> ITlvRecord list" where
  "fcr_tlvs m = opt_rec 2 (fcr_partialSignatureWithNonce m)"

lemma fcr_tlv_ok: "wf_fcr m \<Longrightarrow> tlv_ok {2} (fcr_tlvs m)"
  by (auto simp: wf_fcr_def fcr_tlvs_def tlv_simps split: option.splits)

lemma fcr_enc:
  assumes "wf_fcr m"
  shows "encodeFundingCreatedMessage m = Inr (fcr_fixed m @ tlvs (fcr_tlvs m))"
  using assms tlv_tail_eq [OF fcr_tlv_ok [OF assms]]
  by (cases "fcr_partialSignatureWithNonce m")
    (simp_all add: encodeFundingCreatedMessage_def wf_fcr_def fcr_tlvs_def Let_def buf_simps u_fits_length
      del: append_assoc)

lemma fcr_dec:
  assumes "wf_fcr m"
  shows "decodeFundingCreatedMessage (fcr_fixed m @ tlvs (fcr_tlvs m)) = Inr m"
  using assms decode_tail_eq [OF fcr_tlv_ok [OF assms], of "fcr_fixed m" 130 fcr_tlv_body]
  by (cases "fcr_partialSignatureWithNonce m")
    (simp_all add: decodeFundingCreatedMessage_def wf_fcr_def fcr_tlvs_def fcr_tlv_body_def buf_simps u_fits_length)

lemma fcr_tlv_wf: "tlv_fits r \<Longrightarrow> wf_fcr s \<Longrightarrow> fcr_tlv_body s r = Inr s' \<Longrightarrow> wf_fcr s'"
  by (auto simp: wf_fcr_def fcr_tlv_body_def res_Inr_iff tlv_fits_def intro: fits_intros split: if_splits)

lemma fcr_dec_wf: "decodeFundingCreatedMessage b = Inr m \<Longrightarrow> wf_fcr m"
  by (auto simp: decodeFundingCreatedMessage_def Let_def res_Inr_iff elim!: decode_tail_inv [where P = wf_fcr]
      intro: fcr_tlv_wf) (auto simp: wf_fcr_def intro: fits_intros dest: readUInt16_less)

interpretation funding_created: wire_codec encodeFundingCreatedMessage decodeFundingCreatedMessage wf_fcr
  by unfold_locales (use fcr_enc fcr_dec fcr_dec_wf in blast)+

definition wf_fsi :: "IFundingSignedMessage \<Rightarrow> bool" where
  "wf_fsi m \<longleftrightarrow> length (fsi_channelId m) = 32 \<and> length (fsi_signature m) = 64 \<and>
     opt_has_len 98 (fsi_partialSignatureWithNonce m)"

abbreviation fsi_fixed :: "IFundingSignedMessage \<Rightarrow> bytes" where
  "fsi_fixed m \<equiv> fsi_channelId m @ fsi_signature m"

definition fsi_tlvs :: "IFundingSignedMessage \<Rightarrow> ITlvRecord list" where
  "fsi_tlvs m = opt_rec 2 (fsi_partialSignatureWithNonce m)"

lemma fsi_tlv_ok: "wf_fsi m \<Longrightarrow> tlv_ok {2} (fsi_tlvs m)"
  by (auto simp: wf_fsi_def fsi_tlvs_def tlv_simps split: option.splits)

lemma fsi_enc:
  assumes "wf_fsi m"
  shows "encodeFundingSignedMessage m = Inr (fsi_fixed m @ tlvs (fsi_tlvs m))"
  using assms tlv_tail_eq [OF fsi_tlv_ok [OF assms]]
  by (cases "fsi_partialSignatureWithNonce m")
    (simp_all add: encodeFundingSignedMessage_def wf_fsi_def fsi_tlvs_def Let_def buf_simps u_fits_length
      del: append_assoc)

lemma fsi_dec:
  assumes "wf_fsi m"
  shows "decodeFundingSignedMessage (fsi_fixed m @ tlvs (fsi_tlvs m)) = Inr m"
  using assms decode_tail_eq [OF fsi_tlv_ok [OF assms], of "fsi_fixed m" 96 fsi_tlv_body]
  by (cases "fsi_partialSignatureWithNonce m")
    (simp_all add: decodeFundingSignedMessage_def wf_fsi_def fsi_tlvs_def fsi_tlv_body_def buf_simps u_fits_length)

lemma fsi_tlv_wf: "tlv_fits r \<Longrightarrow> wf_fsi s \<Longrightarrow> fsi_tlv_body s r = Inr s' \<Longrightarrow> wf_fsi s'"
  by (auto simp: wf_fsi_def fsi_tlv_body_def res_Inr_iff tlv_fits_def intro: fits_intros split: if_splits)

lemma fsi_dec_wf: "decodeFundingSignedMessage b = Inr m \<Longrightarrow> wf_fsi m"
  by (auto simp: decodeFundingSignedMessage_def Let_def res_Inr_iff elim!: decode_tail_inv [where P = wf_fsi]
      intro: fsi_tlv_wf) (auto simp: wf_fsi_def intro: fits_intros dest: readUInt16_less)

interpretation funding_signed: wire_codec encodeFundingSignedMessage decodeFundingSignedMessage wf_fsi
  by unfold_locales (use fsi_enc fsi_dec fsi_dec_wf in blast)+

definition wf_crd :: "IChannelReadyMessage \<Rightarrow> bool" where
  "wf_crd m \<longleftrightarrow> length (crd_channelId m) = 32 \<and>
     length (crd_secondPerCommitmentPoint m) = 33 \<and>
     opt_tlv (crd_shortChannelId m) \<and> opt_has_len 66 (crd_nextLocalNonce m)"

abbreviation crd_fixed :: "IChannelReadyMessage \<Rightarrow> bytes" where
  "crd_fixed m \<equiv> crd_channelId m @ crd_secondPerCommitmentPoint m"

definition crd_tlvs :: "IChannelReadyMessage \<Rightarrow> ITlvRecord list" where
  "crd_tlvs m = opt_rec 1 (crd_shortChannelId m) @ opt_rec 4 (crd_nextLocalNonce m)"

lemma crd_tlv_ok: "wf_crd m \<Longrightarrow> tlv_ok {1, 4} (crd_tlvs m)"
  by (auto simp: wf_crd_def crd_tlvs_def tlv_simps split: option.splits)

lemma crd_enc:
  assumes "wf_crd m"
  shows "encodeChannelReadyMessage m = Inr (crd_fixed m @ tlvs (crd_tlvs m))"
  using assms tlv_tail_eq [OF crd_tlv_ok [OF assms]]
  by (cases "crd_shortChannelId m"; cases "crd_nextLocalNonce m")
    (simp_all add: encodeChannelReadyMessage_def wf_crd_def crd_tlvs_def Let_def buf_simps u_fits_length
      del: append_assoc)

lemma crd_dec:
  assumes "wf_crd m"
  shows "decodeChannelReadyMessage (crd_fixed m @ tlvs (crd_tlvs m)) = Inr m"
  using assms decode_tail_eq [OF crd_tlv_ok [OF assms], of "crd_fixed m" 65 crd_tlv_body]
  by (cases "crd_shortChannelId m"; cases "crd_nextLocalNonce m")
    (simp_all add: decodeChannelReadyMessage_def wf_crd_def crd_tlvs_def crd_tlv_body_def buf_simps u_fits_length)

lemma crd_tlv_wf: "tlv_fits r \<Longrightarrow> wf_crd s \<Longrightarrow> crd_tlv_body s r = Inr s' \<Longrightarrow> wf_crd s'"
  by (auto simp: wf_crd_def crd_tlv_body_def res_Inr_iff tlv_fits_def intro: fits_intros split: if_splits)

lemma crd_dec_wf: "decodeChannelReadyMessage b = Inr m \<Longrightarrow> wf_crd m"
  by (auto simp: decodeChannelReadyMessage_def Let_def res_Inr_iff elim!: decode_tail_inv [where P = wf_crd]
      intro: crd_tlv_wf) (auto simp: wf_crd_def intro: fits_intros dest: readUInt16_less)

interpretation channel_ready: wire_codec encodeChannelReadyMessage decodeChannelReadyMessage wf_crd
  by unfold_locales (use crd_enc crd_dec crd_dec_wf in blast)+

section \<open>Properties\<close>

text \<open>\<open>funding_created\<close>, \<open>funding_signed\<close> and \<open>channel_ready\<close> with fields of their wire sizes
  survive encoding and decoding, the optional nonce, signature and short channel id included.\<close>

theorem funding_messages_roundtrip:
  assumes "wf_fcr m0"
    and "wf_fsi m1"
    and "wf_crd m2"
  shows "(\<exists>b. encodeFundingCreatedMessage m0 = Inr b \<and> decodeFundingCreatedMessage b = Inr m0) \<and>
    (\<exists>b. encodeFundingSignedMessage m1 = Inr b \<and> decodeFundingSignedMessage b = Inr m1) \<and>
    (\<exists>b. encodeChannelReadyMessage m2 = Inr b \<and> decodeChannelReadyMessage b = Inr m2)"
  using funding_created.roundtrip [OF assms(1)]
    funding_signed.roundtrip [OF assms(2)]
    channel_ready.roundtrip [OF assms(3)]
  by (intro conjI)

theorem funding_messages_roundtrip_witness:
  "(\<exists>b. encodeFundingCreatedMessage \<lparr>fcr_temporaryChannelId = replicate 32 1, fcr_fundingTxid = replicate 32 2,
      fcr_fundingOutputIndex = 21, fcr_signature = replicate 64 4,
      fcr_partialSignatureWithNonce = Some (replicate 98 5)\<rparr> = Inr b \<and>
     decodeFundingCreatedMessage b = Inr \<lparr>fcr_temporaryChannelId = replicate 32 1, fcr_fundingTxid = replicate 32 2,
      fcr_fundingOutputIndex = 21, fcr_signature = replicate 64 4,
      fcr_partialSignatureWithNonce = Some (replicate 98 5)\<rparr>) \<and>
   (\<exists>b. encodeFundingSignedMessage \<lparr>fsi_channelId = replicate 32 1, fsi_signature = replicate 64 2,
      fsi_partialSignatureWithNonce = Some (replicate 98 3)\<rparr> = Inr b \<and>
     decodeFundingSignedMessage b = Inr \<lparr>fsi_channelId = replicate 32 1, fsi_signature = replicate 64 2,
      fsi_partialSignatureWithNonce = Some (replicate 98 3)\<rparr>) \<and>
   (\<exists>b. encodeChannelReadyMessage \<lparr>crd_channelId = replicate 32 1,
      crd_secondPerCommitmentPoint = replicate 33 2,
      crd_shortChannelId = Some (replicate 5 3),
      crd_nextLocalNonce = Some (replicate 66 4)\<rparr> = Inr b \<and>
     decodeChannelReadyMessage b = Inr \<lparr>crd_channelId = replicate 32 1,
      crd_secondPerCommitmentPoint = replicate 33 2,
      crd_shortChannelId = Some (replicate 5 3),
      crd_nextLocalNonce = Some (replicate 66 4)\<rparr>)"
  by (rule funding_messages_roundtrip) (simp_all add: wf_fcr_def wf_fsi_def wf_crd_def u_fits_def s64_fits_def)

end
