(* ===== verification/MsgOpen.thy ===== *)
theory MsgOpen
  imports Wire
begin

text \<open>
  BOLT 2 channel open: \<^verbatim>\<open>src/lightning/message/channel-open.ts\<close> (\<open>open_channel\<close> and
  \<open>accept_channel\<close>), the longest fixed layouts of the protocol.
\<close>

section \<open>Definitions\<close>

record IOpenChannelMessage =
  och_chainHash :: bytes
  och_temporaryChannelId :: bytes
  och_fundingSatoshis :: int
  och_pushMsat :: int
  och_dustLimitSatoshis :: int
  och_maxHtlcValueInFlightMsat :: int
  och_channelReserveSatoshis :: int
  och_htlcMinimumMsat :: int
  och_feeratePerKw :: int
  och_toSelfDelay :: int
  och_maxAcceptedHtlcs :: int
  och_fundingPubkey :: bytes
  och_revocationBasepoint :: bytes
  och_paymentBasepoint :: bytes
  och_delayedPaymentBasepoint :: bytes
  och_htlcBasepoint :: bytes
  och_firstPerCommitmentPoint :: bytes
  och_channelFlags :: int
  och_upfrontShutdownScript :: "bytes option"
  och_channelType :: "bytes option"
  och_nextLocalNonce :: "bytes option"

definition encodeOpenChannelMessage :: "IOpenChannelMessage \<Rightarrow> bytes res" where
  "encodeOpenChannelMessage msg =
    (let buf = alloc 319 in
     let buf = copy_to (och_chainHash msg) buf 0 in
     let buf = copy_to (och_temporaryChannelId msg) buf 32 in
     rbind (writeBigUInt64BE buf (och_fundingSatoshis msg) 64) (\<lambda>buf.
     rbind (writeBigUInt64BE buf (och_pushMsat msg) 72) (\<lambda>buf.
     rbind (writeBigUInt64BE buf (och_dustLimitSatoshis msg) 80) (\<lambda>buf.
     rbind (writeBigUInt64BE buf (och_maxHtlcValueInFlightMsat msg) 88) (\<lambda>buf.
     rbind (writeBigUInt64BE buf (och_channelReserveSatoshis msg) 96) (\<lambda>buf.
     rbind (writeBigUInt64BE buf (och_htlcMinimumMsat msg) 104) (\<lambda>buf.
     rbind (writeUInt32BE buf (och_feeratePerKw msg) 112) (\<lambda>buf.
     rbind (writeUInt16BE buf (och_toSelfDelay msg) 116) (\<lambda>buf.
     rbind (writeUInt16BE buf (och_maxAcceptedHtlcs msg) 118) (\<lambda>buf.
     let buf = copy_to (och_fundingPubkey msg) buf 120 in
     let buf = copy_to (och_revocationBasepoint msg) buf 153 in
     let buf = copy_to (och_paymentBasepoint msg) buf 186 in
     let buf = copy_to (och_delayedPaymentBasepoint msg) buf 219 in
     let buf = copy_to (och_htlcBasepoint msg) buf 252 in
     let buf = copy_to (och_firstPerCommitmentPoint msg) buf 285 in
     let buf = setByte buf 318 (och_channelFlags msg) in
     tlv_tail buf (opt_rec 0 (och_upfrontShutdownScript msg) @ opt_rec 1 (och_channelType msg) @ opt_rec 4 (och_nextLocalNonce msg))))))))))))"

definition och_tlv_body :: "IOpenChannelMessage \<Rightarrow> ITlvRecord \<Rightarrow> IOpenChannelMessage res" where
  "och_tlv_body result record =
     (if tlv_type record = 0 then
        Inr (result\<lparr>och_upfrontShutdownScript := Some (tlv_value record)\<rparr>)
      else if tlv_type record = 1 then
        Inr (result\<lparr>och_channelType := Some (tlv_value record)\<rparr>)
      else if tlv_type record = 4 then
        Inr (result\<lparr>och_nextLocalNonce := Some (tlv_value record)\<rparr>)
      else Inr result)"

definition decodeOpenChannelMessage :: "bytes \<Rightarrow> IOpenChannelMessage res" where
  "decodeOpenChannelMessage payload =
    (throw_if (length payload < 319)
       (Error ''open_channel too short'' [319, int (length payload)]) (
     let chainHash = subarray payload 0 32 in
     let temporaryChannelId = subarray payload 32 64 in
     rbind (readBigUInt64BE payload 64) (\<lambda>fundingSatoshis.
     rbind (readBigUInt64BE payload 72) (\<lambda>pushMsat.
     rbind (readBigUInt64BE payload 80) (\<lambda>dustLimitSatoshis.
     rbind (readBigUInt64BE payload 88) (\<lambda>maxHtlcValueInFlightMsat.
     rbind (readBigUInt64BE payload 96) (\<lambda>channelReserveSatoshis.
     rbind (readBigUInt64BE payload 104) (\<lambda>htlcMinimumMsat.
     rbind (readUInt32BE payload 112) (\<lambda>feeratePerKw.
     rbind (readUInt16BE payload 116) (\<lambda>toSelfDelay.
     rbind (readUInt16BE payload 118) (\<lambda>maxAcceptedHtlcs.
     let fundingPubkey = subarray payload 120 153 in
     let revocationBasepoint = subarray payload 153 186 in
     let paymentBasepoint = subarray payload 186 219 in
     let delayedPaymentBasepoint = subarray payload 219 252 in
     let htlcBasepoint = subarray payload 252 285 in
     let firstPerCommitmentPoint = subarray payload 285 318 in
     let channelFlags = uint (payload ! 318) in
     decode_tail payload 319 {0, 1, 4} och_tlv_body
       \<lparr>och_chainHash = chainHash, och_temporaryChannelId = temporaryChannelId,
        och_fundingSatoshis = fundingSatoshis, och_pushMsat = pushMsat,
        och_dustLimitSatoshis = dustLimitSatoshis,
        och_maxHtlcValueInFlightMsat = maxHtlcValueInFlightMsat,
        och_channelReserveSatoshis = channelReserveSatoshis,
        och_htlcMinimumMsat = htlcMinimumMsat, och_feeratePerKw = feeratePerKw,
        och_toSelfDelay = toSelfDelay, och_maxAcceptedHtlcs = maxAcceptedHtlcs,
        och_fundingPubkey = fundingPubkey, och_revocationBasepoint = revocationBasepoint,
        och_paymentBasepoint = paymentBasepoint,
        och_delayedPaymentBasepoint = delayedPaymentBasepoint,
        och_htlcBasepoint = htlcBasepoint,
        och_firstPerCommitmentPoint = firstPerCommitmentPoint,
        och_channelFlags = channelFlags, och_upfrontShutdownScript = None,
        och_channelType = None, och_nextLocalNonce = None\<rparr>)))))))))))"

record IAcceptChannelMessage =
  ach_temporaryChannelId :: bytes
  ach_dustLimitSatoshis :: int
  ach_maxHtlcValueInFlightMsat :: int
  ach_channelReserveSatoshis :: int
  ach_htlcMinimumMsat :: int
  ach_minimumDepth :: int
  ach_toSelfDelay :: int
  ach_maxAcceptedHtlcs :: int
  ach_fundingPubkey :: bytes
  ach_revocationBasepoint :: bytes
  ach_paymentBasepoint :: bytes
  ach_delayedPaymentBasepoint :: bytes
  ach_htlcBasepoint :: bytes
  ach_firstPerCommitmentPoint :: bytes
  ach_upfrontShutdownScript :: "bytes option"
  ach_channelType :: "bytes option"
  ach_nextLocalNonce :: "bytes option"

definition encodeAcceptChannelMessage :: "IAcceptChannelMessage \<Rightarrow> bytes res" where
  "encodeAcceptChannelMessage msg =
    (let buf = alloc 270 in
     let buf = copy_to (ach_temporaryChannelId msg) buf 0 in
     rbind (writeBigUInt64BE buf (ach_dustLimitSatoshis msg) 32) (\<lambda>buf.
     rbind (writeBigUInt64BE buf (ach_maxHtlcValueInFlightMsat msg) 40) (\<lambda>buf.
     rbind (writeBigUInt64BE buf (ach_channelReserveSatoshis msg) 48) (\<lambda>buf.
     rbind (writeBigUInt64BE buf (ach_htlcMinimumMsat msg) 56) (\<lambda>buf.
     rbind (writeUInt32BE buf (ach_minimumDepth msg) 64) (\<lambda>buf.
     rbind (writeUInt16BE buf (ach_toSelfDelay msg) 68) (\<lambda>buf.
     rbind (writeUInt16BE buf (ach_maxAcceptedHtlcs msg) 70) (\<lambda>buf.
     let buf = copy_to (ach_fundingPubkey msg) buf 72 in
     let buf = copy_to (ach_revocationBasepoint msg) buf 105 in
     let buf = copy_to (ach_paymentBasepoint msg) buf 138 in
     let buf = copy_to (ach_delayedPaymentBasepoint msg) buf 171 in
     let buf = copy_to (ach_htlcBasepoint msg) buf 204 in
     let buf = copy_to (ach_firstPerCommitmentPoint msg) buf 237 in
     tlv_tail buf (opt_rec 0 (ach_upfrontShutdownScript msg) @ opt_rec 1 (ach_channelType msg) @ opt_rec 4 (ach_nextLocalNonce msg))))))))))"

definition ach_tlv_body :: "IAcceptChannelMessage \<Rightarrow> ITlvRecord \<Rightarrow> IAcceptChannelMessage res" where
  "ach_tlv_body result record =
     (if tlv_type record = 0 then
        Inr (result\<lparr>ach_upfrontShutdownScript := Some (tlv_value record)\<rparr>)
      else if tlv_type record = 1 then
        Inr (result\<lparr>ach_channelType := Some (tlv_value record)\<rparr>)
      else if tlv_type record = 4 then
        Inr (result\<lparr>ach_nextLocalNonce := Some (tlv_value record)\<rparr>)
      else Inr result)"

definition decodeAcceptChannelMessage :: "bytes \<Rightarrow> IAcceptChannelMessage res" where
  "decodeAcceptChannelMessage payload =
    (throw_if (length payload < 270)
       (Error ''accept_channel too short'' [270, int (length payload)]) (
     let temporaryChannelId = subarray payload 0 32 in
     rbind (readBigUInt64BE payload 32) (\<lambda>dustLimitSatoshis.
     rbind (readBigUInt64BE payload 40) (\<lambda>maxHtlcValueInFlightMsat.
     rbind (readBigUInt64BE payload 48) (\<lambda>channelReserveSatoshis.
     rbind (readBigUInt64BE payload 56) (\<lambda>htlcMinimumMsat.
     rbind (readUInt32BE payload 64) (\<lambda>minimumDepth.
     rbind (readUInt16BE payload 68) (\<lambda>toSelfDelay.
     rbind (readUInt16BE payload 70) (\<lambda>maxAcceptedHtlcs.
     let fundingPubkey = subarray payload 72 105 in
     let revocationBasepoint = subarray payload 105 138 in
     let paymentBasepoint = subarray payload 138 171 in
     let delayedPaymentBasepoint = subarray payload 171 204 in
     let htlcBasepoint = subarray payload 204 237 in
     let firstPerCommitmentPoint = subarray payload 237 270 in
     decode_tail payload 270 {0, 1, 4} ach_tlv_body
       \<lparr>ach_temporaryChannelId = temporaryChannelId,
        ach_dustLimitSatoshis = dustLimitSatoshis,
        ach_maxHtlcValueInFlightMsat = maxHtlcValueInFlightMsat,
        ach_channelReserveSatoshis = channelReserveSatoshis,
        ach_htlcMinimumMsat = htlcMinimumMsat, ach_minimumDepth = minimumDepth,
        ach_toSelfDelay = toSelfDelay, ach_maxAcceptedHtlcs = maxAcceptedHtlcs,
        ach_fundingPubkey = fundingPubkey, ach_revocationBasepoint = revocationBasepoint,
        ach_paymentBasepoint = paymentBasepoint,
        ach_delayedPaymentBasepoint = delayedPaymentBasepoint,
        ach_htlcBasepoint = htlcBasepoint,
        ach_firstPerCommitmentPoint = firstPerCommitmentPoint,
        ach_upfrontShutdownScript = None, ach_channelType = None,
        ach_nextLocalNonce = None\<rparr>)))))))))"

section \<open>Round trips\<close>

definition wf_och :: "IOpenChannelMessage \<Rightarrow> bool" where
  "wf_och m \<longleftrightarrow> length (och_chainHash m) = 32 \<and> length (och_temporaryChannelId m) = 32 \<and>
     u_fits 8 (och_fundingSatoshis m) \<and> u_fits 8 (och_pushMsat m) \<and>
     u_fits 8 (och_dustLimitSatoshis m) \<and>
     u_fits 8 (och_maxHtlcValueInFlightMsat m) \<and>
     u_fits 8 (och_channelReserveSatoshis m) \<and>
     u_fits 8 (och_htlcMinimumMsat m) \<and> u_fits 4 (och_feeratePerKw m) \<and>
     u_fits 2 (och_toSelfDelay m) \<and> u_fits 2 (och_maxAcceptedHtlcs m) \<and>
     length (och_fundingPubkey m) = 33 \<and>
     length (och_revocationBasepoint m) = 33 \<and>
     length (och_paymentBasepoint m) = 33 \<and>
     length (och_delayedPaymentBasepoint m) = 33 \<and>
     length (och_htlcBasepoint m) = 33 \<and>
     length (och_firstPerCommitmentPoint m) = 33 \<and>
     u_fits 1 (och_channelFlags m) \<and> opt_tlv (och_upfrontShutdownScript m) \<and>
     opt_tlv (och_channelType m) \<and> opt_tlv (och_nextLocalNonce m)"

abbreviation och_fixed :: "IOpenChannelMessage \<Rightarrow> bytes" where
  "och_fixed m \<equiv> och_chainHash m @ och_temporaryChannelId m @ be_bytes 8 (och_fundingSatoshis m) @
     be_bytes 8 (och_pushMsat m) @ be_bytes 8 (och_dustLimitSatoshis m) @
     be_bytes 8 (och_maxHtlcValueInFlightMsat m) @
     be_bytes 8 (och_channelReserveSatoshis m) @ be_bytes 8 (och_htlcMinimumMsat m) @
     be_bytes 4 (och_feeratePerKw m) @ be_bytes 2 (och_toSelfDelay m) @
     be_bytes 2 (och_maxAcceptedHtlcs m) @ och_fundingPubkey m @
     och_revocationBasepoint m @ och_paymentBasepoint m @
     och_delayedPaymentBasepoint m @ och_htlcBasepoint m @
     och_firstPerCommitmentPoint m @ [word_of_int (och_channelFlags m)]"

definition och_tlvs :: "IOpenChannelMessage \<Rightarrow> ITlvRecord list" where
  "och_tlvs m = opt_rec 0 (och_upfrontShutdownScript m) @ opt_rec 1 (och_channelType m) @
     opt_rec 4 (och_nextLocalNonce m)"

lemma och_tlv_ok: "wf_och m \<Longrightarrow> tlv_ok {0, 1, 4} (och_tlvs m)"
  by (auto simp: wf_och_def och_tlvs_def tlv_simps split: option.splits)

lemma och_enc:
  assumes "wf_och m"
  shows "encodeOpenChannelMessage m = Inr (och_fixed m @ tlvs (och_tlvs m))"
  using assms tlv_tail_eq [OF och_tlv_ok [OF assms]]
  by (cases "och_upfrontShutdownScript m"; cases "och_channelType m"; cases "och_nextLocalNonce m")
    (simp_all add: encodeOpenChannelMessage_def wf_och_def och_tlvs_def Let_def buf_simps u_fits_length
      del: append_assoc)

lemma och_dec:
  assumes "wf_och m"
  shows "decodeOpenChannelMessage (och_fixed m @ tlvs (och_tlvs m)) = Inr m"
  using assms decode_tail_eq [OF och_tlv_ok [OF assms], of "och_fixed m" 319 och_tlv_body]
  by (cases "och_upfrontShutdownScript m"; cases "och_channelType m"; cases "och_nextLocalNonce m")
    (simp_all add: decodeOpenChannelMessage_def wf_och_def och_tlvs_def och_tlv_body_def buf_simps u_fits_length)

lemma och_tlv_wf: "tlv_fits r \<Longrightarrow> wf_och s \<Longrightarrow> och_tlv_body s r = Inr s' \<Longrightarrow> wf_och s'"
  by (auto simp: wf_och_def och_tlv_body_def res_Inr_iff tlv_fits_def intro: fits_intros split: if_splits)

lemma och_dec_wf: "decodeOpenChannelMessage b = Inr m \<Longrightarrow> wf_och m"
  by (auto simp: decodeOpenChannelMessage_def Let_def res_Inr_iff elim!: decode_tail_inv [where P = wf_och]
      intro: och_tlv_wf) (auto simp: wf_och_def intro: fits_intros dest: readUInt16_less)

interpretation open_channel: wire_codec encodeOpenChannelMessage decodeOpenChannelMessage wf_och
  by unfold_locales (use och_enc och_dec och_dec_wf in blast)+

definition wf_ach :: "IAcceptChannelMessage \<Rightarrow> bool" where
  "wf_ach m \<longleftrightarrow> length (ach_temporaryChannelId m) = 32 \<and>
     u_fits 8 (ach_dustLimitSatoshis m) \<and>
     u_fits 8 (ach_maxHtlcValueInFlightMsat m) \<and>
     u_fits 8 (ach_channelReserveSatoshis m) \<and>
     u_fits 8 (ach_htlcMinimumMsat m) \<and> u_fits 4 (ach_minimumDepth m) \<and>
     u_fits 2 (ach_toSelfDelay m) \<and> u_fits 2 (ach_maxAcceptedHtlcs m) \<and>
     length (ach_fundingPubkey m) = 33 \<and>
     length (ach_revocationBasepoint m) = 33 \<and>
     length (ach_paymentBasepoint m) = 33 \<and>
     length (ach_delayedPaymentBasepoint m) = 33 \<and>
     length (ach_htlcBasepoint m) = 33 \<and>
     length (ach_firstPerCommitmentPoint m) = 33 \<and>
     opt_tlv (ach_upfrontShutdownScript m) \<and> opt_tlv (ach_channelType m) \<and>
     opt_tlv (ach_nextLocalNonce m)"

abbreviation ach_fixed :: "IAcceptChannelMessage \<Rightarrow> bytes" where
  "ach_fixed m \<equiv> ach_temporaryChannelId m @ be_bytes 8 (ach_dustLimitSatoshis m) @
     be_bytes 8 (ach_maxHtlcValueInFlightMsat m) @
     be_bytes 8 (ach_channelReserveSatoshis m) @ be_bytes 8 (ach_htlcMinimumMsat m) @
     be_bytes 4 (ach_minimumDepth m) @ be_bytes 2 (ach_toSelfDelay m) @
     be_bytes 2 (ach_maxAcceptedHtlcs m) @ ach_fundingPubkey m @
     ach_revocationBasepoint m @ ach_paymentBasepoint m @
     ach_delayedPaymentBasepoint m @ ach_htlcBasepoint m @ ach_firstPerCommitmentPoint m"

definition ach_tlvs :: "IAcceptChannelMessage \<Rightarrow> ITlvRecord list" where
  "ach_tlvs m = opt_rec 0 (ach_upfrontShutdownScript m) @ opt_rec 1 (ach_channelType m) @
     opt_rec 4 (ach_nextLocalNonce m)"

lemma ach_tlv_ok: "wf_ach m \<Longrightarrow> tlv_ok {0, 1, 4} (ach_tlvs m)"
  by (auto simp: wf_ach_def ach_tlvs_def tlv_simps split: option.splits)

lemma ach_enc:
  assumes "wf_ach m"
  shows "encodeAcceptChannelMessage m = Inr (ach_fixed m @ tlvs (ach_tlvs m))"
  using assms tlv_tail_eq [OF ach_tlv_ok [OF assms]]
  by (cases "ach_upfrontShutdownScript m"; cases "ach_channelType m"; cases "ach_nextLocalNonce m")
    (simp_all add: encodeAcceptChannelMessage_def wf_ach_def ach_tlvs_def Let_def buf_simps u_fits_length
      del: append_assoc)

lemma ach_dec:
  assumes "wf_ach m"
  shows "decodeAcceptChannelMessage (ach_fixed m @ tlvs (ach_tlvs m)) = Inr m"
  using assms decode_tail_eq [OF ach_tlv_ok [OF assms], of "ach_fixed m" 270 ach_tlv_body]
  by (cases "ach_upfrontShutdownScript m"; cases "ach_channelType m"; cases "ach_nextLocalNonce m")
    (simp_all add: decodeAcceptChannelMessage_def wf_ach_def ach_tlvs_def ach_tlv_body_def buf_simps u_fits_length)

lemma ach_tlv_wf: "tlv_fits r \<Longrightarrow> wf_ach s \<Longrightarrow> ach_tlv_body s r = Inr s' \<Longrightarrow> wf_ach s'"
  by (auto simp: wf_ach_def ach_tlv_body_def res_Inr_iff tlv_fits_def intro: fits_intros split: if_splits)

lemma ach_dec_wf: "decodeAcceptChannelMessage b = Inr m \<Longrightarrow> wf_ach m"
  by (auto simp: decodeAcceptChannelMessage_def Let_def res_Inr_iff elim!: decode_tail_inv [where P = wf_ach]
      intro: ach_tlv_wf) (auto simp: wf_ach_def intro: fits_intros dest: readUInt16_less)

interpretation accept_channel: wire_codec encodeAcceptChannelMessage decodeAcceptChannelMessage wf_ach
  by unfold_locales (use ach_enc ach_dec ach_dec_wf in blast)+

section \<open>Properties\<close>

text \<open>C25: \<open>open_channel\<close> and \<open>accept_channel\<close> survive encoding and decoding: all fixed fields, the flags
  byte and the three optional records.\<close>

theorem open_messages_roundtrip:
  assumes "wf_och m0"
    and "wf_ach m1"
  shows "(\<exists>b. encodeOpenChannelMessage m0 = Inr b \<and> decodeOpenChannelMessage b = Inr m0) \<and>
    (\<exists>b. encodeAcceptChannelMessage m1 = Inr b \<and> decodeAcceptChannelMessage b = Inr m1)"
  using open_channel.roundtrip [OF assms(1)]
    accept_channel.roundtrip [OF assms(2)]
  by (intro conjI)

theorem open_messages_roundtrip_witness:
  "(\<exists>b. encodeOpenChannelMessage \<lparr>och_chainHash = replicate 32 1, och_temporaryChannelId = replicate 32 2,
      och_fundingSatoshis = 21, och_pushMsat = 28, och_dustLimitSatoshis = 35,
      och_maxHtlcValueInFlightMsat = 42, och_channelReserveSatoshis = 49,
      och_htlcMinimumMsat = 56, och_feeratePerKw = 63, och_toSelfDelay = 70,
      och_maxAcceptedHtlcs = 77, och_fundingPubkey = replicate 33 12,
      och_revocationBasepoint = replicate 33 13,
      och_paymentBasepoint = replicate 33 14,
      och_delayedPaymentBasepoint = replicate 33 15,
      och_htlcBasepoint = replicate 33 16,
      och_firstPerCommitmentPoint = replicate 33 17, och_channelFlags = 126,
      och_upfrontShutdownScript = Some (replicate 5 19),
      och_channelType = Some (replicate 5 20),
      och_nextLocalNonce = Some (replicate 5 21)\<rparr> = Inr b \<and>
     decodeOpenChannelMessage b = Inr \<lparr>och_chainHash = replicate 32 1, och_temporaryChannelId = replicate 32 2,
      och_fundingSatoshis = 21, och_pushMsat = 28, och_dustLimitSatoshis = 35,
      och_maxHtlcValueInFlightMsat = 42, och_channelReserveSatoshis = 49,
      och_htlcMinimumMsat = 56, och_feeratePerKw = 63, och_toSelfDelay = 70,
      och_maxAcceptedHtlcs = 77, och_fundingPubkey = replicate 33 12,
      och_revocationBasepoint = replicate 33 13,
      och_paymentBasepoint = replicate 33 14,
      och_delayedPaymentBasepoint = replicate 33 15,
      och_htlcBasepoint = replicate 33 16,
      och_firstPerCommitmentPoint = replicate 33 17, och_channelFlags = 126,
      och_upfrontShutdownScript = Some (replicate 5 19),
      och_channelType = Some (replicate 5 20),
      och_nextLocalNonce = Some (replicate 5 21)\<rparr>) \<and>
   (\<exists>b. encodeAcceptChannelMessage \<lparr>ach_temporaryChannelId = replicate 32 1, ach_dustLimitSatoshis = 14,
      ach_maxHtlcValueInFlightMsat = 21, ach_channelReserveSatoshis = 28,
      ach_htlcMinimumMsat = 35, ach_minimumDepth = 42, ach_toSelfDelay = 49,
      ach_maxAcceptedHtlcs = 56, ach_fundingPubkey = replicate 33 9,
      ach_revocationBasepoint = replicate 33 10,
      ach_paymentBasepoint = replicate 33 11,
      ach_delayedPaymentBasepoint = replicate 33 12,
      ach_htlcBasepoint = replicate 33 13,
      ach_firstPerCommitmentPoint = replicate 33 14,
      ach_upfrontShutdownScript = Some (replicate 5 15),
      ach_channelType = Some (replicate 5 16),
      ach_nextLocalNonce = Some (replicate 5 17)\<rparr> = Inr b \<and>
     decodeAcceptChannelMessage b = Inr \<lparr>ach_temporaryChannelId = replicate 32 1, ach_dustLimitSatoshis = 14,
      ach_maxHtlcValueInFlightMsat = 21, ach_channelReserveSatoshis = 28,
      ach_htlcMinimumMsat = 35, ach_minimumDepth = 42, ach_toSelfDelay = 49,
      ach_maxAcceptedHtlcs = 56, ach_fundingPubkey = replicate 33 9,
      ach_revocationBasepoint = replicate 33 10,
      ach_paymentBasepoint = replicate 33 11,
      ach_delayedPaymentBasepoint = replicate 33 12,
      ach_htlcBasepoint = replicate 33 13,
      ach_firstPerCommitmentPoint = replicate 33 14,
      ach_upfrontShutdownScript = Some (replicate 5 15),
      ach_channelType = Some (replicate 5 16),
      ach_nextLocalNonce = Some (replicate 5 17)\<rparr>)"
  by (rule open_messages_roundtrip) (simp_all add: wf_och_def wf_ach_def u_fits_def s64_fits_def)

end
