(* ===== verification/MsgSplice.thy ===== *)
theory MsgSplice
  imports Wire
begin

text \<open>
  BOLT 2 splicing: \<^verbatim>\<open>src/lightning/message/splice.ts\<close> (\<open>splice_init\<close>, \<open>splice_ack\<close>,
  \<open>splice_locked\<close>, \<open>start_batch\<close>). The two TLV records of \<open>splice_init\<close> and \<open>splice_ack\<close> are written by
  hand in the source; the lemmas show that the bytes are the canonical stream the decoder reads.
\<close>

section \<open>Definitions\<close>

definition SPLICE_LOCK_DEPTH_TLV :: int where
  "SPLICE_LOCK_DEPTH_TLV = 65537"

definition SPLICE_LOCK_DEPTH_MAX :: int where
  "SPLICE_LOCK_DEPTH_MAX = 2016"

definition writeBigSize :: "int \<Rightarrow> bytes res" where
  "writeBigSize n =
     (if n < 0xfd then Inr [word_of_int n]
      else if n < 0x10000 then writeUInt16BE (setByte (alloc 3) 0 0xfd) n 1
      else writeUInt32BE (setByte (alloc 5) 0 0xfe) n 1)"

definition encodeSpliceTlvs :: "bool option \<Rightarrow> int option \<Rightarrow> bytes res" where
  "encodeSpliceTlvs requireConfirmedInputs lockDepth =
    (let parts = (if requireConfirmedInputs = Some True then [2, 0] else []) in
     case lockDepth of None \<Rightarrow> Inr parts
     | Some depth \<Rightarrow>
         throw_if (depth < 1 \<or> depth > SPLICE_LOCK_DEPTH_MAX)
           (Error ''lockDepth must be an integer between 1 and the maximum'' [SPLICE_LOCK_DEPTH_MAX]) (
         rbind (writeUInt16BE (alloc 2) depth 0) (\<lambda>value.
         rbind (writeBigSize SPLICE_LOCK_DEPTH_TLV) (\<lambda>type.
         rbind (writeBigSize 2) (\<lambda>len.
         Inr (parts @ type @ len @ value))))))"

definition splice_tlv_body ::
    "bool option \<times> int option \<Rightarrow> ITlvRecord \<Rightarrow> (bool option \<times> int option) res" where
  "splice_tlv_body out record =
     (if tlv_type record = 2 then
        throw_if (length (tlv_value record) \<noteq> 0) (Error ''require_confirmed_inputs must be empty'' [])
          (Inr (Some True, snd out))
      else if tlv_type record = SPLICE_LOCK_DEPTH_TLV then
        throw_if (length (tlv_value record) \<noteq> 2) (Error ''lock_depth must be a u16'' []) (
        rbind (readUInt16BE (tlv_value record) 0) (\<lambda>depth.
        throw_if (depth < 1 \<or> depth > SPLICE_LOCK_DEPTH_MAX)
          (Error ''lock_depth out of range'' [depth])
          (Inr (fst out, Some depth))))
      else Inr out)"

definition decodeSpliceTlvs :: "bytes \<Rightarrow> nat \<Rightarrow> (bool option \<times> int option) res" where
  "decodeSpliceTlvs payload offset =
     decode_tlvs payload offset {2, SPLICE_LOCK_DEPTH_TLV} splice_tlv_body (None, None)"

record ISpliceMessage =
  spl_channelId :: bytes
  spl_fundingPubkey :: bytes
  spl_relativeSatoshis :: int
  spl_fundingFeeratePerkw :: int
  spl_locktime :: int
  spl_requireConfirmedInputs :: "bool option"
  spl_lockDepth :: "int option"

definition encodeSpliceMessage :: "ISpliceMessage \<Rightarrow> bytes res" where
  "encodeSpliceMessage msg =
     throw_if (length (spl_channelId msg) \<noteq> 32)
       (Error ''Channel ID must be 32 bytes'' [int (length (spl_channelId msg))]) (
     throw_if (length (spl_fundingPubkey msg) \<noteq> 33)
       (Error ''Funding pubkey must be 33 bytes'' [int (length (spl_fundingPubkey msg))]) (
     let fixed = alloc 81 in
     let fixed = copy_to (spl_channelId msg) fixed 0 in
     rbind (writeBigInt64BE fixed (spl_relativeSatoshis msg) 32) (\<lambda>fixed.
     rbind (writeUInt32BE fixed (spl_fundingFeeratePerkw msg) 40) (\<lambda>fixed.
     rbind (writeUInt32BE fixed (spl_locktime msg) 44) (\<lambda>fixed.
     let fixed = copy_to (spl_fundingPubkey msg) fixed 48 in
     rbind (encodeSpliceTlvs (spl_requireConfirmedInputs msg) (spl_lockDepth msg)) (\<lambda>tlv.
     Inr (fixed @ tlv)))))))"

definition decodeSpliceMessage :: "bytes \<Rightarrow> ISpliceMessage res" where
  "decodeSpliceMessage payload =
     throw_if (length payload < 81) (Error ''splice message too short'' [int (length payload)]) (
     let channelId = subarray payload 0 32 in
     rbind (readBigInt64BE payload 32) (\<lambda>relativeSatoshis.
     rbind (readUInt32BE payload 40) (\<lambda>fundingFeeratePerkw.
     rbind (readUInt32BE payload 44) (\<lambda>locktime.
     let fundingPubkey = subarray payload 48 81 in
     rbind (decodeSpliceTlvs payload 81) (\<lambda>(requireConfirmedInputs, lockDepth).
     Inr \<lparr>spl_channelId = channelId, spl_fundingPubkey = fundingPubkey,
       spl_relativeSatoshis = relativeSatoshis, spl_fundingFeeratePerkw = fundingFeeratePerkw,
       spl_locktime = locktime, spl_requireConfirmedInputs = requireConfirmedInputs,
       spl_lockDepth = lockDepth\<rparr>)))))"

record ISpliceAckMessage =
  spa_channelId :: bytes
  spa_fundingPubkey :: bytes
  spa_relativeSatoshis :: int
  spa_requireConfirmedInputs :: "bool option"
  spa_lockDepth :: "int option"

definition encodeSpliceAckMessage :: "ISpliceAckMessage \<Rightarrow> bytes res" where
  "encodeSpliceAckMessage msg =
     throw_if (length (spa_channelId msg) \<noteq> 32)
       (Error ''Channel ID must be 32 bytes'' [int (length (spa_channelId msg))]) (
     throw_if (length (spa_fundingPubkey msg) \<noteq> 33)
       (Error ''Funding pubkey must be 33 bytes'' [int (length (spa_fundingPubkey msg))]) (
     let fixed = alloc 73 in
     let fixed = copy_to (spa_channelId msg) fixed 0 in
     rbind (writeBigInt64BE fixed (spa_relativeSatoshis msg) 32) (\<lambda>fixed.
     let fixed = copy_to (spa_fundingPubkey msg) fixed 40 in
     rbind (encodeSpliceTlvs (spa_requireConfirmedInputs msg) (spa_lockDepth msg)) (\<lambda>tlv.
     Inr (fixed @ tlv)))))"

definition decodeSpliceAckMessage :: "bytes \<Rightarrow> ISpliceAckMessage res" where
  "decodeSpliceAckMessage payload =
     throw_if (length payload < 73) (Error ''splice_ack message too short'' [int (length payload)]) (
     let channelId = subarray payload 0 32 in
     rbind (readBigInt64BE payload 32) (\<lambda>relativeSatoshis.
     let fundingPubkey = subarray payload 40 73 in
     rbind (decodeSpliceTlvs payload 73) (\<lambda>(requireConfirmedInputs, lockDepth).
     Inr \<lparr>spa_channelId = channelId, spa_fundingPubkey = fundingPubkey,
       spa_relativeSatoshis = relativeSatoshis,
       spa_requireConfirmedInputs = requireConfirmedInputs, spa_lockDepth = lockDepth\<rparr>)))"

record ISpliceLockedMessage =
  slk_channelId :: bytes
  slk_fundingTxid :: "bytes option"

definition encodeSpliceLockedMessage :: "ISpliceLockedMessage \<Rightarrow> bytes res" where
  "encodeSpliceLockedMessage msg =
     throw_if (length (slk_channelId msg) \<noteq> 32)
       (Error ''Channel ID must be 32 bytes'' [int (length (slk_channelId msg))]) (
     throw_if (bad_len 32 (slk_fundingTxid msg))
       (Error ''splice_locked txid must be 32 bytes'' [opt_len (slk_fundingTxid msg)]) (
     let buf = alloc (if slk_fundingTxid msg \<noteq> None then 64 else 32) in
     let buf = copy_to (slk_channelId msg) buf 0 in
     Inr (case slk_fundingTxid msg of None \<Rightarrow> buf | Some txid \<Rightarrow> copy_to txid buf 32)))"

definition decodeSpliceLockedMessage :: "bytes \<Rightarrow> ISpliceLockedMessage res" where
  "decodeSpliceLockedMessage payload =
     throw_if (length payload < 32) (Error ''splice_locked message too short'' [int (length payload)])
     (Inr \<lparr>slk_channelId = subarray payload 0 32,
       slk_fundingTxid = (if length payload \<ge> 64 then Some (subarray payload 32 64) else None)\<rparr>)"

record IStartBatchMessage =
  sbt_channelId :: bytes
  sbt_batchSize :: int
  sbt_messageType :: "int option"

definition encodeStartBatchMessage :: "IStartBatchMessage \<Rightarrow> bytes res" where
  "encodeStartBatchMessage msg =
     throw_if (length (sbt_channelId msg) \<noteq> 32)
       (Error ''Channel ID must be 32 bytes'' [int (length (sbt_channelId msg))]) (
     let buf = alloc (34 + (if sbt_messageType msg \<noteq> None then 4 else 0)) in
     let buf = copy_to (sbt_channelId msg) buf 0 in
     rbind (writeUInt16BE buf (sbt_batchSize msg) 32) (\<lambda>buf.
     case sbt_messageType msg of None \<Rightarrow> Inr buf
     | Some type \<Rightarrow>
         let buf = setByte buf 34 1 in
         let buf = setByte buf 35 2 in
         writeUInt16BE buf type 36))"

definition sbt_tlv_body :: "IStartBatchMessage \<Rightarrow> ITlvRecord \<Rightarrow> IStartBatchMessage res" where
  "sbt_tlv_body msg record =
     (if tlv_type record = 1 then
        throw_if (length (tlv_value record) \<noteq> 2)
          (Error ''start_batch: message_type TLV must be 2 bytes'' [])
          (rbind (readUInt16BE (tlv_value record) 0) (\<lambda>type.
           Inr (msg\<lparr>sbt_messageType := Some type\<rparr>)))
      else Inr msg)"

definition decodeStartBatchMessage :: "bytes \<Rightarrow> IStartBatchMessage res" where
  "decodeStartBatchMessage payload =
     throw_if (length payload < 34) (Error ''start_batch too short'' [int (length payload)]) (
     let channelId = subarray payload 0 32 in
     rbind (readUInt16BE payload 32) (\<lambda>batchSize.
     decode_tlvs payload 34 {1} sbt_tlv_body
       \<lparr>sbt_channelId = channelId, sbt_batchSize = batchSize, sbt_messageType = None\<rparr>))"

section \<open>Round trips\<close>

text \<open>The TLV part both splice messages share.\<close>

definition splice_tlvs_wf :: "bool option \<Rightarrow> int option \<Rightarrow> bool" where
  "splice_tlvs_wf rci depth \<longleftrightarrow> rci \<noteq> Some False \<and> pred_option (\<lambda>d. 1 \<le> d \<and> d \<le> 2016) depth"

definition splice_recs :: "bool option \<Rightarrow> int option \<Rightarrow> ITlvRecord list" where
  "splice_recs rci depth = opt_rec 2 (map_option (\<lambda>_. []) rci) @
     opt_rec 65537 (map_option (be_bytes 2) depth)"

lemma splice_recs_ok: "splice_tlvs_wf rci depth \<Longrightarrow> tlv_ok {2, 65537} (splice_recs rci depth)"
  by (auto simp: splice_recs_def tlv_simps split: option.splits)

lemma writeBigSize_consts:
  "writeBigSize 65537 = Inr (bigsize_bytes 65537)" "writeBigSize 2 = Inr (bigsize_bytes 2)"
  using writeUIntBE_field [of "[254]" 1 65537 4 4]
  by (simp_all add: writeBigSize_def bigsize_bytes_def buf_simps)

lemma encodeSpliceTlvs_eq:
  assumes "splice_tlvs_wf rci depth"
  shows "encodeSpliceTlvs rci depth = Inr (tlvs (splice_recs rci depth))"
proof -
  have "bigsize_bytes 2 = [2]" "bigsize_bytes 0 = [0]" by (simp_all add: bigsize_bytes_def)
  then show ?thesis
    using assms
    by (cases rci; cases depth)
      (auto simp: encodeSpliceTlvs_def splice_tlvs_wf_def splice_recs_def tlv_bytes_def Let_def
        SPLICE_LOCK_DEPTH_MAX_def SPLICE_LOCK_DEPTH_TLV_def writeBigSize_consts buf_simps u_fits_def)
qed

lemma decodeSpliceTlvs_eq:
  assumes "splice_tlvs_wf rci depth" "length pre = off"
  shows "decodeSpliceTlvs (pre @ tlvs (splice_recs rci depth)) off = Inr (rci, depth)"
proof -
  have "decodeSpliceTlvs (pre @ tlvs (splice_recs rci depth)) off =
      for_each splice_tlv_body (splice_recs rci depth) (None, None)"
    unfolding decodeSpliceTlvs_def SPLICE_LOCK_DEPTH_TLV_def
    by (rule decode_tlvs_eq [OF splice_recs_ok [OF assms(1)] assms(2)])
  then show ?thesis
    using assms
    by (cases rci; cases depth)
      (auto simp: splice_tlvs_wf_def splice_recs_def splice_tlv_body_def SPLICE_LOCK_DEPTH_TLV_def
        SPLICE_LOCK_DEPTH_MAX_def buf_simps u_fits_def)
qed

lemma decodeSpliceTlvs_wf:
  "decodeSpliceTlvs payload off = Inr (rci, depth) \<Longrightarrow> off \<le> length payload \<Longrightarrow>
   splice_tlvs_wf rci depth"
proof -
  assume d: "decodeSpliceTlvs payload off = Inr (rci, depth)" "off \<le> length payload"
  have "case (rci, depth) of (r, d) \<Rightarrow> splice_tlvs_wf r d"
    by (rule decode_tlvs_inv [OF d(1) [unfolded decodeSpliceTlvs_def] d(2)])
      (auto simp: splice_tlvs_wf_def splice_tlv_body_def SPLICE_LOCK_DEPTH_MAX_def res_Inr_iff
        split: if_splits)
  then show ?thesis by simp
qed

definition wf_spl :: "ISpliceMessage \<Rightarrow> bool" where
  "wf_spl m \<longleftrightarrow> length (spl_channelId m) = 32 \<and> length (spl_fundingPubkey m) = 33 \<and>
     s64_fits (spl_relativeSatoshis m) \<and> u_fits 4 (spl_fundingFeeratePerkw m) \<and>
     u_fits 4 (spl_locktime m) \<and>
     splice_tlvs_wf (spl_requireConfirmedInputs m) (spl_lockDepth m)"

abbreviation spl_fixed :: "ISpliceMessage \<Rightarrow> bytes" where
  "spl_fixed m \<equiv> spl_channelId m @ be_bytes 8 (spl_relativeSatoshis m) @
     be_bytes 4 (spl_fundingFeeratePerkw m) @ be_bytes 4 (spl_locktime m) @ spl_fundingPubkey m"

abbreviation spl_tlvs :: "ISpliceMessage \<Rightarrow> bytes" where
  "spl_tlvs m \<equiv> tlvs (splice_recs (spl_requireConfirmedInputs m) (spl_lockDepth m))"

lemma spl_enc: "wf_spl m \<Longrightarrow> encodeSpliceMessage m = Inr (spl_fixed m @ spl_tlvs m)"
  by (simp add: encodeSpliceMessage_def wf_spl_def encodeSpliceTlvs_eq Let_def buf_simps
      del: append_assoc)

lemma spl_dec:
  assumes "wf_spl m"
  shows "decodeSpliceMessage (spl_fixed m @ spl_tlvs m) = Inr m"
  using assms decodeSpliceTlvs_eq [of "spl_requireConfirmedInputs m" "spl_lockDepth m" "spl_fixed m" 81]
  by (simp add: decodeSpliceMessage_def wf_spl_def buf_simps)

lemma spl_dec_wf: "decodeSpliceMessage b = Inr m \<Longrightarrow> wf_spl m"
  by (auto simp: decodeSpliceMessage_def Let_def res_Inr_iff wf_spl_def
      intro: fits_intros decodeSpliceTlvs_wf)

interpretation splice_init: wire_codec encodeSpliceMessage decodeSpliceMessage wf_spl
  by unfold_locales (use spl_enc spl_dec spl_dec_wf in blast)+

definition wf_spa :: "ISpliceAckMessage \<Rightarrow> bool" where
  "wf_spa m \<longleftrightarrow> length (spa_channelId m) = 32 \<and> length (spa_fundingPubkey m) = 33 \<and>
     s64_fits (spa_relativeSatoshis m) \<and>
     splice_tlvs_wf (spa_requireConfirmedInputs m) (spa_lockDepth m)"

abbreviation spa_fixed :: "ISpliceAckMessage \<Rightarrow> bytes" where
  "spa_fixed m \<equiv> spa_channelId m @ be_bytes 8 (spa_relativeSatoshis m) @ spa_fundingPubkey m"

abbreviation spa_tlvs :: "ISpliceAckMessage \<Rightarrow> bytes" where
  "spa_tlvs m \<equiv> tlvs (splice_recs (spa_requireConfirmedInputs m) (spa_lockDepth m))"

lemma spa_enc: "wf_spa m \<Longrightarrow> encodeSpliceAckMessage m = Inr (spa_fixed m @ spa_tlvs m)"
  by (simp add: encodeSpliceAckMessage_def wf_spa_def encodeSpliceTlvs_eq Let_def buf_simps
      del: append_assoc)

lemma spa_dec:
  assumes "wf_spa m"
  shows "decodeSpliceAckMessage (spa_fixed m @ spa_tlvs m) = Inr m"
  using assms decodeSpliceTlvs_eq [of "spa_requireConfirmedInputs m" "spa_lockDepth m" "spa_fixed m" 73]
  by (simp add: decodeSpliceAckMessage_def wf_spa_def buf_simps)

lemma spa_dec_wf: "decodeSpliceAckMessage b = Inr m \<Longrightarrow> wf_spa m"
  by (auto simp: decodeSpliceAckMessage_def Let_def res_Inr_iff wf_spa_def
      intro: fits_intros decodeSpliceTlvs_wf)

interpretation splice_ack: wire_codec encodeSpliceAckMessage decodeSpliceAckMessage wf_spa
  by unfold_locales (use spa_enc spa_dec spa_dec_wf in blast)+

definition wf_slk :: "ISpliceLockedMessage \<Rightarrow> bool" where
  "wf_slk m \<longleftrightarrow> length (slk_channelId m) = 32 \<and> opt_has_len 32 (slk_fundingTxid m)"

lemma slk_roundtrip:
  "wf_slk m \<Longrightarrow> \<exists>b. encodeSpliceLockedMessage m = Inr b \<and> decodeSpliceLockedMessage b = Inr m"
  by (cases "slk_fundingTxid m")
    (simp_all add: encodeSpliceLockedMessage_def decodeSpliceLockedMessage_def wf_slk_def buf_simps)

lemma slk_dec_wf: "decodeSpliceLockedMessage b = Inr m \<Longrightarrow> wf_slk m"
  by (auto simp: decodeSpliceLockedMessage_def res_Inr_iff wf_slk_def)

interpretation splice_locked:
    wire_codec encodeSpliceLockedMessage decodeSpliceLockedMessage wf_slk
  by unfold_locales (use slk_roundtrip slk_dec_wf in blast)+

definition wf_sbt :: "IStartBatchMessage \<Rightarrow> bool" where
  "wf_sbt m \<longleftrightarrow> length (sbt_channelId m) = 32 \<and> u_fits 2 (sbt_batchSize m) \<and>
     pred_option (u_fits 2) (sbt_messageType m)"

abbreviation sbt_fixed :: "IStartBatchMessage \<Rightarrow> bytes" where
  "sbt_fixed m \<equiv> sbt_channelId m @ be_bytes 2 (sbt_batchSize m)"

definition sbt_tlvs :: "IStartBatchMessage \<Rightarrow> ITlvRecord list" where
  "sbt_tlvs m = opt_rec 1 (map_option (be_bytes 2) (sbt_messageType m))"

lemma sbt_tlv_ok: "wf_sbt m \<Longrightarrow> tlv_ok {1} (sbt_tlvs m)"
  by (auto simp: wf_sbt_def sbt_tlvs_def tlv_simps split: option.splits)

lemma sbt_enc: "wf_sbt m \<Longrightarrow> encodeStartBatchMessage m = Inr (sbt_fixed m @ tlvs (sbt_tlvs m))"
  by (cases "sbt_messageType m")
    (simp_all add: encodeStartBatchMessage_def wf_sbt_def sbt_tlvs_def tlv_bytes_def bigsize_bytes_def
      Let_def buf_simps del: append_assoc)

lemma sbt_dec:
  assumes "wf_sbt m"
  shows "decodeStartBatchMessage (sbt_fixed m @ tlvs (sbt_tlvs m)) = Inr m"
  using assms decode_tlvs_eq [OF sbt_tlv_ok [OF assms], of "sbt_fixed m" 34 sbt_tlv_body]
  by (cases "sbt_messageType m")
    (simp_all add: decodeStartBatchMessage_def wf_sbt_def sbt_tlvs_def sbt_tlv_body_def buf_simps)

lemma sbt_tlv_wf: "tlv_fits r \<Longrightarrow> wf_sbt s \<Longrightarrow> sbt_tlv_body s r = Inr s' \<Longrightarrow> wf_sbt s'"
  by (auto simp: wf_sbt_def sbt_tlv_body_def res_Inr_iff intro: fits_intros split: if_splits)

lemma sbt_dec_wf: "decodeStartBatchMessage b = Inr m \<Longrightarrow> wf_sbt m"
  by (auto simp: decodeStartBatchMessage_def Let_def res_Inr_iff
      elim!: decode_tlvs_inv [where P = wf_sbt] intro: sbt_tlv_wf)
    (auto simp: wf_sbt_def intro: fits_intros)

interpretation start_batch: wire_codec encodeStartBatchMessage decodeStartBatchMessage wf_sbt
  by unfold_locales (use sbt_enc sbt_dec sbt_dec_wf in blast)+

section \<open>Properties\<close>

text \<open>C26: the splice messages survive encoding and decoding, a negative contribution (splice-out),
  the confirmed-inputs flag, the lock depth and the batched message type included.\<close>

theorem splice_messages_roundtrip:
  assumes "wf_spl m0"
    and "wf_spa m1"
    and "wf_slk m2"
    and "wf_sbt m3"
  shows "(\<exists>b. encodeSpliceMessage m0 = Inr b \<and> decodeSpliceMessage b = Inr m0) \<and>
    (\<exists>b. encodeSpliceAckMessage m1 = Inr b \<and> decodeSpliceAckMessage b = Inr m1) \<and>
    (\<exists>b. encodeSpliceLockedMessage m2 = Inr b \<and> decodeSpliceLockedMessage b = Inr m2) \<and>
    (\<exists>b. encodeStartBatchMessage m3 = Inr b \<and> decodeStartBatchMessage b = Inr m3)"
  using splice_init.roundtrip [OF assms(1)]
    splice_ack.roundtrip [OF assms(2)]
    splice_locked.roundtrip [OF assms(3)]
    start_batch.roundtrip [OF assms(4)]
  by (intro conjI)

theorem splice_messages_roundtrip_witness:
  "(\<exists>b. encodeSpliceMessage \<lparr>spl_channelId = replicate 32 1, spl_fundingPubkey = replicate 33 2,
      spl_relativeSatoshis = - 50000, spl_fundingFeeratePerkw = 253, spl_locktime = 0,
      spl_requireConfirmedInputs = Some True, spl_lockDepth = Some 6\<rparr> = Inr b \<and>
     decodeSpliceMessage b = Inr \<lparr>spl_channelId = replicate 32 1, spl_fundingPubkey = replicate 33 2,
      spl_relativeSatoshis = - 50000, spl_fundingFeeratePerkw = 253, spl_locktime = 0,
      spl_requireConfirmedInputs = Some True, spl_lockDepth = Some 6\<rparr>) \<and>
   (\<exists>b. encodeSpliceAckMessage \<lparr>spa_channelId = replicate 32 1, spa_fundingPubkey = replicate 33 2,
      spa_relativeSatoshis = 70000, spa_requireConfirmedInputs = None, spa_lockDepth = Some 3\<rparr> = Inr b \<and>
     decodeSpliceAckMessage b = Inr \<lparr>spa_channelId = replicate 32 1, spa_fundingPubkey = replicate 33 2,
      spa_relativeSatoshis = 70000, spa_requireConfirmedInputs = None, spa_lockDepth = Some 3\<rparr>) \<and>
   (\<exists>b. encodeSpliceLockedMessage \<lparr>slk_channelId = replicate 32 1, slk_fundingTxid = Some (replicate 32 9)\<rparr> = Inr b \<and>
     decodeSpliceLockedMessage b = Inr \<lparr>slk_channelId = replicate 32 1, slk_fundingTxid = Some (replicate 32 9)\<rparr>) \<and>
   (\<exists>b. encodeStartBatchMessage \<lparr>sbt_channelId = replicate 32 1, sbt_batchSize = 2, sbt_messageType = Some 132\<rparr> = Inr b \<and>
     decodeStartBatchMessage b = Inr \<lparr>sbt_channelId = replicate 32 1, sbt_batchSize = 2, sbt_messageType = Some 132\<rparr>)"
  by (rule splice_messages_roundtrip) (simp_all add: wf_spl_def wf_spa_def wf_slk_def wf_sbt_def u_fits_def s64_fits_def splice_tlvs_wf_def)

end
