(* ===== verification/MsgInteractive.thy ===== *)
theory MsgInteractive
  imports Wire
begin

text \<open>
  BOLT 2 interactive transaction construction: \<^verbatim>\<open>src/lightning/message/interactive-tx.ts\<close>, the nine
  messages \<open>tx_add_input\<close> to \<open>tx_abort\<close>. \<open>tx_signatures\<close> nests Bitcoin's own serialization of
  witness stacks (CompactSize counts, little-endian) in length-prefixed blobs.
\<close>

section \<open>Definitions\<close>

record ITxAddInputMessage =
  tai_channelId :: bytes
  tai_serialId :: int
  tai_prevTx :: bytes
  tai_prevTxVout :: int
  tai_sequence :: int
  tai_sharedInputTxid :: "bytes option"

definition encodeTxAddInputMessage :: "ITxAddInputMessage \<Rightarrow> bytes res" where
  "encodeTxAddInputMessage msg =
     throw_if (length (tai_channelId msg) \<noteq> 32)
       (Error ''Channel ID must be 32 bytes'' [int (length (tai_channelId msg))]) (
     throw_if (bad_len 32 (tai_sharedInputTxid msg))
       (Error ''sharedInputTxid must be 32 bytes'' [opt_len (tai_sharedInputTxid msg)]) (
     let tlvLen = (if tai_sharedInputTxid msg \<noteq> None then 2 + 32 else 0) in
     let prevTxLen = length (tai_prevTx msg) in
     let fixedLen = 32 + 8 + 2 + prevTxLen + 4 + 4 + tlvLen in
     let buf = alloc fixedLen in
     let buf = copy_to (tai_channelId msg) buf 0 in
     rbind (writeBigUInt64BE buf (tai_serialId msg) 32) (\<lambda>buf.
     rbind (writeUInt16BE buf (int prevTxLen) 40) (\<lambda>buf.
     let buf = copy_to (tai_prevTx msg) buf 42 in
     rbind (writeUInt32BE buf (tai_prevTxVout msg) (42 + prevTxLen)) (\<lambda>buf.
     rbind (writeUInt32BE buf (tai_sequence msg) (46 + prevTxLen)) (\<lambda>buf.
     case tai_sharedInputTxid msg of None \<Rightarrow> Inr buf
     | Some txid \<Rightarrow>
         let buf = setByte buf (50 + prevTxLen) 0 in
         let buf = setByte buf (51 + prevTxLen) 32 in
         Inr (copy_to txid buf (52 + prevTxLen))))))))"

definition tai_tlv_body :: "ITxAddInputMessage \<Rightarrow> ITlvRecord \<Rightarrow> ITxAddInputMessage res" where
  "tai_tlv_body result record =
     (if tlv_type record = 0 then
        throw_if (length (tlv_value record) \<noteq> 32)
          (Error ''tx_add_input: shared_input_txid must be 32 bytes''
            [int (length (tlv_value record))])
          (Inr (result\<lparr>tai_sharedInputTxid := Some (tlv_value record)\<rparr>))
      else Inr result)"

definition decodeTxAddInputMessage :: "bytes \<Rightarrow> ITxAddInputMessage res" where
  "decodeTxAddInputMessage payload =
     throw_if (length payload < 50) (Error ''tx_add_input too short'' [int (length payload)]) (
     let channelId = subarray payload 0 32 in
     rbind (readBigUInt64BE payload 32) (\<lambda>serialId.
     rbind (readUInt16BE payload 40) (\<lambda>prevTxLen.
     throw_if (42 + nat prevTxLen + 8 > length payload)
       (Error ''tx_add_input: prevTx length exceeds payload'' []) (
     let prevTx = subarray payload 42 (42 + nat prevTxLen) in
     rbind (readUInt32BE payload (42 + nat prevTxLen)) (\<lambda>prevTxVout.
     rbind (readUInt32BE payload (46 + nat prevTxLen)) (\<lambda>sequence.
     decode_tail payload (50 + nat prevTxLen) {0} tai_tlv_body
       \<lparr>tai_channelId = channelId, tai_serialId = serialId, tai_prevTx = prevTx,
        tai_prevTxVout = prevTxVout, tai_sequence = sequence, tai_sharedInputTxid = None\<rparr>))))))"

record ITxAddOutputMessage =
  tao_channelId :: bytes
  tao_serialId :: int
  tao_amountSats :: int
  tao_scriptPubkey :: bytes

definition encodeTxAddOutputMessage :: "ITxAddOutputMessage \<Rightarrow> bytes res" where
  "encodeTxAddOutputMessage msg =
    (throw_if (length (tao_channelId msg) \<noteq> 32)
       (Error ''Channel ID must be 32 bytes'' [int (length (tao_channelId msg))]) (
     let buf = alloc (50 + length (tao_scriptPubkey msg)) in
     let buf = copy_to (tao_channelId msg) buf 0 in
     rbind (writeBigUInt64BE buf (tao_serialId msg) 32) (\<lambda>buf.
     rbind (writeBigUInt64BE buf (tao_amountSats msg) 40) (\<lambda>buf.
     rbind (writeUInt16BE buf (int (length (tao_scriptPubkey msg))) 48) (\<lambda>buf.
     let buf = copy_to (tao_scriptPubkey msg) buf 50 in
     Inr buf)))))"

definition decodeTxAddOutputMessage :: "bytes \<Rightarrow> ITxAddOutputMessage res" where
  "decodeTxAddOutputMessage payload =
    (throw_if (length payload < 50)
       (Error ''tx_add_output too short'' [int (length payload)]) (
     let channelId = subarray payload 0 32 in
     rbind (readBigUInt64BE payload 32) (\<lambda>serialId.
     rbind (readBigUInt64BE payload 40) (\<lambda>amountSats.
     rbind (readUInt16BE payload 48) (\<lambda>scriptPubkeyLen.
     throw_if ((50 + nat scriptPubkeyLen) > length payload)
       (Error ''tx_add_output: scriptPubkey length exceeds payload'' []) (
     let scriptPubkey = subarray payload 50 (50 + nat scriptPubkeyLen) in
     Inr \<lparr>tao_channelId = channelId, tao_serialId = serialId, tao_amountSats = amountSats,
        tao_scriptPubkey = scriptPubkey\<rparr>))))))"

record ITxRemoveInputMessage =
  tri_channelId :: bytes
  tri_serialId :: int

definition encodeTxRemoveInputMessage :: "ITxRemoveInputMessage \<Rightarrow> bytes res" where
  "encodeTxRemoveInputMessage msg =
    (throw_if (length (tri_channelId msg) \<noteq> 32)
       (Error ''Channel ID must be 32 bytes'' [int (length (tri_channelId msg))]) (
     let buf = alloc 40 in
     let buf = copy_to (tri_channelId msg) buf 0 in
     rbind (writeBigUInt64BE buf (tri_serialId msg) 32) (\<lambda>buf.
     Inr buf)))"

definition decodeTxRemoveInputMessage :: "bytes \<Rightarrow> ITxRemoveInputMessage res" where
  "decodeTxRemoveInputMessage payload =
    (throw_if (length payload < 40)
       (Error ''tx_remove_input too short'' [int (length payload)]) (
     let channelId = subarray payload 0 32 in
     rbind (readBigUInt64BE payload 32) (\<lambda>serialId.
     Inr \<lparr>tri_channelId = channelId, tri_serialId = serialId\<rparr>)))"

record ITxRemoveOutputMessage =
  tro_channelId :: bytes
  tro_serialId :: int

definition encodeTxRemoveOutputMessage :: "ITxRemoveOutputMessage \<Rightarrow> bytes res" where
  "encodeTxRemoveOutputMessage msg =
    (throw_if (length (tro_channelId msg) \<noteq> 32)
       (Error ''Channel ID must be 32 bytes'' [int (length (tro_channelId msg))]) (
     let buf = alloc 40 in
     let buf = copy_to (tro_channelId msg) buf 0 in
     rbind (writeBigUInt64BE buf (tro_serialId msg) 32) (\<lambda>buf.
     Inr buf)))"

definition decodeTxRemoveOutputMessage :: "bytes \<Rightarrow> ITxRemoveOutputMessage res" where
  "decodeTxRemoveOutputMessage payload =
    (throw_if (length payload < 40)
       (Error ''tx_remove_output too short'' [int (length payload)]) (
     let channelId = subarray payload 0 32 in
     rbind (readBigUInt64BE payload 32) (\<lambda>serialId.
     Inr \<lparr>tro_channelId = channelId, tro_serialId = serialId\<rparr>)))"

record ITxCompleteMessage =
  tcm_channelId :: bytes

definition encodeTxCompleteMessage :: "ITxCompleteMessage \<Rightarrow> bytes res" where
  "encodeTxCompleteMessage msg =
     throw_if (length (tcm_channelId msg) \<noteq> 32)
       (Error ''Channel ID must be 32 bytes'' [int (length (tcm_channelId msg))])
       (Inr (tcm_channelId msg))"

definition decodeTxCompleteMessage :: "bytes \<Rightarrow> ITxCompleteMessage res" where
  "decodeTxCompleteMessage payload =
     throw_if (length payload < 32) (Error ''tx_complete too short'' [int (length payload)])
       (Inr \<lparr>tcm_channelId = subarray payload 0 32\<rparr>)"

definition encodeCompactSize :: "nat \<Rightarrow> bytes res" where
  "encodeCompactSize n =
     (if n < 0xfd then Inr [word_of_nat n]
      else if n \<le> 0xffff then writeUIntLE 2 (setByte (alloc 3) 0 0xfd) (int n) 1
      else writeUIntLE 4 (setByte (alloc 5) 0 0xfe) (int n) 1)"

text \<open>\<^verbatim>\<open>for (const el of elements) parts.push(encodeCompactSize(el.length), el)\<close>\<close>

fun serializeElements :: "bytes list \<Rightarrow> bytes res" where
  "serializeElements [] = Inr []"
| "serializeElements (el # els) =
     rbind (encodeCompactSize (length el)) (\<lambda>len.
     rbind (serializeElements els) (\<lambda>rest. Inr (len @ el @ rest)))"

definition serializeWitnessStack :: "bytes list \<Rightarrow> bytes res" where
  "serializeWitnessStack elements =
     rbind (encodeCompactSize (length elements)) (\<lambda>count.
     rbind (serializeElements elements) (\<lambda>rest. Inr (count @ rest)))"

text \<open>The local \<open>readCompact\<close> of \<open>parseWitnessStack\<close>: the value and the offset after it. A read past
  the end yields \<open>undefined\<close>, which fails every comparison and reaches the final \<open>throw\<close>.\<close>

definition readCompact :: "bytes \<Rightarrow> nat \<Rightarrow> (nat \<times> nat) res" where
  "readCompact data offset =
     (if length data \<le> offset then Inl (Error ''tx_signatures: witness element too large'' [])
      else let first = uint (data ! offset) in
        if first < 0xfd then Inr (nat first, offset + 1)
        else if first = 0xfd then
          rbind (readUIntLE 2 data (offset + 1)) (\<lambda>v. Inr (nat v, offset + 3))
        else if first = 0xfe then
          rbind (readUIntLE 4 data (offset + 1)) (\<lambda>v. Inr (nat v, offset + 5))
        else Inl (Error ''tx_signatures: witness element too large'' []))"

fun parseElements :: "bytes \<Rightarrow> nat \<Rightarrow> nat \<Rightarrow> bytes list res" where
  "parseElements data offset 0 = Inr []"
| "parseElements data offset (Suc n) =
     rbind (readCompact data offset) (\<lambda>(len, offset).
     throw_if (offset + len > length data)
       (Error ''tx_signatures: witness stack element exceeds data'' []) (
     rbind (parseElements data (offset + len) n) (\<lambda>els.
     Inr (subarray data offset (offset + len) # els))))"

definition parseWitnessStack :: "bytes \<Rightarrow> bytes list res" where
  "parseWitnessStack data =
     rbind (readCompact data 0) (\<lambda>(count, offset). parseElements data offset count)"

record ITxSignaturesMessage =
  tsg_channelId :: bytes
  tsg_txid :: bytes
  tsg_witnesses :: "bytes list list"
  tsg_sharedInputSignature :: "bytes option"

fun encodeWitnesses :: "bytes list list \<Rightarrow> bytes res" where
  "encodeWitnesses [] = Inr []"
| "encodeWitnesses (witness # ws) =
     rbind (serializeWitnessStack witness) (\<lambda>witnessData.
     rbind (writeUInt16BE (alloc 2) (int (length witnessData)) 0) (\<lambda>lenBuf.
     rbind (encodeWitnesses ws) (\<lambda>rest. Inr (lenBuf @ witnessData @ rest))))"

definition encodeTxSignaturesMessage :: "ITxSignaturesMessage \<Rightarrow> bytes res" where
  "encodeTxSignaturesMessage msg =
     throw_if (length (tsg_channelId msg) \<noteq> 32)
       (Error ''Channel ID must be 32 bytes'' [int (length (tsg_channelId msg))]) (
     throw_if (length (tsg_txid msg) \<noteq> 32)
       (Error ''Txid must be 32 bytes'' [int (length (tsg_txid msg))]) (
     let header = alloc (32 + 32 + 2) in
     let header = copy_to (tsg_channelId msg) header 0 in
     let header = copy_to (tsg_txid msg) header 32 in
     rbind (writeUInt16BE header (int (length (tsg_witnesses msg))) 64) (\<lambda>header.
     rbind (encodeWitnesses (tsg_witnesses msg)) (\<lambda>parts.
     throw_if (bad_len 64 (tsg_sharedInputSignature msg))
       (Error ''shared_input_signature must be 64 bytes'' [opt_len (tsg_sharedInputSignature msg)]) (
     tlv_tail (header @ parts) (opt_rec 0 (tsg_sharedInputSignature msg)))))))"

text \<open>The witness loop: the stacks and the offset after them.\<close>

fun decodeWitnesses :: "bytes \<Rightarrow> nat \<Rightarrow> nat \<Rightarrow> (bytes list list \<times> nat) res" where
  "decodeWitnesses payload offset 0 = Inr ([], offset)"
| "decodeWitnesses payload offset (Suc n) =
     throw_if (offset + 2 > length payload)
       (Error ''tx_signatures: unexpected end of witness data'' []) (
     rbind (readUInt16BE payload offset) (\<lambda>witnessLen.
     throw_if (offset + 2 + nat witnessLen > length payload)
       (Error ''tx_signatures: witness length exceeds payload'' []) (
     rbind (parseWitnessStack (subarray payload (offset + 2) (offset + 2 + nat witnessLen))) (\<lambda>w.
     rbind (decodeWitnesses payload (offset + 2 + nat witnessLen) n) (\<lambda>(ws, offset).
     Inr (w # ws, offset))))))"

definition tsg_tlv_body :: "ITxSignaturesMessage \<Rightarrow> ITlvRecord \<Rightarrow> ITxSignaturesMessage res" where
  "tsg_tlv_body result record =
     (if tlv_type record = 0 \<and> length (tlv_value record) = 64 then
        Inr (result\<lparr>tsg_sharedInputSignature := Some (tlv_value record)\<rparr>)
      else Inr result)"

definition decodeTxSignaturesMessage :: "bytes \<Rightarrow> ITxSignaturesMessage res" where
  "decodeTxSignaturesMessage payload =
     throw_if (length payload < 66) (Error ''tx_signatures too short'' [int (length payload)]) (
     let channelId = subarray payload 0 32 in
     let txid = subarray payload 32 64 in
     rbind (readUInt16BE payload 64) (\<lambda>numWitnesses.
     rbind (decodeWitnesses payload 66 (nat numWitnesses)) (\<lambda>(witnesses, offset).
     decode_tail payload offset {0} tsg_tlv_body
       \<lparr>tsg_channelId = channelId, tsg_txid = txid, tsg_witnesses = witnesses,
        tsg_sharedInputSignature = None\<rparr>)))"

definition encodeRbfTlvs :: "int option \<Rightarrow> bool option \<Rightarrow> bytes res" where
  "encodeRbfTlvs fundingOutputContribution requireConfirmedInputs =
     rbind (case fundingOutputContribution of None \<Rightarrow> Inr []
            | Some sats \<Rightarrow> rbind (writeBigInt64BE (alloc 8) sats 0) (\<lambda>value.
                Inr [\<lparr>tlv_type = 0, tlv_value = value\<rparr>])) (\<lambda>records.
     let records = records @ (if requireConfirmedInputs = Some True
       then [\<lparr>tlv_type = 2, tlv_value = alloc 0\<rparr>] else []) in
     if records \<noteq> [] then encodeTlvStream records else Inr (alloc 0))"

definition rbf_tlv_body ::
    "string \<Rightarrow> int option \<times> bool option \<Rightarrow> ITlvRecord \<Rightarrow> (int option \<times> bool option) res" where
  "rbf_tlv_body name result record =
     (if tlv_type record = 0 then
        throw_if (length (tlv_value record) \<noteq> 8)
          (Error (name @ '': funding_output_contribution must be 8 bytes'')
            [int (length (tlv_value record))])
          (rbind (readBigInt64BE (tlv_value record) 0) (\<lambda>sats. Inr (Some sats, snd result)))
      else if tlv_type record = 2 then
        throw_if (length (tlv_value record) \<noteq> 0)
          (Error (name @ '': require_confirmed_inputs must be empty'')
            [int (length (tlv_value record))])
          (Inr (fst result, Some True))
      else Inr result)"

definition decodeRbfTlvs :: "bytes \<Rightarrow> nat \<Rightarrow> string \<Rightarrow> (int option \<times> bool option) res" where
  "decodeRbfTlvs payload offset name =
     decode_tail payload offset {0, 2} (rbf_tlv_body name) (None, None)"

record ITxInitRbfMessage =
  tir_channelId :: bytes
  tir_locktime :: int
  tir_feerate :: int
  tir_fundingOutputContribution :: "int option"
  tir_requireConfirmedInputs :: "bool option"

definition encodeTxInitRbfMessage :: "ITxInitRbfMessage \<Rightarrow> bytes res" where
  "encodeTxInitRbfMessage msg =
     throw_if (length (tir_channelId msg) \<noteq> 32)
       (Error ''Channel ID must be 32 bytes'' [int (length (tir_channelId msg))]) (
     let buf = alloc 40 in
     let buf = copy_to (tir_channelId msg) buf 0 in
     rbind (writeUInt32BE buf (tir_locktime msg) 32) (\<lambda>buf.
     rbind (writeUInt32BE buf (tir_feerate msg) 36) (\<lambda>buf.
     rbind (encodeRbfTlvs (tir_fundingOutputContribution msg) (tir_requireConfirmedInputs msg)) (\<lambda>tlv.
     Inr (buf @ tlv)))))"

definition decodeTxInitRbfMessage :: "bytes \<Rightarrow> ITxInitRbfMessage res" where
  "decodeTxInitRbfMessage payload =
     throw_if (length payload < 40) (Error ''tx_init_rbf too short'' [int (length payload)]) (
     let channelId = subarray payload 0 32 in
     rbind (readUInt32BE payload 32) (\<lambda>locktime.
     rbind (readUInt32BE payload 36) (\<lambda>feerate.
     rbind (decodeRbfTlvs payload 40 ''tx_init_rbf'') (\<lambda>(contribution, confirmed).
     Inr \<lparr>tir_channelId = channelId, tir_locktime = locktime, tir_feerate = feerate,
       tir_fundingOutputContribution = contribution, tir_requireConfirmedInputs = confirmed\<rparr>))))"

record ITxAckRbfMessage =
  tar_channelId :: bytes
  tar_fundingOutputContribution :: "int option"
  tar_requireConfirmedInputs :: "bool option"

definition encodeTxAckRbfMessage :: "ITxAckRbfMessage \<Rightarrow> bytes res" where
  "encodeTxAckRbfMessage msg =
     throw_if (length (tar_channelId msg) \<noteq> 32)
       (Error ''Channel ID must be 32 bytes'' [int (length (tar_channelId msg))])
     (rbind (encodeRbfTlvs (tar_fundingOutputContribution msg) (tar_requireConfirmedInputs msg)) (\<lambda>tlv.
      Inr (tar_channelId msg @ tlv)))"

definition decodeTxAckRbfMessage :: "bytes \<Rightarrow> ITxAckRbfMessage res" where
  "decodeTxAckRbfMessage payload =
     throw_if (length payload < 32) (Error ''tx_ack_rbf too short'' [int (length payload)]) (
     let channelId = subarray payload 0 32 in
     rbind (decodeRbfTlvs payload 32 ''tx_ack_rbf'') (\<lambda>(contribution, confirmed).
     Inr \<lparr>tar_channelId = channelId, tar_fundingOutputContribution = contribution,
       tar_requireConfirmedInputs = confirmed\<rparr>))"

record ITxAbortMessage =
  tab_channelId :: bytes
  tab_data :: bytes

definition encodeTxAbortMessage :: "ITxAbortMessage \<Rightarrow> bytes res" where
  "encodeTxAbortMessage msg =
    (throw_if (length (tab_channelId msg) \<noteq> 32)
       (Error ''Channel ID must be 32 bytes'' [int (length (tab_channelId msg))]) (
     let buf = alloc (34 + length (tab_data msg)) in
     let buf = copy_to (tab_channelId msg) buf 0 in
     rbind (writeUInt16BE buf (int (length (tab_data msg))) 32) (\<lambda>buf.
     let buf = copy_to (tab_data msg) buf 34 in
     Inr buf)))"

definition decodeTxAbortMessage :: "bytes \<Rightarrow> ITxAbortMessage res" where
  "decodeTxAbortMessage payload =
    (throw_if (length payload < 34)
       (Error ''tx_abort too short'' [int (length payload)]) (
     let channelId = subarray payload 0 32 in
     rbind (readUInt16BE payload 32) (\<lambda>x_dataLen.
     throw_if ((34 + nat x_dataLen) > length payload)
       (Error ''tx_abort: data length exceeds payload'' []) (
     let x_data = subarray payload 34 (34 + nat x_dataLen) in
     Inr \<lparr>tab_channelId = channelId, tab_data = x_data\<rparr>))))"

section \<open>Round trips\<close>

definition wf_tai :: "ITxAddInputMessage \<Rightarrow> bool" where
  "wf_tai m \<longleftrightarrow> length (tai_channelId m) = 32 \<and> u_fits 8 (tai_serialId m) \<and>
     length (tai_prevTx m) < 65536 \<and> u_fits 4 (tai_prevTxVout m) \<and> u_fits 4 (tai_sequence m) \<and>
     opt_has_len 32 (tai_sharedInputTxid m)"

abbreviation tai_fixed :: "ITxAddInputMessage \<Rightarrow> bytes" where
  "tai_fixed m \<equiv> tai_channelId m @ be_bytes 8 (tai_serialId m) @
     be_bytes 2 (int (length (tai_prevTx m))) @ tai_prevTx m @
     be_bytes 4 (tai_prevTxVout m) @ be_bytes 4 (tai_sequence m)"

definition tai_tlvs :: "ITxAddInputMessage \<Rightarrow> ITlvRecord list" where
  "tai_tlvs m = opt_rec 0 (tai_sharedInputTxid m)"

lemma tai_tlv_ok: "wf_tai m \<Longrightarrow> tlv_ok {0} (tai_tlvs m)"
  by (auto simp: wf_tai_def tai_tlvs_def tlv_simps split: option.splits)

lemma tai_enc: "wf_tai m \<Longrightarrow> encodeTxAddInputMessage m = Inr (tai_fixed m @ tlvs (tai_tlvs m))"
  by (cases "tai_sharedInputTxid m")
    (simp_all add: encodeTxAddInputMessage_def wf_tai_def tai_tlvs_def tlv_bytes_def
      bigsize_bytes_def Let_def buf_simps u_fits_length del: append_assoc)

lemma tai_dec:
  assumes "wf_tai m"
  shows "decodeTxAddInputMessage (tai_fixed m @ tlvs (tai_tlvs m)) = Inr m"
  using assms decode_tail_eq [OF tai_tlv_ok [OF assms], of "tai_fixed m"
      "50 + length (tai_prevTx m)" tai_tlv_body]
  by (cases "tai_sharedInputTxid m")
    (simp_all add: decodeTxAddInputMessage_def wf_tai_def tai_tlvs_def tai_tlv_body_def buf_simps
      u_fits_length)

lemma tai_tlv_wf: "tlv_fits r \<Longrightarrow> wf_tai s \<Longrightarrow> tai_tlv_body s r = Inr s' \<Longrightarrow> wf_tai s'"
  by (auto simp: wf_tai_def tai_tlv_body_def res_Inr_iff split: if_splits)

lemma tai_dec_wf: "decodeTxAddInputMessage b = Inr m \<Longrightarrow> wf_tai m"
  by (auto simp: decodeTxAddInputMessage_def Let_def res_Inr_iff
      elim!: decode_tail_inv [where P = wf_tai] intro: tai_tlv_wf)
    (auto simp: wf_tai_def intro: fits_intros dest: readUInt16_less)

interpretation tx_add_input: wire_codec encodeTxAddInputMessage decodeTxAddInputMessage wf_tai
  by unfold_locales (use tai_enc tai_dec tai_dec_wf in blast)+

definition wf_tao :: "ITxAddOutputMessage \<Rightarrow> bool" where
  "wf_tao m \<longleftrightarrow> length (tao_channelId m) = 32 \<and> u_fits 8 (tao_serialId m) \<and>
     u_fits 8 (tao_amountSats m) \<and> length (tao_scriptPubkey m) < 65536"

abbreviation tao_fixed :: "ITxAddOutputMessage \<Rightarrow> bytes" where
  "tao_fixed m \<equiv> tao_channelId m @ be_bytes 8 (tao_serialId m) @ be_bytes 8 (tao_amountSats m) @
     be_bytes 2 (int (length (tao_scriptPubkey m))) @ tao_scriptPubkey m"

lemma tao_enc:
  assumes "wf_tao m"
  shows "encodeTxAddOutputMessage m = Inr (tao_fixed m)"
  using assms
  by (simp add: encodeTxAddOutputMessage_def wf_tao_def Let_def buf_simps u_fits_length del: append_assoc)

lemma tao_dec:
  assumes "wf_tao m"
  shows "decodeTxAddOutputMessage (tao_fixed m) = Inr m"
  using assms by (simp add: decodeTxAddOutputMessage_def wf_tao_def buf_simps u_fits_length)

lemma tao_dec_wf: "decodeTxAddOutputMessage b = Inr m \<Longrightarrow> wf_tao m"
  by (auto simp: decodeTxAddOutputMessage_def Let_def res_Inr_iff wf_tao_def intro: fits_intros dest: readUInt16_less)

interpretation tx_add_output: wire_codec encodeTxAddOutputMessage decodeTxAddOutputMessage wf_tao
  by unfold_locales (use tao_enc tao_dec tao_dec_wf in blast)+

definition wf_tri :: "ITxRemoveInputMessage \<Rightarrow> bool" where
  "wf_tri m \<longleftrightarrow> length (tri_channelId m) = 32 \<and> u_fits 8 (tri_serialId m)"

abbreviation tri_fixed :: "ITxRemoveInputMessage \<Rightarrow> bytes" where
  "tri_fixed m \<equiv> tri_channelId m @ be_bytes 8 (tri_serialId m)"

lemma tri_enc:
  assumes "wf_tri m"
  shows "encodeTxRemoveInputMessage m = Inr (tri_fixed m)"
  using assms
  by (simp add: encodeTxRemoveInputMessage_def wf_tri_def Let_def buf_simps u_fits_length del: append_assoc)

lemma tri_dec:
  assumes "wf_tri m"
  shows "decodeTxRemoveInputMessage (tri_fixed m) = Inr m"
  using assms by (simp add: decodeTxRemoveInputMessage_def wf_tri_def buf_simps u_fits_length)

lemma tri_dec_wf: "decodeTxRemoveInputMessage b = Inr m \<Longrightarrow> wf_tri m"
  by (auto simp: decodeTxRemoveInputMessage_def Let_def res_Inr_iff wf_tri_def intro: fits_intros dest: readUInt16_less)

interpretation tx_remove_input: wire_codec encodeTxRemoveInputMessage decodeTxRemoveInputMessage wf_tri
  by unfold_locales (use tri_enc tri_dec tri_dec_wf in blast)+

definition wf_tro :: "ITxRemoveOutputMessage \<Rightarrow> bool" where
  "wf_tro m \<longleftrightarrow> length (tro_channelId m) = 32 \<and> u_fits 8 (tro_serialId m)"

abbreviation tro_fixed :: "ITxRemoveOutputMessage \<Rightarrow> bytes" where
  "tro_fixed m \<equiv> tro_channelId m @ be_bytes 8 (tro_serialId m)"

lemma tro_enc:
  assumes "wf_tro m"
  shows "encodeTxRemoveOutputMessage m = Inr (tro_fixed m)"
  using assms
  by (simp add: encodeTxRemoveOutputMessage_def wf_tro_def Let_def buf_simps u_fits_length del: append_assoc)

lemma tro_dec:
  assumes "wf_tro m"
  shows "decodeTxRemoveOutputMessage (tro_fixed m) = Inr m"
  using assms by (simp add: decodeTxRemoveOutputMessage_def wf_tro_def buf_simps u_fits_length)

lemma tro_dec_wf: "decodeTxRemoveOutputMessage b = Inr m \<Longrightarrow> wf_tro m"
  by (auto simp: decodeTxRemoveOutputMessage_def Let_def res_Inr_iff wf_tro_def intro: fits_intros dest: readUInt16_less)

interpretation tx_remove_output: wire_codec encodeTxRemoveOutputMessage decodeTxRemoveOutputMessage wf_tro
  by unfold_locales (use tro_enc tro_dec tro_dec_wf in blast)+

definition wf_tcm :: "ITxCompleteMessage \<Rightarrow> bool" where
  "wf_tcm m \<longleftrightarrow> length (tcm_channelId m) = 32"

lemma tcm_roundtrip:
  "wf_tcm m \<Longrightarrow> \<exists>b. encodeTxCompleteMessage m = Inr b \<and> decodeTxCompleteMessage b = Inr m"
  by (simp add: encodeTxCompleteMessage_def decodeTxCompleteMessage_def wf_tcm_def buf_simps)

lemma tcm_dec_wf: "decodeTxCompleteMessage b = Inr m \<Longrightarrow> wf_tcm m"
  by (auto simp: decodeTxCompleteMessage_def res_Inr_iff wf_tcm_def)

interpretation tx_complete: wire_codec encodeTxCompleteMessage decodeTxCompleteMessage wf_tcm
  by unfold_locales (use tcm_roundtrip tcm_dec_wf in blast)+

text \<open>CompactSize in closed form, and that \<open>readCompact\<close> inverts it anywhere in a buffer.\<close>

definition cs_bytes :: "nat \<Rightarrow> bytes" where
  "cs_bytes n = (if n < 0xfd then [word_of_nat n]
     else if n \<le> 0xffff then 0xfd # rev (be_bytes 2 (int n)) else 0xfe # rev (be_bytes 4 (int n)))"

lemma encodeCompactSize_eq: "n < 2 ^ 32 \<Longrightarrow> encodeCompactSize n = Inr (cs_bytes n)"
  using writeUIntLE_fits [of "[253]" 1 2 "int n" 2] writeUIntLE_fits [of "[254]" 1 4 "int n" 4]
  by (simp add: encodeCompactSize_def cs_bytes_def setByte_alloc u_fits_def)

lemma readCompact_eq:
  assumes "n < 2 ^ 32" "length pre = off"
  shows "readCompact (pre @ cs_bytes n @ post) off = Inr (n, off + length (cs_bytes n))"
proof -
  have "readUIntLE 2 ((pre @ [253]) @ rev (be_bytes 2 (int n)) @ post) (Suc off) = Inr (int n)"
    if "n \<le> 0xffff" using that assms by (intro readUIntLE_fits) (simp_all add: u_fits_def)
  moreover have "readUIntLE 4 ((pre @ [254]) @ rev (be_bytes 4 (int n)) @ post) (Suc off) = Inr (int n)"
    using assms by (intro readUIntLE_fits) (simp_all add: u_fits_def)
  moreover have "uint (word_of_nat n :: byte) = int n" "unat (word_of_nat n :: byte) = n" if "n < 253"
    using that by (simp_all add: unsigned_of_nat take_bit_nat_eq_self)
  ultimately show ?thesis
    using assms(2) by (auto simp: readCompact_def cs_bytes_def nth_append Let_def)
qed

abbreviation el_bytes :: "bytes list \<Rightarrow> bytes" where
  "el_bytes els \<equiv> concat (map (\<lambda>el. cs_bytes (length el) @ el) els)"

definition stack_bytes :: "bytes list \<Rightarrow> bytes" where
  "stack_bytes els = cs_bytes (length els) @ el_bytes els"

lemma length_cs_bytes_pos: "1 \<le> length (cs_bytes n)"
  by (simp add: cs_bytes_def)

lemma length_el_bytes:
  "length els \<le> length (el_bytes els)" "el \<in> set els \<Longrightarrow> length el \<le> length (el_bytes els)"
proof -
  show "length els \<le> length (el_bytes els)"
  proof (induction els)
    case (Cons el els)
    have "length (el_bytes (el # els)) =
        length (cs_bytes (length el)) + length el + length (el_bytes els)" by simp
    with Cons length_cs_bytes_pos [of "length el"] show ?case by simp
  qed simp
  show "el \<in> set els \<Longrightarrow> length el \<le> length (el_bytes els)"
    by (induction els) (auto simp del: length_concat)
qed

lemma serializeElements_eq:
  "(\<forall>el \<in> set els. length el < 2 ^ 32) \<Longrightarrow> serializeElements els = Inr (el_bytes els)"
  by (induction els) (simp_all add: encodeCompactSize_eq)

lemma parseElements_eq:
  assumes "\<forall>el \<in> set els. length el < 2 ^ 32" "length pre = off"
  shows "parseElements (pre @ el_bytes els @ post) off (length els) = Inr els"
  using assms
proof (induction els arbitrary: pre off)
  case Nil
  then show ?case by simp
next
  case (Cons el els)
  let ?c = "cs_bytes (length el)"
  have "readCompact (pre @ ?c @ el @ el_bytes els @ post) off = Inr (length el, off + length ?c)"
    using Cons.prems by (intro readCompact_eq) auto
  moreover have "parseElements ((pre @ ?c @ el) @ el_bytes els @ post)
      (off + length ?c + length el) (length els) = Inr els"
    using Cons.prems by (intro Cons.IH) auto
  ultimately show ?case
    using Cons.prems by (simp add: subarray_append_skip subarray_append_first)
qed

lemma serializeWitnessStack_eq:
  assumes "length (stack_bytes w) < 65536"
  shows "serializeWitnessStack w = Inr (stack_bytes w)" "parseWitnessStack (stack_bytes w) = Inr w"
proof -
  have len: "length w < 2 ^ 32" "\<forall>el \<in> set w. length el < 2 ^ 32"
    using assms length_el_bytes(1) [of w] length_el_bytes(2) [of _ w]
    by (fastforce simp: stack_bytes_def simp del: length_concat)+
  then show "serializeWitnessStack w = Inr (stack_bytes w)"
    by (simp add: serializeWitnessStack_def encodeCompactSize_eq serializeElements_eq stack_bytes_def)
  show "parseWitnessStack (stack_bytes w) = Inr w"
    using len readCompact_eq [of "length w" "[]" 0 "el_bytes w"]
      parseElements_eq [of w "cs_bytes (length w)" "length (cs_bytes (length w))" "[]"]
    by (simp add: parseWitnessStack_def stack_bytes_def)
qed

abbreviation wit_bytes :: "bytes list list \<Rightarrow> bytes" where
  "wit_bytes ws \<equiv> concat (map (\<lambda>w. be_bytes 2 (int (length (stack_bytes w))) @ stack_bytes w) ws)"

lemma encodeWitnesses_eq:
  "(\<forall>w \<in> set ws. length (stack_bytes w) < 65536) \<Longrightarrow> encodeWitnesses ws = Inr (wit_bytes ws)"
  by (induction ws) (simp_all add: serializeWitnessStack_eq buf_simps u_fits_length)

lemma decodeWitnesses_eq:
  assumes "\<forall>w \<in> set ws. length (stack_bytes w) < 65536" "length pre = off"
  shows "decodeWitnesses (pre @ wit_bytes ws @ post) off (length ws) =
    Inr (ws, off + length (wit_bytes ws))"
  using assms
proof (induction ws arbitrary: pre off)
  case Nil
  then show ?case by simp
next
  case (Cons w ws)
  let ?l = "be_bytes 2 (int (length (stack_bytes w)))"
  have "decodeWitnesses ((pre @ ?l @ stack_bytes w) @ wit_bytes ws @ post)
      (off + 2 + length (stack_bytes w)) (length ws) =
    Inr (ws, off + 2 + length (stack_bytes w) + length (wit_bytes ws))"
    using Cons.prems by (intro Cons.IH) auto
  then show ?case
    using Cons.prems by (simp add: serializeWitnessStack_eq buf_simps u_fits_length)
qed

definition wf_tsg :: "ITxSignaturesMessage \<Rightarrow> bool" where
  "wf_tsg m \<longleftrightarrow> length (tsg_channelId m) = 32 \<and> length (tsg_txid m) = 32 \<and>
     length (tsg_witnesses m) < 65536 \<and>
     (\<forall>w \<in> set (tsg_witnesses m). length (stack_bytes w) < 65536) \<and>
     opt_has_len 64 (tsg_sharedInputSignature m)"

abbreviation tsg_fixed :: "ITxSignaturesMessage \<Rightarrow> bytes" where
  "tsg_fixed m \<equiv> tsg_channelId m @ tsg_txid m @ be_bytes 2 (int (length (tsg_witnesses m))) @
     wit_bytes (tsg_witnesses m)"

definition tsg_tlvs :: "ITxSignaturesMessage \<Rightarrow> ITlvRecord list" where
  "tsg_tlvs m = opt_rec 0 (tsg_sharedInputSignature m)"

lemma tsg_tlv_ok: "wf_tsg m \<Longrightarrow> tlv_ok {0} (tsg_tlvs m)"
  by (auto simp: wf_tsg_def tsg_tlvs_def tlv_simps split: option.splits)

lemma tsg_enc:
  assumes "wf_tsg m"
  shows "encodeTxSignaturesMessage m = Inr (tsg_fixed m @ tlvs (tsg_tlvs m))"
  using assms tlv_tail_eq [OF tsg_tlv_ok [OF assms]]
  by (cases "tsg_sharedInputSignature m")
    (simp_all add: encodeTxSignaturesMessage_def wf_tsg_def tsg_tlvs_def encodeWitnesses_eq Let_def
      buf_simps u_fits_length del: append_assoc)

lemma tsg_dec:
  assumes "wf_tsg m"
  shows "decodeTxSignaturesMessage (tsg_fixed m @ tlvs (tsg_tlvs m)) = Inr m"
proof -
  note wf = assms [unfolded wf_tsg_def]
  let ?ws = "tsg_witnesses m" and ?t = "tlvs (tsg_tlvs m)"
  let ?hd = "tsg_channelId m @ tsg_txid m @ be_bytes 2 (int (length ?ws))"
  have ws: "decodeWitnesses (?hd @ wit_bytes ?ws @ ?t) 66 (length ?ws) =
      Inr (?ws, 66 + length (wit_bytes ?ws))"
    using wf by (intro decodeWitnesses_eq) simp_all
  have tail: "decode_tail (tsg_fixed m @ ?t) (66 + length (wit_bytes ?ws)) {0} tsg_tlv_body s =
      for_each tsg_tlv_body (tsg_tlvs m) s" for s
    using wf by (intro decode_tail_eq tsg_tlv_ok assms) simp
  show ?thesis
    using wf ws tail
    by (cases "tsg_sharedInputSignature m")
      (simp_all add: decodeTxSignaturesMessage_def tsg_tlvs_def tsg_tlv_body_def buf_simps
        u_fits_length del: length_concat)
qed

interpretation tx_signatures:
    wire_encoder encodeTxSignaturesMessage decodeTxSignaturesMessage wf_tsg
  by unfold_locales (use tsg_enc tsg_dec in blast)

definition rbf_wf :: "int option \<Rightarrow> bool option \<Rightarrow> bool" where
  "rbf_wf sats rci \<longleftrightarrow> pred_option s64_fits sats \<and> rci \<noteq> Some False"

definition rbf_recs :: "int option \<Rightarrow> bool option \<Rightarrow> ITlvRecord list" where
  "rbf_recs sats rci = opt_rec 0 (map_option (be_bytes 8) sats) @ opt_rec 2 (map_option (\<lambda>_. []) rci)"

lemma rbf_recs_ok: "rbf_wf sats rci \<Longrightarrow> tlv_ok {0, 2} (rbf_recs sats rci)"
  by (auto simp: rbf_recs_def tlv_simps split: option.splits)

lemma encodeRbfTlvs_eq:
  assumes "rbf_wf sats rci"
  shows "encodeRbfTlvs sats rci = Inr (tlvs (rbf_recs sats rci))"
  using assms tlv_stream_eq [OF rbf_recs_ok [OF assms]]
  by (cases sats; cases rci) (simp_all add: encodeRbfTlvs_def rbf_wf_def rbf_recs_def buf_simps)

lemma decodeRbfTlvs_eq:
  assumes "rbf_wf sats rci" "length pre = off"
  shows "decodeRbfTlvs (pre @ tlvs (rbf_recs sats rci)) off name = Inr (sats, rci)"
proof -
  have "decodeRbfTlvs (pre @ tlvs (rbf_recs sats rci)) off name =
      for_each (rbf_tlv_body name) (rbf_recs sats rci) (None, None)"
    unfolding decodeRbfTlvs_def by (rule decode_tail_eq [OF rbf_recs_ok [OF assms(1)] assms(2)])
  then show ?thesis
    using assms
    by (cases sats; cases rci) (simp_all add: rbf_wf_def rbf_recs_def rbf_tlv_body_def buf_simps)
qed

lemma decodeRbfTlvs_wf:
  assumes "decodeRbfTlvs payload off name = Inr (sats, rci)"
  shows "rbf_wf sats rci"
proof -
  have "case (sats, rci) of (s, r) \<Rightarrow> rbf_wf s r"
    by (rule decode_tail_inv [OF assms [unfolded decodeRbfTlvs_def]])
      (auto simp: rbf_wf_def rbf_tlv_body_def res_Inr_iff intro: fits_intros split: if_splits)
  then show ?thesis by simp
qed

definition wf_tir :: "ITxInitRbfMessage \<Rightarrow> bool" where
  "wf_tir m \<longleftrightarrow> length (tir_channelId m) = 32 \<and> u_fits 4 (tir_locktime m) \<and> u_fits 4 (tir_feerate m) \<and>
     rbf_wf (tir_fundingOutputContribution m) (tir_requireConfirmedInputs m)"

abbreviation tir_fixed :: "ITxInitRbfMessage \<Rightarrow> bytes" where
  "tir_fixed m \<equiv> tir_channelId m @ be_bytes 4 (tir_locktime m) @ be_bytes 4 (tir_feerate m)"

abbreviation tir_tlvs :: "ITxInitRbfMessage \<Rightarrow> bytes" where
  "tir_tlvs m \<equiv> tlvs (rbf_recs (tir_fundingOutputContribution m) (tir_requireConfirmedInputs m))"

lemma tir_enc: "wf_tir m \<Longrightarrow> encodeTxInitRbfMessage m = Inr (tir_fixed m @ tir_tlvs m)"
  by (simp add: encodeTxInitRbfMessage_def wf_tir_def encodeRbfTlvs_eq Let_def buf_simps
      del: append_assoc)

lemma tir_dec: "wf_tir m \<Longrightarrow> decodeTxInitRbfMessage (tir_fixed m @ tir_tlvs m) = Inr m"
  using decodeRbfTlvs_eq [of "tir_fundingOutputContribution m" "tir_requireConfirmedInputs m"
      "tir_fixed m" 40]
  by (simp add: decodeTxInitRbfMessage_def wf_tir_def buf_simps)

lemma tir_dec_wf: "decodeTxInitRbfMessage b = Inr m \<Longrightarrow> wf_tir m"
  by (auto simp: decodeTxInitRbfMessage_def Let_def res_Inr_iff wf_tir_def
      intro: fits_intros decodeRbfTlvs_wf)

interpretation tx_init_rbf: wire_codec encodeTxInitRbfMessage decodeTxInitRbfMessage wf_tir
  by unfold_locales (use tir_enc tir_dec tir_dec_wf in blast)+

definition wf_tar :: "ITxAckRbfMessage \<Rightarrow> bool" where
  "wf_tar m \<longleftrightarrow> length (tar_channelId m) = 32 \<and>
     rbf_wf (tar_fundingOutputContribution m) (tar_requireConfirmedInputs m)"

abbreviation tar_tlvs :: "ITxAckRbfMessage \<Rightarrow> bytes" where
  "tar_tlvs m \<equiv> tlvs (rbf_recs (tar_fundingOutputContribution m) (tar_requireConfirmedInputs m))"

lemma tar_enc: "wf_tar m \<Longrightarrow> encodeTxAckRbfMessage m = Inr (tar_channelId m @ tar_tlvs m)"
  by (simp add: encodeTxAckRbfMessage_def wf_tar_def encodeRbfTlvs_eq)

lemma tar_dec: "wf_tar m \<Longrightarrow> decodeTxAckRbfMessage (tar_channelId m @ tar_tlvs m) = Inr m"
  by (simp add: decodeTxAckRbfMessage_def wf_tar_def decodeRbfTlvs_eq buf_simps)

lemma tar_dec_wf: "decodeTxAckRbfMessage b = Inr m \<Longrightarrow> wf_tar m"
  by (auto simp: decodeTxAckRbfMessage_def Let_def res_Inr_iff wf_tar_def intro: decodeRbfTlvs_wf)

interpretation tx_ack_rbf: wire_codec encodeTxAckRbfMessage decodeTxAckRbfMessage wf_tar
  by unfold_locales (use tar_enc tar_dec tar_dec_wf in blast)+

definition wf_tab :: "ITxAbortMessage \<Rightarrow> bool" where
  "wf_tab m \<longleftrightarrow> length (tab_channelId m) = 32 \<and> length (tab_data m) < 65536"

abbreviation tab_fixed :: "ITxAbortMessage \<Rightarrow> bytes" where
  "tab_fixed m \<equiv> tab_channelId m @ be_bytes 2 (int (length (tab_data m))) @ tab_data m"

lemma tab_enc:
  assumes "wf_tab m"
  shows "encodeTxAbortMessage m = Inr (tab_fixed m)"
  using assms
  by (simp add: encodeTxAbortMessage_def wf_tab_def Let_def buf_simps u_fits_length del: append_assoc)

lemma tab_dec:
  assumes "wf_tab m"
  shows "decodeTxAbortMessage (tab_fixed m) = Inr m"
  using assms by (simp add: decodeTxAbortMessage_def wf_tab_def buf_simps u_fits_length)

lemma tab_dec_wf: "decodeTxAbortMessage b = Inr m \<Longrightarrow> wf_tab m"
  by (auto simp: decodeTxAbortMessage_def Let_def res_Inr_iff wf_tab_def intro: fits_intros dest: readUInt16_less)

interpretation tx_abort: wire_codec encodeTxAbortMessage decodeTxAbortMessage wf_tab
  by unfold_locales (use tab_enc tab_dec tab_dec_wf in blast)+

section \<open>Properties\<close>

text \<open>C27: the interactive-construction messages survive encoding and decoding: inputs with their
  previous transaction and shared txid, outputs, removals, completions, aborts, and the signatures message with
  any witness stacks whose serialization fits its length field.\<close>

theorem interactive_messages_roundtrip:
  assumes "wf_tai m0"
    and "wf_tao m1"
    and "wf_tri m2"
    and "wf_tro m3"
    and "wf_tsg m4"
    and "wf_tir m5"
    and "wf_tar m6"
    and "wf_tab m7"
    and "wf_tcm m8"
  shows "(\<exists>b. encodeTxAddInputMessage m0 = Inr b \<and> decodeTxAddInputMessage b = Inr m0) \<and>
    (\<exists>b. encodeTxAddOutputMessage m1 = Inr b \<and> decodeTxAddOutputMessage b = Inr m1) \<and>
    (\<exists>b. encodeTxRemoveInputMessage m2 = Inr b \<and> decodeTxRemoveInputMessage b = Inr m2) \<and>
    (\<exists>b. encodeTxRemoveOutputMessage m3 = Inr b \<and> decodeTxRemoveOutputMessage b = Inr m3) \<and>
    (\<exists>b. encodeTxSignaturesMessage m4 = Inr b \<and> decodeTxSignaturesMessage b = Inr m4) \<and>
    (\<exists>b. encodeTxInitRbfMessage m5 = Inr b \<and> decodeTxInitRbfMessage b = Inr m5) \<and>
    (\<exists>b. encodeTxAckRbfMessage m6 = Inr b \<and> decodeTxAckRbfMessage b = Inr m6) \<and>
    (\<exists>b. encodeTxAbortMessage m7 = Inr b \<and> decodeTxAbortMessage b = Inr m7) \<and>
    (\<exists>b. encodeTxCompleteMessage m8 = Inr b \<and> decodeTxCompleteMessage b = Inr m8)"
  using tx_add_input.roundtrip [OF assms(1)]
    tx_add_output.roundtrip [OF assms(2)]
    tx_remove_input.roundtrip [OF assms(3)]
    tx_remove_output.roundtrip [OF assms(4)]
    tx_signatures.roundtrip [OF assms(5)]
    tx_init_rbf.roundtrip [OF assms(6)]
    tx_ack_rbf.roundtrip [OF assms(7)]
    tx_abort.roundtrip [OF assms(8)]
    tx_complete.roundtrip [OF assms(9)]
  by (intro conjI)

theorem interactive_messages_roundtrip_witness:
  "(\<exists>b. encodeTxAddInputMessage \<lparr>tai_channelId = replicate 32 1, tai_serialId = 4,
      tai_prevTx = [], tai_prevTxVout = 1, tai_sequence = 0xfffffffd,
      tai_sharedInputTxid = Some (replicate 32 7)\<rparr> = Inr b \<and>
     decodeTxAddInputMessage b = Inr \<lparr>tai_channelId = replicate 32 1, tai_serialId = 4,
      tai_prevTx = [], tai_prevTxVout = 1, tai_sequence = 0xfffffffd,
      tai_sharedInputTxid = Some (replicate 32 7)\<rparr>) \<and>
   (\<exists>b. encodeTxAddOutputMessage \<lparr>tao_channelId = replicate 32 1, tao_serialId = 14, tao_amountSats = 21,
      tao_scriptPubkey = [4, 5]\<rparr> = Inr b \<and>
     decodeTxAddOutputMessage b = Inr \<lparr>tao_channelId = replicate 32 1, tao_serialId = 14, tao_amountSats = 21,
      tao_scriptPubkey = [4, 5]\<rparr>) \<and>
   (\<exists>b. encodeTxRemoveInputMessage \<lparr>tri_channelId = replicate 32 1, tri_serialId = 14\<rparr> = Inr b \<and>
     decodeTxRemoveInputMessage b = Inr \<lparr>tri_channelId = replicate 32 1, tri_serialId = 14\<rparr>) \<and>
   (\<exists>b. encodeTxRemoveOutputMessage \<lparr>tro_channelId = replicate 32 1, tro_serialId = 14\<rparr> = Inr b \<and>
     decodeTxRemoveOutputMessage b = Inr \<lparr>tro_channelId = replicate 32 1, tro_serialId = 14\<rparr>) \<and>
   (\<exists>b. encodeTxSignaturesMessage \<lparr>tsg_channelId = replicate 32 1, tsg_txid = replicate 32 2,
      tsg_witnesses = [[[1, 2], [3]], []], tsg_sharedInputSignature = Some (replicate 64 3)\<rparr> = Inr b \<and>
     decodeTxSignaturesMessage b = Inr \<lparr>tsg_channelId = replicate 32 1, tsg_txid = replicate 32 2,
      tsg_witnesses = [[[1, 2], [3]], []], tsg_sharedInputSignature = Some (replicate 64 3)\<rparr>) \<and>
   (\<exists>b. encodeTxInitRbfMessage \<lparr>tir_channelId = replicate 32 1, tir_locktime = 0, tir_feerate = 500,
      tir_fundingOutputContribution = Some (- 1000), tir_requireConfirmedInputs = Some True\<rparr> = Inr b \<and>
     decodeTxInitRbfMessage b = Inr \<lparr>tir_channelId = replicate 32 1, tir_locktime = 0, tir_feerate = 500,
      tir_fundingOutputContribution = Some (- 1000), tir_requireConfirmedInputs = Some True\<rparr>) \<and>
   (\<exists>b. encodeTxAckRbfMessage \<lparr>tar_channelId = replicate 32 1,
      tar_fundingOutputContribution = None, tar_requireConfirmedInputs = Some True\<rparr> = Inr b \<and>
     decodeTxAckRbfMessage b = Inr \<lparr>tar_channelId = replicate 32 1,
      tar_fundingOutputContribution = None, tar_requireConfirmedInputs = Some True\<rparr>) \<and>
   (\<exists>b. encodeTxAbortMessage \<lparr>tab_channelId = replicate 32 1, tab_data = [2, 3]\<rparr> = Inr b \<and>
     decodeTxAbortMessage b = Inr \<lparr>tab_channelId = replicate 32 1, tab_data = [2, 3]\<rparr>) \<and>
   (\<exists>b. encodeTxCompleteMessage \<lparr>tcm_channelId = replicate 32 1\<rparr> = Inr b \<and>
     decodeTxCompleteMessage b = Inr \<lparr>tcm_channelId = replicate 32 1\<rparr>)"
  by (rule interactive_messages_roundtrip) (simp_all add: wf_tai_def wf_tao_def wf_tri_def wf_tro_def wf_tsg_def wf_tir_def wf_tar_def wf_tab_def wf_tcm_def u_fits_def s64_fits_def stack_bytes_def cs_bytes_def rbf_wf_def)

end
