(* ===== verification/MsgDual.thy ===== *)
theory MsgDual
  imports Wire
begin

text \<open>
  BOLT 2 dual funding: \<^verbatim>\<open>src/lightning/message/dual-funding.ts\<close> (\<open>open_channel2\<close>,
  \<open>accept_channel2\<close>) and the liquidity-ads lease rates of \<^verbatim>\<open>src/lightning/gossip/types.ts\<close> that
  \<open>will_fund\<close> carries, with their truncated integer (tu32) tail. An absent chain hash is encoded as
  Bitcoin mainnet's, the parameterless constant of \<^verbatim>\<open>src/lightning/chain/hashes.ts\<close>.
\<close>

section \<open>Definitions\<close>

record ILeaseRates =
  lr_fundingWeightWitness :: int
  lr_leaseFeeBasis :: int
  lr_leaseFeeBaseSat :: int
  lr_channelFeeMaxBaseMsat :: int
  lr_channelFeeMaxProportionalThousandths :: int

text \<open>The loop \<^verbatim>\<open>while (start < 3 && full[start] === 0) start++\<close> counts the zero bytes that lead the
  first three.\<close>

definition encodeTu32 :: "int \<Rightarrow> bytes res" where
  "encodeTu32 val =
     (if val = 0 then Inr (alloc 0)
      else rbind (writeUInt32BE (alloc 4) (val mod 2 ^ 32) 0) (\<lambda>full.
        let start = length (takeWhile (\<lambda>b. b = 0) (take 3 full)) in
        Inr (subarray full start (length full))))"

definition decodeTu32 :: "bytes \<Rightarrow> int res" where
  "decodeTu32 buf =
     (if length buf = 0 then Inr 0
      else throw_if (length buf > 4) (Error ''lease_rates tu32 exceeds 4 bytes'' [])
       (throw_if (buf ! 0 = 0) (Error ''lease_rates tu32 is not minimal'' [])
       (let padded = copy_to buf (alloc 4) (4 - length buf) in readUInt32BE padded 0)))"

definition encodeLeaseRates :: "ILeaseRates \<Rightarrow> bytes res" where
  "encodeLeaseRates rates =
     rbind (writeUInt16BE (alloc 10) (lr_fundingWeightWitness rates) 0) (\<lambda>fixed.
     rbind (writeUInt16BE fixed (lr_leaseFeeBasis rates) 2) (\<lambda>fixed.
     rbind (writeUInt16BE fixed (lr_channelFeeMaxProportionalThousandths rates) 4) (\<lambda>fixed.
     rbind (writeUInt32BE fixed (lr_leaseFeeBaseSat rates) 6) (\<lambda>fixed.
     rbind (encodeTu32 (lr_channelFeeMaxBaseMsat rates)) (\<lambda>tu32.
     Inr (fixed @ tu32))))))"

definition decodeLeaseRates :: "bytes \<Rightarrow> ILeaseRates res" where
  "decodeLeaseRates buf =
     throw_if (length buf < 10) (Error ''lease_rates too short'' [10, int (length buf)]) (
     rbind (readUInt16BE buf 0) (\<lambda>fundingWeightWitness.
     rbind (readUInt16BE buf 2) (\<lambda>leaseFeeBasis.
     rbind (readUInt16BE buf 4) (\<lambda>channelFeeMaxProportionalThousandths.
     rbind (readUInt32BE buf 6) (\<lambda>leaseFeeBaseSat.
     rbind (decodeTu32 (drop 10 buf)) (\<lambda>channelFeeMaxBaseMsat.
     Inr \<lparr>lr_fundingWeightWitness = fundingWeightWitness, lr_leaseFeeBasis = leaseFeeBasis,
       lr_leaseFeeBaseSat = leaseFeeBaseSat, lr_channelFeeMaxBaseMsat = channelFeeMaxBaseMsat,
       lr_channelFeeMaxProportionalThousandths = channelFeeMaxProportionalThousandths\<rparr>))))))"

record IRequestFunds =
  rqf_requestedSats :: int
  rqf_blockheight :: int

record IWillFund =
  wlf_signature :: bytes
  wlf_leaseRates :: ILeaseRates

definition encodeRequestFunds :: "IRequestFunds \<Rightarrow> bytes res" where
  "encodeRequestFunds r =
     rbind (writeBigUInt64BE (alloc 12) (rqf_requestedSats r) 0) (\<lambda>buf.
     writeUInt32BE buf (rqf_blockheight r) 8)"

definition decodeRequestFunds :: "bytes \<Rightarrow> IRequestFunds res" where
  "decodeRequestFunds buf =
     rbind (readBigUInt64BE buf 0) (\<lambda>requestedSats.
     rbind (readUInt32BE buf 8) (\<lambda>blockheight.
     Inr \<lparr>rqf_requestedSats = requestedSats, rqf_blockheight = blockheight\<rparr>))"

definition encodeWillFund :: "IWillFund \<Rightarrow> bytes res" where
  "encodeWillFund w =
     throw_if (length (wlf_signature w) \<noteq> 64) (Error ''will_fund signature must be 64 bytes'' [])
     (rbind (encodeLeaseRates (wlf_leaseRates w)) (\<lambda>rates. Inr (wlf_signature w @ rates)))"

definition decodeWillFund :: "bytes \<Rightarrow> IWillFund res" where
  "decodeWillFund buf =
     rbind (decodeLeaseRates (drop 64 buf)) (\<lambda>leaseRates.
     Inr \<lparr>wlf_signature = subarray buf 0 64, wlf_leaseRates = leaseRates\<rparr>)"

definition BITCOIN_CHAIN_HASH :: bytes where
  "BITCOIN_CHAIN_HASH =
     [0x6f, 0xe2, 0x8c, 0x0a, 0xb6, 0xf1, 0xb3, 0x72, 0xc1, 0xa6, 0xa2, 0x46, 0xae, 0x63, 0xf7, 0x4f,
      0x93, 0x1e, 0x83, 0x65, 0xe1, 0x5a, 0x08, 0x9c, 0x68, 0xd6, 0x19, 0x00, 0x00, 0x00, 0x00, 0x00]"

text \<open>\<^verbatim>\<open>if (msg.disableChannelReserve) tlvRecords.push(...)\<close>\<close>

definition reserve_rec :: "bool option \<Rightarrow> ITlvRecord list" where
  "reserve_rec x = (if x = Some True then [\<lparr>tlv_type = 4, tlv_value = alloc 0\<rparr>] else [])"

record IOpenChannel2Message =
  oc2_chainHash :: "bytes option"
  oc2_channelId :: bytes
  oc2_fundingFeeratePerkw :: int
  oc2_commitmentFeeratePerkw :: int
  oc2_fundingSatoshis :: int
  oc2_dustLimitSatoshis :: int
  oc2_maxHtlcValueInFlightMsat :: int
  oc2_htlcMinimumMsat :: int
  oc2_toSelfDelay :: int
  oc2_maxAcceptedHtlcs :: int
  oc2_locktime :: int
  oc2_fundingPubkey :: bytes
  oc2_revocationBasepoint :: bytes
  oc2_paymentBasepoint :: bytes
  oc2_delayedPaymentBasepoint :: bytes
  oc2_htlcBasepoint :: bytes
  oc2_firstPerCommitmentPoint :: bytes
  oc2_secondPerCommitmentPoint :: bytes
  oc2_channelFlags :: int
  oc2_channelType :: "bytes option"
  oc2_requestFunds :: "IRequestFunds option"
  oc2_disableChannelReserve :: "bool option"

definition encodeOpenChannel2Message :: "IOpenChannel2Message \<Rightarrow> bytes res" where
  "encodeOpenChannel2Message msg =
    (throw_if (length (oc2_channelId msg) \<noteq> 32)
       (Error ''Channel ID must be 32 bytes'' [int (length (oc2_channelId msg))]) (
     let buf = alloc 344 in
     let buf = copy_to (case oc2_chainHash msg of None \<Rightarrow> BITCOIN_CHAIN_HASH | Some h \<Rightarrow> h) buf 0 in
     let buf = copy_to (oc2_channelId msg) buf 32 in
     rbind (writeUInt32BE buf (oc2_fundingFeeratePerkw msg) 64) (\<lambda>buf.
     rbind (writeUInt32BE buf (oc2_commitmentFeeratePerkw msg) 68) (\<lambda>buf.
     rbind (writeBigUInt64BE buf (oc2_fundingSatoshis msg) 72) (\<lambda>buf.
     rbind (writeBigUInt64BE buf (oc2_dustLimitSatoshis msg) 80) (\<lambda>buf.
     rbind (writeBigUInt64BE buf (oc2_maxHtlcValueInFlightMsat msg) 88) (\<lambda>buf.
     rbind (writeBigUInt64BE buf (oc2_htlcMinimumMsat msg) 96) (\<lambda>buf.
     rbind (writeUInt16BE buf (oc2_toSelfDelay msg) 104) (\<lambda>buf.
     rbind (writeUInt16BE buf (oc2_maxAcceptedHtlcs msg) 106) (\<lambda>buf.
     rbind (writeUInt32BE buf (oc2_locktime msg) 108) (\<lambda>buf.
     let buf = copy_to (oc2_fundingPubkey msg) buf 112 in
     let buf = copy_to (oc2_revocationBasepoint msg) buf 145 in
     let buf = copy_to (oc2_paymentBasepoint msg) buf 178 in
     let buf = copy_to (oc2_delayedPaymentBasepoint msg) buf 211 in
     let buf = copy_to (oc2_htlcBasepoint msg) buf 244 in
     let buf = copy_to (oc2_firstPerCommitmentPoint msg) buf 277 in
     let buf = copy_to (oc2_secondPerCommitmentPoint msg) buf 310 in
     let buf = setByte buf 343 (oc2_channelFlags msg) in
     rbind (case oc2_requestFunds msg of None \<Rightarrow> Inr []
            | Some r \<Rightarrow> rbind (encodeRequestFunds r) (\<lambda>value. Inr [\<lparr>tlv_type = 3, tlv_value = value\<rparr>])) (\<lambda>requestFundsRec.
     tlv_tail buf (opt_rec 1 (oc2_channelType msg) @ requestFundsRec @ reserve_rec (oc2_disableChannelReserve msg))))))))))))))"

definition oc2_tlv_body :: "IOpenChannel2Message \<Rightarrow> ITlvRecord \<Rightarrow> IOpenChannel2Message res" where
  "oc2_tlv_body result record =
     (if tlv_type record = 4 then
        throw_if (length (tlv_value record) \<noteq> 0) (Error ''disable_channel_reserve must be empty'' [])
          (Inr (result\<lparr>oc2_disableChannelReserve := Some True\<rparr>))
      else if tlv_type record = 1 then
        Inr (result\<lparr>oc2_channelType := Some (tlv_value record)\<rparr>)
      else if tlv_type record = 3 then
        rbind (decodeRequestFunds (tlv_value record)) (\<lambda>r. Inr (result\<lparr>oc2_requestFunds := Some r\<rparr>))
      else Inr result)"

definition decodeOpenChannel2Message :: "bytes \<Rightarrow> IOpenChannel2Message res" where
  "decodeOpenChannel2Message payload =
    (throw_if (length payload < 344)
       (Error ''open_channel2 too short'' [344, int (length payload)]) (
     let chainHash = subarray payload 0 32 in
     let channelId = subarray payload 32 64 in
     rbind (readUInt32BE payload 64) (\<lambda>fundingFeeratePerkw.
     rbind (readUInt32BE payload 68) (\<lambda>commitmentFeeratePerkw.
     rbind (readBigUInt64BE payload 72) (\<lambda>fundingSatoshis.
     rbind (readBigUInt64BE payload 80) (\<lambda>dustLimitSatoshis.
     rbind (readBigUInt64BE payload 88) (\<lambda>maxHtlcValueInFlightMsat.
     rbind (readBigUInt64BE payload 96) (\<lambda>htlcMinimumMsat.
     rbind (readUInt16BE payload 104) (\<lambda>toSelfDelay.
     rbind (readUInt16BE payload 106) (\<lambda>maxAcceptedHtlcs.
     rbind (readUInt32BE payload 108) (\<lambda>locktime.
     let fundingPubkey = subarray payload 112 145 in
     let revocationBasepoint = subarray payload 145 178 in
     let paymentBasepoint = subarray payload 178 211 in
     let delayedPaymentBasepoint = subarray payload 211 244 in
     let htlcBasepoint = subarray payload 244 277 in
     let firstPerCommitmentPoint = subarray payload 277 310 in
     let secondPerCommitmentPoint = subarray payload 310 343 in
     let channelFlags = uint (payload ! 343) in
     decode_tail payload 344 {0, 1, 3, 4} oc2_tlv_body
       \<lparr>oc2_chainHash = Some chainHash, oc2_channelId = channelId,
        oc2_fundingFeeratePerkw = fundingFeeratePerkw,
        oc2_commitmentFeeratePerkw = commitmentFeeratePerkw,
        oc2_fundingSatoshis = fundingSatoshis, oc2_dustLimitSatoshis = dustLimitSatoshis,
        oc2_maxHtlcValueInFlightMsat = maxHtlcValueInFlightMsat,
        oc2_htlcMinimumMsat = htlcMinimumMsat, oc2_toSelfDelay = toSelfDelay,
        oc2_maxAcceptedHtlcs = maxAcceptedHtlcs, oc2_locktime = locktime,
        oc2_fundingPubkey = fundingPubkey, oc2_revocationBasepoint = revocationBasepoint,
        oc2_paymentBasepoint = paymentBasepoint,
        oc2_delayedPaymentBasepoint = delayedPaymentBasepoint,
        oc2_htlcBasepoint = htlcBasepoint,
        oc2_firstPerCommitmentPoint = firstPerCommitmentPoint,
        oc2_secondPerCommitmentPoint = secondPerCommitmentPoint,
        oc2_channelFlags = channelFlags, oc2_channelType = None, oc2_requestFunds = None,
        oc2_disableChannelReserve = None\<rparr>)))))))))))"

record IAcceptChannel2Message =
  ac2_channelId :: bytes
  ac2_fundingSatoshis :: int
  ac2_dustLimitSatoshis :: int
  ac2_maxHtlcValueInFlightMsat :: int
  ac2_htlcMinimumMsat :: int
  ac2_minimumDepth :: int
  ac2_toSelfDelay :: int
  ac2_maxAcceptedHtlcs :: int
  ac2_fundingPubkey :: bytes
  ac2_revocationBasepoint :: bytes
  ac2_paymentBasepoint :: bytes
  ac2_delayedPaymentBasepoint :: bytes
  ac2_htlcBasepoint :: bytes
  ac2_firstPerCommitmentPoint :: bytes
  ac2_secondPerCommitmentPoint :: bytes
  ac2_channelType :: "bytes option"
  ac2_willFund :: "IWillFund option"
  ac2_disableChannelReserve :: "bool option"

definition encodeAcceptChannel2Message :: "IAcceptChannel2Message \<Rightarrow> bytes res" where
  "encodeAcceptChannel2Message msg =
    (throw_if (length (ac2_channelId msg) \<noteq> 32)
       (Error ''Channel ID must be 32 bytes'' [int (length (ac2_channelId msg))]) (
     let buf = alloc 303 in
     let buf = copy_to (ac2_channelId msg) buf 0 in
     rbind (writeBigUInt64BE buf (ac2_fundingSatoshis msg) 32) (\<lambda>buf.
     rbind (writeBigUInt64BE buf (ac2_dustLimitSatoshis msg) 40) (\<lambda>buf.
     rbind (writeBigUInt64BE buf (ac2_maxHtlcValueInFlightMsat msg) 48) (\<lambda>buf.
     rbind (writeBigUInt64BE buf (ac2_htlcMinimumMsat msg) 56) (\<lambda>buf.
     rbind (writeUInt32BE buf (ac2_minimumDepth msg) 64) (\<lambda>buf.
     rbind (writeUInt16BE buf (ac2_toSelfDelay msg) 68) (\<lambda>buf.
     rbind (writeUInt16BE buf (ac2_maxAcceptedHtlcs msg) 70) (\<lambda>buf.
     let buf = copy_to (ac2_fundingPubkey msg) buf 72 in
     let buf = copy_to (ac2_revocationBasepoint msg) buf 105 in
     let buf = copy_to (ac2_paymentBasepoint msg) buf 138 in
     let buf = copy_to (ac2_delayedPaymentBasepoint msg) buf 171 in
     let buf = copy_to (ac2_htlcBasepoint msg) buf 204 in
     let buf = copy_to (ac2_firstPerCommitmentPoint msg) buf 237 in
     let buf = copy_to (ac2_secondPerCommitmentPoint msg) buf 270 in
     rbind (case ac2_willFund msg of None \<Rightarrow> Inr []
            | Some r \<Rightarrow> rbind (encodeWillFund r) (\<lambda>value. Inr [\<lparr>tlv_type = 3, tlv_value = value\<rparr>])) (\<lambda>willFundRec.
     tlv_tail buf (opt_rec 1 (ac2_channelType msg) @ willFundRec @ reserve_rec (ac2_disableChannelReserve msg))))))))))))"

definition ac2_tlv_body :: "IAcceptChannel2Message \<Rightarrow> ITlvRecord \<Rightarrow> IAcceptChannel2Message res" where
  "ac2_tlv_body result record =
     (if tlv_type record = 4 then
        throw_if (length (tlv_value record) \<noteq> 0) (Error ''disable_channel_reserve must be empty'' [])
          (Inr (result\<lparr>ac2_disableChannelReserve := Some True\<rparr>))
      else if tlv_type record = 1 then
        Inr (result\<lparr>ac2_channelType := Some (tlv_value record)\<rparr>)
      else if tlv_type record = 3 then
        rbind (decodeWillFund (tlv_value record)) (\<lambda>r. Inr (result\<lparr>ac2_willFund := Some r\<rparr>))
      else Inr result)"

definition decodeAcceptChannel2Message :: "bytes \<Rightarrow> IAcceptChannel2Message res" where
  "decodeAcceptChannel2Message payload =
    (throw_if (length payload < 303)
       (Error ''accept_channel2 too short'' [303, int (length payload)]) (
     let channelId = subarray payload 0 32 in
     rbind (readBigUInt64BE payload 32) (\<lambda>fundingSatoshis.
     rbind (readBigUInt64BE payload 40) (\<lambda>dustLimitSatoshis.
     rbind (readBigUInt64BE payload 48) (\<lambda>maxHtlcValueInFlightMsat.
     rbind (readBigUInt64BE payload 56) (\<lambda>htlcMinimumMsat.
     rbind (readUInt32BE payload 64) (\<lambda>minimumDepth.
     rbind (readUInt16BE payload 68) (\<lambda>toSelfDelay.
     rbind (readUInt16BE payload 70) (\<lambda>maxAcceptedHtlcs.
     let fundingPubkey = subarray payload 72 105 in
     let revocationBasepoint = subarray payload 105 138 in
     let paymentBasepoint = subarray payload 138 171 in
     let delayedPaymentBasepoint = subarray payload 171 204 in
     let htlcBasepoint = subarray payload 204 237 in
     let firstPerCommitmentPoint = subarray payload 237 270 in
     let secondPerCommitmentPoint = subarray payload 270 303 in
     decode_tail payload 303 {0, 1, 3, 4} ac2_tlv_body
       \<lparr>ac2_channelId = channelId, ac2_fundingSatoshis = fundingSatoshis,
        ac2_dustLimitSatoshis = dustLimitSatoshis,
        ac2_maxHtlcValueInFlightMsat = maxHtlcValueInFlightMsat,
        ac2_htlcMinimumMsat = htlcMinimumMsat, ac2_minimumDepth = minimumDepth,
        ac2_toSelfDelay = toSelfDelay, ac2_maxAcceptedHtlcs = maxAcceptedHtlcs,
        ac2_fundingPubkey = fundingPubkey, ac2_revocationBasepoint = revocationBasepoint,
        ac2_paymentBasepoint = paymentBasepoint,
        ac2_delayedPaymentBasepoint = delayedPaymentBasepoint,
        ac2_htlcBasepoint = htlcBasepoint,
        ac2_firstPerCommitmentPoint = firstPerCommitmentPoint,
        ac2_secondPerCommitmentPoint = secondPerCommitmentPoint, ac2_channelType = None,
        ac2_willFund = None, ac2_disableChannelReserve = None\<rparr>)))))))))"

section \<open>Round trips\<close>

text \<open>The truncated integer: stripping the leading zero bytes loses nothing.\<close>

definition tu32_bytes :: "int \<Rightarrow> bytes" where
  "tu32_bytes v = dropWhile (\<lambda>b. b = 0) (be_bytes 4 v)"

lemma be_val_replicate_zero: "be_val (replicate k 0 @ bs) = be_val bs"
  by (induction bs rule: rev_induct)
    (simp_all add: be_val_snoc flip: append_assoc, induction k, simp_all add: be_val_def foldl_conv_fold)

lemma length4E:
  assumes "length xs = 4"
  obtains a b c d where "xs = [a, b, c, d]"
  using assms by (auto simp: numeral_eq_Suc length_Suc_conv)

lemma encodeTu32_eq:
  assumes "u_fits 4 v"
  shows "encodeTu32 v = Inr (tu32_bytes v)"
proof (cases "v = 0")
  case True
  then show ?thesis by (simp add: encodeTu32_def tu32_bytes_def numeral_eq_Suc)
next
  case False
  obtain a b c d where full: "be_bytes 4 v = [a, b, c, d]" by (rule length4E [of "be_bytes 4 v"]) simp
  have "be_val [a, b, c, d] = v" using assms by (simp flip: full add: u_fits_def)
  then have "d \<noteq> 0" if "a = 0" "b = 0" "c = 0" using that False by (auto simp: be_val_def)
  then show ?thesis
    using assms False full
    by (auto simp: encodeTu32_def tu32_bytes_def u_fits_def buf_simps subarray_def Let_def
        numeral_eq_Suc)
qed

lemma decodeTu32_eq:
  assumes "u_fits 4 v"
  shows "decodeTu32 (tu32_bytes v) = Inr v"
proof -
  obtain a b c d where full: "be_bytes 4 v = [a, b, c, d]" by (rule length4E [of "be_bytes 4 v"]) simp
  have "be_val [a, b, c, d] = v" using assms by (simp flip: full add: u_fits_def)
  then have v: "v = ((uint a * 256 + uint b) * 256 + uint c) * 256 + uint d" by (simp add: be_val_def)
  have tu: "tu32_bytes v = dropWhile (\<lambda>b. b = 0) [a, b, c, d]" by (simp only: tu32_bytes_def full)
  show ?thesis
    unfolding tu
    by (auto simp: decodeTu32_def copy_to_def alloc_def readUIntBE_def be_val_def v numeral_eq_Suc)
qed

definition wf_lr :: "ILeaseRates \<Rightarrow> bool" where
  "wf_lr r \<longleftrightarrow> u_fits 2 (lr_fundingWeightWitness r) \<and> u_fits 2 (lr_leaseFeeBasis r) \<and>
     u_fits 4 (lr_leaseFeeBaseSat r) \<and> u_fits 4 (lr_channelFeeMaxBaseMsat r) \<and>
     u_fits 2 (lr_channelFeeMaxProportionalThousandths r)"

definition lr_bytes :: "ILeaseRates \<Rightarrow> bytes" where
  "lr_bytes r = be_bytes 2 (lr_fundingWeightWitness r) @ be_bytes 2 (lr_leaseFeeBasis r) @
     be_bytes 2 (lr_channelFeeMaxProportionalThousandths r) @ be_bytes 4 (lr_leaseFeeBaseSat r) @
     tu32_bytes (lr_channelFeeMaxBaseMsat r)"

lemma lr_enc: "wf_lr r \<Longrightarrow> encodeLeaseRates r = Inr (lr_bytes r)"
  by (simp add: encodeLeaseRates_def wf_lr_def lr_bytes_def encodeTu32_eq buf_simps del: append_assoc)

lemma lr_dec: "wf_lr r \<Longrightarrow> decodeLeaseRates (lr_bytes r) = Inr r"
  by (simp add: decodeLeaseRates_def wf_lr_def lr_bytes_def decodeTu32_eq buf_simps)

interpretation lease_rates: wire_encoder encodeLeaseRates decodeLeaseRates wf_lr
  by unfold_locales (use lr_enc lr_dec in blast)

definition wf_rqf :: "IRequestFunds \<Rightarrow> bool" where
  "wf_rqf r \<longleftrightarrow> u_fits 8 (rqf_requestedSats r) \<and> u_fits 4 (rqf_blockheight r)"

definition rqf_bytes :: "IRequestFunds \<Rightarrow> bytes" where
  "rqf_bytes r = be_bytes 8 (rqf_requestedSats r) @ be_bytes 4 (rqf_blockheight r)"

lemma rqf_enc: "wf_rqf r \<Longrightarrow> encodeRequestFunds r = Inr (rqf_bytes r)"
  by (simp add: encodeRequestFunds_def wf_rqf_def rqf_bytes_def buf_simps del: append_assoc)

lemma rqf_dec: "wf_rqf r \<Longrightarrow> decodeRequestFunds (rqf_bytes r) = Inr r"
  by (simp add: decodeRequestFunds_def wf_rqf_def rqf_bytes_def buf_simps)

lemma length_rqf_bytes [simp]: "length (rqf_bytes r) = 12"
  by (simp add: rqf_bytes_def)

lemma rqf_dec_wf: "decodeRequestFunds b = Inr r \<Longrightarrow> wf_rqf r"
  by (auto simp: decodeRequestFunds_def res_Inr_iff wf_rqf_def intro: fits_intros)

definition wf_wlf :: "IWillFund \<Rightarrow> bool" where
  "wf_wlf w \<longleftrightarrow> length (wlf_signature w) = 64 \<and> wf_lr (wlf_leaseRates w)"

definition wlf_bytes :: "IWillFund \<Rightarrow> bytes" where
  "wlf_bytes w = wlf_signature w @ lr_bytes (wlf_leaseRates w)"

lemma length_tu32_bytes: "length (tu32_bytes v) \<le> 4"
  using length_dropWhile_le [of "\<lambda>b. b = 0" "be_bytes 4 v"] by (simp add: tu32_bytes_def)

lemma length_wlf_bytes [simp]: "wf_wlf w \<Longrightarrow> length (wlf_bytes w) < 2 ^ 64"
  using length_tu32_bytes [of "lr_channelFeeMaxBaseMsat (wlf_leaseRates w)"]
  by (simp add: wf_wlf_def wlf_bytes_def lr_bytes_def)

lemma wlf_enc: "wf_wlf w \<Longrightarrow> encodeWillFund w = Inr (wlf_bytes w)"
  by (simp add: encodeWillFund_def wf_wlf_def wlf_bytes_def lr_enc)

lemma wlf_dec: "wf_wlf w \<Longrightarrow> decodeWillFund (wlf_bytes w) = Inr w"
  by (simp add: decodeWillFund_def wf_wlf_def wlf_bytes_def lr_dec buf_simps)

definition wf_oc2 :: "IOpenChannel2Message \<Rightarrow> bool" where
  "wf_oc2 m \<longleftrightarrow> oc2_chainHash m \<noteq> None \<and> opt_has_len 32 (oc2_chainHash m) \<and>
     length (oc2_channelId m) = 32 \<and> u_fits 4 (oc2_fundingFeeratePerkw m) \<and>
     u_fits 4 (oc2_commitmentFeeratePerkw m) \<and>
     u_fits 8 (oc2_fundingSatoshis m) \<and> u_fits 8 (oc2_dustLimitSatoshis m) \<and>
     u_fits 8 (oc2_maxHtlcValueInFlightMsat m) \<and>
     u_fits 8 (oc2_htlcMinimumMsat m) \<and> u_fits 2 (oc2_toSelfDelay m) \<and>
     u_fits 2 (oc2_maxAcceptedHtlcs m) \<and> u_fits 4 (oc2_locktime m) \<and>
     length (oc2_fundingPubkey m) = 33 \<and>
     length (oc2_revocationBasepoint m) = 33 \<and>
     length (oc2_paymentBasepoint m) = 33 \<and>
     length (oc2_delayedPaymentBasepoint m) = 33 \<and>
     length (oc2_htlcBasepoint m) = 33 \<and>
     length (oc2_firstPerCommitmentPoint m) = 33 \<and>
     length (oc2_secondPerCommitmentPoint m) = 33 \<and>
     u_fits 1 (oc2_channelFlags m) \<and> opt_tlv (oc2_channelType m) \<and>
     pred_option wf_rqf (oc2_requestFunds m) \<and>
     oc2_disableChannelReserve m \<noteq> Some False"

abbreviation oc2_fixed :: "IOpenChannel2Message \<Rightarrow> bytes" where
  "oc2_fixed m \<equiv> the (oc2_chainHash m) @ oc2_channelId m @ be_bytes 4 (oc2_fundingFeeratePerkw m) @
     be_bytes 4 (oc2_commitmentFeeratePerkw m) @ be_bytes 8 (oc2_fundingSatoshis m) @
     be_bytes 8 (oc2_dustLimitSatoshis m) @
     be_bytes 8 (oc2_maxHtlcValueInFlightMsat m) @ be_bytes 8 (oc2_htlcMinimumMsat m) @
     be_bytes 2 (oc2_toSelfDelay m) @ be_bytes 2 (oc2_maxAcceptedHtlcs m) @
     be_bytes 4 (oc2_locktime m) @ oc2_fundingPubkey m @ oc2_revocationBasepoint m @
     oc2_paymentBasepoint m @ oc2_delayedPaymentBasepoint m @ oc2_htlcBasepoint m @
     oc2_firstPerCommitmentPoint m @ oc2_secondPerCommitmentPoint m @
     [word_of_int (oc2_channelFlags m)]"

definition oc2_tlvs :: "IOpenChannel2Message \<Rightarrow> ITlvRecord list" where
  "oc2_tlvs m = opt_rec 1 (oc2_channelType m) @
     opt_rec 3 (map_option rqf_bytes (oc2_requestFunds m)) @
     reserve_rec (oc2_disableChannelReserve m)"

lemma oc2_tlv_ok: "wf_oc2 m \<Longrightarrow> tlv_ok {0, 1, 3, 4} (oc2_tlvs m)"
  by (auto simp: wf_oc2_def oc2_tlvs_def tlv_simps reserve_rec_def split: option.splits)

lemma oc2_enc:
  assumes "wf_oc2 m"
  shows "encodeOpenChannel2Message m = Inr (oc2_fixed m @ tlvs (oc2_tlvs m))"
  using assms tlv_tail_eq [OF oc2_tlv_ok [OF assms]]
  by (cases "oc2_chainHash m"; cases "oc2_channelType m"; cases "oc2_requestFunds m"; cases "oc2_disableChannelReserve m")
    (simp_all add: encodeOpenChannel2Message_def wf_oc2_def oc2_tlvs_def Let_def buf_simps u_fits_length rqf_enc reserve_rec_def
      del: append_assoc)

lemma oc2_dec:
  assumes "wf_oc2 m"
  shows "decodeOpenChannel2Message (oc2_fixed m @ tlvs (oc2_tlvs m)) = Inr m"
  using assms decode_tail_eq [OF oc2_tlv_ok [OF assms], of "oc2_fixed m" 344 oc2_tlv_body]
  by (cases "oc2_chainHash m"; cases "oc2_channelType m"; cases "oc2_requestFunds m"; cases "oc2_disableChannelReserve m")
    (simp_all add: decodeOpenChannel2Message_def wf_oc2_def oc2_tlvs_def oc2_tlv_body_def buf_simps u_fits_length rqf_dec reserve_rec_def)

interpretation open_channel2: wire_encoder encodeOpenChannel2Message decodeOpenChannel2Message wf_oc2
  by unfold_locales (use oc2_enc oc2_dec in blast)

definition wf_ac2 :: "IAcceptChannel2Message \<Rightarrow> bool" where
  "wf_ac2 m \<longleftrightarrow> length (ac2_channelId m) = 32 \<and> u_fits 8 (ac2_fundingSatoshis m) \<and>
     u_fits 8 (ac2_dustLimitSatoshis m) \<and>
     u_fits 8 (ac2_maxHtlcValueInFlightMsat m) \<and>
     u_fits 8 (ac2_htlcMinimumMsat m) \<and> u_fits 4 (ac2_minimumDepth m) \<and>
     u_fits 2 (ac2_toSelfDelay m) \<and> u_fits 2 (ac2_maxAcceptedHtlcs m) \<and>
     length (ac2_fundingPubkey m) = 33 \<and>
     length (ac2_revocationBasepoint m) = 33 \<and>
     length (ac2_paymentBasepoint m) = 33 \<and>
     length (ac2_delayedPaymentBasepoint m) = 33 \<and>
     length (ac2_htlcBasepoint m) = 33 \<and>
     length (ac2_firstPerCommitmentPoint m) = 33 \<and>
     length (ac2_secondPerCommitmentPoint m) = 33 \<and>
     opt_tlv (ac2_channelType m) \<and> pred_option wf_wlf (ac2_willFund m) \<and>
     ac2_disableChannelReserve m \<noteq> Some False"

abbreviation ac2_fixed :: "IAcceptChannel2Message \<Rightarrow> bytes" where
  "ac2_fixed m \<equiv> ac2_channelId m @ be_bytes 8 (ac2_fundingSatoshis m) @
     be_bytes 8 (ac2_dustLimitSatoshis m) @
     be_bytes 8 (ac2_maxHtlcValueInFlightMsat m) @ be_bytes 8 (ac2_htlcMinimumMsat m) @
     be_bytes 4 (ac2_minimumDepth m) @ be_bytes 2 (ac2_toSelfDelay m) @
     be_bytes 2 (ac2_maxAcceptedHtlcs m) @ ac2_fundingPubkey m @
     ac2_revocationBasepoint m @ ac2_paymentBasepoint m @
     ac2_delayedPaymentBasepoint m @ ac2_htlcBasepoint m @
     ac2_firstPerCommitmentPoint m @ ac2_secondPerCommitmentPoint m"

definition ac2_tlvs :: "IAcceptChannel2Message \<Rightarrow> ITlvRecord list" where
  "ac2_tlvs m = opt_rec 1 (ac2_channelType m) @ opt_rec 3 (map_option wlf_bytes (ac2_willFund m)) @
     reserve_rec (ac2_disableChannelReserve m)"

lemma ac2_tlv_ok: "wf_ac2 m \<Longrightarrow> tlv_ok {0, 1, 3, 4} (ac2_tlvs m)"
  by (auto simp: wf_ac2_def ac2_tlvs_def tlv_simps reserve_rec_def length_wlf_bytes [simplified] split: option.splits)

lemma ac2_enc:
  assumes "wf_ac2 m"
  shows "encodeAcceptChannel2Message m = Inr (ac2_fixed m @ tlvs (ac2_tlvs m))"
  using assms tlv_tail_eq [OF ac2_tlv_ok [OF assms]]
  by (cases "ac2_channelType m"; cases "ac2_willFund m"; cases "ac2_disableChannelReserve m")
    (simp_all add: encodeAcceptChannel2Message_def wf_ac2_def ac2_tlvs_def Let_def buf_simps u_fits_length wlf_enc reserve_rec_def
      del: append_assoc)

lemma ac2_dec:
  assumes "wf_ac2 m"
  shows "decodeAcceptChannel2Message (ac2_fixed m @ tlvs (ac2_tlvs m)) = Inr m"
  using assms decode_tail_eq [OF ac2_tlv_ok [OF assms], of "ac2_fixed m" 303 ac2_tlv_body]
  by (cases "ac2_channelType m"; cases "ac2_willFund m"; cases "ac2_disableChannelReserve m")
    (simp_all add: decodeAcceptChannel2Message_def wf_ac2_def ac2_tlvs_def ac2_tlv_body_def buf_simps u_fits_length wlf_dec reserve_rec_def)

interpretation accept_channel2: wire_encoder encodeAcceptChannel2Message decodeAcceptChannel2Message wf_ac2
  by unfold_locales (use ac2_enc ac2_dec in blast)

section \<open>Properties\<close>

text \<open>C28: \<open>open_channel2\<close> and \<open>accept_channel2\<close> survive encoding and decoding, with the lease request, the
  signed lease rates (truncated integer included) and the reserve waiver.\<close>

theorem dual_funding_roundtrip:
  assumes "wf_oc2 m0"
    and "wf_ac2 m1"
  shows "(\<exists>b. encodeOpenChannel2Message m0 = Inr b \<and> decodeOpenChannel2Message b = Inr m0) \<and>
    (\<exists>b. encodeAcceptChannel2Message m1 = Inr b \<and> decodeAcceptChannel2Message b = Inr m1)"
  using open_channel2.roundtrip [OF assms(1)]
    accept_channel2.roundtrip [OF assms(2)]
  by (intro conjI)

theorem dual_funding_roundtrip_witness:
  "(\<exists>b. encodeOpenChannel2Message \<lparr>oc2_chainHash = Some (replicate 32 1), oc2_channelId = replicate 32 2,
      oc2_fundingFeeratePerkw = 21, oc2_commitmentFeeratePerkw = 28,
      oc2_fundingSatoshis = 35, oc2_dustLimitSatoshis = 42,
      oc2_maxHtlcValueInFlightMsat = 49, oc2_htlcMinimumMsat = 56,
      oc2_toSelfDelay = 63, oc2_maxAcceptedHtlcs = 70, oc2_locktime = 77,
      oc2_fundingPubkey = replicate 33 12,
      oc2_revocationBasepoint = replicate 33 13,
      oc2_paymentBasepoint = replicate 33 14,
      oc2_delayedPaymentBasepoint = replicate 33 15,
      oc2_htlcBasepoint = replicate 33 16,
      oc2_firstPerCommitmentPoint = replicate 33 17,
      oc2_secondPerCommitmentPoint = replicate 33 18, oc2_channelFlags = 133,
      oc2_channelType = Some (replicate 5 20),
      oc2_requestFunds = Some \<lparr>rqf_requestedSats = 100000, rqf_blockheight = 800000\<rparr>,
      oc2_disableChannelReserve = Some True\<rparr> = Inr b \<and>
     decodeOpenChannel2Message b = Inr \<lparr>oc2_chainHash = Some (replicate 32 1), oc2_channelId = replicate 32 2,
      oc2_fundingFeeratePerkw = 21, oc2_commitmentFeeratePerkw = 28,
      oc2_fundingSatoshis = 35, oc2_dustLimitSatoshis = 42,
      oc2_maxHtlcValueInFlightMsat = 49, oc2_htlcMinimumMsat = 56,
      oc2_toSelfDelay = 63, oc2_maxAcceptedHtlcs = 70, oc2_locktime = 77,
      oc2_fundingPubkey = replicate 33 12,
      oc2_revocationBasepoint = replicate 33 13,
      oc2_paymentBasepoint = replicate 33 14,
      oc2_delayedPaymentBasepoint = replicate 33 15,
      oc2_htlcBasepoint = replicate 33 16,
      oc2_firstPerCommitmentPoint = replicate 33 17,
      oc2_secondPerCommitmentPoint = replicate 33 18, oc2_channelFlags = 133,
      oc2_channelType = Some (replicate 5 20),
      oc2_requestFunds = Some \<lparr>rqf_requestedSats = 100000, rqf_blockheight = 800000\<rparr>,
      oc2_disableChannelReserve = Some True\<rparr>) \<and>
   (\<exists>b. encodeAcceptChannel2Message \<lparr>ac2_channelId = replicate 32 1, ac2_fundingSatoshis = 14,
      ac2_dustLimitSatoshis = 21, ac2_maxHtlcValueInFlightMsat = 28,
      ac2_htlcMinimumMsat = 35, ac2_minimumDepth = 42, ac2_toSelfDelay = 49,
      ac2_maxAcceptedHtlcs = 56, ac2_fundingPubkey = replicate 33 9,
      ac2_revocationBasepoint = replicate 33 10,
      ac2_paymentBasepoint = replicate 33 11,
      ac2_delayedPaymentBasepoint = replicate 33 12,
      ac2_htlcBasepoint = replicate 33 13,
      ac2_firstPerCommitmentPoint = replicate 33 14,
      ac2_secondPerCommitmentPoint = replicate 33 15,
      ac2_channelType = Some (replicate 5 16),
      ac2_willFund = Some \<lparr>wlf_signature = replicate 64 8,
        wlf_leaseRates = \<lparr>lr_fundingWeightWitness = 1, lr_leaseFeeBasis = 2,
          lr_leaseFeeBaseSat = 3, lr_channelFeeMaxBaseMsat = 700,
          lr_channelFeeMaxProportionalThousandths = 5\<rparr>\<rparr>,
      ac2_disableChannelReserve = Some True\<rparr> = Inr b \<and>
     decodeAcceptChannel2Message b = Inr \<lparr>ac2_channelId = replicate 32 1, ac2_fundingSatoshis = 14,
      ac2_dustLimitSatoshis = 21, ac2_maxHtlcValueInFlightMsat = 28,
      ac2_htlcMinimumMsat = 35, ac2_minimumDepth = 42, ac2_toSelfDelay = 49,
      ac2_maxAcceptedHtlcs = 56, ac2_fundingPubkey = replicate 33 9,
      ac2_revocationBasepoint = replicate 33 10,
      ac2_paymentBasepoint = replicate 33 11,
      ac2_delayedPaymentBasepoint = replicate 33 12,
      ac2_htlcBasepoint = replicate 33 13,
      ac2_firstPerCommitmentPoint = replicate 33 14,
      ac2_secondPerCommitmentPoint = replicate 33 15,
      ac2_channelType = Some (replicate 5 16),
      ac2_willFund = Some \<lparr>wlf_signature = replicate 64 8,
        wlf_leaseRates = \<lparr>lr_fundingWeightWitness = 1, lr_leaseFeeBasis = 2,
          lr_leaseFeeBaseSat = 3, lr_channelFeeMaxBaseMsat = 700,
          lr_channelFeeMaxProportionalThousandths = 5\<rparr>\<rparr>,
      ac2_disableChannelReserve = Some True\<rparr>)"
  by (rule dual_funding_roundtrip) (simp_all add: wf_oc2_def wf_ac2_def u_fits_def s64_fits_def wf_rqf_def wf_wlf_def wf_lr_def)

end
