(* ===== verification/MsgInit.thy ===== *)
theory MsgInit
  imports Wire Features
begin

text \<open>
  The BOLT 1 \<open>init\<close> message: \<^verbatim>\<open>src/lightning/message/init.ts\<close>. The decoder merges the legacy global
  features into the feature field; the lemmas show that this is the union of the two bit sets.
\<close>

unbundle bit_operations_syntax

section \<open>Definitions\<close>

record IInitMessage =
  ini_features :: FeatureFlags
  ini_networks :: "bytes list option"

definition encodeInitMessage :: "IInitMessage \<Rightarrow> bytes res" where
  "encodeInitMessage msg =
    (let featureBuf = toBuffer (ini_features msg) in
     rbind (writeUInt16BE (alloc 2) 0 0) (\<lambda>gflen.
     rbind (writeUInt16BE (alloc 2) (int (length featureBuf)) 0) (\<lambda>flen.
     let tlvRecords = (case ini_networks msg of
         Some networks \<Rightarrow> if length networks > 0
           then [\<lparr>tlv_type = 1, tlv_value = concat networks\<rparr>] else []
       | None \<Rightarrow> []) in
     tlv_tail (gflen @ flen @ featureBuf) tlvRecords)))"

text \<open>\<^verbatim>\<open>for (let i = 0; i < globalFeatures.length; i++) merged[gfOffset + i] |= globalFeatures[i]\<close>\<close>

definition orInto :: "bytes \<Rightarrow> nat \<Rightarrow> bytes \<Rightarrow> bytes" where
  "orInto merged gfOffset globalFeatures =
     fold (\<lambda>i m. m[gfOffset + i := m ! (gfOffset + i) OR globalFeatures ! i])
       [0..<length globalFeatures] merged"

definition mergeFeatures :: "bytes \<Rightarrow> bytes \<Rightarrow> bytes" where
  "mergeFeatures globalFeatures featuresBuf =
    (let mergedLen = max (length globalFeatures) (length featuresBuf) in
     let merged = alloc mergedLen in
     let merged = copy_to featuresBuf merged (mergedLen - length featuresBuf) in
     let gfOffset = mergedLen - length globalFeatures in
     orInto merged gfOffset globalFeatures)"

text \<open>\<^verbatim>\<open>for (let i = 0; i < record.value.length; i += 32) networks.push(record.value.subarray(i, i + 32))\<close>\<close>

definition networksOf :: "bytes \<Rightarrow> bytes list" where
  "networksOf value =
     map (\<lambda>k. subarray value (32 * k) (32 * k + 32)) [0..<(length value + 31) div 32]"

definition ini_tlv_body :: "IInitMessage \<Rightarrow> ITlvRecord \<Rightarrow> IInitMessage res" where
  "ini_tlv_body result record =
     (if tlv_type record = 1
      then Inr (result\<lparr>ini_networks := Some (networksOf (tlv_value record))\<rparr>) else Inr result)"

definition decodeInitMessage :: "bytes \<Rightarrow> IInitMessage res" where
  "decodeInitMessage payload =
     throw_if (length payload < 4) (Error ''Init message too short: need at least 4 bytes'' []) (
     rbind (readUInt16BE payload 0) (\<lambda>gflen.
     throw_if (2 + nat gflen > length payload)
       (Error ''Init: globalfeatures length exceeds payload'' []) (
     let globalFeatures = subarray payload 2 (2 + nat gflen) in
     let offset = 2 + nat gflen in
     throw_if (offset + 2 > length payload) (Error ''Init: missing features length'' []) (
     rbind (readUInt16BE payload offset) (\<lambda>flen.
     throw_if (offset + 2 + nat flen > length payload)
       (Error ''Init: features length exceeds payload'' []) (
     let featuresBuf = subarray payload (offset + 2) (offset + 2 + nat flen) in
     let features = mergeFeatures globalFeatures featuresBuf in
     decode_tail payload (offset + 2 + nat flen) {1} ini_tlv_body
       \<lparr>ini_features = features, ini_networks = None\<rparr>))))))"

section \<open>Merging\<close>

lemma fold_or_nth:
  assumes "off + n \<le> length m"
  shows "length (fold (\<lambda>i m. m[off + i := m ! (off + i) OR g ! i]) [0..<n] m) = length m \<and>
    (\<forall>j < length m. fold (\<lambda>i m. m[off + i := m ! (off + i) OR g ! i]) [0..<n] m ! j =
      (if off \<le> j \<and> j < off + n then m ! j OR g ! (j - off) else m ! j))"
  using assms
proof (induction n)
  case 0
  then show ?case by auto
next
  case (Suc n)
  let ?f = "fold (\<lambda>i m. m[off + i := m ! (off + i) OR g ! i]) [0..<n] m"
  have IH: "length ?f = length m"
    "\<And>j. j < length m \<Longrightarrow> ?f ! j = (if off \<le> j \<and> j < off + n then m ! j OR g ! (j - off) else m ! j)"
    using Suc by simp_all
  have "fold (\<lambda>i m. m[off + i := m ! (off + i) OR g ! i]) [0..<Suc n] m =
      ?f[off + n := ?f ! (off + n) OR g ! n]" by simp
  with IH Suc.prems show ?case by (auto simp: nth_list_update)
qed

lemma orInto_nth:
  assumes "off + length g = length m" "j < length m"
  shows "orInto m off g ! j = (if off \<le> j then m ! j OR g ! (j - off) else m ! j)"
  using fold_or_nth [of off "length g" m g] assms by (simp add: orInto_def)

lemma length_orInto: "off + length g = length m \<Longrightarrow> length (orInto m off g) = length m"
  using fold_or_nth [of off "length g" m g] by (simp add: orInto_def)

lemma be_val_mergeFeatures: "be_val (mergeFeatures g f) = be_val g OR be_val f"
proof (rule bit_eqI)
  fix n
  define L where "L = max (length g) (length f)"
  have len: "length g \<le> L" "length f \<le> L" by (simp_all add: L_def)
  define m where "m = alloc (L - length f) @ f"
  have m: "copy_to f (alloc L) (L - length f) = m"
    using len by (simp add: copy_to_def alloc_def m_def)
  have lm: "length m = L" using len by (simp add: m_def)
  have merge: "mergeFeatures g f = orInto m (L - length g) g"
    by (simp add: mergeFeatures_def L_def [symmetric] m Let_def)
  have off: "L - length g + length g = length m" using len lm by simp
  have "bit (be_val (mergeFeatures g f)) n \<longleftrightarrow>
      n div 8 < L \<and> bit (orInto m (L - length g) g ! (L - 1 - n div 8)) (n mod 8)"
    by (simp add: bit_be_val merge length_orInto [OF off] lm)
  also have "\<dots> \<longleftrightarrow> bit (be_val m) n \<or> bit (be_val g) n"
  proof (cases "n div 8 < L")
    case True
    have i: "L - 1 - n div 8 < length m" using True lm by simp
    have "L - 1 - n div 8 - (L - length g) = length g - 1 - n div 8"
      "L - length g \<le> L - 1 - n div 8 \<longleftrightarrow> n div 8 < length g" using True len by auto
    with True show ?thesis
      unfolding orInto_nth [OF off i] by (auto simp: bit_be_val lm bit_or_iff)
  next
    case False
    then show ?thesis using lm len by (simp add: bit_be_val)
  qed
  finally show "bit (be_val (mergeFeatures g f)) n = bit (be_val g OR be_val f) n"
    by (auto simp: bit_or_iff m_def be_val_pad)
qed

lemma mergeFeatures_Nil: "mergeFeatures [] f = f"
  by (simp add: mergeFeatures_def orInto_def copy_to_def Let_def)

section \<open>Round trip\<close>

lemma networksOf_concat:
  assumes "\<forall>n \<in> set ns. length n = 32"
  shows "networksOf (concat ns) = ns"
proof -
  have len: "length (concat ns) = 32 * length ns" using assms by (induction ns) auto
  have nth: "subarray (concat ns) (32 * k) (32 * k + 32) = ns ! k" if "k < length ns" for k
    using assms that
  proof (induction ns arbitrary: k)
    case (Cons n ns)
    then show ?case
    proof (cases k)
      case (Suc j)
      then have "subarray (concat ns) (32 * j) (32 * j + 32) = ns ! j" using Cons by simp
      with Suc Cons.prems show ?thesis by (simp add: subarray_append_skip add.commute)
    qed (simp add: subarray_append_first)
  qed simp
  show ?thesis
    unfolding networksOf_def len by (intro nth_equalityI) (simp_all add: nth)
qed

definition wf_ini :: "IInitMessage \<Rightarrow> bool" where
  "wf_ini m \<longleftrightarrow> toBuffer (ini_features m) = ini_features m \<and> length (ini_features m) < 65536 \<and>
     (case ini_networks m of None \<Rightarrow> True
      | Some ns \<Rightarrow> ns \<noteq> [] \<and> (\<forall>n \<in> set ns. length n = 32) \<and> int (length (concat ns)) < 2 ^ 64)"

abbreviation ini_fixed :: "IInitMessage \<Rightarrow> bytes" where
  "ini_fixed m \<equiv> be_bytes 2 0 @ be_bytes 2 (int (length (ini_features m))) @ ini_features m"

definition ini_tlvs :: "IInitMessage \<Rightarrow> ITlvRecord list" where
  "ini_tlvs m = opt_rec 1 (map_option concat (ini_networks m))"

lemma ini_tlv_ok: "wf_ini m \<Longrightarrow> tlv_ok {1} (ini_tlvs m)"
  by (auto simp: wf_ini_def ini_tlvs_def tlv_simps split: option.splits simp del: length_concat)

lemma ini_enc:
  assumes "wf_ini m"
  shows "encodeInitMessage m = Inr (ini_fixed m @ tlvs (ini_tlvs m))"
  using assms tlv_tail_eq [OF ini_tlv_ok [OF assms]]
  by (cases "ini_networks m")
    (simp_all add: encodeInitMessage_def wf_ini_def ini_tlvs_def Let_def buf_simps u_fits_length
      del: append_assoc)

lemma ini_dec:
  assumes "wf_ini m"
  shows "decodeInitMessage (ini_fixed m @ tlvs (ini_tlvs m)) = Inr m"
  using assms decode_tail_eq [OF ini_tlv_ok [OF assms], of "ini_fixed m"
      "Suc (Suc (Suc (Suc (length (ini_features m)))))" ini_tlv_body]
  by (cases "ini_networks m")
    (simp_all add: decodeInitMessage_def wf_ini_def ini_tlvs_def ini_tlv_body_def buf_simps
      u_fits_length mergeFeatures_Nil networksOf_concat subarray_def [of _ 0 0])

interpretation init: wire_encoder encodeInitMessage decodeInitMessage wf_ini
  by unfold_locales (use ini_enc ini_dec in blast)

section \<open>Properties\<close>

text \<open>C32: the decoder of \<open>init\<close> merges the two feature fields into their union: decoding a message
  with global features \<open>g\<close>, features \<open>f\<close> and no TLV stream succeeds, and a bit is set in the result exactly when
  it is set in one of them.\<close>

theorem init_merges_features:
  assumes "length g < 65536" "length f < 65536"
  shows "\<exists>m. decodeInitMessage (be_bytes 2 (int (length g)) @ g @ be_bytes 2 (int (length f)) @ f) = Inr m \<and>
    ini_networks m = None \<and> (\<forall>b. hasBit (ini_features m) b = (hasBit g b \<or> hasBit f b))"
proof -
  have "decodeInitMessage (be_bytes 2 (int (length g)) @ g @ be_bytes 2 (int (length f)) @ f) =
      Inr \<lparr>ini_features = mergeFeatures g f, ini_networks = None\<rparr>"
    using assms by (simp add: decodeInitMessage_def decode_tail_def buf_simps u_fits_length Let_def)
  then show ?thesis by (auto simp: hasBit_bit be_val_mergeFeatures bit_or_iff)
qed

theorem init_merges_features_witness:
  "\<exists>m. decodeInitMessage (be_bytes 2 (int (length [2 :: byte])) @ [2] @
      be_bytes 2 (int (length [1, 0x80 :: byte])) @ [1, 0x80]) = Inr m \<and>
    ini_networks m = None \<and> (\<forall>b. hasBit (ini_features m) b = (hasBit [2] b \<or> hasBit [1, 0x80] b))"
  by (rule init_merges_features) simp_all

text \<open>C33: an \<open>init\<close> message with trimmed features and 32-byte chain hashes survives encoding and
  decoding.\<close>

theorem init_roundtrip:
  assumes "wf_ini m"
  shows "\<exists>b. encodeInitMessage m = Inr b \<and> decodeInitMessage b = Inr m"
  using assms by (rule init.roundtrip)

theorem init_roundtrip_witness:
  "\<exists>b. encodeInitMessage \<lparr>ini_features = [2, 0x82], ini_networks = Some [replicate 32 1, replicate 32 2]\<rparr> =
      Inr b \<and>
    decodeInitMessage b =
      Inr \<lparr>ini_features = [2, 0x82], ini_networks = Some [replicate 32 1, replicate 32 2]\<rparr>"
  by (rule init_roundtrip) (simp add: wf_ini_def toBuffer_dropWhile)

end
