(* ===== verification/Keys.thy ===== *)
theory Keys
  imports Wire
begin

text \<open>
  Per-commitment keys: \<^verbatim>\<open>src/lightning/keys/derivation.ts\<close> and the curve wrappers of
  \<^verbatim>\<open>src/lightning/crypto/ecdh.ts\<close> it calls. The elliptic-curve library and SHA-256 are parameters: the record
  \<open>ecc\<close> holds the library's functions, which may throw or return null. \<open>secp256k1_laws\<close> is what the
  derivation relies on: scalars act on points as the integers modulo the group order do.
\<close>

section \<open>Definitions\<close>

subsection \<open>The curve library and its wrappers\<close>

record ecc =
  ecc_pointFromScalar :: "bytes \<Rightarrow> bytes option res"
  ecc_pointAdd :: "bytes \<Rightarrow> bytes \<Rightarrow> bytes option res"
  ecc_pointMultiply :: "bytes \<Rightarrow> bytes \<Rightarrow> bytes option res"
  ecc_privateAdd :: "bytes \<Rightarrow> bytes \<Rightarrow> bytes option res"

text \<open>\<^verbatim>\<open>if (!result) throw new Error(...)\<close> on a nullable library result.\<close>

definition orThrow :: "string \<Rightarrow> bytes option res \<Rightarrow> bytes res" where
  "orThrow msg r = rbind r (\<lambda>x. case x of None \<Rightarrow> Inl (Error msg []) | Some y \<Rightarrow> Inr y)"

definition getPublicKey :: "ecc \<Rightarrow> bytes \<Rightarrow> bytes res" where
  "getPublicKey e privateKey =
     throw_if (length privateKey \<noteq> 32)
       (Error ''Private key must be 32 bytes'' [int (length privateKey)])
       (orThrow ''Failed to derive public key from private key'' (ecc_pointFromScalar e privateKey))"

definition ecdh :: "ecc \<Rightarrow> (bytes \<Rightarrow> bytes) \<Rightarrow> bytes \<Rightarrow> bytes \<Rightarrow> bytes res" where
  "ecdh e sha256 privateKey publicKey =
     throw_if (length privateKey \<noteq> 32)
       (Error ''Private key must be 32 bytes'' [int (length privateKey)])
     (throw_if (length publicKey \<noteq> 33)
       (Error ''Public key must be 33 bytes compressed'' [int (length publicKey)])
     (rbind (orThrow ''ECDH failed: invalid point multiplication result''
         (ecc_pointMultiply e publicKey privateKey))
       (\<lambda>sharedPoint. Inr (sha256 sharedPoint))))"

definition pointMultiply :: "ecc \<Rightarrow> bytes \<Rightarrow> bytes \<Rightarrow> bytes res" where
  "pointMultiply e publicKey scalar =
     orThrow ''Point multiplication failed'' (ecc_pointMultiply e publicKey scalar)"

definition pointAdd :: "ecc \<Rightarrow> bytes \<Rightarrow> bytes \<Rightarrow> bytes res" where
  "pointAdd e point1 point2 = orThrow ''Point addition failed'' (ecc_pointAdd e point1 point2)"

definition privateAdd :: "ecc \<Rightarrow> bytes \<Rightarrow> bytes \<Rightarrow> bytes res" where
  "privateAdd e key1 key2 =
     throw_if (length key1 \<noteq> 32) (Error ''Key1 must be 32 bytes'' [int (length key1)])
     (throw_if (length key2 \<noteq> 32) (Error ''Key2 must be 32 bytes'' [int (length key2)])
     (orThrow ''Private key addition failed (result is zero or exceeds curve order)''
       (ecc_privateAdd e key1 key2)))"

definition curve_order :: int where
  "curve_order = 0xFFFFFFFFFFFFFFFFFFFFFFFFFFFFFFFEBAAEDCE6AF48A03BBFD25E8CD0364141"

definition privateMultiply :: "bytes \<Rightarrow> bytes \<Rightarrow> bytes res" where
  "privateMultiply key tweak =
     throw_if (length key \<noteq> 32) (Error ''Key must be 32 bytes'' [int (length key)])
     (throw_if (length tweak \<noteq> 32) (Error ''Tweak must be 32 bytes'' [int (length tweak)])
     (let result = (be_val key * be_val tweak) mod curve_order in
      throw_if (result = 0) (Error ''Private key multiplication resulted in zero'' [])
        (Inr (be_bytes 32 result))))"

subsection \<open>Derivation\<close>

record IChannelBasepoints =
  fundingPubkey :: bytes
  revocationBasepoint :: bytes
  paymentBasepoint :: bytes
  delayedPaymentBasepoint :: bytes
  htlcBasepoint :: bytes
  firstPerCommitmentPoint :: bytes

definition derivePublicKey :: "ecc \<Rightarrow> (bytes \<Rightarrow> bytes) \<Rightarrow> bytes \<Rightarrow> bytes \<Rightarrow> bytes res" where
  "derivePublicKey e sha256 basepoint perCommitmentPoint =
     (let tweak = sha256 (perCommitmentPoint @ basepoint) in
      rbind (getPublicKey e tweak) (\<lambda>tweakPoint. pointAdd e basepoint tweakPoint))"

definition derivePrivateKey :: "ecc \<Rightarrow> (bytes \<Rightarrow> bytes) \<Rightarrow> bytes \<Rightarrow> bytes \<Rightarrow> bytes \<Rightarrow> bytes res" where
  "derivePrivateKey e sha256 basepointSecret perCommitmentPoint basepoint =
     (let tweak = sha256 (perCommitmentPoint @ basepoint) in privateAdd e basepointSecret tweak)"

definition deriveRevocationPubkey :: "ecc \<Rightarrow> (bytes \<Rightarrow> bytes) \<Rightarrow> bytes \<Rightarrow> bytes \<Rightarrow> bytes res" where
  "deriveRevocationPubkey e sha256 revocationBp perCommitmentPoint =
     (let tweakA = sha256 (revocationBp @ perCommitmentPoint);
          tweakB = sha256 (perCommitmentPoint @ revocationBp) in
      rbind (pointMultiply e revocationBp tweakA) (\<lambda>termA.
      rbind (pointMultiply e perCommitmentPoint tweakB) (\<lambda>termB.
      pointAdd e termA termB)))"

definition deriveRevocationPrivkey ::
  "ecc \<Rightarrow> (bytes \<Rightarrow> bytes) \<Rightarrow> bytes \<Rightarrow> bytes \<Rightarrow> bytes \<Rightarrow> bytes \<Rightarrow> bytes res" where
  "deriveRevocationPrivkey e sha256 revocationBasepointSecret perCommitmentSecret revocationBp
     perCommitmentPoint =
     (let tweakA = sha256 (revocationBp @ perCommitmentPoint);
          tweakB = sha256 (perCommitmentPoint @ revocationBp) in
      rbind (privateMultiply revocationBasepointSecret tweakA) (\<lambda>termA.
      rbind (privateMultiply perCommitmentSecret tweakB) (\<lambda>termB.
      privateAdd e termA termB)))"

definition perCommitmentPointFromSecret :: "ecc \<Rightarrow> bytes \<Rightarrow> bytes res" where
  "perCommitmentPointFromSecret e perCommitmentSecret = getPublicKey e perCommitmentSecret"

section \<open>What the curve library promises\<close>

text \<open>
  A private key is a 32-byte big-endian scalar in the open interval from 0 to the group order, \<open>pt\<close>
  is multiplication of the generator, periodic in the order, and the library's operations agree with
  addition and multiplication of scalars. A result that would be the point at infinity, or a zero
  scalar, is null.
\<close>

definition scalar :: "bytes \<Rightarrow> bool" where
  "scalar s \<longleftrightarrow> length s = 32 \<and> 0 < be_val s \<and> be_val s < curve_order"

definition secp256k1_laws :: "ecc \<Rightarrow> (int \<Rightarrow> bytes) \<Rightarrow> bool" where
  "secp256k1_laws e pt \<longleftrightarrow>
     (\<forall>k. pt (k mod curve_order) = pt k) \<and>
     (\<forall>s. scalar s \<longrightarrow> ecc_pointFromScalar e s = Inr (Some (pt (be_val s)))) \<and>
     (\<forall>j k. j mod curve_order \<noteq> 0 \<longrightarrow> k mod curve_order \<noteq> 0 \<longrightarrow>
        ecc_pointAdd e (pt j) (pt k) =
          Inr (if (j + k) mod curve_order = 0 then None else Some (pt (j + k)))) \<and>
     (\<forall>j s. j mod curve_order \<noteq> 0 \<longrightarrow> scalar s \<longrightarrow>
        ecc_pointMultiply e (pt j) s =
          Inr (if (j * be_val s) mod curve_order = 0 then None else Some (pt (j * be_val s)))) \<and>
     (\<forall>s t. scalar s \<longrightarrow> scalar t \<longrightarrow>
        ecc_privateAdd e s t =
          Inr (if (be_val s + be_val t) mod curve_order = 0 then None
               else Some (be_bytes 32 ((be_val s + be_val t) mod curve_order))))"

lemma secp256k1_lawsD:
  assumes "secp256k1_laws e pt"
  shows "pt (k mod curve_order) = pt k"
    "scalar s \<Longrightarrow> ecc_pointFromScalar e s = Inr (Some (pt (be_val s)))"
    "j mod curve_order \<noteq> 0 \<Longrightarrow> k mod curve_order \<noteq> 0 \<Longrightarrow> ecc_pointAdd e (pt j) (pt k) =
       Inr (if (j + k) mod curve_order = 0 then None else Some (pt (j + k)))"
    "j mod curve_order \<noteq> 0 \<Longrightarrow> scalar s \<Longrightarrow>
       ecc_pointMultiply e (pt j) s =
         Inr (if (j * be_val s) mod curve_order = 0 then None else Some (pt (j * be_val s)))"
    "scalar s \<Longrightarrow> scalar t \<Longrightarrow> ecc_privateAdd e s t =
       Inr (if (be_val s + be_val t) mod curve_order = 0 then None
            else Some (be_bytes 32 ((be_val s + be_val t) mod curve_order)))"
  using assms unfolding secp256k1_laws_def by blast+

lemma curve_order_bounds: "0 < curve_order" "curve_order < 256 ^ 32"
  by (simp_all add: curve_order_def)

lemma be_val_scalar_bytes:
  assumes "k mod curve_order \<noteq> 0"
  shows "be_val (be_bytes 32 (k mod curve_order)) = k mod curve_order"
    "scalar (be_bytes 32 (k mod curve_order))"
proof -
  have b: "0 \<le> k mod curve_order" "k mod curve_order < curve_order"
    using curve_order_bounds by simp_all
  then show "be_val (be_bytes 32 (k mod curve_order)) = k mod curve_order"
    using curve_order_bounds by (intro be_val_be_bytes) linarith+
  then show "scalar (be_bytes 32 (k mod curve_order))"
    using b assms by (simp add: scalar_def)
qed

lemma scalar_nonzero: "scalar s \<Longrightarrow> be_val s mod curve_order \<noteq> 0"
  by (simp add: scalar_def)

lemma getPublicKey_scalar:
  "secp256k1_laws e pt \<Longrightarrow> scalar s \<Longrightarrow> getPublicKey e s = Inr (pt (be_val s))"
  by (simp add: getPublicKey_def orThrow_def secp256k1_lawsD scalar_def)

lemma pointAdd_pt:
  assumes "secp256k1_laws e pt" "j mod curve_order \<noteq> 0" "k mod curve_order \<noteq> 0"
  shows "pointAdd e (pt j) (pt k) =
    (if (j + k) mod curve_order = 0 then Inl (Error ''Point addition failed'' []) else Inr (pt (j + k)))"
  using assms by (simp add: pointAdd_def orThrow_def secp256k1_lawsD(3))

lemma pointMultiply_pt:
  assumes "secp256k1_laws e pt" "j mod curve_order \<noteq> 0" "scalar s"
  shows "pointMultiply e (pt j) s =
    (if (j * be_val s) mod curve_order = 0 then Inl (Error ''Point multiplication failed'' [])
     else Inr (pt (j * be_val s)))"
  using assms by (simp add: pointMultiply_def orThrow_def secp256k1_lawsD(4))

lemma privateAdd_scalar:
  assumes "secp256k1_laws e pt" "scalar s" "scalar t"
  shows "rbind (privateAdd e s t) (getPublicKey e) =
    (if (be_val s + be_val t) mod curve_order = 0
     then Inl (Error ''Private key addition failed (result is zero or exceeds curve order)'' [])
     else Inr (pt (be_val s + be_val t)))"
proof -
  have "getPublicKey e (be_bytes 32 (k mod curve_order)) = Inr (pt k)" if "k mod curve_order \<noteq> 0" for k
    using getPublicKey_scalar [OF assms(1) be_val_scalar_bytes(2) [OF that]]
    by (simp only: be_val_scalar_bytes(1) [OF that] secp256k1_lawsD(1) [OF assms(1)])
  then show ?thesis
    using assms by (simp add: privateAdd_def orThrow_def secp256k1_lawsD(5) scalar_def)
qed

lemma privateMultiply_scalar:
  assumes "scalar s" "scalar t"
  shows "privateMultiply s t =
    (if (be_val s * be_val t) mod curve_order = 0
     then Inl (Error ''Private key multiplication resulted in zero'' [])
     else Inr (be_bytes 32 ((be_val s * be_val t) mod curve_order)))"
  using assms by (simp add: privateMultiply_def scalar_def)

section \<open>An instance of the laws\<close>

text \<open>
  The additive group of the integers modulo the order, its elements written as 33 bytes: it shows
  that the hypotheses on the library can hold.
\<close>

definition pt_mod :: "int \<Rightarrow> bytes" where
  "pt_mod k = 2 # be_bytes 32 (k mod curve_order)"

definition pt_val :: "bytes \<Rightarrow> int" where
  "pt_val p = be_val (tl p)"

definition nonzero_pt :: "int \<Rightarrow> bytes option res" where
  "nonzero_pt k = Inr (if k mod curve_order = 0 then None else Some (pt_mod k))"

definition ecc_mod :: ecc where
  "ecc_mod = \<lparr>ecc_pointFromScalar = \<lambda>s. nonzero_pt (be_val s),
     ecc_pointAdd = \<lambda>p q. nonzero_pt (pt_val p + pt_val q),
     ecc_pointMultiply = \<lambda>p s. nonzero_pt (pt_val p * be_val s),
     ecc_privateAdd = \<lambda>s t. Inr (if (be_val s + be_val t) mod curve_order = 0 then None
       else Some (be_bytes 32 ((be_val s + be_val t) mod curve_order)))\<rparr>"

lemma pt_val_mod: "pt_val (pt_mod k) = k mod curve_order"
proof -
  have "0 \<le> k mod curve_order" by (rule pos_mod_sign) (rule curve_order_bounds)
  moreover have "k mod curve_order < 256 ^ 32"
    by (rule less_trans [OF pos_mod_bound]) (rule curve_order_bounds)+
  ultimately show ?thesis
    unfolding pt_val_def pt_mod_def list.sel by (rule be_val_be_bytes)
qed

lemma pt_mod_mod: "pt_mod (k mod curve_order) = pt_mod k"
  by (simp add: pt_mod_def)

lemma nonzero_pt_mod_cong: "j mod curve_order = k mod curve_order \<Longrightarrow> nonzero_pt j = nonzero_pt k"
  by (simp add: nonzero_pt_def pt_mod_def)

lemma ecc_mod_laws: "secp256k1_laws ecc_mod pt_mod"
proof -
  have "nonzero_pt (j mod curve_order + k mod curve_order) = nonzero_pt (j + k)"
    "nonzero_pt (j mod curve_order * k) = nonzero_pt (j * k)" for j k
    by (rule nonzero_pt_mod_cong, simp add: mod_simps)+
  then show ?thesis
    unfolding secp256k1_laws_def
    by (simp add: ecc_mod_def pt_val_mod pt_mod_mod)
      (simp add: nonzero_pt_def scalar_nonzero)
qed

lemma small_scalar: "scalar (be_bytes 32 7)" "scalar (be_bytes 32 5)"
  by (simp_all add: scalar_def curve_order_def be_val_be_bytes_mod)

lemma small_pub: "getPublicKey ecc_mod (be_bytes 32 7) = Inr (pt_mod 7)"
  "getPublicKey ecc_mod (be_bytes 32 5) = Inr (pt_mod 5)"
  by code_simp+

lemma derived_key_pair:
  assumes "secp256k1_laws e pt" "scalar secret" "getPublicKey e secret = Inr basepoint"
    "scalar (sha256 (perCommitmentPoint @ basepoint))"
  shows "(rbind (derivePrivateKey e sha256 secret perCommitmentPoint basepoint) (getPublicKey e) = Inr key) =
    (derivePublicKey e sha256 basepoint perCommitmentPoint = Inr key)"
proof -
  have b: "basepoint = pt (be_val secret)"
    using assms(3) getPublicKey_scalar [OF assms(1,2)] by simp
  show ?thesis
    unfolding derivePrivateKey_def derivePublicKey_def Let_def
    using getPublicKey_scalar [OF assms(1,4)] privateAdd_scalar [OF assms(1,2,4)]
      pointAdd_pt [OF assms(1) scalar_nonzero [OF assms(2)] scalar_nonzero [OF assms(4)]]
    by (simp add: b)
qed

lemma revocation_key_pair:
  assumes "secp256k1_laws e pt" "scalar revocationSecret" "scalar perCommitmentSecret"
    "getPublicKey e revocationSecret = Inr revocationBp"
    "perCommitmentPointFromSecret e perCommitmentSecret = Inr point"
    "scalar (sha256 (revocationBp @ point))" "scalar (sha256 (point @ revocationBp))"
  shows "(rbind (deriveRevocationPrivkey e sha256 revocationSecret perCommitmentSecret revocationBp point)
      (getPublicKey e) = Inr key) =
    (deriveRevocationPubkey e sha256 revocationBp point = Inr key)"
proof -
  have b: "revocationBp = pt (be_val revocationSecret)" "point = pt (be_val perCommitmentSecret)"
    using assms(4,5) getPublicKey_scalar [OF assms(1,2)] getPublicKey_scalar [OF assms(1,3)]
    by (simp_all add: perCommitmentPointFromSecret_def)
  let ?a = "be_val revocationSecret * be_val (sha256 (revocationBp @ point))"
  let ?b = "be_val perCommitmentSecret * be_val (sha256 (point @ revocationBp))"
  note mults = pointMultiply_pt [OF assms(1) scalar_nonzero [OF assms(2)] assms(6)]
    pointMultiply_pt [OF assms(1) scalar_nonzero [OF assms(3)] assms(7)]
    privateMultiply_scalar [OF assms(2,6)] privateMultiply_scalar [OF assms(3,7)]
  show ?thesis
  proof (cases "?a mod curve_order = 0 \<or> ?b mod curve_order = 0")
    case True
    then show ?thesis
      unfolding deriveRevocationPrivkey_def deriveRevocationPubkey_def Let_def
      using mults by (auto simp flip: b)
  next
    case False
    note ab = be_val_scalar_bytes [of ?a] be_val_scalar_bytes [of ?b]
    have "rbind (privateAdd e (be_bytes 32 (?a mod curve_order)) (be_bytes 32 (?b mod curve_order))) (getPublicKey e)
        = Inr key \<longleftrightarrow> pointAdd e (pt ?a) (pt ?b) = Inr key"
      using privateAdd_scalar [OF assms(1) ab(2) ab(4)] False pointAdd_pt [OF assms(1), of ?a ?b]
        secp256k1_lawsD(1) [OF assms(1), of "?a mod curve_order + ?b mod curve_order"]
        secp256k1_lawsD(1) [OF assms(1), of "?a + ?b"]
      by (simp add: ab mod_simps)
    then show ?thesis
      unfolding deriveRevocationPrivkey_def deriveRevocationPubkey_def Let_def
      using mults False by (simp add: rbind_assoc flip: b)
  qed
qed

section \<open>Properties\<close>

text \<open>C10: the per-commitment private key a party derives from its basepoint secret is the one whose
  public key the counterparty derives from the basepoint, and the two derivations fail together.\<close>

theorem derived_key_matches:
  assumes "secp256k1_laws e pt" "scalar secret" "getPublicKey e secret = Inr basepoint"
    "scalar (sha256 (perCommitmentPoint @ basepoint))"
  shows "(rbind (derivePrivateKey e sha256 secret perCommitmentPoint basepoint) (getPublicKey e) = Inr key) =
    (derivePublicKey e sha256 basepoint perCommitmentPoint = Inr key)"
  by (rule derived_key_pair [OF assms(1-3)]) (rule assms(4))

theorem derived_key_matches_witness:
  "derivePublicKey ecc_mod (\<lambda>_. be_bytes 32 5) (pt_mod 7) (pt_mod 3) = Inr (pt_mod 12) \<and>
   rbind (derivePrivateKey ecc_mod (\<lambda>_. be_bytes 32 5) (be_bytes 32 7) (pt_mod 3) (pt_mod 7))
     (getPublicKey ecc_mod) = Inr (pt_mod 12)"
proof -
  have "derivePublicKey ecc_mod (\<lambda>_. be_bytes 32 5) (pt_mod 7) (pt_mod 3) = Inr (pt_mod 12)"
    by code_simp
  then show ?thesis
    using derived_key_matches [OF ecc_mod_laws small_scalar(1) small_pub(1), of "\<lambda>_. be_bytes 32 5" "pt_mod 3" "pt_mod 12"]
    by (simp add: small_scalar)
qed

text \<open>C9: the revocation private key a party derives once it learns a per-commitment secret is the one
  whose public key went into the revoked commitment, so a breach can be penalised; the two
  derivations fail together.\<close>

theorem revocation_key_matches:
  assumes "secp256k1_laws e pt" "scalar revocationSecret" "scalar perCommitmentSecret"
    "getPublicKey e revocationSecret = Inr revocationBp"
    "perCommitmentPointFromSecret e perCommitmentSecret = Inr point"
    "scalar (sha256 (revocationBp @ point))" "scalar (sha256 (point @ revocationBp))"
  shows "(rbind (deriveRevocationPrivkey e sha256 revocationSecret perCommitmentSecret revocationBp point)
      (getPublicKey e) = Inr key) =
    (deriveRevocationPubkey e sha256 revocationBp point = Inr key)"
  by (rule revocation_key_pair [OF assms])

theorem revocation_key_matches_witness:
  "deriveRevocationPubkey ecc_mod (\<lambda>_. be_bytes 32 5) (pt_mod 7) (pt_mod 5) = Inr (pt_mod 60) \<and>
   rbind (deriveRevocationPrivkey ecc_mod (\<lambda>_. be_bytes 32 5) (be_bytes 32 7) (be_bytes 32 5) (pt_mod 7) (pt_mod 5))
     (getPublicKey ecc_mod) = Inr (pt_mod 60)"
proof -
  have "deriveRevocationPubkey ecc_mod (\<lambda>_. be_bytes 32 5) (pt_mod 7) (pt_mod 5) = Inr (pt_mod 60)"
    by code_simp
  then show ?thesis
    using revocation_key_matches [OF ecc_mod_laws small_scalar small_pub(1),
        of "pt_mod 5" "\<lambda>_. be_bytes 32 5" "pt_mod 60"] small_pub(2)
    by (simp add: small_scalar perCommitmentPointFromSecret_def)
qed

end
