(* ===== verification/Scripts.thy ===== *)
theory Scripts
  imports Wire "HOL-Library.Multiset"
begin

text \<open>
  Output scripts: \<^verbatim>\<open>src/lightning/script/\<close> (\<^verbatim>\<open>anchor.ts\<close>, \<^verbatim>\<open>funding.ts\<close>, \<^verbatim>\<open>htlc.ts\<close>, the to_local script of
  \<^verbatim>\<open>commitment.ts\<close> and the outputs of \<^verbatim>\<open>commitment-taproot.ts\<close>). A script is the chunk list handed to the
  script compiler; the compiler, the payment templates and the hash functions are those of
  bitcoinjs-lib and are the fields of the parameter \<open>btc\<close>. Transactions are the data those builders
  fill in.
\<close>

section \<open>Definitions\<close>

subsection \<open>The transaction library\<close>

datatype opcode =
    OP_N nat
  | OP_IF
  | OP_NOTIF
  | OP_ELSE
  | OP_ENDIF
  | OP_DUP
  | OP_IFDUP
  | OP_DROP
  | OP_SWAP
  | OP_SIZE
  | OP_EQUAL
  | OP_EQUALVERIFY
  | OP_HASH160
  | OP_CHECKSIG
  | OP_CHECKSIGVERIFY
  | OP_CHECKMULTISIG
  | OP_CHECKSEQUENCEVERIFY
  | OP_CHECKLOCKTIMEVERIFY

datatype chunk = Op opcode | Push bytes

datatype taptree = TapLeaf bytes | TapNode taptree taptree

record btc =
  script_compile :: "chunk list \<Rightarrow> bytes"
  script_decompile :: "bytes \<Rightarrow> chunk list option"
  number_encode :: "int \<Rightarrow> bytes"
  number_decode :: "bytes \<Rightarrow> int res"
  p2wsh :: "bytes \<Rightarrow> bytes"
  p2wpkh :: "bytes \<Rightarrow> bytes"
  p2tr :: "bytes \<Rightarrow> taptree \<Rightarrow> bytes"
  sha256 :: "bytes \<Rightarrow> bytes"
  ripemd160 :: "bytes \<Rightarrow> bytes"

record tx_input =
  in_hash :: bytes
  in_index :: int
  in_sequence :: int

record tx_output =
  out_script :: bytes
  out_value :: int

record transaction =
  tx_version :: int
  tx_locktime :: int
  tx_ins :: "tx_input list"
  tx_outs :: "tx_output list"

text \<open>\<^verbatim>\<open>Buffer.compare\<close>: lexicographic by byte, a proper prefix first.\<close>

fun buffer_compare :: "bytes \<Rightarrow> bytes \<Rightarrow> int" where
  "buffer_compare [] [] = 0"
| "buffer_compare [] (_ # _) = - 1"
| "buffer_compare (_ # _) [] = 1"
| "buffer_compare (a # as) (b # bs) =
     (if uint a < uint b then - 1 else if uint b < uint a then 1 else buffer_compare as bs)"

text \<open>
  \<^verbatim>\<open>Array.prototype.sort\<close> with a comparator: the stable sort, which is the one the language prescribes for a
  consistent comparator.
\<close>

fun js_insert :: "('a \<Rightarrow> 'a \<Rightarrow> int) \<Rightarrow> 'a \<Rightarrow> 'a list \<Rightarrow> 'a list" where
  "js_insert cmp x [] = [x]"
| "js_insert cmp x (y # ys) = (if cmp x y \<le> 0 then x # y # ys else y # js_insert cmp x ys)"

definition js_sort :: "('a \<Rightarrow> 'a \<Rightarrow> int) \<Rightarrow> 'a list \<Rightarrow> 'a list" where
  "js_sort cmp xs = foldr (js_insert cmp) xs []"

subsection \<open>Funding output\<close>

definition createFundingScript :: "btc \<Rightarrow> bytes \<Rightarrow> bytes \<Rightarrow> bytes res" where
  "createFundingScript lib localFundingPubkey remoteFundingPubkey =
     throw_if (length localFundingPubkey \<noteq> 33 \<or> length remoteFundingPubkey \<noteq> 33)
       (Error ''Funding pubkeys must be 33 bytes compressed'' [])
     (let (pk1, pk2) = (if buffer_compare localFundingPubkey remoteFundingPubkey \<le> 0
                        then (localFundingPubkey, remoteFundingPubkey)
                        else (remoteFundingPubkey, localFundingPubkey))
      in Inr (script_compile lib [Op (OP_N 2), Push pk1, Push pk2, Op (OP_N 2), Op OP_CHECKMULTISIG]))"

subsection \<open>Anchor outputs\<close>

definition ANCHOR_OUTPUT_VALUE :: int where "ANCHOR_OUTPUT_VALUE = 330"

definition ANCHOR_TOTAL_COST :: int where "ANCHOR_TOTAL_COST = ANCHOR_OUTPUT_VALUE * 2"

definition buildAnchorScript :: "btc \<Rightarrow> bytes \<Rightarrow> bytes" where
  "buildAnchorScript lib fundingPubkey =
     script_compile lib [Push fundingPubkey, Op OP_CHECKSIG, Op OP_IFDUP, Op OP_NOTIF, Op (OP_N 16),
       Op OP_CHECKSEQUENCEVERIFY, Op OP_ENDIF]"

definition buildToRemoteAnchorScript :: "btc \<Rightarrow> bytes \<Rightarrow> int option \<Rightarrow> bytes" where
  "buildToRemoteAnchorScript lib remotePubkey leaseCsv =
     (let csv = (case leaseCsv of Some l \<Rightarrow> if l > 1 then l else 1 | None \<Rightarrow> 1)
      in script_compile lib [Push remotePubkey, Op OP_CHECKSIGVERIFY, Push (number_encode lib csv),
           Op OP_CHECKSEQUENCEVERIFY])"

definition leaseCsvFromToRemoteScript :: "btc \<Rightarrow> bytes \<Rightarrow> int option" where
  "leaseCsvFromToRemoteScript lib witnessScript =
     (case script_decompile lib witnessScript of
        Some [Push pubkey, Op checksigverify, Push csvNum, Op csv] \<Rightarrow>
          (if length pubkey \<noteq> 33 \<or> checksigverify \<noteq> OP_CHECKSIGVERIFY \<or> csv \<noteq> OP_CHECKSEQUENCEVERIFY
           then None
           else case number_decode lib csvNum of
             Inr v \<Rightarrow> if v > 1 then Some v else None
           | Inl _ \<Rightarrow> None)
      | _ \<Rightarrow> None)"

record script_output =
  so_script :: bytes
  so_witnessScript :: bytes

definition buildAnchorOutput :: "btc \<Rightarrow> bytes \<Rightarrow> script_output" where
  "buildAnchorOutput lib fundingPubkey =
     (let witnessScript = buildAnchorScript lib fundingPubkey
      in \<lparr>so_script = p2wsh lib witnessScript, so_witnessScript = witnessScript\<rparr>)"

definition buildToRemoteAnchorOutput :: "btc \<Rightarrow> bytes \<Rightarrow> int option \<Rightarrow> script_output" where
  "buildToRemoteAnchorOutput lib remotePubkey leaseCsv =
     (let witnessScript = buildToRemoteAnchorScript lib remotePubkey leaseCsv
      in \<lparr>so_script = p2wsh lib witnessScript, so_witnessScript = witnessScript\<rparr>)"

subsection \<open>The to_local script\<close>

definition buildToLocalScript :: "btc \<Rightarrow> bytes \<Rightarrow> bytes \<Rightarrow> int \<Rightarrow> int option \<Rightarrow> bytes" where
  "buildToLocalScript lib revocationPubkey localDelayedPubkey toSelfDelay leaseCsv =
     (let csv = (case leaseCsv of
                   Some l \<Rightarrow> if l > toSelfDelay then l else toSelfDelay
                 | None \<Rightarrow> toSelfDelay)
      in script_compile lib [Op OP_IF, Push revocationPubkey, Op OP_ELSE, Push (number_encode lib csv),
           Op OP_CHECKSEQUENCEVERIFY, Op OP_DROP, Push localDelayedPubkey, Op OP_ENDIF, Op OP_CHECKSIG])"

definition csvFromToLocalScript :: "btc \<Rightarrow> bytes \<Rightarrow> int option" where
  "csvFromToLocalScript lib witnessScript =
     (case script_decompile lib witnessScript of
        Some [opIf, Push revKey, opElse, csvNum, csv, dropOp, Push delayedKey, endif, checksig] \<Rightarrow>
          (if opIf \<noteq> Op OP_IF \<or> length revKey \<noteq> 33 \<or> opElse \<noteq> Op OP_ELSE
              \<or> csv \<noteq> Op OP_CHECKSEQUENCEVERIFY \<or> dropOp \<noteq> Op OP_DROP \<or> length delayedKey \<noteq> 33
              \<or> endif \<noteq> Op OP_ENDIF \<or> checksig \<noteq> Op OP_CHECKSIG
           then None
           else case csvNum of
             Push n \<Rightarrow> (case number_decode lib n of
                          Inr v \<Rightarrow> if v > 0 then Some v else None
                        | Inl _ \<Rightarrow> None)
           | Op (OP_N n) \<Rightarrow> if 1 \<le> n \<and> n \<le> 16 then Some (int n) else None
           | _ \<Rightarrow> None)
      | _ \<Rightarrow> None)"

subsection \<open>HTLC scripts and second-level transactions\<close>

text \<open>The one-block delay of anchor channels at the end of an HTLC script.\<close>

definition anchor_csv :: "btc \<Rightarrow> bool \<Rightarrow> chunk list" where
  "anchor_csv lib useAnchors =
     (if useAnchors then [Push (number_encode lib 1), Op OP_CHECKSEQUENCEVERIFY, Op OP_DROP] else [])"

definition buildOfferedHtlcScript ::
  "btc \<Rightarrow> bytes \<Rightarrow> bytes \<Rightarrow> bytes \<Rightarrow> bytes \<Rightarrow> bool \<Rightarrow> bytes res" where
  "buildOfferedHtlcScript lib revocationPubkey localHtlcPubkey remoteHtlcPubkey paymentHash useAnchors =
     throw_if (length paymentHash \<noteq> 32)
       (Error ''Payment hash must be 32 bytes'' [int (length paymentHash)])
     (let revocationHash = ripemd160 lib (sha256 lib revocationPubkey);
          ripemdPaymentHash = ripemd160 lib paymentHash
      in Inr (script_compile lib
        ([Op OP_DUP, Op OP_HASH160, Push revocationHash, Op OP_EQUAL, Op OP_IF, Op OP_CHECKSIG,
          Op OP_ELSE, Push remoteHtlcPubkey, Op OP_SWAP, Op OP_SIZE, Push (number_encode lib 32),
          Op OP_EQUAL, Op OP_NOTIF, Op OP_DROP, Op (OP_N 2), Op OP_SWAP, Push localHtlcPubkey,
          Op (OP_N 2), Op OP_CHECKMULTISIG, Op OP_ELSE, Op OP_HASH160, Push ripemdPaymentHash,
          Op OP_EQUALVERIFY, Op OP_CHECKSIG, Op OP_ENDIF]
         @ anchor_csv lib useAnchors @ [Op OP_ENDIF])))"

definition buildReceivedHtlcScript ::
  "btc \<Rightarrow> bytes \<Rightarrow> bytes \<Rightarrow> bytes \<Rightarrow> bytes \<Rightarrow> int \<Rightarrow> bool \<Rightarrow> bytes res" where
  "buildReceivedHtlcScript lib revocationPubkey localHtlcPubkey remoteHtlcPubkey paymentHash cltvExpiry
     useAnchors =
     throw_if (length paymentHash \<noteq> 32)
       (Error ''Payment hash must be 32 bytes'' [int (length paymentHash)])
     (let revocationHash = ripemd160 lib (sha256 lib revocationPubkey);
          ripemdPaymentHash = ripemd160 lib paymentHash
      in Inr (script_compile lib
        ([Op OP_DUP, Op OP_HASH160, Push revocationHash, Op OP_EQUAL, Op OP_IF, Op OP_CHECKSIG,
          Op OP_ELSE, Push remoteHtlcPubkey, Op OP_SWAP, Op OP_SIZE, Push (number_encode lib 32),
          Op OP_EQUAL, Op OP_IF, Op OP_HASH160, Push ripemdPaymentHash, Op OP_EQUALVERIFY, Op (OP_N 2),
          Op OP_SWAP, Push localHtlcPubkey, Op (OP_N 2), Op OP_CHECKMULTISIG, Op OP_ELSE, Op OP_DROP,
          Push (number_encode lib cltvExpiry), Op OP_CHECKLOCKTIMEVERIFY, Op OP_DROP, Op OP_CHECKSIG,
          Op OP_ENDIF]
         @ anchor_csv lib useAnchors @ [Op OP_ENDIF])))"

definition buildHtlcOutputScript :: "btc \<Rightarrow> bytes \<Rightarrow> bytes \<Rightarrow> int \<Rightarrow> bytes" where
  "buildHtlcOutputScript lib revocationPubkey localDelayedPubkey toSelfDelay =
     script_compile lib [Op OP_IF, Push revocationPubkey, Op OP_ELSE,
       Push (number_encode lib toSelfDelay), Op OP_CHECKSEQUENCEVERIFY, Op OP_DROP,
       Push localDelayedPubkey, Op OP_ENDIF, Op OP_CHECKSIG]"

text \<open>The transaction ids are given as bytes in display order.\<close>

definition buildHtlcSuccessTx ::
  "btc \<Rightarrow> bytes \<Rightarrow> int \<Rightarrow> int \<Rightarrow> bytes \<Rightarrow> bytes \<Rightarrow> int \<Rightarrow> int \<Rightarrow> bool \<Rightarrow> transaction" where
  "buildHtlcSuccessTx lib htlcTxid htlcOutputIndex htlcAmount revocationPubkey localDelayedPubkey
     toSelfDelay feeSatoshis zeroFee =
     \<lparr>tx_version = 2, tx_locktime = 0,
      tx_ins = [\<lparr>in_hash = rev htlcTxid, in_index = htlcOutputIndex,
                 in_sequence = (if zeroFee then 1 else 0)\<rparr>],
      tx_outs = [\<lparr>out_script = p2wsh lib
                    (buildHtlcOutputScript lib revocationPubkey localDelayedPubkey toSelfDelay),
                  out_value = (if zeroFee then htlcAmount else htlcAmount - feeSatoshis)\<rparr>]\<rparr>"

definition buildHtlcTimeoutTx ::
  "btc \<Rightarrow> bytes \<Rightarrow> int \<Rightarrow> int \<Rightarrow> int \<Rightarrow> bytes \<Rightarrow> bytes \<Rightarrow> int \<Rightarrow> int \<Rightarrow> bool \<Rightarrow> transaction" where
  "buildHtlcTimeoutTx lib htlcTxid htlcOutputIndex htlcAmount cltvExpiry revocationPubkey
     localDelayedPubkey toSelfDelay feeSatoshis zeroFee =
     \<lparr>tx_version = 2, tx_locktime = cltvExpiry,
      tx_ins = [\<lparr>in_hash = rev htlcTxid, in_index = htlcOutputIndex,
                 in_sequence = (if zeroFee then 1 else 0)\<rparr>],
      tx_outs = [\<lparr>out_script = p2wsh lib
                    (buildHtlcOutputScript lib revocationPubkey localDelayedPubkey toSelfDelay),
                  out_value = (if zeroFee then htlcAmount else htlcAmount - feeSatoshis)\<rparr>]\<rparr>"

subsection \<open>Taproot outputs\<close>

text \<open>
  The scriptPubKey (\<^verbatim>\<open>.output\<close>) of each taproot commitment output; the control blocks and addresses that
  the source also returns come from the same call of the library and are left out.
\<close>

definition TAPROOT_NUMS_KEY :: bytes where
  "TAPROOT_NUMS_KEY =
     be_bytes 32 0xdca094751109d0bd055d03565874e8276dd53e926b44e3bd1bb6bf4bc130a279"

definition toXOnly :: "bytes \<Rightarrow> bytes res" where
  "toXOnly pubkey =
     (if length pubkey = 32 then Inr pubkey
      else throw_if (length pubkey \<noteq> 33) (Error ''Expected 33-byte compressed or 32-byte x-only key'' [])
        (Inr (drop 1 pubkey)))"

definition buildTaprootToLocalDelayScript :: "btc \<Rightarrow> bytes \<Rightarrow> int \<Rightarrow> bytes res" where
  "buildTaprootToLocalDelayScript lib localDelayedPubkey toSelfDelay =
     rbind (toXOnly localDelayedPubkey) (\<lambda>key. Inr (script_compile lib
       [Push key, Op OP_CHECKSIG, Push (number_encode lib toSelfDelay), Op OP_CHECKSEQUENCEVERIFY,
        Op OP_DROP]))"

definition buildTaprootToLocalRevokeScript :: "btc \<Rightarrow> bytes \<Rightarrow> bytes \<Rightarrow> bytes res" where
  "buildTaprootToLocalRevokeScript lib revocationPubkey localDelayedPubkey =
     rbind (toXOnly localDelayedPubkey) (\<lambda>delayed.
     rbind (toXOnly revocationPubkey) (\<lambda>revocation. Inr (script_compile lib
       [Push delayed, Op OP_DROP, Push revocation, Op OP_CHECKSIG])))"

definition buildTaprootToRemoteScript :: "btc \<Rightarrow> bytes \<Rightarrow> bytes res" where
  "buildTaprootToRemoteScript lib remotePubkey =
     rbind (toXOnly remotePubkey) (\<lambda>key. Inr (script_compile lib
       [Push key, Op OP_CHECKSIG, Push (number_encode lib 1), Op OP_CHECKSEQUENCEVERIFY, Op OP_DROP]))"

definition buildTaprootToLocalOutput :: "btc \<Rightarrow> bytes \<Rightarrow> bytes \<Rightarrow> int \<Rightarrow> bytes res" where
  "buildTaprootToLocalOutput lib revocationPubkey localDelayedPubkey toSelfDelay =
     rbind (buildTaprootToLocalDelayScript lib localDelayedPubkey toSelfDelay) (\<lambda>delayScript.
     rbind (buildTaprootToLocalRevokeScript lib revocationPubkey localDelayedPubkey) (\<lambda>revokeScript.
     Inr (p2tr lib TAPROOT_NUMS_KEY (TapNode (TapLeaf delayScript) (TapLeaf revokeScript)))))"

definition buildTaprootToRemoteOutput :: "btc \<Rightarrow> bytes \<Rightarrow> bytes res" where
  "buildTaprootToRemoteOutput lib remotePubkey =
     rbind (buildTaprootToRemoteScript lib remotePubkey) (\<lambda>leaf.
     Inr (p2tr lib TAPROOT_NUMS_KEY (TapLeaf leaf)))"

definition buildTaprootOfferedHtlcSuccessLeaf :: "btc \<Rightarrow> bytes \<Rightarrow> bytes \<Rightarrow> bytes res" where
  "buildTaprootOfferedHtlcSuccessLeaf lib remoteHtlcPubkey paymentHash =
     rbind (toXOnly remoteHtlcPubkey) (\<lambda>remote. Inr (script_compile lib
       [Op OP_SIZE, Push (number_encode lib 32), Op OP_EQUALVERIFY, Op OP_HASH160,
        Push (ripemd160 lib paymentHash), Op OP_EQUALVERIFY, Push remote, Op OP_CHECKSIG, Op (OP_N 1),
        Op OP_CHECKSEQUENCEVERIFY, Op OP_DROP]))"

definition buildTaprootOfferedHtlcTimeoutLeaf :: "btc \<Rightarrow> bytes \<Rightarrow> bytes \<Rightarrow> bytes res" where
  "buildTaprootOfferedHtlcTimeoutLeaf lib localHtlcPubkey remoteHtlcPubkey =
     rbind (toXOnly localHtlcPubkey) (\<lambda>local.
     rbind (toXOnly remoteHtlcPubkey) (\<lambda>remote. Inr (script_compile lib
       [Push local, Op OP_CHECKSIGVERIFY, Push remote, Op OP_CHECKSIG])))"

definition buildTaprootReceivedHtlcSuccessLeaf :: "btc \<Rightarrow> bytes \<Rightarrow> bytes \<Rightarrow> bytes \<Rightarrow> bytes res" where
  "buildTaprootReceivedHtlcSuccessLeaf lib localHtlcPubkey remoteHtlcPubkey paymentHash =
     rbind (toXOnly localHtlcPubkey) (\<lambda>local.
     rbind (toXOnly remoteHtlcPubkey) (\<lambda>remote. Inr (script_compile lib
       [Op OP_SIZE, Push (number_encode lib 32), Op OP_EQUALVERIFY, Op OP_HASH160,
        Push (ripemd160 lib paymentHash), Op OP_EQUALVERIFY, Push local, Op OP_CHECKSIGVERIFY,
        Push remote, Op OP_CHECKSIG])))"

definition buildTaprootReceivedHtlcTimeoutLeaf :: "btc \<Rightarrow> bytes \<Rightarrow> int \<Rightarrow> bytes res" where
  "buildTaprootReceivedHtlcTimeoutLeaf lib remoteHtlcPubkey cltvExpiry =
     rbind (toXOnly remoteHtlcPubkey) (\<lambda>remote. Inr (script_compile lib
       [Push remote, Op OP_CHECKSIG, Op (OP_N 1), Op OP_CHECKSEQUENCEVERIFY, Op OP_DROP,
        Push (number_encode lib cltvExpiry), Op OP_CHECKLOCKTIMEVERIFY, Op OP_DROP]))"

definition assembleHtlcOutput :: "btc \<Rightarrow> bytes \<Rightarrow> bytes \<Rightarrow> bytes \<Rightarrow> bytes res" where
  "assembleHtlcOutput lib revocationPubkey successScript timeoutScript =
     rbind (toXOnly revocationPubkey) (\<lambda>internalPubkey.
     Inr (p2tr lib internalPubkey (TapNode (TapLeaf successScript) (TapLeaf timeoutScript))))"

definition buildTaprootOfferedHtlcOutput :: "btc \<Rightarrow> bytes \<Rightarrow> bytes \<Rightarrow> bytes \<Rightarrow> bytes \<Rightarrow> bytes res" where
  "buildTaprootOfferedHtlcOutput lib revocationPubkey localHtlcPubkey remoteHtlcPubkey paymentHash =
     rbind (buildTaprootOfferedHtlcSuccessLeaf lib remoteHtlcPubkey paymentHash) (\<lambda>successLeaf.
     rbind (buildTaprootOfferedHtlcTimeoutLeaf lib localHtlcPubkey remoteHtlcPubkey) (\<lambda>timeoutLeaf.
     assembleHtlcOutput lib revocationPubkey successLeaf timeoutLeaf))"

definition buildTaprootAnchorLeaf :: "btc \<Rightarrow> bytes" where
  "buildTaprootAnchorLeaf lib = script_compile lib [Op (OP_N 16), Op OP_CHECKSEQUENCEVERIFY]"

definition buildTaprootAnchorOutput :: "btc \<Rightarrow> bytes \<Rightarrow> bytes res" where
  "buildTaprootAnchorOutput lib fundingPubkey =
     rbind (toXOnly fundingPubkey) (\<lambda>internalPubkey.
     Inr (p2tr lib internalPubkey (TapLeaf (buildTaprootAnchorLeaf lib))))"

definition buildTaprootReceivedHtlcOutput ::
  "btc \<Rightarrow> bytes \<Rightarrow> bytes \<Rightarrow> bytes \<Rightarrow> bytes \<Rightarrow> int \<Rightarrow> bytes res" where
  "buildTaprootReceivedHtlcOutput lib revocationPubkey localHtlcPubkey remoteHtlcPubkey paymentHash
     cltvExpiry =
     rbind (buildTaprootReceivedHtlcSuccessLeaf lib localHtlcPubkey remoteHtlcPubkey paymentHash)
       (\<lambda>successLeaf.
     rbind (buildTaprootReceivedHtlcTimeoutLeaf lib remoteHtlcPubkey cltvExpiry) (\<lambda>timeoutLeaf.
     assembleHtlcOutput lib revocationPubkey successLeaf timeoutLeaf))"

section \<open>Byte order\<close>

lemma buffer_compare_refl [simp]: "buffer_compare a a = 0"
  by (induction a) simp_all

lemma buffer_compare_eq: "buffer_compare a b = 0 \<longleftrightarrow> a = b"
  by (induction a b rule: buffer_compare.induct) (auto simp: word_uint_eq_iff)

lemma buffer_compare_neg: "buffer_compare b a = - buffer_compare a b"
  by (induction a b rule: buffer_compare.induct) auto

lemma buffer_compare_trans:
  "buffer_compare a b \<le> 0 \<Longrightarrow> buffer_compare b c \<le> 0 \<Longrightarrow> buffer_compare a c \<le> 0"
proof (induction a b arbitrary: c rule: buffer_compare.induct)
  case (4 x xs y ys)
  show ?case
  proof (cases c)
    case Nil
    then show ?thesis using "4.prems"(2) by simp
  next
    case (Cons z zs)
    have "uint x < uint y \<or> (uint x = uint y \<and> buffer_compare xs ys \<le> 0)"
      using "4.prems"(1) by (force split: if_split_asm)
    moreover have "uint y < uint z \<or> (uint y = uint z \<and> buffer_compare ys zs \<le> 0)"
      using "4.prems"(2) Cons by (force split: if_split_asm)
    ultimately show ?thesis
      using "4.IH" [of zs] by (elim disjE conjE) (simp_all add: Cons)
  qed
next
  case (2 y ys)
  then show ?case by (cases c) simp_all
next
  case 1
  then show ?case by simp
next
  case (3 x xs)
  then show ?case by simp
qed

lemma buffer_compare_antisym: "buffer_compare a b \<le> 0 \<Longrightarrow> buffer_compare b a \<le> 0 \<Longrightarrow> a = b"
  using buffer_compare_neg [of a b] by (simp add: buffer_compare_eq [symmetric])

lemma mset_js_insert [simp]: "mset (js_insert cmp x xs) = add_mset x (mset xs)"
  by (induction xs) auto

lemma mset_js_sort [simp]: "mset (js_sort cmp xs) = mset xs"
  unfolding js_sort_def by (induction xs) simp_all

lemma set_js_sort [simp]: "set (js_sort cmp xs) = set xs"
  by (metis mset_js_sort set_mset_mset)

lemma length_js_sort [simp]: "length (js_sort cmp xs) = length xs"
  by (metis mset_js_sort size_mset)

text \<open>
  A list sorted by a comparator is sorted by every preorder the comparator respects, also where the
  comparator refines it.
\<close>

lemma js_sort_sorted:
  assumes le: "\<And>a b. cmp a b \<le> 0 \<Longrightarrow> le a b" and ge: "\<And>a b. \<not> cmp a b \<le> 0 \<Longrightarrow> le b a"
    and trans: "\<And>a b c. le a b \<Longrightarrow> le b c \<Longrightarrow> le a c"
  shows "sorted_wrt le (js_sort cmp xs)"
proof -
  have "sorted_wrt le (js_insert cmp x ys)" if "sorted_wrt le ys" for x ys
    using that
  proof (induction ys)
    case (Cons y ys)
    have "set (js_insert cmp x ys) = insert x (set ys)"
      using mset_js_insert [of cmp x ys] by (metis set_mset_add_mset_insert set_mset_mset)
    then show ?case using Cons le ge trans by fastforce
  qed simp
  then show ?thesis unfolding js_sort_def by (induction xs) simp_all
qed

lemma sorted_wrt_unique:
  assumes antisym: "\<And>a b. le a b \<Longrightarrow> le b a \<Longrightarrow> a = b"
    and "sorted_wrt le xs" "sorted_wrt le ys" "mset xs = mset ys"
  shows "xs = ys"
  using assms(2-4)
proof (induction xs arbitrary: ys)
  case (Cons x xs)
  then obtain y zs where ys: "ys = y # zs" by (cases ys) auto
  have "x = y"
  proof (rule ccontr)
    assume "x \<noteq> y"
    then have "y \<in> set xs" "x \<in> set zs"
      using Cons.prems(3) ys by (metis insert_iff list.simps(15) set_mset_mset)+
    then have "le x y" "le y x" using Cons.prems(1,2) ys by auto
    then show False using antisym \<open>x \<noteq> y\<close> by blast
  qed
  then show ?case using Cons ys by simp
qed simp

lemma createFundingScript_sym:
  "createFundingScript lib a b = createFundingScript lib b a"
proof (cases "a = b")
  case False
  then have "buffer_compare a b \<noteq> 0" by (simp add: buffer_compare_eq)
  then have "buffer_compare a b \<le> 0 \<longleftrightarrow> \<not> buffer_compare b a \<le> 0"
    using buffer_compare_neg [of a b] by auto
  then show ?thesis by (auto simp: createFundingScript_def throw_if_def)
qed simp

end
