(* ===== verification/CommitmentTx.thy ===== *)
theory CommitmentTx
  imports Scripts
begin

text \<open>
  The commitment transaction: \<^verbatim>\<open>src/lightning/script/commitment.ts\<close>, and the reader of its commitment number,
  \<^verbatim>\<open>extractCommitmentNumber\<close> of \<^verbatim>\<open>src/lightning/chain/output-resolver.ts\<close>. The parameter record, the output
  entries and the output map have the source's fields; a funding transaction id is its bytes.
\<close>

unbundle bit_operations_syntax

section \<open>Definitions\<close>

definition DUST_LIMIT_P2WSH :: int where "DUST_LIMIT_P2WSH = 546"
definition DUST_LIMIT_P2WPKH :: int where "DUST_LIMIT_P2WPKH = 294"

definition obscureMask :: "btc \<Rightarrow> bytes \<Rightarrow> bytes \<Rightarrow> int" where
  "obscureMask lib openPaymentBasepoint acceptPaymentBasepoint =
     (let hash = sha256 lib (openPaymentBasepoint @ acceptPaymentBasepoint)
      in foldl (\<lambda>mask i. push_bit 8 mask OR uint (hash ! i)) 0 [26..<32])"

definition calculateObscuredCommitmentNumber :: "btc \<Rightarrow> bytes \<Rightarrow> bytes \<Rightarrow> int \<Rightarrow> int" where
  "calculateObscuredCommitmentNumber lib openPaymentBasepoint acceptPaymentBasepoint commitmentNumber =
     commitmentNumber XOR obscureMask lib openPaymentBasepoint acceptPaymentBasepoint"

record IHtlcOutput =
  ho_script :: bytes
  ho_amount :: int
  ho_cltvExpiry :: int
  ho_paymentHash :: bytes
  ho_taprootScript :: "bytes option"

record 'h ICommitmentTxParams =
  p_fundingTxid :: bytes
  p_fundingOutputIndex :: int
  p_fundingAmount :: int
  p_obscuredCommitmentNumber :: int
  p_localAmount :: int
  p_revocationPubkey :: bytes
  p_localDelayedPubkey :: bytes
  p_toSelfDelay :: int
  p_leaseCsv :: "int option"
  p_remoteAmount :: int
  p_remotePaymentPubkey :: bytes
  p_toRemoteLeaseCsv :: "int option"
  p_htlcOutputs :: "'h list option"
  p_dustLimitSatoshis :: "int option"
  p_useAnchors :: bool
  p_localFundingPubkey :: "bytes option"
  p_remoteFundingPubkey :: "bytes option"
  p_taprootToLocalScript :: "bytes option"
  p_taprootToRemoteScript :: "bytes option"
  p_taprootAnchorLocalScript :: "bytes option"
  p_taprootAnchorRemoteScript :: "bytes option"

datatype OutputKind = to_local | to_remote | htlc | anchor_local | anchor_remote

record IOutputEntry =
  oe_script :: bytes
  oe_value :: int
  oe_sortKey :: bytes
  oe_type :: OutputKind
  oe_htlcIndex :: "nat option"
  oe_cltvExpiry :: "int option"

definition output_entry :: "bytes \<Rightarrow> int \<Rightarrow> OutputKind \<Rightarrow> IOutputEntry" where
  "output_entry spk v kind = \<lparr>oe_script = spk, oe_value = v, oe_sortKey = spk, oe_type = kind,
     oe_htlcIndex = None, oe_cltvExpiry = None\<rparr>"

record IOutputMap =
  om_toLocal :: "nat option"
  om_toRemote :: "nat option"
  om_htlcs :: "nat list"
  om_htlcOriginalIndices :: "nat list"
  om_anchorLocal :: "nat option"
  om_anchorRemote :: "nat option"

record ICommitmentTxResult =
  ct_tx :: transaction
  ct_toLocalScript :: "bytes option"
  ct_toRemoteScript :: "bytes option"
  ct_outputMap :: IOutputMap

definition dustWsh :: "'h ICommitmentTxParams \<Rightarrow> int" where
  "dustWsh params = (case p_dustLimitSatoshis params of Some d \<Rightarrow> d | None \<Rightarrow> DUST_LIMIT_P2WSH)"

definition dustWpkh :: "'h ICommitmentTxParams \<Rightarrow> int" where
  "dustWpkh params = (case p_dustLimitSatoshis params of Some d \<Rightarrow> d | None \<Rightarrow> DUST_LIMIT_P2WPKH)"

definition toLocalOutput :: "btc \<Rightarrow> 'h ICommitmentTxParams \<Rightarrow> IOutputEntry list \<times> bytes option" where
  "toLocalOutput lib params =
     (if p_localAmount params \<ge> dustWsh params then
        (case p_taprootToLocalScript params of
           Some spk \<Rightarrow> ([output_entry spk (p_localAmount params) to_local], None)
         | None \<Rightarrow>
             (let script = buildToLocalScript lib (p_revocationPubkey params)
                    (p_localDelayedPubkey params) (p_toSelfDelay params) (p_leaseCsv params)
              in ([output_entry (p2wsh lib script) (p_localAmount params) to_local], Some script)))
      else ([], None))"

definition toRemoteOutput ::
  "btc \<Rightarrow> 'h ICommitmentTxParams \<Rightarrow> (IOutputEntry list \<times> bytes option) res" where
  "toRemoteOutput lib params =
     (case p_taprootToRemoteScript params of
        Some spk \<Rightarrow>
          throw_if (p_toRemoteLeaseCsv params \<noteq> None)
            (Error ''toRemoteLeaseCsv is not supported on taproot commitments.'' [])
          (Inr (if p_remoteAmount params \<ge> dustWsh params
                then [output_entry spk (p_remoteAmount params) to_remote] else [], None))
      | None \<Rightarrow>
          (if p_useAnchors params then
             (if p_remoteAmount params \<ge> dustWsh params then
                (let out = buildToRemoteAnchorOutput lib (p_remotePaymentPubkey params)
                       (p_toRemoteLeaseCsv params)
                 in Inr ([output_entry (so_script out) (p_remoteAmount params) to_remote],
                         Some (so_witnessScript out)))
              else Inr ([], None))
           else
             throw_if (p_toRemoteLeaseCsv params \<noteq> None)
               (Error ''toRemoteLeaseCsv requires an anchor (P2WSH confirmed) to_remote.'' [])
             (Inr (if p_remoteAmount params \<ge> dustWpkh params
                   then [output_entry (p2wpkh lib (p_remotePaymentPubkey params))
                           (p_remoteAmount params) to_remote]
                   else [], None))))"

definition htlcSpk :: "btc \<Rightarrow> 'a IHtlcOutput_scheme \<Rightarrow> bytes" where
  "htlcSpk lib h = (case ho_taprootScript h of Some spk \<Rightarrow> spk | None \<Rightarrow> p2wsh lib (ho_script h))"

definition htlcEntries :: "btc \<Rightarrow> int \<Rightarrow> 'a IHtlcOutput_scheme list \<Rightarrow> IOutputEntry list" where
  "htlcEntries lib dust htlcs =
     map (\<lambda>i. let h = htlcs ! i in
            \<lparr>oe_script = htlcSpk lib h, oe_value = ho_amount h, oe_sortKey = htlcSpk lib h,
             oe_type = htlc, oe_htlcIndex = Some i, oe_cltvExpiry = Some (ho_cltvExpiry h)\<rparr>)
       (List.filter (\<lambda>i. ho_amount (htlcs ! i) \<ge> dust) [0..<length htlcs])"

definition anchorEntries ::
  "btc \<Rightarrow> 'h ICommitmentTxParams \<Rightarrow> IOutputEntry list \<Rightarrow> IOutputEntry list" where
  "anchorEntries lib params outputs =
     (case (p_useAnchors params, p_localFundingPubkey params, p_remoteFundingPubkey params) of
        (True, Some localFunding, Some remoteFunding) \<Rightarrow>
          (let hasUntrimmedHtlcs = list_ex (\<lambda>o1. oe_type o1 = htlc) outputs;
               hasToLocal = list_ex (\<lambda>o1. oe_type o1 = to_local) outputs;
               hasToRemote = list_ex (\<lambda>o1. oe_type o1 = to_remote) outputs
           in (if hasToLocal \<or> hasUntrimmedHtlcs then
                 [output_entry
                    (case p_taprootAnchorLocalScript params of
                       Some spk \<Rightarrow> spk | None \<Rightarrow> so_script (buildAnchorOutput lib localFunding))
                    ANCHOR_OUTPUT_VALUE anchor_local]
               else []) @
              (if hasToRemote \<or> hasUntrimmedHtlcs then
                 [output_entry
                    (case p_taprootAnchorRemoteScript params of
                       Some spk \<Rightarrow> spk | None \<Rightarrow> so_script (buildAnchorOutput lib remoteFunding))
                    ANCHOR_OUTPUT_VALUE anchor_remote]
               else []))
      | _ \<Rightarrow> [])"

definition compareOutputs :: "IOutputEntry \<Rightarrow> IOutputEntry \<Rightarrow> int" where
  "compareOutputs a b =
     (if oe_value a \<noteq> oe_value b then (if oe_value a < oe_value b then - 1 else 1)
      else let byScript = buffer_compare (oe_sortKey a) (oe_sortKey b) in
        if byScript \<noteq> 0 then byScript
        else case (oe_type a, oe_type b, oe_cltvExpiry a, oe_cltvExpiry b) of
          (htlc, htlc, Some ca, Some cb) \<Rightarrow> ca - cb
        | _ \<Rightarrow> 0)"

fun mapOutputs :: "nat \<Rightarrow> IOutputEntry list \<Rightarrow> IOutputMap \<Rightarrow> IOutputMap" where
  "mapOutputs i [] om = om"
| "mapOutputs i (o1 # os) om = mapOutputs (Suc i) os
     (case oe_type o1 of
        to_local \<Rightarrow> om\<lparr>om_toLocal := Some i\<rparr>
      | to_remote \<Rightarrow> om\<lparr>om_toRemote := Some i\<rparr>
      | htlc \<Rightarrow> om\<lparr>om_htlcs := om_htlcs om @ [i],
                 om_htlcOriginalIndices := om_htlcOriginalIndices om @ [the (oe_htlcIndex o1)]\<rparr>
      | anchor_local \<Rightarrow> om\<lparr>om_anchorLocal := Some i\<rparr>
      | anchor_remote \<Rightarrow> om\<lparr>om_anchorRemote := Some i\<rparr>)"

definition emptyOutputMap :: IOutputMap where
  "emptyOutputMap = \<lparr>om_toLocal = None, om_toRemote = None, om_htlcs = [],
     om_htlcOriginalIndices = [], om_anchorLocal = None, om_anchorRemote = None\<rparr>"

definition commitmentLocktime :: "int \<Rightarrow> int" where
  "commitmentLocktime obscured = 0x20000000 OR (obscured AND 0xffffff)"

definition commitmentSequence :: "int \<Rightarrow> int" where
  "commitmentSequence obscured = 0x80000000 OR (drop_bit 24 obscured AND 0xffffff)"

definition commitmentOutputs ::
  "btc \<Rightarrow> 'a IHtlcOutput_scheme ICommitmentTxParams \<Rightarrow>
     (IOutputEntry list \<times> bytes option \<times> bytes option) res" where
  "commitmentOutputs lib params =
     (let (localOut, toLocalScript) = toLocalOutput lib params in
      rbind (toRemoteOutput lib params) (\<lambda>(remoteOut, toRemoteScript).
      let outputs = localOut @ remoteOut @
            (case p_htlcOutputs params of
               None \<Rightarrow> [] | Some hs \<Rightarrow> htlcEntries lib (dustWsh params) hs)
      in Inr (outputs @ anchorEntries lib params outputs, toLocalScript, toRemoteScript)))"

definition buildCommitmentTx ::
  "btc \<Rightarrow> 'a IHtlcOutput_scheme ICommitmentTxParams \<Rightarrow> ICommitmentTxResult res" where
  "buildCommitmentTx lib params =
     rbind (commitmentOutputs lib params) (\<lambda>(unsorted, toLocalScript, toRemoteScript).
     let outputs = js_sort compareOutputs unsorted in
     Inr \<lparr>ct_tx = \<lparr>tx_version = 2,
            tx_locktime = commitmentLocktime (p_obscuredCommitmentNumber params),
            tx_ins = [\<lparr>in_hash = p_fundingTxid params, in_index = p_fundingOutputIndex params,
                       in_sequence = commitmentSequence (p_obscuredCommitmentNumber params)\<rparr>],
            tx_outs = map (\<lambda>o1. \<lparr>out_script = oe_script o1, out_value = oe_value o1\<rparr>) outputs\<rparr>,
          ct_toLocalScript = toLocalScript, ct_toRemoteScript = toRemoteScript,
          ct_outputMap = mapOutputs 0 outputs emptyOutputMap\<rparr>)"

definition sortCommitmentOutputs :: "tx_output list \<Rightarrow> tx_output list" where
  "sortCommitmentOutputs outputs =
     js_sort (\<lambda>a b. if out_value a \<noteq> out_value b then (if out_value a < out_value b then - 1 else 1)
                    else buffer_compare (out_script a) (out_script b)) outputs"

definition extractCommitmentNumber :: "btc \<Rightarrow> transaction \<Rightarrow> bytes \<Rightarrow> bytes \<Rightarrow> int" where
  "extractCommitmentNumber lib tx openPaymentBasepoint acceptPaymentBasepoint =
     (let lower24 = tx_locktime tx AND 0xffffff;
          upper24 = in_sequence (tx_ins tx ! 0) AND 0xffffff;
          obscured = push_bit 24 upper24 OR lower24
      in obscured XOR obscureMask lib openPaymentBasepoint acceptPaymentBasepoint)"

section \<open>The commitment number\<close>

lemma or_shift_bounds:
  assumes "0 \<le> (m :: int)" "m < 2 ^ k"
  shows "0 \<le> push_bit 8 m OR uint (b :: byte) \<and> push_bit 8 m OR uint b < 2 ^ (k + 8)"
proof -
  have "push_bit 8 m < 2 ^ (k + 8)" "0 \<le> push_bit 8 m"
    using assms by (simp_all add: push_bit_eq_mult power_add)
  moreover have "uint b < 2 ^ (k + 8)"
  proof -
    have "(256 :: int) \<le> 2 ^ (k + 8)" using power_increasing [of 8 "k + 8" "2 :: int"] by simp
    then show ?thesis using uint_byte_bounds [of b] by linarith
  qed
  ultimately show ?thesis by (simp add: OR_upper or_nonnegative_int_iff)
qed

lemma obscureMask_bounds: "0 \<le> obscureMask lib a b" "obscureMask lib a b < 2 ^ 48"
proof -
  have "0 \<le> foldl (\<lambda>mask i. push_bit 8 mask OR uint (h i :: byte)) m is \<and>
      foldl (\<lambda>mask i. push_bit 8 mask OR uint (h i)) m is < 2 ^ (k + 8 * length is)"
    if "0 \<le> m" "m < 2 ^ k" for h :: "nat \<Rightarrow> byte" and m :: int and k "is"
    using that
  proof (induction "is" arbitrary: m k)
    case (Cons i "is")
    show ?case using Cons.IH [of _ "k + 8"] or_shift_bounds [OF Cons.prems, of "h i"]
      by (simp add: add.assoc)
  qed simp
  from this [of 0 0 "\<lambda>i. sha256 lib (a @ b) ! i" "[26..<32]"]
  show "0 \<le> obscureMask lib a b" "obscureMask lib a b < 2 ^ 48"
    unfolding obscureMask_def Let_def by (simp_all del: upt_rec_numeral)
qed

lemma mask24: "bit (0xffffff :: int) n \<longleftrightarrow> n < 24"
proof -
  have "(0xffffff :: int) = mask 24" by (simp add: mask_eq_exp_minus_1)
  then show ?thesis by (simp only: bit_mask_iff) simp
qed

lemma bit_high: "0 \<le> (x :: int) \<Longrightarrow> x < 2 ^ k \<Longrightarrow> k \<le> n \<Longrightarrow> \<not> bit x n"
  using less_le_trans [of x "2 ^ k" "2 ^ n"] by (simp add: bit_iff_odd)

lemma locktime_flag: "bit (0x20000000 :: int) n \<longleftrightarrow> n = 29" "bit (0x80000000 :: int) n \<longleftrightarrow> n = 31"
  using bit_exp_iff [where ?'a = int, of 29 n] bit_exp_iff [where ?'a = int, of 31 n] by simp_all

lemma obscured_split:
  assumes "0 \<le> x" "x < 2 ^ 48"
  shows "push_bit 24 (commitmentSequence x AND 0xffffff) OR (commitmentLocktime x AND 0xffffff) = x"
proof (rule bit_eqI)
  fix n
  show "bit (push_bit 24 (commitmentSequence x AND 0xffffff) OR (commitmentLocktime x AND 0xffffff)) n = bit x n"
    using bit_high [OF assms, of n]
    unfolding commitmentSequence_def commitmentLocktime_def bit_or_iff bit_and_iff bit_push_bit_iff_int
      bit_drop_bit_eq comp_def mask24 locktime_flag
    by (cases "n < 24"; cases "n < 48") auto
qed

section \<open>The output list\<close>

definition entry_out :: "IOutputEntry \<Rightarrow> tx_output" where
  "entry_out o1 = \<lparr>out_script = oe_script o1, out_value = oe_value o1\<rparr>"

lemma buildCommitmentTx_inv:
  assumes "buildCommitmentTx lib params = Inr r"
  obtains U a b where "commitmentOutputs lib params = Inr (U, a, b)"
    "tx_outs (ct_tx r) = map entry_out (js_sort compareOutputs U)"
    "ct_outputMap r = mapOutputs 0 (js_sort compareOutputs U) emptyOutputMap"
    "tx_locktime (ct_tx r) = commitmentLocktime (p_obscuredCommitmentNumber params)"
    "in_sequence (tx_ins (ct_tx r) ! 0) = commitmentSequence (p_obscuredCommitmentNumber params)"
  using assms unfolding buildCommitmentTx_def by (auto simp: rbind_eq_Inr Let_def entry_out_def fun_eq_iff)

definition out_le :: "tx_output \<Rightarrow> tx_output \<Rightarrow> bool" where
  "out_le a b \<longleftrightarrow> out_value a < out_value b \<or>
     (out_value a = out_value b \<and> buffer_compare (out_script a) (out_script b) \<le> 0)"

lemma out_le_trans: "out_le a b \<Longrightarrow> out_le b c \<Longrightarrow> out_le a c"
  unfolding out_le_def using buffer_compare_trans [of "out_script a" "out_script b" "out_script c"] by auto

lemma out_le_antisym: "out_le a b \<Longrightarrow> out_le b a \<Longrightarrow> a = b"
  unfolding out_le_def using buffer_compare_antisym [of "out_script a" "out_script b"] by auto

definition keyed :: "IOutputEntry \<Rightarrow> bool" where
  "keyed o1 \<longleftrightarrow> oe_sortKey o1 = oe_script o1"

lemma compareOutputs_le:
  assumes "keyed a" "keyed b"
  shows "compareOutputs a b \<le> 0 \<Longrightarrow> out_le (entry_out a) (entry_out b)"
    "\<not> compareOutputs a b \<le> 0 \<Longrightarrow> out_le (entry_out b) (entry_out a)"
  using assms buffer_compare_neg [of "oe_script a" "oe_script b"]
  by (auto simp: compareOutputs_def out_le_def entry_out_def keyed_def Let_def buffer_compare_eq split: if_splits)

lemma js_insert_outputs:
  assumes "sorted_wrt out_le (map entry_out ys)" "list_all keyed (x # ys)"
  shows "sorted_wrt out_le (map entry_out (js_insert compareOutputs x ys))"
  using assms
proof (induction ys)
  case (Cons y ys)
  have s: "set (js_insert compareOutputs x ys) = insert x (set ys)"
    using mset_js_insert [of compareOutputs x ys] by (metis set_mset_add_mset_insert set_mset_mset)
  have y: "\<forall>z \<in> set ys. out_le (entry_out y) (entry_out z)" using Cons.prems(1) by simp
  show ?case
  proof (cases "compareOutputs x y \<le> 0")
    case True
    have xy: "out_le (entry_out x) (entry_out y)"
      using compareOutputs_le(1) [OF _ _ True] Cons.prems(2) by simp
    then have "\<forall>z \<in> set ys. out_le (entry_out x) (entry_out z)"
      using y out_le_trans by blast
    then show ?thesis using True xy Cons.prems(1) by simp
  next
    case False
    have "out_le (entry_out y) (entry_out x)"
      using compareOutputs_le(2) [OF _ _ False] Cons.prems(2) by simp
    then show ?thesis using False y s Cons by simp
  qed
qed simp

lemma js_sort_outputs:
  "list_all keyed U \<Longrightarrow> sorted_wrt out_le (map entry_out (js_sort compareOutputs U))"
proof (induction U)
  case (Cons u U)
  have "js_sort compareOutputs (u # U) = js_insert compareOutputs u (js_sort compareOutputs U)"
    by (simp add: js_sort_def)
  moreover have "list_all keyed (u # js_sort compareOutputs U)"
    using Cons.prems by (simp add: list_all_iff)
  ultimately show ?case using Cons js_insert_outputs by simp
qed (simp add: js_sort_def)

lemma keyed_entries:
  "keyed (output_entry spk v k)" "list_all keyed (htlcEntries lib d hs)"
  "list_all keyed (fst (toLocalOutput lib params))" "list_all keyed (anchorEntries lib params os)"
  "toRemoteOutput lib params = Inr (R, b) \<Longrightarrow> list_all keyed R"
  by (auto simp: keyed_def output_entry_def htlcEntries_def toLocalOutput_def anchorEntries_def
      toRemoteOutput_def list_all_iff Let_def throw_if_def split: option.splits bool.splits if_splits)

lemma commitmentOutputs_inv:
  assumes "commitmentOutputs lib params = Inr (U, a, b)"
  obtains R where "toRemoteOutput lib params = Inr (R, b)"
    "U = (let outputs = fst (toLocalOutput lib params) @ R @
            (case p_htlcOutputs params of None \<Rightarrow> [] | Some hs \<Rightarrow> htlcEntries lib (dustWsh params) hs)
          in outputs @ anchorEntries lib params outputs)"
  using assms unfolding commitmentOutputs_def by (auto simp: rbind_eq_Inr Let_def split: prod.splits)

lemma commitmentOutputs_keyed:
  assumes "commitmentOutputs lib params = Inr (U, a, b)"
  shows "list_all keyed U"
  using assms
proof (rule commitmentOutputs_inv)
  fix R assume R: "toRemoteOutput lib params = Inr (R, b)" and U: "U = (let outputs = fst (toLocalOutput lib params) @ R @
      (case p_htlcOutputs params of None \<Rightarrow> [] | Some hs \<Rightarrow> htlcEntries lib (dustWsh params) hs)
      in outputs @ anchorEntries lib params outputs)"
  show ?thesis
    using keyed_entries(5) [OF R] by (auto simp: U Let_def keyed_entries split: option.split)
qed

subsection \<open>Kinds of entries\<close>

definition of_type :: "OutputKind \<Rightarrow> IOutputEntry list \<Rightarrow> IOutputEntry list" where
  "of_type k os = List.filter (\<lambda>o1. oe_type o1 = k) os"

lemma of_type_append [simp]: "of_type k (xs @ ys) = of_type k xs @ of_type k ys"
  by (simp add: of_type_def)

lemma of_type_simps [simp]: "of_type k [] = []"
  "of_type k (o1 # os) = (if oe_type o1 = k then o1 # of_type k os else of_type k os)"
  by (simp_all add: of_type_def)

lemma of_type_htlcEntries [simp]:
  "of_type k (htlcEntries lib d hs) = (if k = htlc then htlcEntries lib d hs else [])"
  by (auto simp: of_type_def htlcEntries_def filter_map comp_def Let_def)

lemma of_type_toLocal:
  "of_type k (fst (toLocalOutput lib params)) = (if k = to_local then fst (toLocalOutput lib params) else [])"
  by (auto simp: toLocalOutput_def output_entry_def Let_def split: option.splits)

lemma of_type_toRemote:
  "toRemoteOutput lib params = Inr (R, b) \<Longrightarrow> of_type k R = (if k = to_remote then R else [])"
  by (auto simp: toRemoteOutput_def output_entry_def Let_def throw_if_def split: option.splits if_splits)

lemma of_type_anchor:
  "k \<in> {to_local, to_remote, htlc} \<Longrightarrow> of_type k (anchorEntries lib params os) = []"
  by (auto simp: anchorEntries_def output_entry_def Let_def split: option.splits bool.splits)

lemma commitmentOutputs_types:
  assumes "commitmentOutputs lib params = Inr (U, a, b)"
  shows "of_type to_local U = fst (toLocalOutput lib params)"
    "\<exists>R. toRemoteOutput lib params = Inr (R, b) \<and> of_type to_remote U = R"
    "of_type htlc U = (case p_htlcOutputs params of None \<Rightarrow> [] | Some hs \<Rightarrow> htlcEntries lib (dustWsh params) hs)"
proof -
  obtain R where R: "toRemoteOutput lib params = Inr (R, b)" and U: "U = (let outputs = fst (toLocalOutput lib params) @ R @
      (case p_htlcOutputs params of None \<Rightarrow> [] | Some hs \<Rightarrow> htlcEntries lib (dustWsh params) hs)
      in outputs @ anchorEntries lib params outputs)"
    using commitmentOutputs_inv [OF assms] .
  show "of_type to_local U = fst (toLocalOutput lib params)"
    by (simp add: U Let_def of_type_toLocal of_type_toRemote [OF R] of_type_anchor split: option.split)
  have "of_type to_remote U = R"
    by (simp add: U Let_def of_type_toLocal of_type_toRemote [OF R] of_type_anchor split: option.split)
  then show "\<exists>R. toRemoteOutput lib params = Inr (R, b) \<and> of_type to_remote U = R" using R by blast
  show "of_type htlc U = (case p_htlcOutputs params of None \<Rightarrow> [] | Some hs \<Rightarrow> htlcEntries lib (dustWsh params) hs)"
    by (simp add: U Let_def of_type_toLocal of_type_toRemote [OF R] of_type_anchor split: option.split)
qed

subsection \<open>The output map\<close>

definition positions :: "OutputKind \<Rightarrow> IOutputEntry list \<Rightarrow> nat list" where
  "positions k os = List.filter (\<lambda>i. oe_type (os ! i) = k) [0..<length os]"

lemma positions_Cons:
  "positions k (o1 # os) = (if oe_type o1 = k then [0] else []) @ map Suc (positions k os)"
proof -
  have "[0..<length (o1 # os)] = 0 # map Suc [0..<length os]"
    by (simp add: upt_conv_Cons map_Suc_upt del: upt_Suc)
  then show ?thesis by (simp add: positions_def filter_map comp_def del: upt_Suc)
qed

lemma map_nth_positions: "map ((!) os) (positions k os) = of_type k os"
proof -
  have "of_type k os = of_type k (map ((!) os) [0..<length os])" by (simp add: map_nth)
  then show ?thesis by (simp add: positions_def of_type_def filter_map comp_def)
qed

lemma mapOutputs_htlcs:
  "om_htlcs (mapOutputs i os om) = om_htlcs om @ map ((+) i) (positions htlc os)"
  "om_htlcOriginalIndices (mapOutputs i os om) =
     om_htlcOriginalIndices om @ map (the \<circ> oe_htlcIndex) (of_type htlc os)"
proof (induction os arbitrary: i om)
  case (Cons o1 os)
  { case 1 show ?case by (cases "oe_type o1") (simp_all add: Cons positions_Cons comp_def) }
  { case 2 show ?case by (cases "oe_type o1") (simp_all add: Cons) }
qed (simp_all add: positions_def)

definition last_pos :: "nat \<Rightarrow> OutputKind \<Rightarrow> IOutputEntry list \<Rightarrow> nat option \<Rightarrow> nat option" where
  "last_pos i k os d = (if positions k os = [] then d else Some (i + last (positions k os)))"

lemma mapOutputs_ends:
  "om_toLocal (mapOutputs i os om) = last_pos i to_local os (om_toLocal om)"
  "om_toRemote (mapOutputs i os om) = last_pos i to_remote os (om_toRemote om)"
  "om_anchorLocal (mapOutputs i os om) = last_pos i anchor_local os (om_anchorLocal om)"
  "om_anchorRemote (mapOutputs i os om) = last_pos i anchor_remote os (om_anchorRemote om)"
proof (induction os arbitrary: i om)
  case (Cons o1 os)
  { case 1 show ?case by (cases "oe_type o1") (simp_all add: Cons positions_Cons last_pos_def last_map) }
  { case 2 show ?case by (cases "oe_type o1") (simp_all add: Cons positions_Cons last_pos_def last_map) }
  { case 3 show ?case by (cases "oe_type o1") (simp_all add: Cons positions_Cons last_pos_def last_map) }
  { case 4 show ?case by (cases "oe_type o1") (simp_all add: Cons positions_Cons last_pos_def last_map) }
qed (simp_all add: positions_def last_pos_def)

lemma outputMap_fields:
  "om_htlcs (mapOutputs 0 os emptyOutputMap) = positions htlc os"
  "om_htlcOriginalIndices (mapOutputs 0 os emptyOutputMap) = map (the \<circ> oe_htlcIndex) (of_type htlc os)"
  "om_toLocal (mapOutputs 0 os emptyOutputMap) = last_pos 0 to_local os None"
  "om_toRemote (mapOutputs 0 os emptyOutputMap) = last_pos 0 to_remote os None"
  "om_anchorLocal (mapOutputs 0 os emptyOutputMap) = last_pos 0 anchor_local os None"
  "om_anchorRemote (mapOutputs 0 os emptyOutputMap) = last_pos 0 anchor_remote os None"
  by (simp_all add: mapOutputs_htlcs mapOutputs_ends emptyOutputMap_def map_idI)

lemma positions_less: "set (positions k os) \<subseteq> {..<length os}" "sorted_wrt (<) (positions k os)"
  by (auto simp: positions_def intro: sorted_wrt_filter)

lemma mset_of_type: "mset xs = mset ys \<Longrightarrow> mset (of_type k xs) = mset (of_type k ys)"
  by (simp add: of_type_def)

lemma htlcEntries_indices:
  "map (the \<circ> oe_htlcIndex) (htlcEntries lib d hs) = List.filter (\<lambda>i. ho_amount (hs ! i) \<ge> d) [0..<length hs]"
  by (simp add: htlcEntries_def Let_def comp_def)

lemma htlcEntries_out:
  "e \<in> set (htlcEntries lib d hs) \<Longrightarrow> entry_out e =
     \<lparr>out_script = htlcSpk lib (hs ! the (oe_htlcIndex e)), out_value = ho_amount (hs ! the (oe_htlcIndex e))\<rparr>"
  by (auto simp: htlcEntries_def Let_def entry_out_def)

lemma toLocalOutput_value:
  "fst (toLocalOutput lib params) = [] \<longleftrightarrow> p_localAmount params < dustWsh params"
  "e \<in> set (fst (toLocalOutput lib params)) \<Longrightarrow> oe_value e = p_localAmount params"
  by (auto simp: toLocalOutput_def output_entry_def Let_def split: option.splits if_splits)

lemma toRemoteOutput_value:
  "toRemoteOutput lib params = Inr (R, b) \<Longrightarrow> e \<in> set R \<Longrightarrow> oe_value e = p_remoteAmount params"
  by (auto simp: toRemoteOutput_def output_entry_def Let_def throw_if_def split: option.splits if_splits)

lemma positions_Nil: "positions k os = [] \<longleftrightarrow> of_type k os = []"
  using map_nth_positions [of os k] by (metis map_is_Nil_conv)

text \<open>The output of a kind that occurs at most once, where \<open>spec\<close> says what it is, if there is one.\<close>

definition points_at :: "tx_output list \<Rightarrow> nat option \<Rightarrow> tx_output option \<Rightarrow> bool" where
  "points_at outs i spec \<longleftrightarrow> (case spec of
     None \<Rightarrow> i = None
   | Some out \<Rightarrow> (case i of None \<Rightarrow> False | Some n \<Rightarrow> n < length outs \<and> outs ! n = out))"

lemma single_position:
  assumes "map entry_out (of_type k os) = (case spec of None \<Rightarrow> [] | Some out \<Rightarrow> [out])"
  shows "points_at (map entry_out os) (last_pos 0 k os None) spec"
    "set (positions k os) = set_option (last_pos 0 k os None)"
proof -
  have "points_at (map entry_out os) (last_pos 0 k os None) spec \<and> set (positions k os) = set_option (last_pos 0 k os None)"
  proof (cases spec)
    case None
    then have "positions k os = []" using assms by (simp add: positions_Nil)
    then show ?thesis using None by (simp add: points_at_def last_pos_def)
  next
    case (Some out)
    then have out: "map entry_out (map ((!) os) (positions k os)) = [out]" using assms by (simp add: map_nth_positions)
    then obtain n where n: "positions k os = [n]" by (auto simp: map_eq_Cons_conv)
    then show ?thesis using Some out positions_less(1) [of k os] by (simp add: points_at_def last_pos_def)
  qed
  then show "points_at (map entry_out os) (last_pos 0 k os None) spec"
    "set (positions k os) = set_option (last_pos 0 k os None)" by blast+
qed

text \<open>What the builder puts in for either balance and either anchor.\<close>

definition to_local_out :: "btc \<Rightarrow> 'h ICommitmentTxParams \<Rightarrow> tx_output option" where
  "to_local_out lib params =
     (if p_localAmount params < dustWsh params then None
      else Some \<lparr>out_script = (case p_taprootToLocalScript params of
             Some spk \<Rightarrow> spk
           | None \<Rightarrow> p2wsh lib (buildToLocalScript lib (p_revocationPubkey params) (p_localDelayedPubkey params)
               (p_toSelfDelay params) (p_leaseCsv params))),
         out_value = p_localAmount params\<rparr>)"

definition to_remote_out :: "btc \<Rightarrow> 'h ICommitmentTxParams \<Rightarrow> tx_output option" where
  "to_remote_out lib params =
     (if p_remoteAmount params <
        (if p_taprootToRemoteScript params = None \<and> \<not> p_useAnchors params then dustWpkh params else dustWsh params) then None
      else Some \<lparr>out_script = (case p_taprootToRemoteScript params of
             Some spk \<Rightarrow> spk
           | None \<Rightarrow> if p_useAnchors params
               then so_script (buildToRemoteAnchorOutput lib (p_remotePaymentPubkey params) (p_toRemoteLeaseCsv params))
               else p2wpkh lib (p_remotePaymentPubkey params)),
         out_value = p_remoteAmount params\<rparr>)"

definition anchor_out :: "btc \<Rightarrow> 'h ICommitmentTxParams \<Rightarrow> bool \<Rightarrow> bytes option \<Rightarrow> (bytes option \<times> bytes option) \<Rightarrow> tx_output option" where
  "anchor_out lib params needed taproot keys =
     (case (p_useAnchors params, keys) of
        (True, Some own, Some _) \<Rightarrow>
          (if \<not> needed then None
           else Some \<lparr>out_script = (case taproot of Some spk \<Rightarrow> spk | None \<Rightarrow> so_script (buildAnchorOutput lib own)),
             out_value = ANCHOR_OUTPUT_VALUE\<rparr>)
      | _ \<Rightarrow> None)"

lemma local_entries: "map entry_out (fst (toLocalOutput lib params)) =
    (case to_local_out lib params of None \<Rightarrow> [] | Some out \<Rightarrow> [out])"
  by (auto simp: toLocalOutput_def to_local_out_def output_entry_def entry_out_def Let_def split: option.split)

lemma remote_entries: "toRemoteOutput lib params = Inr (R, b) \<Longrightarrow>
    map entry_out R = (case to_remote_out lib params of None \<Rightarrow> [] | Some out \<Rightarrow> [out])"
  by (auto simp: toRemoteOutput_def to_remote_out_def output_entry_def entry_out_def Let_def throw_if_def
      split: option.splits if_splits)

lemma anchor_entries:
  fixes os params lib
  defines "needed \<equiv> \<lambda>k. of_type k os \<noteq> [] \<or> of_type htlc os \<noteq> []"
    and "pair \<equiv> (p_localFundingPubkey params, p_remoteFundingPubkey params)"
  shows "map entry_out (of_type anchor_local (anchorEntries lib params os)) =
      (case anchor_out lib params (needed to_local) (p_taprootAnchorLocalScript params) pair of None \<Rightarrow> [] | Some out \<Rightarrow> [out])"
    "map entry_out (of_type anchor_remote (anchorEntries lib params os)) =
      (case anchor_out lib params (needed to_remote) (p_taprootAnchorRemoteScript params) (prod.swap pair) of None \<Rightarrow> [] | Some out \<Rightarrow> [out])"
proof -
  have ex: "list_ex (\<lambda>o1. oe_type o1 = k) os \<longleftrightarrow> of_type k os \<noteq> []" for k
    by (auto simp: of_type_def list_ex_iff filter_empty_conv)
  show "map entry_out (of_type anchor_local (anchorEntries lib params os)) =
      (case anchor_out lib params (needed to_local) (p_taprootAnchorLocalScript params) pair of None \<Rightarrow> [] | Some out \<Rightarrow> [out])"
    "map entry_out (of_type anchor_remote (anchorEntries lib params os)) =
      (case anchor_out lib params (needed to_remote) (p_taprootAnchorRemoteScript params) (prod.swap pair) of None \<Rightarrow> [] | Some out \<Rightarrow> [out])"
    by (auto simp: anchorEntries_def anchor_out_def ex needed_def pair_def output_entry_def entry_out_def Let_def
        split: option.split bool.split)
qed

lemma commitment_anchors:
  assumes "commitmentOutputs lib params = Inr (U, a, b)"
  defines "needed \<equiv> \<lambda>k. of_type k U \<noteq> [] \<or> of_type htlc U \<noteq> []"
    and "pair \<equiv> (p_localFundingPubkey params, p_remoteFundingPubkey params)"
  shows "map entry_out (of_type anchor_local U) =
      (case anchor_out lib params (needed to_local) (p_taprootAnchorLocalScript params) pair of None \<Rightarrow> [] | Some out \<Rightarrow> [out])"
    "map entry_out (of_type anchor_remote U) =
      (case anchor_out lib params (needed to_remote) (p_taprootAnchorRemoteScript params) (prod.swap pair) of None \<Rightarrow> [] | Some out \<Rightarrow> [out])"
proof -
  define body where "body R = fst (toLocalOutput lib params) @ R @
      (case p_htlcOutputs params of None \<Rightarrow> [] | Some hs \<Rightarrow> htlcEntries lib (dustWsh params) hs)" for R
  obtain R where R: "toRemoteOutput lib params = Inr (R, b)" and U: "U = body R @ anchorEntries lib params (body R)"
    using commitmentOutputs_inv [OF assms(1)] unfolding body_def Let_def by blast
  have "of_type anchor_local (body R) = []" "of_type anchor_remote (body R) = []"
    by (simp_all add: body_def of_type_toLocal of_type_toRemote [OF R] split: option.split)
  moreover have "of_type k U = of_type k (body R)" if "k \<in> {to_local, to_remote, htlc}" for k
    using of_type_anchor [OF that] by (simp add: U)
  ultimately show "map entry_out (of_type anchor_local U) =
      (case anchor_out lib params (needed to_local) (p_taprootAnchorLocalScript params) pair of None \<Rightarrow> [] | Some out \<Rightarrow> [out])"
    "map entry_out (of_type anchor_remote U) =
      (case anchor_out lib params (needed to_remote) (p_taprootAnchorRemoteScript params) (prod.swap pair) of None \<Rightarrow> [] | Some out \<Rightarrow> [out])"
    using anchor_entries [where params = params and lib = lib and os = "body R"] unfolding needed_def pair_def by (simp_all add: U)
qed

lemma positions_cover: "(\<Union>k. set (positions k os)) = {..<length os}"
  by (auto simp: positions_def)

section \<open>A sample commitment\<close>

text \<open>A library that concatenates pushes and hashes by padding, and a commitment with one trimmed HTLC.\<close>

definition chunk_bytes :: "chunk \<Rightarrow> bytes" where
  "chunk_bytes c = (case c of Op _ \<Rightarrow> [0] | Push b \<Rightarrow> b)"

definition sample_lib :: btc where
  "sample_lib = \<lparr>script_compile = \<lambda>cs. concat (map chunk_bytes cs), script_decompile = \<lambda>_. None,
     number_encode = \<lambda>n. [word_of_int n], number_decode = \<lambda>_. Inr 0, p2wsh = \<lambda>s. 0 # s,
     p2wpkh = \<lambda>k. 1 # k, p2tr = \<lambda>k t. 2 # k, sha256 = \<lambda>b. take 32 (b @ replicate 32 7),
     ripemd160 = \<lambda>b. take 20 b\<rparr>"

definition sample_htlc :: "int \<Rightarrow> int \<Rightarrow> IHtlcOutput" where
  "sample_htlc v cltv = \<lparr>ho_script = [5], ho_amount = v, ho_cltvExpiry = cltv, ho_paymentHash = [],
     ho_taprootScript = None\<rparr>"

definition sample_params :: "IHtlcOutput ICommitmentTxParams" where
  "sample_params = \<lparr>p_fundingTxid = [9], p_fundingOutputIndex = 0, p_fundingAmount = 100000,
     p_obscuredCommitmentNumber = calculateObscuredCommitmentNumber sample_lib [3] [4] 41,
     p_localAmount = 60000, p_revocationPubkey = [6], p_localDelayedPubkey = [7], p_toSelfDelay = 144,
     p_leaseCsv = None, p_remoteAmount = 100, p_remotePaymentPubkey = [8], p_toRemoteLeaseCsv = None,
     p_htlcOutputs = Some [sample_htlc 5000 50, sample_htlc 10 51, sample_htlc 5000 49],
     p_dustLimitSatoshis = Some 354, p_useAnchors = True, p_localFundingPubkey = Some [2],
     p_remoteFundingPubkey = Some [3], p_taprootToLocalScript = None, p_taprootToRemoteScript = None,
     p_taprootAnchorLocalScript = None, p_taprootAnchorRemoteScript = None\<rparr>"

definition built :: "ICommitmentTxResult res \<Rightarrow> ICommitmentTxResult" where
  "built m = (case m of Inr r \<Rightarrow> r | Inl _ \<Rightarrow> undefined)"

lemma sample_builds: "buildCommitmentTx sample_lib sample_params = Inr (built (buildCommitmentTx sample_lib sample_params))"
proof -
  have "case buildCommitmentTx sample_lib sample_params of Inr _ \<Rightarrow> True | Inl _ \<Rightarrow> False" by code_simp
  then show ?thesis by (simp add: built_def split: sum.split_asm)
qed

lemma sample_htlcs:
  "p_htlcOutputs sample_params = Some [sample_htlc 5000 50, sample_htlc 10 51, sample_htlc 5000 49]"
  "htlcSpk sample_lib (sample_htlc v c) = [0, 5]" "ho_amount (sample_htlc v c) = v"
  by (simp_all add: sample_params_def htlcSpk_def sample_lib_def sample_htlc_def)

lemma sample_map: "om_htlcOriginalIndices (ct_outputMap (built (buildCommitmentTx sample_lib sample_params))) = [2, 0]"
  by code_simp

section \<open>Properties\<close>

text \<open>C12: the commitment number written, obscured, into locktime and sequence is the one the chain
  watcher reads back from the transaction, for every 48-bit number.\<close>

theorem commitment_number_roundtrip:
  assumes "buildCommitmentTx lib params = Inr r"
    "p_obscuredCommitmentNumber params = calculateObscuredCommitmentNumber lib openBp acceptBp number"
    "0 \<le> number" "number < 2 ^ 48"
  shows "extractCommitmentNumber lib (ct_tx r) openBp acceptBp = number"
proof -
  let ?x = "number XOR obscureMask lib openBp acceptBp"
  have "0 \<le> ?x" "?x < 2 ^ 48"
    using assms(3,4) obscureMask_bounds [of lib openBp acceptBp]
      XOR_upper [of number 48 "obscureMask lib openBp acceptBp"]
    by (simp_all add: xor_nonnegative_int_iff)
  then have "extractCommitmentNumber lib (ct_tx r) openBp acceptBp = ?x XOR obscureMask lib openBp acceptBp"
    using assms(1,2) obscured_split [of ?x]
    by (elim buildCommitmentTx_inv)
      (simp add: extractCommitmentNumber_def calculateObscuredCommitmentNumber_def)
  then show ?thesis by (simp add: xor.assoc)
qed

theorem commitment_number_roundtrip_witness:
  "extractCommitmentNumber sample_lib (ct_tx (built (buildCommitmentTx sample_lib sample_params))) [3] [4] = 41"
  by (rule commitment_number_roundtrip [OF sample_builds]) (simp_all add: sample_params_def)

text \<open>C11: the outputs are in BIP 69 order and the output map is exact. Every HTLC above dust has one output, and
  each entry of the HTLC index list points at the output of the HTLC the parallel list names, in
  increasing position. Either balance has an output exactly when it reaches its dust limit, and its index
  points at that output, with its script and value; the same holds for the anchors, which are there
  for a side with a balance output or when there is an HTLC output. Every output of the
  transaction is in the map.\<close>

theorem output_map_exact:
  assumes "buildCommitmentTx lib params = Inr r" "p_htlcOutputs params = Some hs"
  shows "let outs = tx_outs (ct_tx r); om = ct_outputMap r;
      keys = (p_localFundingPubkey params, p_remoteFundingPubkey params) in
    sorted_wrt out_le outs \<and>
    map ((!) outs) (om_htlcs om) =
      map (\<lambda>j. \<lparr>out_script = htlcSpk lib (hs ! j), out_value = ho_amount (hs ! j)\<rparr>) (om_htlcOriginalIndices om) \<and>
    sorted_wrt (<) (om_htlcs om) \<and>
    distinct (om_htlcOriginalIndices om) \<and>
    set (om_htlcOriginalIndices om) = {j. j < length hs \<and> dustWsh params \<le> ho_amount (hs ! j)} \<and>
    points_at outs (om_toLocal om) (to_local_out lib params) \<and>
    points_at outs (om_toRemote om) (to_remote_out lib params) \<and>
    points_at outs (om_anchorLocal om) (anchor_out lib params (om_toLocal om \<noteq> None \<or> om_htlcs om \<noteq> [])
      (p_taprootAnchorLocalScript params) keys) \<and>
    points_at outs (om_anchorRemote om) (anchor_out lib params (om_toRemote om \<noteq> None \<or> om_htlcs om \<noteq> [])
      (p_taprootAnchorRemoteScript params) (prod.swap keys)) \<and>
    set (om_htlcs om) \<union> set_option (om_toLocal om) \<union> set_option (om_toRemote om) \<union>
      set_option (om_anchorLocal om) \<union> set_option (om_anchorRemote om) = {..<length outs}"
proof -
  obtain U a b where U: "commitmentOutputs lib params = Inr (U, a, b)"
    and outs: "tx_outs (ct_tx r) = map entry_out (js_sort compareOutputs U)"
    and om: "ct_outputMap r = mapOutputs 0 (js_sort compareOutputs U) emptyOutputMap"
    by (rule buildCommitmentTx_inv [OF assms(1)])
  define S where "S = js_sort compareOutputs U"
  define pair where "pair = (p_localFundingPubkey params, p_remoteFundingPubkey params)"
  have m: "mset (of_type k S) = mset (of_type k U)" for k unfolding S_def by (rule mset_of_type) simp
  have one: "map entry_out (of_type k S) = (case x of None \<Rightarrow> [] | Some out \<Rightarrow> [out])"
    if "map entry_out (of_type k U) = (case x of None \<Rightarrow> [] | Some out \<Rightarrow> [out])" for k x
  proof -
    have "mset (map entry_out (of_type k S)) = mset (map entry_out (of_type k U))" using m [of k] by simp
    then show ?thesis unfolding that by (cases x) (simp_all del: mset_map)
  qed
  have h: "mset (of_type htlc S) = mset (htlcEntries lib (dustWsh params) hs)"
    using m commitmentOutputs_types(3) [OF U] assms(2) by simp
  have idx: "mset (map (the \<circ> oe_htlcIndex) (of_type htlc S)) =
      mset (List.filter (\<lambda>i. ho_amount (hs ! i) \<ge> dustWsh params) [0..<length hs])"
    unfolding htlcEntries_indices [of lib, symmetric] using h by (metis mset_map)
  have nil: "(of_type k U \<noteq> []) = (positions k S \<noteq> [])" for k
    using m [of k] by (metis mset_zero_iff positions_Nil)
  have "map entry_out (of_type to_local U) = (case to_local_out lib params of None \<Rightarrow> [] | Some out \<Rightarrow> [out])"
    "map entry_out (of_type to_remote U) = (case to_remote_out lib params of None \<Rightarrow> [] | Some out \<Rightarrow> [out])"
    using commitmentOutputs_types(1,2) [OF U] local_entries remote_entries by metis+
  note single = this [THEN one, THEN single_position(1)] this [THEN one, THEN single_position(2)]
    commitment_anchors [OF U, THEN one, THEN single_position(1)] commitment_anchors [OF U, THEN one, THEN single_position(2)]
  have some: "(last_pos 0 k S None \<noteq> None) = (positions k S \<noteq> [])" for k by (simp add: last_pos_def)
  have "map entry_out (of_type htlc S) =
      map (\<lambda>j. \<lparr>out_script = htlcSpk lib (hs ! j), out_value = ho_amount (hs ! j)\<rparr>) (map (the \<circ> oe_htlcIndex) (of_type htlc S))"
    using htlcEntries_out [of _ lib "dustWsh params" hs] mset_eq_setD [OF h] by simp
  moreover have "map ((!) (map entry_out S)) (positions htlc S) = map entry_out (of_type htlc S)"
    using positions_less(1) [of htlc S] by (auto simp: map_nth_positions [symmetric])
  moreover have "distinct (map (the \<circ> oe_htlcIndex) (of_type htlc S))"
    using mset_eq_imp_distinct_iff [OF idx] by simp
  moreover have "set (map (the \<circ> oe_htlcIndex) (of_type htlc S)) = {j. j < length hs \<and> dustWsh params \<le> ho_amount (hs ! j)}"
    unfolding mset_eq_setD [OF idx] by auto
  moreover have "set (positions htlc S) \<union> set (positions to_local S) \<union> set (positions to_remote S) \<union>
      set (positions anchor_local S) \<union> set (positions anchor_remote S) = {..<length (map entry_out S)}"
    unfolding length_map positions_cover [of S, symmetric] by (auto, metis OutputKind.exhaust)
  ultimately show ?thesis
    using js_sort_outputs [OF commitmentOutputs_keyed [OF U]] positions_less(2) [of htlc S] single
    unfolding Let_def outs om S_def [symmetric] outputMap_fields some nil pair_def [symmetric] by (intro conjI) (assumption | simp only:)+
qed

theorem output_map_exact_witness:
  "let r = built (buildCommitmentTx sample_lib sample_params); om = ct_outputMap r in
    sorted_wrt out_le (tx_outs (ct_tx r)) \<and> om_htlcOriginalIndices om = [2, 0] \<and> om_toRemote om = None \<and>
    om_anchorRemote om \<noteq> None \<and>
    map ((!) (tx_outs (ct_tx r))) (om_htlcs om) = [\<lparr>out_script = [0, 5], out_value = 5000\<rparr>, \<lparr>out_script = [0, 5], out_value = 5000\<rparr>]"
proof -
  have "om_toRemote (ct_outputMap (built (buildCommitmentTx sample_lib sample_params))) = None"
    "om_anchorRemote (ct_outputMap (built (buildCommitmentTx sample_lib sample_params))) \<noteq> None"
    by code_simp+
  then show ?thesis
    using output_map_exact [OF sample_builds sample_htlcs(1)]
    by (simp add: sample_map sample_htlcs Let_def)
qed

end
