(* ===== verification/ChannelState.thy ===== *)
theory ChannelState
  imports ChannelTypes Keys CommitmentTx ShaChain MsgUpdate MsgCommitment MsgBasic MsgSplice
begin

text \<open>
  The state of a channel: \<^verbatim>\<open>src/lightning/channel/channel-state.ts\<close>, with the enum \<open>ChannelState\<close> and the
  snapshot record of \<^verbatim>\<open>src/lightning/channel/types.ts\<close>. \<open>IChannelState\<close> has the fields that the modelled parts of
  the channel code read or write; the fields of announcements, closing, dual funding, splicing
  sessions and the fast-forward epochs are left out. A flag the code only compares with \<open>true\<close> is a
  boolean, one it also compares with \<open>false\<close> an optional boolean. The HTLC map is the list of its
  values in insertion order; its keys are direction and id. Queued updates hold the message and not
  its bytes, and the text of a wire error is kept as its template with the numbers it contains.
\<close>

section \<open>Definitions\<close>

datatype ChannelState =
  NONE | SENT_OPEN | SENT_ACCEPT | SENT_FUNDING_CREATED | SENT_FUNDING_SIGNED | AWAITING_FUNDING_CONFIRMED
  | AWAITING_CHANNEL_READY | NORMAL | SHUTTING_DOWN | NEGOTIATING_CLOSING | AWAITING_REESTABLISH
  | DUAL_FUNDING_V2 | AWAITING_TX_SIGNATURES | SPLICING | CLOSED | FORCE_CLOSED | ERRORED

record IHtlcSnapshotEntry =
  sn_paymentHash :: bytes
  sn_amountMsat :: int
  sn_cltvExpiry :: int
  sn_direction :: HtlcDirection

text \<open>The messages of the update and commitment exchange.\<close>

datatype channel_msg =
  UPDATE_ADD_HTLC IUpdateAddHtlcMessage
  | UPDATE_FULFILL_HTLC IUpdateFulfillHtlcMessage
  | UPDATE_FAIL_HTLC IUpdateFailHtlcMessage
  | UPDATE_FAIL_MALFORMED_HTLC IUpdateFailMalformedHtlcMessage
  | UPDATE_FEE IUpdateFeeMessage
  | UPDATE_BLOCKHEIGHT IUpdateBlockheightMessage
  | COMMITMENT_SIGNED ICommitmentSignedMessage
  | REVOKE_AND_ACK IRevokeAndAckMessage
  | START_BATCH IStartBatchMessage
  | STFU bool
  | WIRE_ERROR bytes "string \<times> int list"

datatype RecoveryCloseReason = local_data_loss | state_uncertain

datatype RecencyHoldOrigin = secret_missing | restore_origin | reestablish_origin

record ISpliceInFlight =
  sif_spliceTxid :: bytes
  newFundingSatoshis :: int
  sif_localRelativeSatoshis :: int
  sif_remoteCommitmentSig :: "bytes option"
  sif_remoteHtlcSignatures :: "bytes list"
  sif_remoteCommitmentSigFeeratePerKw :: "int option"
  sif_remoteCommitmentSigLeaseBlockheight :: "int option"
  sentTxSignatures :: bool
  receivedTxSignatures :: bool
  sif_localSpliceLocked :: bool
  sif_confirmed :: bool
  sif_confirmedHeight :: "int option"
  sif_lockAtDepth :: "int option"

record IChannelState =
  channelId :: "bytes option"
  temporaryChannelId :: bytes
  role :: ChannelRole
  chState :: ChannelState
  fundingSatoshis :: int
  pushMsat :: int
  fundingTxid :: "bytes option"
  fundingUnaccounted :: bool
  fundingOutputIndex :: int
  minimumDepth :: int
  localConfig :: IChannelConfig
  localBasepoints :: IChannelBasepoints
  localPerCommitmentSeed :: bytes
  remoteConfig :: IChannelConfig
  remoteBasepoints :: "IChannelBasepoints option"
  localCommitmentNumber :: int
  remoteCommitmentNumber :: int
  remoteRevocationNumber :: "int option"
  needsCommitment :: bool
  pendingFeeratePerKw :: "int option"
  pendingFeerateSignable :: "bool option"
  pendingFeerateCommitted :: "bool option"
  awaitingLocalFeeCommitment :: bool
  lastSignedCommitFeeratePerKw :: "int option"
  localBalanceMsat :: int
  remoteBalanceMsat :: int
  shaChainStore :: ShaChainStore
  remoteCurrentPerCommitmentPoint :: "bytes option"
  remoteNextPerCommitmentPoint :: "bytes option"
  remoteNonce :: "bytes option"
  localHtlcCounter :: int
  htlcs :: "IHtlcEntry list"
  signedLocalRemovals :: "IHtlcEntry list option"
  revokedHtlcSnapshots :: "(int \<times> IHtlcSnapshotEntry list) list option"
  watchtowerRemoteCommitmentTxs :: "(bytes \<times> transaction list) list option"
  watchtowerBackupsOwed :: "(bytes \<times> transaction) list option"
  remoteCommitmentSignature :: "bytes option"
  remoteHtlcSignatures :: "bytes list"
  channelType :: "bytes option"
  remoteShutdownScript :: "bytes option"
  lastSentCommitmentSigned :: "bytes option"
  lastSentPartialSignatureWithNonce :: "bytes option"
  lastSentHtlcSignatures :: "bytes list"
  lastSentRevokeSecret :: "bytes option"
  lastSentRevokeNextPoint :: "bytes option"
  lastSentWasRevoke :: "bool option"
  pendingLocalUpdates :: "channel_msg list"
  pendingLocalUpdatesSignedCount :: nat
  spliceFundingTxid :: "bytes option"
  spliceInFlight :: "ISpliceInFlight option"
  hasBeenSpliced :: bool
  fundingVersion :: int
  localReserveWaived :: bool
  remoteReserveWaived :: bool
  leaseExpiry :: "int option"
  isLessor :: bool
  leaseCommitBlockheight :: "int option"
  pendingLeaseBlockheight :: "int option"
  pendingLeaseBlockheightSignable :: "bool option"
  pendingLeaseBlockheightCommitted :: "bool option"
  lastSignedCommitLeaseBlockheight :: "int option"
  leaseHeightHistory :: "int list option"
  dataLossDetected :: bool
  stateUncertain :: bool
  restoreRecencyUnproven :: bool
  reestablishRecencyUnproven :: bool
  reestablishSecretMissing :: bool
  restoreRevokedRisk :: bool
  recoveryCloseReason :: "RecoveryCloseReason option"
  closeSpendsSpliceTxid :: "bytes option"
  closeSpendsFundingTxid :: "bytes option"

definition DEFAULT_MINIMUM_DEPTH :: int where "DEFAULT_MINIMUM_DEPTH = 3"

definition createOpenerState ::
  "bytes \<Rightarrow> int \<Rightarrow> int \<Rightarrow> IChannelConfig \<Rightarrow> IChannelBasepoints \<Rightarrow> bytes \<Rightarrow> IChannelState" where
  "createOpenerState tempId funding push config basepoints seed =
     \<lparr>channelId = None, temporaryChannelId = tempId, role = OPENER, chState = NONE,
      fundingSatoshis = funding, pushMsat = push, fundingTxid = None, fundingUnaccounted = False,
      fundingOutputIndex = 0, minimumDepth = 0,
      localConfig = config, localBasepoints = basepoints, localPerCommitmentSeed = seed,
      remoteConfig = DEFAULT_CHANNEL_CONFIG, remoteBasepoints = None,
      localCommitmentNumber = 0, remoteCommitmentNumber = 0, remoteRevocationNumber = Some 0,
      needsCommitment = False, pendingFeeratePerKw = None, pendingFeerateSignable = None,
      pendingFeerateCommitted = None, awaitingLocalFeeCommitment = False, lastSignedCommitFeeratePerKw = None,
      localBalanceMsat = funding * 1000 - push, remoteBalanceMsat = push,
      shaChainStore = emptyStore, remoteCurrentPerCommitmentPoint = None, remoteNextPerCommitmentPoint = None, remoteNonce = None,
      localHtlcCounter = 0, htlcs = [], signedLocalRemovals = None, revokedHtlcSnapshots = None,
      watchtowerRemoteCommitmentTxs = None, watchtowerBackupsOwed = None,
      remoteCommitmentSignature = None, remoteHtlcSignatures = [], channelType = None, remoteShutdownScript = None,
      lastSentCommitmentSigned = None, lastSentPartialSignatureWithNonce = None, lastSentHtlcSignatures = [],
      lastSentRevokeSecret = None, lastSentRevokeNextPoint = None, lastSentWasRevoke = None,
      pendingLocalUpdates = [], pendingLocalUpdatesSignedCount = 0,
      spliceFundingTxid = None, spliceInFlight = None, hasBeenSpliced = False, fundingVersion = 1,
      localReserveWaived = False, remoteReserveWaived = False,
      leaseExpiry = None, isLessor = False, leaseCommitBlockheight = None, pendingLeaseBlockheight = None,
      pendingLeaseBlockheightSignable = None, pendingLeaseBlockheightCommitted = None,
      lastSignedCommitLeaseBlockheight = None, leaseHeightHistory = None,
      dataLossDetected = False, stateUncertain = False, restoreRecencyUnproven = False,
      reestablishRecencyUnproven = False, reestablishSecretMissing = False, restoreRevokedRisk = False,
      recoveryCloseReason = None, closeSpendsSpliceTxid = None, closeSpendsFundingTxid = None\<rparr>"

definition createAcceptorState ::
  "bytes \<Rightarrow> int \<Rightarrow> int \<Rightarrow> IChannelConfig \<Rightarrow> IChannelBasepoints \<Rightarrow> bytes \<Rightarrow> IChannelBasepoints \<Rightarrow>
     IChannelConfig \<Rightarrow> IChannelState" where
  "createAcceptorState tempId funding push config basepoints seed theirBasepoints theirConfig =
     (createOpenerState tempId funding push config basepoints seed)
       \<lparr>role := ACCEPTOR, minimumDepth := DEFAULT_MINIMUM_DEPTH, remoteConfig := theirConfig,
        remoteBasepoints := Some theirBasepoints,
        localBalanceMsat := push, remoteBalanceMsat := funding * 1000 - push\<rparr>"

definition mustNotBroadcastCommitment :: "IChannelState \<Rightarrow> bool" where
  "mustNotBroadcastCommitment s \<longleftrightarrow> dataLossDetected s \<or> stateUncertain s \<or> restoreRevokedRisk s"

definition isRecencyUnproven :: "IChannelState \<Rightarrow> bool" where
  "isRecencyUnproven s \<longleftrightarrow> restoreRecencyUnproven s \<or> reestablishRecencyUnproven s \<or> reestablishSecretMissing s"

definition recencyHoldOrigin :: "IChannelState \<Rightarrow> RecencyHoldOrigin option" where
  "recencyHoldOrigin s =
     (if reestablishSecretMissing s then Some secret_missing
      else if restoreRecencyUnproven s then Some restore_origin
      else if reestablishRecencyUnproven s then Some reestablish_origin
      else None)"

subsection \<open>Helpers\<close>

definition getPerCommitmentSecret :: "btc \<Rightarrow> bytes \<Rightarrow> int \<Rightarrow> bytes res" where
  "getPerCommitmentSecret lib seed number = generateFromSeed (sha256 lib) seed (MAX_INDEX - number)"

definition getPerCommitmentPoint :: "ecc \<Rightarrow> btc \<Rightarrow> bytes \<Rightarrow> int \<Rightarrow> bytes res" where
  "getPerCommitmentPoint e lib seed number =
     rbind (generateFromSeed (sha256 lib) seed (MAX_INDEX - number)) (perCommitmentPointFromSecret e)"

definition bigIntMax :: "int \<Rightarrow> int \<Rightarrow> int" where
  "bigIntMax a b = (if a > b then a else b)"

definition bigIntMin :: "int \<Rightarrow> int \<Rightarrow> int" where
  "bigIntMin a b = (if a < b then a else b)"

lemma bigIntMax_eq [simp]: "bigIntMax a b = max a b" by (simp add: bigIntMax_def max_def)

lemma bigIntMin_eq [simp]: "bigIntMin a b = min a b" by (simp add: bigIntMin_def min_def)

lemma recencyHoldOrigin_iff: "recencyHoldOrigin s = None \<longleftrightarrow> \<not> isRecencyUnproven s"
  by (simp add: recencyHoldOrigin_def isRecencyUnproven_def)

text \<open>Maps with string keys keep their insertion order; setting a present key keeps its place.\<close>

fun map_set :: "'k \<Rightarrow> 'v \<Rightarrow> ('k \<times> 'v) list \<Rightarrow> ('k \<times> 'v) list" where
  "map_set k v [] = [(k, v)]"
| "map_set k v ((k', v') # m) = (if k = k' then (k, v) # m else (k', v') # map_set k v m)"

lemma map_of_map_set: "map_of (map_set k v m) = (map_of m)(k \<mapsto> v)"
  by (induction m) auto

definition recordRevokedHtlcSnapshot :: "int \<Rightarrow> IHtlcSnapshotEntry list \<Rightarrow> IChannelState \<Rightarrow> IChannelState" where
  "recordRevokedHtlcSnapshot number entries s =
     (if entries = [] then s
      else s\<lparr>revokedHtlcSnapshots := Some (map_set number entries
               (case revokedHtlcSnapshots s of None \<Rightarrow> [] | Some m \<Rightarrow> m))\<rparr>)"

text \<open>Entries of the HTLC map are found by direction and id.\<close>

definition keyed_as :: "HtlcDirection \<Rightarrow> int \<Rightarrow> IHtlcEntry \<Rightarrow> bool" where
  "keyed_as d i e \<longleftrightarrow> direction e = d \<and> entry_id e = i"

definition htlc_get :: "HtlcDirection \<Rightarrow> int \<Rightarrow> IHtlcEntry list \<Rightarrow> IHtlcEntry option" where
  "htlc_get d i es = find (keyed_as d i) es"

definition htlc_set :: "IHtlcEntry \<Rightarrow> IHtlcEntry list \<Rightarrow> IHtlcEntry list" where
  "htlc_set e es =
     (if list_ex (keyed_as (direction e) (entry_id e)) es
      then map (\<lambda>x. if keyed_as (direction e) (entry_id e) x then e else x) es
      else es @ [e])"

definition flip_direction :: "HtlcDirection \<Rightarrow> HtlcDirection" where
  "flip_direction d = (case d of OFFERED \<Rightarrow> RECEIVED | RECEIVED \<Rightarrow> OFFERED)"

lemma flip_flip [simp]: "flip_direction (flip_direction d) = d"
  by (cases d) (simp_all add: flip_direction_def)

end
