(* ===== verification/CommitmentBuilder.thy ===== *)
theory CommitmentBuilder
  imports ChannelState "HOL-Library.Signed_Division"
begin

text \<open>
  Building the two commitments of a channel: \<^verbatim>\<open>src/lightning/channel/commitment-builder.ts\<close> (fee, trimming,
  fee-rate and lease phases, key selection, \<^verbatim>\<open>buildLocalCommitment\<close>, \<^verbatim>\<open>buildRemoteCommitment\<close>) with
  \<^verbatim>\<open>leaseCsvBlocks\<close> of \<^verbatim>\<open>src/lightning/channel/liquidity-ads.ts\<close>. The curve library
  and the transaction library are parameters. Division of millisatoshis truncates as the language's
  \<open>bigint\<close> division does; the fee is the floor of an exact quotient, as feerates are 32-bit.
\<close>

section \<open>Definitions\<close>

subsection \<open>Fees and trimming\<close>

definition HTLC_SUCCESS_WEIGHT :: int where "HTLC_SUCCESS_WEIGHT = 703"
definition HTLC_TIMEOUT_WEIGHT :: int where "HTLC_TIMEOUT_WEIGHT = 663"
definition HTLC_SUCCESS_WEIGHT_ANCHORS :: int where "HTLC_SUCCESS_WEIGHT_ANCHORS = 706"
definition HTLC_TIMEOUT_WEIGHT_ANCHORS :: int where "HTLC_TIMEOUT_WEIGHT_ANCHORS = 666"
definition COMMITMENT_TX_BASE_WEIGHT :: int where "COMMITMENT_TX_BASE_WEIGHT = 724"
definition COMMITMENT_TX_BASE_WEIGHT_ANCHORS :: int where "COMMITMENT_TX_BASE_WEIGHT_ANCHORS = 1124"
definition COMMITMENT_TX_BASE_WEIGHT_TAPROOT :: int where "COMMITMENT_TX_BASE_WEIGHT_TAPROOT = 968"
definition COMMITMENT_TX_HTLC_WEIGHT :: int where "COMMITMENT_TX_HTLC_WEIGHT = 172"

definition calculateCommitmentFee :: "int \<Rightarrow> nat \<Rightarrow> bool \<Rightarrow> bool \<Rightarrow> int" where
  "calculateCommitmentFee feerate numUntrimmedHtlcs isAnchor isTaproot =
     (let baseWeight = (if isTaproot then COMMITMENT_TX_BASE_WEIGHT_TAPROOT
                        else if isAnchor then COMMITMENT_TX_BASE_WEIGHT_ANCHORS
                        else COMMITMENT_TX_BASE_WEIGHT);
          weight = baseWeight + COMMITMENT_TX_HTLC_WEIGHT * int numUntrimmedHtlcs
      in (weight * feerate) div 1000)"

definition funderCommitmentCostSats :: "int \<Rightarrow> nat \<Rightarrow> bytes option \<Rightarrow> int" where
  "funderCommitmentCostSats feerate numUntrimmedHtlcs ctype =
     (let anchor = isAnchorChannel ctype
      in calculateCommitmentFee feerate numUntrimmedHtlcs anchor (isTaprootChannel ctype)
         + (if anchor then ANCHOR_TOTAL_COST else 0))"

definition htlcFeeSat :: "HtlcDirection \<Rightarrow> int \<Rightarrow> bool \<Rightarrow> int" where
  "htlcFeeSat dir feerate isAnchor =
     (if isAnchor then 0
      else ((if dir = OFFERED then HTLC_TIMEOUT_WEIGHT else HTLC_SUCCESS_WEIGHT) * feerate) div 1000)"

text \<open>The generic filter takes the amount and the direction of a row as functions.\<close>

definition filterUntrimmedHtlcs ::
  "('t \<Rightarrow> int) \<Rightarrow> ('t \<Rightarrow> HtlcDirection) \<Rightarrow> 't list \<Rightarrow> int \<Rightarrow> int \<Rightarrow> bool \<Rightarrow> 't list" where
  "filterUntrimmedHtlcs amount dir htlcOutputs dustLimitSat feerate isAnchor =
     List.filter (\<lambda>h. amount h \<ge> dustLimitSat + htlcFeeSat (dir h) feerate isAnchor) htlcOutputs"

subsection \<open>Leases\<close>

definition LEASE_DURATION_BLOCKS :: int where "LEASE_DURATION_BLOCKS = 4032"

definition leaseCsvBlocks :: "int option \<Rightarrow> int option \<Rightarrow> int option" where
  "leaseCsvBlocks expiry height =
     (case expiry of
        None \<Rightarrow> None
      | Some e \<Rightarrow>
          if e \<le> 0 then None
          else case height of
            None \<Rightarrow> Some LEASE_DURATION_BLOCKS
          | Some h \<Rightarrow>
              if h \<le> 0 then Some LEASE_DURATION_BLOCKS
              else if h \<ge> e then None
              else Some (e - h))"

subsection \<open>Which updates a commitment carries\<close>

definition removed :: "IHtlcEntry \<Rightarrow> bool" where
  "removed entry \<longleftrightarrow> entry_state entry = FULFILLED \<or> entry_state entry = FAILED"

definition signedLocalCarriesRemoval :: "IHtlcEntry \<Rightarrow> bool \<Rightarrow> bool" where
  "signedLocalCarriesRemoval entry signedLocal \<longleftrightarrow>
     signedLocal \<and> direction entry = OFFERED \<and>
     (entry_state entry = FULFILLED \<or> entry_state entry = FAILED) \<and>
     is_false (removalLocallyRevoked entry) \<and> \<not> is_false (addRemoteSigned entry)"

definition signedLocalRetainedRemovals :: "IChannelState \<Rightarrow> bool \<Rightarrow> IHtlcEntry list" where
  "signedLocalRetainedRemovals state signedLocal =
     (if signedLocal then (case signedLocalRemovals state of None \<Rightarrow> [] | Some es \<Rightarrow> es) else [])"

definition localCommitmentCarriesAdd :: "IHtlcEntry \<Rightarrow> bool \<Rightarrow> bool" where
  "localCommitmentCarriesAdd entry signedLocal =
     (if is_false (addRemoteCommitted entry) then False
      else \<not> signedLocal \<or> \<not> is_false (addRemoteSigned entry))"

definition signedLocalLacksReceivedAdd :: "IHtlcEntry \<Rightarrow> bool \<Rightarrow> bool" where
  "signedLocalLacksReceivedAdd entry signedLocal \<longleftrightarrow>
     signedLocal \<and> direction entry = RECEIVED \<and> is_false (addLocallyRevoked entry)"

subsection \<open>Fee rates and lease heights\<close>

definition committedFeeRate :: "IChannelState \<Rightarrow> int" where
  "committedFeeRate state =
     (if role state = OPENER then feeratePerKw (localConfig state) else feeratePerKw (remoteConfig state))"

definition getCommitmentFeeRate :: "IChannelState \<Rightarrow> bool \<Rightarrow> int" where
  "getCommitmentFeeRate state signedLocal =
     (case (signedLocal, lastSignedCommitFeeratePerKw state) of
        (True, Some f) \<Rightarrow> f
      | _ \<Rightarrow> (case pendingFeeratePerKw state of Some f \<Rightarrow> f | None \<Rightarrow> committedFeeRate state))"

definition getLocalCommitmentFeeRate :: "IChannelState \<Rightarrow> bool \<Rightarrow> int" where
  "getLocalCommitmentFeeRate state signedLocal =
     (case (signedLocal, lastSignedCommitFeeratePerKw state) of
        (True, Some f) \<Rightarrow> f
      | _ \<Rightarrow> (case (pendingFeeratePerKw state, role state) of
                (Some f, ACCEPTOR) \<Rightarrow> f
              | _ \<Rightarrow> committedFeeRate state))"

definition getRemoteCommitmentFeeRate :: "IChannelState \<Rightarrow> int" where
  "getRemoteCommitmentFeeRate state =
     (case pendingFeeratePerKw state of
        Some f \<Rightarrow> if role state = OPENER \<or> pendingFeerateSignable state = Some True then f
                  else committedFeeRate state
      | None \<Rightarrow> committedFeeRate state)"

definition getLocalCommitmentLeaseBlockheight :: "IChannelState \<Rightarrow> bool \<Rightarrow> int option" where
  "getLocalCommitmentLeaseBlockheight state signedLocal =
     (if signedLocal \<and> lastSignedCommitLeaseBlockheight state \<noteq> None
      then lastSignedCommitLeaseBlockheight state
      else if pendingLeaseBlockheight state \<noteq> None \<and> role state = ACCEPTOR
      then pendingLeaseBlockheight state
      else leaseCommitBlockheight state)"

definition getRemoteCommitmentLeaseBlockheight :: "IChannelState \<Rightarrow> int option" where
  "getRemoteCommitmentLeaseBlockheight state =
     (if pendingLeaseBlockheight state \<noteq> None \<and>
         (role state = OPENER \<or> pendingLeaseBlockheightSignable state = Some True)
      then pendingLeaseBlockheight state
      else leaseCommitBlockheight state)"

subsection \<open>Keys of a commitment\<close>

record ICommitmentKeys =
  k_revocationPubkey :: bytes
  k_localDelayedPubkey :: bytes
  k_remotePaymentPubkey :: bytes
  k_localHtlcPubkey :: bytes
  k_remoteHtlcPubkey :: bytes

definition deriveCommitmentKeys ::
  "ecc \<Rightarrow> btc \<Rightarrow> IChannelBasepoints \<Rightarrow> IChannelBasepoints \<Rightarrow> bytes \<Rightarrow> bool \<Rightarrow> ICommitmentKeys res" where
  "deriveCommitmentKeys e lib localBp remoteBp perCommitmentPoint isLocal =
     (let h = sha256 lib in
      if isLocal then
        rbind (deriveRevocationPubkey e h (revocationBasepoint remoteBp) perCommitmentPoint) (\<lambda>revocation.
        rbind (derivePublicKey e h (delayedPaymentBasepoint localBp) perCommitmentPoint) (\<lambda>delayed.
        rbind (derivePublicKey e h (htlcBasepoint localBp) perCommitmentPoint) (\<lambda>localHtlc.
        rbind (derivePublicKey e h (htlcBasepoint remoteBp) perCommitmentPoint) (\<lambda>remoteHtlc.
        Inr \<lparr>k_revocationPubkey = revocation, k_localDelayedPubkey = delayed,
             k_remotePaymentPubkey = paymentBasepoint remoteBp, k_localHtlcPubkey = localHtlc,
             k_remoteHtlcPubkey = remoteHtlc\<rparr>))))
      else
        rbind (deriveRevocationPubkey e h (revocationBasepoint localBp) perCommitmentPoint) (\<lambda>revocation.
        rbind (derivePublicKey e h (delayedPaymentBasepoint remoteBp) perCommitmentPoint) (\<lambda>delayed.
        rbind (derivePublicKey e h (htlcBasepoint remoteBp) perCommitmentPoint) (\<lambda>localHtlc.
        rbind (derivePublicKey e h (htlcBasepoint localBp) perCommitmentPoint) (\<lambda>remoteHtlc.
        Inr \<lparr>k_revocationPubkey = revocation, k_localDelayedPubkey = delayed,
             k_remotePaymentPubkey = paymentBasepoint localBp, k_localHtlcPubkey = localHtlc,
             k_remoteHtlcPubkey = remoteHtlc\<rparr>)))))"

subsection \<open>HTLC outputs\<close>

record HtlcOutputMeta = IHtlcOutput +
  hm_htlcId :: "int option"
  hm_direction :: HtlcDirection
  hm_amountMsat :: int

definition taprootHtlcScript ::
  "btc \<Rightarrow> bool \<Rightarrow> HtlcDirection \<Rightarrow> ICommitmentKeys \<Rightarrow> bytes \<Rightarrow> int \<Rightarrow> bytes option res" where
  "taprootHtlcScript lib isTaproot kind keys hash expiry =
     (if \<not> isTaproot then Inr None
      else if kind = OFFERED then
        rbind (buildTaprootOfferedHtlcOutput lib (k_revocationPubkey keys) (k_localHtlcPubkey keys)
          (k_remoteHtlcPubkey keys) hash) (\<lambda>spk. Inr (Some spk))
      else
        rbind (buildTaprootReceivedHtlcOutput lib (k_revocationPubkey keys) (k_localHtlcPubkey keys)
          (k_remoteHtlcPubkey keys) hash expiry) (\<lambda>spk. Inr (Some spk)))"

text \<open>
  The output of one entry on a commitment whose owner sees it as \<open>kind\<close>; both loops of the source push
  this row, with the metadata the calling side keeps.
\<close>

definition htlcScriptOf ::
  "btc \<Rightarrow> bytes option \<Rightarrow> HtlcDirection \<Rightarrow> ICommitmentKeys \<Rightarrow> IHtlcEntry \<Rightarrow> bytes res" where
  "htlcScriptOf lib ctype kind keys entry =
     (if kind = OFFERED then
        buildOfferedHtlcScript lib (k_revocationPubkey keys) (k_localHtlcPubkey keys)
          (k_remoteHtlcPubkey keys) (paymentHash entry) (isAnchorChannel ctype)
      else
        buildReceivedHtlcScript lib (k_revocationPubkey keys) (k_localHtlcPubkey keys)
          (k_remoteHtlcPubkey keys) (paymentHash entry) (cltvExpiry entry) (isAnchorChannel ctype))"

definition htlcRow ::
  "btc \<Rightarrow> bytes option \<Rightarrow> HtlcDirection \<Rightarrow> ICommitmentKeys \<Rightarrow> int option \<Rightarrow> HtlcDirection \<Rightarrow> IHtlcEntry \<Rightarrow>
     HtlcOutputMeta res" where
  "htlcRow lib ctype kind keys hid dir entry =
     rbind (htlcScriptOf lib ctype kind keys entry) (\<lambda>script.
     rbind (taprootHtlcScript lib (isTaprootChannel ctype) kind keys (paymentHash entry) (cltvExpiry entry))
       (\<lambda>taproot.
     Inr \<lparr>ho_script = script, ho_amount = amountMsat entry sdiv 1000, ho_cltvExpiry = cltvExpiry entry,
          ho_paymentHash = paymentHash entry, ho_taprootScript = taproot, hm_htlcId = hid,
          hm_direction = dir, hm_amountMsat = amountMsat entry\<rparr>))"

definition buildLocalHtlcOutput ::
  "btc \<Rightarrow> IChannelState \<Rightarrow> ICommitmentKeys \<Rightarrow> IHtlcEntry \<Rightarrow> HtlcOutputMeta res" where
  "buildLocalHtlcOutput lib state keys entry =
     htlcRow lib (channelType state) (direction entry) keys None (direction entry) entry"

text \<open>The \<^verbatim>\<open>continue\<close> conditions of the two loops.\<close>

definition localCarriesHtlc :: "bool \<Rightarrow> IHtlcEntry \<Rightarrow> bool" where
  "localCarriesHtlc signedLocal entry =
     (if signedLocalLacksReceivedAdd entry signedLocal then False
      else if removed entry then
        (direction entry = RECEIVED \<and> is_false (removalRemoteCommitted entry))
          \<or> signedLocalCarriesRemoval entry signedLocal
      else if entry_state entry \<noteq> PENDING \<and> entry_state entry \<noteq> COMMITTED then False
      else \<not> (direction entry = OFFERED \<and> \<not> localCommitmentCarriesAdd entry signedLocal))"

definition remoteCarriesHtlc :: "IHtlcEntry \<Rightarrow> bool" where
  "remoteCarriesHtlc entry =
     (if removed entry then direction entry = OFFERED \<and> is_false (removalLocallyRevoked entry)
      else if entry_state entry \<noteq> PENDING \<and> entry_state entry \<noteq> COMMITTED then False
      else \<not> (direction entry = RECEIVED \<and> is_false (addLocallyRevoked entry)))"

fun map_res :: "('a \<Rightarrow> 'b res) \<Rightarrow> 'a list \<Rightarrow> 'b list res" where
  "map_res f [] = Inr []"
| "map_res f (x # xs) = rbind (f x) (\<lambda>y. rbind (map_res f xs) (\<lambda>ys. Inr (y # ys)))"

definition buildHtlcOutputsForLocal ::
  "btc \<Rightarrow> IChannelState \<Rightarrow> ICommitmentKeys \<Rightarrow> bool \<Rightarrow> HtlcOutputMeta list res" where
  "buildHtlcOutputsForLocal lib state keys signedLocal =
     rbind (map_res (buildLocalHtlcOutput lib state keys)
       (List.filter (localCarriesHtlc signedLocal) (htlcs state))) (\<lambda>outputs.
     rbind (map_res (buildLocalHtlcOutput lib state keys) (signedLocalRetainedRemovals state signedLocal))
       (\<lambda>retained. Inr (outputs @ retained)))"

definition buildHtlcOutputsForRemote ::
  "btc \<Rightarrow> IChannelState \<Rightarrow> ICommitmentKeys \<Rightarrow> HtlcOutputMeta list res" where
  "buildHtlcOutputsForRemote lib state keys =
     map_res (\<lambda>entry. htlcRow lib (channelType state) (flip_direction (direction entry)) keys
         (Some (entry_id entry)) (direction entry) entry)
       (List.filter remoteCarriesHtlc (htlcs state))"

subsection \<open>Balances\<close>

text \<open>The bodies of the balance loops, on the pair of our and their balance in this commitment.\<close>

definition localBalanceStep :: "bool \<Rightarrow> int \<times> int \<Rightarrow> IHtlcEntry \<Rightarrow> int \<times> int" where
  "localBalanceStep signedLocal bal entry =
     (case bal of (localMsat, remoteMsat) \<Rightarrow>
      if signedLocalCarriesRemoval entry signedLocal then (localMsat, remoteMsat)
      else if signedLocalLacksReceivedAdd entry signedLocal
      then (localMsat, remoteMsat + amountMsat entry)
      else if entry_state entry = FULFILLED then
        (if direction entry = RECEIVED then
           (if \<not> is_false (removalRemoteCommitted entry) then (localMsat + amountMsat entry, remoteMsat)
            else (localMsat, remoteMsat))
         else if localCommitmentCarriesAdd entry signedLocal
         then (localMsat, remoteMsat + amountMsat entry)
         else (localMsat + amountMsat entry, remoteMsat))
      else if entry_state entry = FAILED then
        (if direction entry = RECEIVED then
           (if \<not> is_false (removalRemoteCommitted entry) then (localMsat, remoteMsat + amountMsat entry)
            else (localMsat, remoteMsat))
         else (localMsat + amountMsat entry, remoteMsat))
      else if direction entry = OFFERED \<and> \<not> localCommitmentCarriesAdd entry signedLocal
      then (localMsat + amountMsat entry, remoteMsat)
      else (localMsat, remoteMsat))"

definition retainedBalanceStep :: "int \<times> int \<Rightarrow> IHtlcEntry \<Rightarrow> int \<times> int" where
  "retainedBalanceStep bal entry =
     (case bal of (localMsat, remoteMsat) \<Rightarrow>
      if entry_state entry = FULFILLED then (localMsat - amountMsat entry, remoteMsat)
      else (localMsat, remoteMsat - amountMsat entry))"

definition localBalances :: "IChannelState \<Rightarrow> bool \<Rightarrow> int \<times> int" where
  "localBalances state signedLocal =
     foldl retainedBalanceStep
       (foldl (localBalanceStep signedLocal) (localBalanceMsat state, remoteBalanceMsat state) (htlcs state))
       (signedLocalRetainedRemovals state signedLocal)"

definition remoteBalanceStep :: "int \<times> int \<Rightarrow> IHtlcEntry \<Rightarrow> int \<times> int" where
  "remoteBalanceStep bal entry =
     (case bal of (localMsat, remoteMsat) \<Rightarrow>
      if entry_state entry = FULFILLED then
        (if direction entry = RECEIVED then (localMsat, remoteMsat + amountMsat entry)
         else if \<not> is_false (removalLocallyRevoked entry) then (localMsat + amountMsat entry, remoteMsat)
         else (localMsat, remoteMsat))
      else if entry_state entry = FAILED then
        (if direction entry = RECEIVED then (localMsat + amountMsat entry, remoteMsat)
         else if \<not> is_false (removalLocallyRevoked entry) then (localMsat, remoteMsat + amountMsat entry)
         else (localMsat, remoteMsat))
      else if direction entry = RECEIVED \<and> is_false (addLocallyRevoked entry)
      then (localMsat + amountMsat entry, remoteMsat)
      else (localMsat, remoteMsat))"

definition remoteBalances :: "IChannelState \<Rightarrow> int \<times> int" where
  "remoteBalances state =
     foldl remoteBalanceStep (remoteBalanceMsat state, localBalanceMsat state) (htlcs state)"

text \<open>Flooring to satoshis, the opener's fee and anchors, and saturation at zero.\<close>

definition outputAmounts :: "bool \<Rightarrow> int \<Rightarrow> bool \<Rightarrow> int \<times> int \<Rightarrow> int \<times> int" where
  "outputAmounts ownerPays fee useAnchors bal =
     (case bal of (localMsat, remoteMsat) \<Rightarrow>
      let localAmount = localMsat sdiv 1000; remoteAmount = remoteMsat sdiv 1000;
          cost = fee + (if useAnchors then ANCHOR_TOTAL_COST else 0);
          localAmount = (if ownerPays then localAmount - cost else localAmount);
          remoteAmount = (if ownerPays then remoteAmount else remoteAmount - cost)
      in (if localAmount < 0 then 0 else localAmount, if remoteAmount < 0 then 0 else remoteAmount))"

subsection \<open>The two commitments\<close>

record IBuiltCommitment =
  bc_funderBalanceMsat :: int
  bc_result :: ICommitmentTxResult
  bc_fundingWitnessScript :: bytes
  bc_fundingAmount :: int
  bc_htlcOutputs :: "HtlcOutputMeta list"

definition applyTaprootCommitOverrides ::
  "btc \<Rightarrow> bytes option \<Rightarrow> 'h ICommitmentTxParams \<Rightarrow> 'h ICommitmentTxParams res" where
  "applyTaprootCommitOverrides lib ctype params =
     (if \<not> isTaprootChannel ctype then Inr params
      else
        rbind (buildTaprootToLocalOutput lib (p_revocationPubkey params) (p_localDelayedPubkey params)
          (p_toSelfDelay params)) (\<lambda>toLocal.
        rbind (buildTaprootToRemoteOutput lib (p_remotePaymentPubkey params)) (\<lambda>toRemote.
        rbind (buildTaprootAnchorOutput lib (p_localDelayedPubkey params)) (\<lambda>anchorLocal.
        rbind (buildTaprootAnchorOutput lib (p_remotePaymentPubkey params)) (\<lambda>anchorRemote.
        Inr (params\<lparr>p_taprootToLocalScript := Some toLocal, p_taprootToRemoteScript := Some toRemote,
                    p_taprootAnchorLocalScript := Some anchorLocal,
                    p_taprootAnchorRemoteScript := Some anchorRemote\<rparr>))))))"

definition notReady :: js_error where
  "notReady = Error ''Channel state not ready for commitment building'' []"

definition obscuredFor :: "btc \<Rightarrow> ChannelRole \<Rightarrow> IChannelBasepoints \<Rightarrow> IChannelBasepoints \<Rightarrow> int \<Rightarrow> int" where
  "obscuredFor lib r localBp remoteBp number =
     (if r = OPENER
      then calculateObscuredCommitmentNumber lib (paymentBasepoint localBp) (paymentBasepoint remoteBp) number
      else calculateObscuredCommitmentNumber lib (paymentBasepoint remoteBp) (paymentBasepoint localBp) number)"

text \<open>
  The parameters of either commitment. \<open>outputs\<close> are the untrimmed HTLC rows, whose number sets the fee.
\<close>

definition localParams ::
  "btc \<Rightarrow> IChannelState \<Rightarrow> IChannelBasepoints \<Rightarrow> bytes \<Rightarrow> ICommitmentKeys \<Rightarrow> int \<Rightarrow> bool \<Rightarrow>
     HtlcOutputMeta list \<Rightarrow> HtlcOutputMeta ICommitmentTxParams" where
  "localParams lib state remoteBp txid keys commitNum signedLocal outputs =
     (let useAnchors = isAnchorChannel (channelType state);
          fee = calculateCommitmentFee (getLocalCommitmentFeeRate state signedLocal) (length outputs)
            useAnchors (isTaprootChannel (channelType state));
          amounts = outputAmounts (role state = OPENER) fee useAnchors (localBalances state signedLocal);
          lease = leaseCsvBlocks (leaseExpiry state) (getLocalCommitmentLeaseBlockheight state signedLocal)
      in \<lparr>p_fundingTxid = txid, p_fundingOutputIndex = fundingOutputIndex state,
          p_fundingAmount = fundingSatoshis state,
          p_obscuredCommitmentNumber =
            obscuredFor lib (role state) (localBasepoints state) remoteBp commitNum,
          p_localAmount = fst amounts, p_revocationPubkey = k_revocationPubkey keys,
          p_localDelayedPubkey = k_localDelayedPubkey keys,
          p_toSelfDelay = toSelfDelay (remoteConfig state),
          p_leaseCsv = (if isLessor state then lease else None), p_remoteAmount = snd amounts,
          p_remotePaymentPubkey = k_remotePaymentPubkey keys,
          p_toRemoteLeaseCsv = (if \<not> isLessor state then lease else None),
          p_htlcOutputs = Some outputs,
          p_dustLimitSatoshis = Some (dustLimitSatoshis (localConfig state)), p_useAnchors = useAnchors,
          p_localFundingPubkey = (if useAnchors then Some (fundingPubkey (localBasepoints state)) else None),
          p_remoteFundingPubkey = (if useAnchors then Some (fundingPubkey remoteBp) else None),
          p_taprootToLocalScript = None, p_taprootToRemoteScript = None,
          p_taprootAnchorLocalScript = None, p_taprootAnchorRemoteScript = None\<rparr>)"

definition remoteParams ::
  "btc \<Rightarrow> IChannelState \<Rightarrow> IChannelBasepoints \<Rightarrow> bytes \<Rightarrow> ICommitmentKeys \<Rightarrow> int \<Rightarrow>
     HtlcOutputMeta list \<Rightarrow> HtlcOutputMeta ICommitmentTxParams" where
  "remoteParams lib state remoteBp txid keys commitNum outputs =
     (let useAnchors = isAnchorChannel (channelType state);
          fee = calculateCommitmentFee (getRemoteCommitmentFeeRate state) (length outputs)
            useAnchors (isTaprootChannel (channelType state));
          amounts = outputAmounts (role state \<noteq> OPENER) fee useAnchors (remoteBalances state);
          lease = leaseCsvBlocks (leaseExpiry state) (getRemoteCommitmentLeaseBlockheight state)
      in \<lparr>p_fundingTxid = txid, p_fundingOutputIndex = fundingOutputIndex state,
          p_fundingAmount = fundingSatoshis state,
          p_obscuredCommitmentNumber =
            obscuredFor lib (role state) (localBasepoints state) remoteBp commitNum,
          p_localAmount = fst amounts, p_revocationPubkey = k_revocationPubkey keys,
          p_localDelayedPubkey = k_localDelayedPubkey keys,
          p_toSelfDelay = toSelfDelay (localConfig state),
          p_leaseCsv = (if isLessor state then None else lease), p_remoteAmount = snd amounts,
          p_remotePaymentPubkey = k_remotePaymentPubkey keys,
          p_toRemoteLeaseCsv = (if isLessor state then lease else None),
          p_htlcOutputs = Some outputs,
          p_dustLimitSatoshis = Some (dustLimitSatoshis (remoteConfig state)), p_useAnchors = useAnchors,
          p_localFundingPubkey = (if useAnchors then Some (fundingPubkey remoteBp) else None),
          p_remoteFundingPubkey = (if useAnchors then Some (fundingPubkey (localBasepoints state)) else None),
          p_taprootToLocalScript = None, p_taprootToRemoteScript = None,
          p_taprootAnchorLocalScript = None, p_taprootAnchorRemoteScript = None\<rparr>)"

text \<open>The common tail: funding script, taproot overrides, transaction.\<close>

definition finishCommitment ::
  "btc \<Rightarrow> IChannelState \<Rightarrow> IChannelBasepoints \<Rightarrow> int \<Rightarrow> HtlcOutputMeta list \<Rightarrow>
     HtlcOutputMeta ICommitmentTxParams \<Rightarrow> IBuiltCommitment res" where
  "finishCommitment lib state remoteBp funderMsat outputs params =
     rbind (createFundingScript lib (fundingPubkey (localBasepoints state)) (fundingPubkey remoteBp))
       (\<lambda>witnessScript.
     rbind (applyTaprootCommitOverrides lib (channelType state) params) (\<lambda>params.
     rbind (buildCommitmentTx lib params) (\<lambda>result.
     Inr \<lparr>bc_funderBalanceMsat = funderMsat, bc_result = result,
          bc_fundingWitnessScript = witnessScript, bc_fundingAmount = fundingSatoshis state,
          bc_htlcOutputs = outputs\<rparr>)))"

definition buildLocalCommitment ::
  "ecc \<Rightarrow> btc \<Rightarrow> IChannelState \<Rightarrow> bytes \<Rightarrow> int option \<Rightarrow> bool \<Rightarrow> IBuiltCommitment res" where
  "buildLocalCommitment e lib state perCommitmentPoint commitmentNumber signedLocal =
     (case (remoteBasepoints state, fundingTxid state) of
        (Some remoteBp, Some txid) \<Rightarrow>
          rbind (deriveCommitmentKeys e lib (localBasepoints state) remoteBp perCommitmentPoint True) (\<lambda>keys.
          rbind (buildHtlcOutputsForLocal lib state keys signedLocal) (\<lambda>rows.
          let commitNum = (case commitmentNumber of Some n \<Rightarrow> n | None \<Rightarrow> localCommitmentNumber state);
              outputs = filterUntrimmedHtlcs ho_amount hm_direction rows
                (dustLimitSatoshis (localConfig state)) (getLocalCommitmentFeeRate state signedLocal)
                (isAnchorChannel (channelType state));
              balances = localBalances state signedLocal
          in finishCommitment lib state remoteBp
               (if role state = OPENER then fst balances else snd balances) outputs
               (localParams lib state remoteBp txid keys commitNum signedLocal outputs)))
      | _ \<Rightarrow> Inl notReady)"

definition buildRemoteCommitment ::
  "ecc \<Rightarrow> btc \<Rightarrow> IChannelState \<Rightarrow> bytes \<Rightarrow> int option \<Rightarrow> IBuiltCommitment res" where
  "buildRemoteCommitment e lib state remotePerCommitmentPoint commitmentNumber =
     (case (remoteBasepoints state, fundingTxid state) of
        (Some remoteBp, Some txid) \<Rightarrow>
          rbind (deriveCommitmentKeys e lib (localBasepoints state) remoteBp remotePerCommitmentPoint False)
            (\<lambda>keys.
          rbind (buildHtlcOutputsForRemote lib state keys) (\<lambda>rows.
          let commitNum = (case commitmentNumber of Some n \<Rightarrow> n | None \<Rightarrow> remoteCommitmentNumber state);
              outputs = filterUntrimmedHtlcs ho_amount hm_direction rows
                (dustLimitSatoshis (remoteConfig state)) (getRemoteCommitmentFeeRate state)
                (isAnchorChannel (channelType state));
              balances = remoteBalances state
          in finishCommitment lib state remoteBp
               (if role state = OPENER then snd balances else fst balances) outputs
               (remoteParams lib state remoteBp txid keys commitNum outputs)))
      | _ \<Rightarrow> Inl notReady)"

section \<open>Conservation\<close>

text \<open>What an entry adds to either balance; the loops add up these amounts.\<close>

definition local_credit :: "bool \<Rightarrow> IHtlcEntry \<Rightarrow> int \<times> int" where
  "local_credit signedLocal entry = localBalanceStep signedLocal (0, 0) entry"

definition remote_credit :: "IHtlcEntry \<Rightarrow> int \<times> int" where
  "remote_credit entry = remoteBalanceStep (0, 0) entry"

definition retained_debit :: "IHtlcEntry \<Rightarrow> int \<times> int" where
  "retained_debit entry = retainedBalanceStep (0, 0) entry"

lemma balance_steps:
  "localBalanceStep sl (l, r) e = (l + fst (local_credit sl e), r + snd (local_credit sl e))"
  "remoteBalanceStep (l, r) e = (l + fst (remote_credit e), r + snd (remote_credit e))"
  "retainedBalanceStep (l, r) e = (l + fst (retained_debit e), r + snd (retained_debit e))"
  by (simp_all add: localBalanceStep_def local_credit_def remoteBalanceStep_def remote_credit_def
      retainedBalanceStep_def retained_debit_def)

lemma foldl_pair_sum:
  assumes "\<And>l r e. f (l, r) e = (l + fst (c e), r + snd (c e))"
  shows "foldl f (l, r) es = (l + (\<Sum>e\<leftarrow>es. fst (c e)), r + (\<Sum>e\<leftarrow>es. snd (c e :: int \<times> int)))"
  by (induction es arbitrary: l r) (simp_all add: assms)

lemma localBalances_sum:
  "localBalances s sl =
     (localBalanceMsat s + (\<Sum>e\<leftarrow>htlcs s. fst (local_credit sl e))
        + (\<Sum>e\<leftarrow>signedLocalRetainedRemovals s sl. fst (retained_debit e)),
      remoteBalanceMsat s + (\<Sum>e\<leftarrow>htlcs s. snd (local_credit sl e))
        + (\<Sum>e\<leftarrow>signedLocalRetainedRemovals s sl. snd (retained_debit e)))"
  by (simp add: localBalances_def foldl_pair_sum [OF balance_steps(1)] foldl_pair_sum [OF balance_steps(3)])

lemma remoteBalances_sum:
  "remoteBalances s =
     (remoteBalanceMsat s + (\<Sum>e\<leftarrow>htlcs s. fst (remote_credit e)),
      localBalanceMsat s + (\<Sum>e\<leftarrow>htlcs s. snd (remote_credit e)))"
  by (simp add: remoteBalances_def foldl_pair_sum [OF balance_steps(2)])

text \<open>Every entry is either an output of the commitment or credited to exactly one side.\<close>

lemma local_credit_total:
  "fst (local_credit sl e) + snd (local_credit sl e) = (if localCarriesHtlc sl e then 0 else amountMsat e)"
  by (cases "entry_state e"; cases "direction e")
    (auto simp: local_credit_def localBalanceStep_def localCarriesHtlc_def removed_def
      signedLocalCarriesRemoval_def signedLocalLacksReceivedAdd_def localCommitmentCarriesAdd_def)

lemma remote_credit_total:
  "fst (remote_credit e) + snd (remote_credit e) = (if remoteCarriesHtlc e then 0 else amountMsat e)"
  by (cases "entry_state e"; cases "direction e")
    (auto simp: remote_credit_def remoteBalanceStep_def remoteCarriesHtlc_def removed_def)

lemma retained_debit_total: "fst (retained_debit e) + snd (retained_debit e) = - amountMsat e"
  by (simp add: retained_debit_def retainedBalanceStep_def)

lemma sum_split:
  assumes "\<And>e. f e + g e = (if P e then 0 else (v e :: int))"
  shows "(\<Sum>e\<leftarrow>es. f e) + (\<Sum>e\<leftarrow>es. g e) + (\<Sum>e\<leftarrow>List.filter P es. v e) = (\<Sum>e\<leftarrow>es. v e)"
proof (induction es)
  case (Cons e es)
  have "f e + g e = 0" if "P e" using assms [of e] that by simp
  moreover have "f e + g e = v e" if "\<not> P e" using assms [of e] that by simp
  ultimately have "f e + g e + (if P e then v e else 0) = v e" by simp
  moreover have "(\<Sum>x\<leftarrow>List.filter P (e # es). v x) = (if P e then v e else 0) + (\<Sum>x\<leftarrow>List.filter P es. v x)"
    by simp
  ultimately show ?case using Cons by simp
qed simp

lemmas local_split = sum_split [where f = "\<lambda>e. fst (local_credit sl e)" and g = "\<lambda>e. snd (local_credit sl e)"
  and P = "localCarriesHtlc sl" and v = amountMsat for sl, OF local_credit_total]

lemmas remote_split = sum_split [where f = "\<lambda>e. fst (remote_credit e)" and g = "\<lambda>e. snd (remote_credit e)"
  and P = remoteCarriesHtlc and v = amountMsat, OF remote_credit_total]

definition carried :: "IChannelState \<Rightarrow> bool \<Rightarrow> IHtlcEntry list" where
  "carried s sl = List.filter (localCarriesHtlc sl) (htlcs s) @ signedLocalRetainedRemovals s sl"

definition channelTotalMsat :: "IChannelState \<Rightarrow> int" where
  "channelTotalMsat s = localBalanceMsat s + remoteBalanceMsat s + (\<Sum>e\<leftarrow>htlcs s. amountMsat e)"

lemma localBalances_conserve:
  "fst (localBalances s sl) + snd (localBalances s sl) + (\<Sum>e\<leftarrow>carried s sl. amountMsat e) = channelTotalMsat s"
proof -
  have "(\<Sum>e\<leftarrow>es. fst (retained_debit e)) + (\<Sum>e\<leftarrow>es. snd (retained_debit e)) + (\<Sum>e\<leftarrow>es. amountMsat e) = 0" for es
  proof (induction es)
    case (Cons e es)
    then show ?case using retained_debit_total [of e] by simp
  qed simp
  from this [of "signedLocalRetainedRemovals s sl"] show ?thesis
    using local_split [of sl "htlcs s"]
    by (simp add: localBalances_sum carried_def channelTotalMsat_def)
qed

lemma remoteBalances_conserve:
  "fst (remoteBalances s) + snd (remoteBalances s) + (\<Sum>e\<leftarrow>List.filter remoteCarriesHtlc (htlcs s). amountMsat e)
     = channelTotalMsat s"
  using remote_split [of "htlcs s"]
  by (simp add: remoteBalances_sum channelTotalMsat_def)


section \<open>The value of the outputs\<close>

lemma map_res_Inr:
  "map_res f xs = Inr ys \<longleftrightarrow> list_all2 (\<lambda>x y. f x = Inr y) xs ys"
proof (induction xs arbitrary: ys)
  case (Cons x xs)
  show ?case by (cases ys) (auto simp: rbind_eq_Inr Cons)
qed (auto simp: list_all2_Nil)

lemma htlcRow_fields:
  assumes "htlcRow lib ctype kind keys hid dir e = Inr h"
  shows "ho_amount h = amountMsat e sdiv 1000" "hm_amountMsat h = amountMsat e" "hm_direction h = dir"
  using assms by (auto simp: htlcRow_def rbind_eq_Inr)

lemma sdiv_1000: "0 \<le> (a :: int) \<Longrightarrow> a sdiv 1000 = a div 1000"
  by (cases "a = 0") (simp_all add: signed_divide_int_def)

lemma rows_amounts:
  assumes "list_all2 (\<lambda>e h. ho_amount h = amountMsat e sdiv 1000) es rows" "list_all (\<lambda>e. 0 \<le> amountMsat e) es"
  shows "1000 * (\<Sum>h\<leftarrow>rows. ho_amount h) \<le> (\<Sum>e\<leftarrow>es. amountMsat e) \<and> list_all (\<lambda>h. 0 \<le> ho_amount h) rows"
  using assms
proof (induction rule: list_all2_induct)
  case (Cons e es h rows)
  then have "ho_amount h = amountMsat e div 1000" "0 \<le> amountMsat e" by (simp_all add: sdiv_1000)
  then have "1000 * ho_amount h \<le> amountMsat e" "0 \<le> ho_amount h" by (simp_all add: pos_imp_zdiv_nonneg_iff)
  then show ?case using Cons by simp
qed simp

lemma sum_filter_le:
  "list_all (\<lambda>x. 0 \<le> (f x :: int)) xs \<Longrightarrow> (\<Sum>x\<leftarrow>List.filter P xs. f x) \<le> (\<Sum>x\<leftarrow>xs. f x)"
  by (induction xs) auto

lemma htlcEntries_value:
  assumes "list_all (\<lambda>h. 0 \<le> ho_amount h) hs"
  shows "(\<Sum>o1\<leftarrow>htlcEntries lib d hs. oe_value o1) \<le> (\<Sum>h\<leftarrow>hs. ho_amount h)"
proof -
  have "(\<Sum>o1\<leftarrow>htlcEntries lib d hs. oe_value o1) =
      (\<Sum>i\<leftarrow>List.filter (\<lambda>i. d \<le> ho_amount (hs ! i)) [0..<length hs]. ho_amount (hs ! i))"
    by (simp add: htlcEntries_def comp_def Let_def)
  also have "\<dots> \<le> (\<Sum>i\<leftarrow>[0..<length hs]. ho_amount (hs ! i))"
    using assms by (intro sum_filter_le) (simp add: list_all_iff)
  also have "map (\<lambda>i. ho_amount (hs ! i)) [0..<length hs] = map ho_amount hs"
    by (rule nth_equalityI) simp_all
  finally show ?thesis .
qed

lemma toLocal_value_le: "0 \<le> p_localAmount params \<Longrightarrow> (\<Sum>o1\<leftarrow>fst (toLocalOutput lib params). oe_value o1) \<le> p_localAmount params"
  by (simp add: toLocalOutput_def output_entry_def Let_def split: option.split)

lemma toRemote_value_le:
  "toRemoteOutput lib params = Inr (R, b) \<Longrightarrow> 0 \<le> p_remoteAmount params \<Longrightarrow>
   (\<Sum>o1\<leftarrow>R. oe_value o1) \<le> p_remoteAmount params"
  by (auto simp: toRemoteOutput_def output_entry_def Let_def throw_if_def split: option.splits if_splits)

lemma anchor_value_le:
  "(\<Sum>o1\<leftarrow>anchorEntries lib params os. oe_value o1) \<le> (if p_useAnchors params then ANCHOR_TOTAL_COST else 0)"
  by (auto simp: anchorEntries_def output_entry_def ANCHOR_TOTAL_COST_def ANCHOR_OUTPUT_VALUE_def Let_def
      split: option.splits bool.splits)

lemma buildCommitmentTx_value:
  assumes "buildCommitmentTx lib params = Inr r" "p_htlcOutputs params = Some hs"
    "0 \<le> p_localAmount params" "0 \<le> p_remoteAmount params" "list_all (\<lambda>h. 0 \<le> ho_amount h) hs"
  shows "(\<Sum>o1\<leftarrow>tx_outs (ct_tx r). out_value o1) \<le> p_localAmount params + p_remoteAmount params
    + (\<Sum>h\<leftarrow>hs. ho_amount h) + (if p_useAnchors params then ANCHOR_TOTAL_COST else 0)"
proof -
  obtain U a b where U: "commitmentOutputs lib params = Inr (U, a, b)"
    and outs: "tx_outs (ct_tx r) = map entry_out (js_sort compareOutputs U)"
    by (rule buildCommitmentTx_inv [OF assms(1)])
  obtain R where R: "toRemoteOutput lib params = Inr (R, b)" and U': "U = (let outputs = fst (toLocalOutput lib params) @ R @
      (case p_htlcOutputs params of None \<Rightarrow> [] | Some hs \<Rightarrow> htlcEntries lib (dustWsh params) hs)
      in outputs @ anchorEntries lib params outputs)"
    by (rule commitmentOutputs_inv [OF U])
  have "(\<Sum>o1\<leftarrow>tx_outs (ct_tx r). out_value o1) = (\<Sum>o1\<leftarrow>js_sort compareOutputs U. oe_value o1)"
    by (simp add: outs comp_def entry_out_def)
  also have "\<dots> = (\<Sum>o1\<leftarrow>U. oe_value o1)"
    using sum_mset_sum_list [of "map oe_value (js_sort compareOutputs U)"] sum_mset_sum_list [of "map oe_value U"]
    by simp
  also have "\<dots> \<le> p_localAmount params + p_remoteAmount params
    + (\<Sum>h\<leftarrow>hs. ho_amount h) + (if p_useAnchors params then ANCHOR_TOTAL_COST else 0)"
    unfolding U' Let_def assms(2) option.case map_append sum_list_append
    using toLocal_value_le [OF assms(3), of lib] toRemote_value_le [OF R assms(4)]
      htlcEntries_value [OF assms(5), of lib "dustWsh params"]
      anchor_value_le [of lib params "fst (toLocalOutput lib params) @ R @ htlcEntries lib (dustWsh params) hs"]
    by linarith
  finally show ?thesis .
qed


lemma applyTaproot_fields:
  assumes "applyTaprootCommitOverrides lib ctype params = Inr params'"
  shows "p_localAmount params' = p_localAmount params" "p_remoteAmount params' = p_remoteAmount params"
    "p_htlcOutputs params' = p_htlcOutputs params" "p_useAnchors params' = p_useAnchors params"
  using assms by (auto simp: applyTaprootCommitOverrides_def rbind_eq_Inr split: if_splits)

lemma applyTaproot_dust:
  "applyTaprootCommitOverrides lib ctype params = Inr params' \<Longrightarrow> dustWsh params' = dustWsh params"
  by (auto simp: applyTaprootCommitOverrides_def rbind_eq_Inr dustWsh_def split: if_splits)

definition commitment_fee :: "IChannelState \<Rightarrow> int \<Rightarrow> IBuiltCommitment \<Rightarrow> int" where
  "commitment_fee s feerate c = calculateCommitmentFee feerate (length (bc_htlcOutputs c))
     (isAnchorChannel (channelType s)) (isTaprootChannel (channelType s))"

text \<open>
  What a successful build establishes: its transaction comes from parameters with the floored
  balances, and its HTLC outputs from the carried entries.
\<close>

definition built_from ::
  "btc \<Rightarrow> IChannelState \<Rightarrow> bool \<Rightarrow> int \<Rightarrow> int \<times> int \<Rightarrow> IHtlcEntry list \<Rightarrow> IBuiltCommitment \<Rightarrow> bool" where
  "built_from lib s ownerPays feerate bal es c \<longleftrightarrow>
     (\<exists>params rows. buildCommitmentTx lib params = Inr (bc_result c) \<and>
        p_htlcOutputs params = Some (bc_htlcOutputs c) \<and>
        p_useAnchors params = isAnchorChannel (channelType s) \<and>
        (p_localAmount params, p_remoteAmount params) =
          outputAmounts ownerPays (commitment_fee s feerate c) (isAnchorChannel (channelType s)) bal \<and>
        list_all2 (\<lambda>e h. ho_amount h = amountMsat e sdiv 1000) es rows \<and>
        (\<exists>d. bc_htlcOutputs c = filterUntrimmedHtlcs ho_amount hm_direction rows d feerate
           (isAnchorChannel (channelType s))) \<and>
        bc_funderBalanceMsat c = (if ownerPays then fst bal else snd bal))"

lemma localRow_amount:
  "buildLocalHtlcOutput lib s keys e = Inr h \<Longrightarrow> ho_amount h = amountMsat e sdiv 1000"
  by (auto simp: buildLocalHtlcOutput_def dest: htlcRow_fields(1))

lemma buildHtlcOutputsForLocal_rows:
  assumes "buildHtlcOutputsForLocal lib s keys sl = Inr rows"
  shows "list_all2 (\<lambda>e h. ho_amount h = amountMsat e sdiv 1000) (carried s sl) rows"
proof -
  obtain xs ys where xy: "rows = xs @ ys"
    "list_all2 (\<lambda>e h. buildLocalHtlcOutput lib s keys e = Inr h) (List.filter (localCarriesHtlc sl) (htlcs s)) xs"
    "list_all2 (\<lambda>e h. buildLocalHtlcOutput lib s keys e = Inr h) (signedLocalRetainedRemovals s sl) ys"
    using assms unfolding buildHtlcOutputsForLocal_def rbind_eq_Inr map_res_Inr by auto
  then show ?thesis
    unfolding carried_def xy(1)
    by (intro list_all2_appendI) (auto elim!: list_all2_mono intro: localRow_amount)
qed

lemma buildHtlcOutputsForRemote_rows:
  assumes "buildHtlcOutputsForRemote lib s keys = Inr rows"
  shows "list_all2 (\<lambda>e h. ho_amount h = amountMsat e sdiv 1000) (List.filter remoteCarriesHtlc (htlcs s)) rows"
  using assms unfolding buildHtlcOutputsForRemote_def map_res_Inr
  by (rule list_all2_mono) (rule htlcRow_fields(1))

lemma finishCommitment_inv:
  assumes "finishCommitment lib s bp f outs params = Inr c"
  obtains params' where "applyTaprootCommitOverrides lib (channelType s) params = Inr params'"
    "buildCommitmentTx lib params' = Inr (bc_result c)" "bc_htlcOutputs c = outs" "bc_funderBalanceMsat c = f"
  using assms by (auto simp: finishCommitment_def rbind_eq_Inr)

lemma buildLocalCommitment_inv:
  assumes "buildLocalCommitment e lib s pt n sl = Inr c"
  obtains bp txid keys rows num where "buildHtlcOutputsForLocal lib s keys sl = Inr rows"
    "finishCommitment lib s bp (if role s = OPENER then fst (localBalances s sl) else snd (localBalances s sl))
       (filterUntrimmedHtlcs ho_amount hm_direction rows (dustLimitSatoshis (localConfig s))
          (getLocalCommitmentFeeRate s sl) (isAnchorChannel (channelType s)))
       (localParams lib s bp txid keys num sl
         (filterUntrimmedHtlcs ho_amount hm_direction rows (dustLimitSatoshis (localConfig s))
          (getLocalCommitmentFeeRate s sl) (isAnchorChannel (channelType s)))) = Inr c"
  using assms by (auto simp: buildLocalCommitment_def rbind_eq_Inr Let_def split: option.splits)

lemma buildRemoteCommitment_inv:
  assumes "buildRemoteCommitment e lib s pt n = Inr c"
  obtains bp txid keys rows num where "buildHtlcOutputsForRemote lib s keys = Inr rows"
    "finishCommitment lib s bp (if role s = OPENER then snd (remoteBalances s) else fst (remoteBalances s))
       (filterUntrimmedHtlcs ho_amount hm_direction rows (dustLimitSatoshis (remoteConfig s))
          (getRemoteCommitmentFeeRate s) (isAnchorChannel (channelType s)))
       (remoteParams lib s bp txid keys num
         (filterUntrimmedHtlcs ho_amount hm_direction rows (dustLimitSatoshis (remoteConfig s))
          (getRemoteCommitmentFeeRate s) (isAnchorChannel (channelType s)))) = Inr c"
  using assms by (auto simp: buildRemoteCommitment_def rbind_eq_Inr Let_def split: option.splits)

lemma buildLocalCommitment_built:
  assumes "buildLocalCommitment e lib s pt n sl = Inr c"
  shows "built_from lib s (role s = OPENER) (getLocalCommitmentFeeRate s sl) (localBalances s sl) (carried s sl) c"
proof -
  obtain bp txid keys rows num where rows: "buildHtlcOutputsForLocal lib s keys sl = Inr rows"
    and fin: "finishCommitment lib s bp (if role s = OPENER then fst (localBalances s sl) else snd (localBalances s sl))
       (filterUntrimmedHtlcs ho_amount hm_direction rows (dustLimitSatoshis (localConfig s))
          (getLocalCommitmentFeeRate s sl) (isAnchorChannel (channelType s)))
       (localParams lib s bp txid keys num sl
         (filterUntrimmedHtlcs ho_amount hm_direction rows (dustLimitSatoshis (localConfig s))
          (getLocalCommitmentFeeRate s sl) (isAnchorChannel (channelType s)))) = Inr c"
    by (rule buildLocalCommitment_inv [OF assms])
  from fin show ?thesis
  proof (rule finishCommitment_inv)
    fix params assume p: "applyTaprootCommitOverrides lib (channelType s) (localParams lib s bp txid keys num sl
         (filterUntrimmedHtlcs ho_amount hm_direction rows (dustLimitSatoshis (localConfig s))
          (getLocalCommitmentFeeRate s sl) (isAnchorChannel (channelType s)))) = Inr params"
      "buildCommitmentTx lib params = Inr (bc_result c)"
      "bc_htlcOutputs c = filterUntrimmedHtlcs ho_amount hm_direction rows (dustLimitSatoshis (localConfig s))
          (getLocalCommitmentFeeRate s sl) (isAnchorChannel (channelType s))"
      "bc_funderBalanceMsat c = (if role s = OPENER then fst (localBalances s sl) else snd (localBalances s sl))"
    show ?thesis
      unfolding built_from_def
      using p(2-) applyTaproot_fields [OF p(1)] buildHtlcOutputsForLocal_rows [OF rows]
      by (intro exI [of _ params] exI [of _ rows]) (auto simp: commitment_fee_def localParams_def Let_def)
  qed
qed

lemma buildRemoteCommitment_built:
  assumes "buildRemoteCommitment e lib s pt n = Inr c"
  shows "built_from lib s (role s \<noteq> OPENER) (getRemoteCommitmentFeeRate s) (remoteBalances s)
    (List.filter remoteCarriesHtlc (htlcs s)) c"
proof -
  obtain bp txid keys rows num where rows: "buildHtlcOutputsForRemote lib s keys = Inr rows"
    and fin: "finishCommitment lib s bp (if role s = OPENER then snd (remoteBalances s) else fst (remoteBalances s))
       (filterUntrimmedHtlcs ho_amount hm_direction rows (dustLimitSatoshis (remoteConfig s))
          (getRemoteCommitmentFeeRate s) (isAnchorChannel (channelType s)))
       (remoteParams lib s bp txid keys num
         (filterUntrimmedHtlcs ho_amount hm_direction rows (dustLimitSatoshis (remoteConfig s))
          (getRemoteCommitmentFeeRate s) (isAnchorChannel (channelType s)))) = Inr c"
    by (rule buildRemoteCommitment_inv [OF assms])
  from fin show ?thesis
  proof (rule finishCommitment_inv)
    fix params assume p: "applyTaprootCommitOverrides lib (channelType s) (remoteParams lib s bp txid keys num
         (filterUntrimmedHtlcs ho_amount hm_direction rows (dustLimitSatoshis (remoteConfig s))
          (getRemoteCommitmentFeeRate s) (isAnchorChannel (channelType s)))) = Inr params"
      "buildCommitmentTx lib params = Inr (bc_result c)"
      "bc_htlcOutputs c = filterUntrimmedHtlcs ho_amount hm_direction rows (dustLimitSatoshis (remoteConfig s))
          (getRemoteCommitmentFeeRate s) (isAnchorChannel (channelType s))"
      "bc_funderBalanceMsat c = (if role s = OPENER then snd (remoteBalances s) else fst (remoteBalances s))"
    show ?thesis
      unfolding built_from_def
      using p(2-) applyTaproot_fields [OF p(1)] buildHtlcOutputsForRemote_rows [OF rows]
      by (intro exI [of _ params] exI [of _ rows]) (auto simp: commitment_fee_def remoteParams_def Let_def)
  qed
qed


text \<open>The opener can pay the fee and the anchors out of its balance in the view.\<close>

definition affordable :: "IChannelState \<Rightarrow> int \<Rightarrow> IBuiltCommitment \<Rightarrow> bool" where
  "affordable s feerate c \<longleftrightarrow>
     1000 * funderCommitmentCostSats feerate (length (bc_htlcOutputs c)) (channelType s) \<le> bc_funderBalanceMsat c"

lemma outputAmounts_exact:
  assumes "0 \<le> l" "0 \<le> r" "1000 * (fee + (if anchors then ANCHOR_TOTAL_COST else 0)) \<le> (if ownerPays then l else r)"
    "(la, ra) = outputAmounts ownerPays fee anchors (l, r)"
  shows "0 \<le> la" "0 \<le> ra" "la + ra + fee + (if anchors then ANCHOR_TOTAL_COST else 0) = l div 1000 + r div 1000"
proof -
  let ?cost = "fee + (if anchors then ANCHOR_TOTAL_COST else 0)"
  have c: "?cost \<le> (if ownerPays then l else r) div 1000"
    using assms(3) by (simp add: zdiv_mono1 less_eq_div_iff_mult_less_eq mult.commute)
  have nn: "0 \<le> l div 1000" "0 \<le> r div 1000"
    using assms(1,2) by (simp_all add: pos_imp_zdiv_nonneg_iff)
  have "la = (if ownerPays then l div 1000 - ?cost else l div 1000)"
    "ra = (if ownerPays then r div 1000 else r div 1000 - ?cost)"
    using assms(4) c nn unfolding outputAmounts_def Let_def prod.case
      sdiv_1000 [OF assms(1)] sdiv_1000 [OF assms(2)] Pair_inject by (auto split: if_splits)
  then show "0 \<le> la" "0 \<le> ra" "la + ra + fee + (if anchors then ANCHOR_TOTAL_COST else 0) = l div 1000 + r div 1000"
    using c nn by (auto split: if_splits)
qed

lemma built_from_value:
  assumes "built_from lib s ownerPays feerate (l, r) es c" "0 \<le> l" "0 \<le> r"
    "list_all (\<lambda>e. 0 \<le> amountMsat e) es" "affordable s feerate c"
    "l + r + (\<Sum>e\<leftarrow>es. amountMsat e) \<le> 1000 * fundingSatoshis s"
  shows "(\<Sum>o1\<leftarrow>tx_outs (ct_tx (bc_result c)). out_value o1) + commitment_fee s feerate c \<le> fundingSatoshis s"
proof -
  let ?anchors = "isAnchorChannel (channelType s)"
  obtain params rows d where b: "buildCommitmentTx lib params = Inr (bc_result c)"
      "p_htlcOutputs params = Some (bc_htlcOutputs c)" "p_useAnchors params = ?anchors"
      "(p_localAmount params, p_remoteAmount params) = outputAmounts ownerPays (commitment_fee s feerate c) ?anchors (l, r)"
    and rows: "list_all2 (\<lambda>e h. ho_amount h = amountMsat e sdiv 1000) es rows"
    and flt: "bc_htlcOutputs c = filterUntrimmedHtlcs ho_amount hm_direction rows d feerate ?anchors"
    and f: "bc_funderBalanceMsat c = (if ownerPays then l else r)"
    using assms(1) unfolding built_from_def by auto
  have cost: "1000 * (commitment_fee s feerate c + (if ?anchors then ANCHOR_TOTAL_COST else 0)) \<le> (if ownerPays then l else r)"
    using assms(5) f by (simp add: affordable_def funderCommitmentCostSats_def commitment_fee_def Let_def)
  note am = outputAmounts_exact [OF assms(2,3) cost b(4)]
  note ra = rows_amounts [OF rows assms(4)]
  have nn: "list_all (\<lambda>h. 0 \<le> ho_amount h) (bc_htlcOutputs c)"
    using ra by (auto simp: flt filterUntrimmedHtlcs_def list_all_iff)
  have "1000 * (\<Sum>h\<leftarrow>bc_htlcOutputs c. ho_amount h) \<le> (\<Sum>e\<leftarrow>es. amountMsat e)"
    using ra sum_filter_le [of ho_amount rows] unfolding flt filterUntrimmedHtlcs_def
    by (meson mult_left_mono order_trans zero_le_numeral)
  moreover have "1000 * (l div 1000) \<le> l" "1000 * (r div 1000) \<le> r" by simp_all
  ultimately have "l div 1000 + r div 1000 + (\<Sum>h\<leftarrow>bc_htlcOutputs c. ho_amount h) \<le> fundingSatoshis s"
    using assms(6) by linarith
  then show ?thesis
    using buildCommitmentTx_value [OF b(1,2) am(1,2) nn] am(3) b(3) by simp
qed


section \<open>The same transaction on both sides\<close>

text \<open>A row without the metadata a side keeps for itself; the transaction depends only on these.\<close>

definition core :: "'a IHtlcOutput_scheme \<Rightarrow> IHtlcOutput" where
  "core h = \<lparr>ho_script = ho_script h, ho_amount = ho_amount h, ho_cltvExpiry = ho_cltvExpiry h,
     ho_paymentHash = ho_paymentHash h, ho_taprootScript = ho_taprootScript h\<rparr>"

definition row_out :: "btc \<Rightarrow> 'a IHtlcOutput_scheme \<Rightarrow> tx_output" where
  "row_out lib h = \<lparr>out_script = htlcSpk lib h, out_value = ho_amount h\<rparr>"

lemma core_fields [simp]: "ho_amount (core h) = ho_amount h" "row_out lib (core h) = row_out lib h"
  by (simp_all add: core_def row_out_def htlcSpk_def split: option.split)

lemma htlcEntries_outs:
  "map entry_out (htlcEntries lib d hs) = map (row_out lib) (List.filter (\<lambda>h. d \<le> ho_amount h) hs)"
proof -
  have "List.filter (\<lambda>h. d \<le> ho_amount h) hs = map ((!) hs) (List.filter (\<lambda>i. d \<le> ho_amount (hs ! i)) [0..<length hs])"
    using filter_map [of "\<lambda>h. d \<le> ho_amount h" "(!) hs" "[0..<length hs]"] by (simp add: map_nth comp_def)
  then show ?thesis by (simp add: htlcEntries_def entry_out_def row_out_def comp_def Let_def)
qed

lemma htlcEntries_perm:
  assumes "mset (map core hs) = mset (map core hs')"
  shows "mset (map entry_out (htlcEntries lib d hs)) = mset (map entry_out (htlcEntries lib d hs'))"
    "list_ex (\<lambda>o1. oe_type o1 = htlc) (htlcEntries lib d hs) = list_ex (\<lambda>o1. oe_type o1 = htlc) (htlcEntries lib d hs')"
proof -
  have *: "mset (map (row_out lib) (List.filter (\<lambda>h. d \<le> ho_amount h) xs)) =
      image_mset (row_out lib) (filter_mset (\<lambda>h. d \<le> ho_amount h) (mset (map core xs)))" for xs :: "'x IHtlcOutput_scheme list"
    by (induction xs) simp_all
  show m: "mset (map entry_out (htlcEntries lib d hs)) = mset (map entry_out (htlcEntries lib d hs'))"
    unfolding htlcEntries_outs * assms ..
  have "list_ex (\<lambda>o1. oe_type o1 = htlc) (htlcEntries lib d xs) \<longleftrightarrow> map entry_out (htlcEntries lib d xs) \<noteq> []" for xs :: "'x IHtlcOutput_scheme list"
    by (auto simp: htlcEntries_def list_ex_iff Let_def filter_empty_conv)
  then show "list_ex (\<lambda>o1. oe_type o1 = htlc) (htlcEntries lib d hs) = list_ex (\<lambda>o1. oe_type o1 = htlc) (htlcEntries lib d hs')"
    using m by (metis mset_zero_iff)
qed

lemma anchorEntries_cong:
  assumes "\<And>k. list_ex (\<lambda>o1. oe_type o1 = k) os = list_ex (\<lambda>o1. oe_type o1 = k) os'"
  shows "anchorEntries lib (p\<lparr>p_htlcOutputs := x\<rparr>) os = anchorEntries lib (p\<lparr>p_htlcOutputs := y\<rparr>) os'"
  by (simp add: anchorEntries_def assms Let_def split: option.split bool.split)

text \<open>The HTLC rows are one block of the outputs; the other outputs do not depend on their order.\<close>

lemma commitmentOutputs_perm:
  fixes hs hs' :: "'x IHtlcOutput_scheme list"
  assumes "commitmentOutputs lib (p\<lparr>p_htlcOutputs := Some hs\<rparr>) = Inr (U, a, b)" "mset (map core hs) = mset (map core hs')"
  shows "\<exists>A Z. U = A @ htlcEntries lib (dustWsh p) hs @ Z \<and> of_type htlc (A @ Z) = [] \<and>
    commitmentOutputs lib (p\<lparr>p_htlcOutputs := Some hs'\<rparr>) = Inr (A @ htlcEntries lib (dustWsh p) hs' @ Z, a, b)"
proof -
  let ?p = "\<lambda>hs. p\<lparr>p_htlcOutputs := Some hs\<rparr>" and ?h = "htlcEntries lib (dustWsh p)"
  have same: "toLocalOutput lib (?p hs) = toLocalOutput lib (?p hs')"
    "toRemoteOutput lib (?p hs) = toRemoteOutput lib (?p hs')" "dustWsh (?p xs) = dustWsh p" for xs :: "'x IHtlcOutput_scheme list"
    by (simp_all add: toLocalOutput_def toRemoteOutput_def dustWsh_def dustWpkh_def Let_def split: option.split)
  obtain R where R: "toRemoteOutput lib (?p hs) = Inr (R, b)"
    and U: "U = (let outputs = fst (toLocalOutput lib (?p hs)) @ R @ ?h hs
      in outputs @ anchorEntries lib (?p hs) outputs)"
    using assms(1) same(3) by (auto elim: commitmentOutputs_inv)
  let ?A = "fst (toLocalOutput lib (?p hs)) @ R" and ?o = "\<lambda>hs. fst (toLocalOutput lib (?p hs)) @ R @ ?h hs"
  have "list_ex (\<lambda>o1. oe_type o1 = k) (?h hs) = list_ex (\<lambda>o1. oe_type o1 = k) (?h hs')" for k
    using htlcEntries_perm(2) [OF assms(2), of lib "dustWsh p"]
    by (cases "k = htlc") (auto simp: htlcEntries_def list_ex_iff Let_def)
  then have anchors: "anchorEntries lib (?p hs) (?o hs) = anchorEntries lib (?p hs') (?o hs')"
    by (intro anchorEntries_cong) (simp add: same)
  have "of_type htlc (?A @ anchorEntries lib (?p hs) (?o hs)) = []"
    by (simp add: of_type_toLocal of_type_toRemote [OF R] of_type_anchor)
  moreover have "commitmentOutputs lib (?p hs') = Inr (?A @ ?h hs' @ anchorEntries lib (?p hs) (?o hs), a, b)"
    using assms(1) R anchors by (auto simp: commitmentOutputs_def Let_def same split: prod.splits)
  ultimately show ?thesis using U by (intro exI [of _ ?A] exI [of _ "anchorEntries lib (?p hs) (?o hs)"]) (simp add: Let_def)
qed

lemma buildCommitmentTx_perm:
  fixes hs hs' :: "'x IHtlcOutput_scheme list"
  assumes "buildCommitmentTx lib (p\<lparr>p_htlcOutputs := Some hs\<rparr>) = Inr r" "mset (map core hs) = mset (map core hs')"
  obtains r' where "buildCommitmentTx lib (p\<lparr>p_htlcOutputs := Some hs'\<rparr>) = Inr r'" "ct_tx r' = ct_tx r"
proof -
  obtain U a b where U: "commitmentOutputs lib (p\<lparr>p_htlcOutputs := Some hs\<rparr>) = Inr (U, a, b)"
    using assms(1) by (rule buildCommitmentTx_inv)
  obtain A Z where A: "U = A @ htlcEntries lib (dustWsh p) hs @ Z"
      "commitmentOutputs lib (p\<lparr>p_htlcOutputs := Some hs'\<rparr>) = Inr (A @ htlcEntries lib (dustWsh p) hs' @ Z, a, b)"
    using commitmentOutputs_perm [OF U assms(2)] by blast
  define V where "V = A @ htlcEntries lib (dustWsh p) hs' @ Z"
  note V = A(2) [folded V_def]
  have m: "mset (map entry_out U) = mset (map entry_out V)"
    using htlcEntries_perm(1) [OF assms(2), of lib "dustWsh p"] by (simp add: A(1) V_def)
  have sorted: "sorted_wrt out_le (map entry_out (js_sort compareOutputs U))"
    "sorted_wrt out_le (map entry_out (js_sort compareOutputs V))"
    by (rule js_sort_outputs, rule commitmentOutputs_keyed, rule U V)+
  have "map entry_out (js_sort compareOutputs U) = map entry_out (js_sort compareOutputs V)"
    by (rule sorted_wrt_unique [OF out_le_antisym sorted]) (use m in simp_all)
  then show thesis
    using that assms(1) by (auto simp: buildCommitmentTx_def U V Let_def entry_out_def [abs_def])
qed


subsection \<open>Two ends of one channel\<close>

text \<open>
  Two channel states that describe one channel from its two ends, with every message delivered. An
  HTLC one side offered is received by the other, and each phase flag of one side is the flag its
  peer keeps for the same event: what the peer revoked for is what we may sign in. The order of the
  HTLC maps may differ. A staged fee (or lease height) is with both sides until the acceptor has
  revoked for it, which is when the opener promotes it.
\<close>

definition entry_sync :: "IHtlcEntry \<Rightarrow> IHtlcEntry \<Rightarrow> bool" where
  "entry_sync a b \<longleftrightarrow> amountMsat b = amountMsat a \<and> paymentHash b = paymentHash a \<and> cltvExpiry b = cltvExpiry a \<and>
     direction b = flip_direction (direction a) \<and>
     (entry_state a = FULFILLED) = (entry_state b = FULFILLED) \<and> (entry_state a = FAILED) = (entry_state b = FAILED) \<and>
     (if direction a = RECEIVED then is_false (addRemoteCommitted b) = is_false (addLocallyRevoked a)
      else is_false (removalRemoteCommitted b) = is_false (removalLocallyRevoked a))"

definition htlcs_sync :: "IHtlcEntry list \<Rightarrow> IHtlcEntry list \<Rightarrow> bool" where
  "htlcs_sync xs ys \<longleftrightarrow> (\<exists>zs. mset zs = mset ys \<and> list_all2 entry_sync xs zs)"

definition fee_sync :: "IChannelState \<Rightarrow> IChannelState \<Rightarrow> bool" where
  "fee_sync s t \<longleftrightarrow>
     (if role s = OPENER
      then pendingFeeratePerKw t = pendingFeeratePerKw s \<and> committedFeeRate t = committedFeeRate s
      else committedFeeRate t = (case pendingFeeratePerKw s of
             Some f \<Rightarrow> if pendingFeerateSignable s = Some True then f else committedFeeRate s
           | None \<Rightarrow> committedFeeRate s))"

definition lease_sync :: "IChannelState \<Rightarrow> IChannelState \<Rightarrow> bool" where
  "lease_sync s t \<longleftrightarrow>
     (if role s = OPENER
      then pendingLeaseBlockheight t = pendingLeaseBlockheight s \<and>
           leaseCommitBlockheight t = leaseCommitBlockheight s
      else leaseCommitBlockheight t =
             (if pendingLeaseBlockheight s \<noteq> None \<and> pendingLeaseBlockheightSignable s = Some True
              then pendingLeaseBlockheight s else leaseCommitBlockheight s))"

definition same_channel :: "IChannelState \<Rightarrow> IChannelState \<Rightarrow> bool" where
  "same_channel s t \<longleftrightarrow>
     (role s = OPENER) = (role t = ACCEPTOR) \<and>
     remoteBasepoints s = Some (localBasepoints t) \<and> remoteBasepoints t = Some (localBasepoints s) \<and>
     fundingTxid t = fundingTxid s \<and> fundingOutputIndex t = fundingOutputIndex s \<and>
     fundingSatoshis t = fundingSatoshis s \<and> channelType t = channelType s \<and>
     dustLimitSatoshis (localConfig t) = dustLimitSatoshis (remoteConfig s) \<and>
     toSelfDelay (remoteConfig t) = toSelfDelay (localConfig s) \<and>
     leaseExpiry t = leaseExpiry s \<and> (leaseExpiry s \<noteq> None \<longrightarrow> isLessor t = (\<not> isLessor s))"

definition in_sync :: "IChannelState \<Rightarrow> IChannelState \<Rightarrow> bool" where
  "in_sync s t \<longleftrightarrow> same_channel s t \<and>
     localBalanceMsat t = remoteBalanceMsat s \<and> remoteBalanceMsat t = localBalanceMsat s \<and>
     htlcs_sync (htlcs s) (htlcs t) \<and> fee_sync s t \<and> lease_sync s t"

text \<open>
  What one end puts in the peer's commitment and the peer in its own: the same HTLCs seen from the
  two sides, the same balances, feerate and lease height. Ends in sync have it, and so do ends with
  an exchange in progress, where one has already settled what the other still keeps an entry for.
\<close>

definition face :: "IHtlcEntry \<Rightarrow> int \<times> bytes \<times> int \<times> HtlcDirection" where
  "face e = (amountMsat e, paymentHash e, cltvExpiry e, direction e)"

definition mirror_face :: "IHtlcEntry \<Rightarrow> int \<times> bytes \<times> int \<times> HtlcDirection" where
  "mirror_face e = (amountMsat e, paymentHash e, cltvExpiry e, flip_direction (direction e))"

definition views_agree :: "IChannelState \<Rightarrow> IChannelState \<Rightarrow> bool" where
  "views_agree s t \<longleftrightarrow> same_channel s t \<and>
     mset (map mirror_face (List.filter remoteCarriesHtlc (htlcs s))) =
       mset (map face (List.filter (localCarriesHtlc False) (htlcs t))) \<and>
     localBalances t False = remoteBalances s \<and>
     getLocalCommitmentFeeRate t False = getRemoteCommitmentFeeRate s \<and>
     getLocalCommitmentLeaseBlockheight t False = getRemoteCommitmentLeaseBlockheight s"

text \<open>We only settle a received HTLC after revoking for its add.\<close>

definition settles_after_add :: "IChannelState \<Rightarrow> bool" where
  "settles_after_add s \<longleftrightarrow> list_all (\<lambda>e. \<not> (direction e = RECEIVED \<and> entry_state e = FULFILLED \<and>
     is_false (addLocallyRevoked e))) (htlcs s)"

text \<open>
  No carried HTLC falls between the two trimming thresholds: on anchor channels there is only one,
  otherwise they differ by the weights of the two second-level transactions.
\<close>

definition trim_agrees :: "IChannelState \<Rightarrow> bool" where
  "trim_agrees s \<longleftrightarrow> isAnchorChannel (channelType s) \<or>
     list_all (\<lambda>e. (amountMsat e sdiv 1000 \<ge> dustLimitSatoshis (remoteConfig s) +
          htlcFeeSat OFFERED (getRemoteCommitmentFeeRate s) False) =
        (amountMsat e sdiv 1000 \<ge> dustLimitSatoshis (remoteConfig s) +
          htlcFeeSat RECEIVED (getRemoteCommitmentFeeRate s) False))
       (List.filter remoteCarriesHtlc (htlcs s))"

lemma in_sync_feerate: "in_sync s t \<Longrightarrow> getLocalCommitmentFeeRate t False = getRemoteCommitmentFeeRate s"
  by (cases "role s"; cases "role t")
    (auto simp: in_sync_def same_channel_def fee_sync_def getLocalCommitmentFeeRate_def getRemoteCommitmentFeeRate_def
      split: option.splits)

lemma in_sync_lease: "in_sync s t \<Longrightarrow> getLocalCommitmentLeaseBlockheight t False = getRemoteCommitmentLeaseBlockheight s"
  by (cases "role s"; cases "role t")
    (auto simp: in_sync_def same_channel_def lease_sync_def getLocalCommitmentLeaseBlockheight_def
      getRemoteCommitmentLeaseBlockheight_def)

lemma entry_sync_carries: "entry_sync a b \<Longrightarrow> localCarriesHtlc False b = remoteCarriesHtlc a"
  by (cases "entry_state a"; cases "entry_state b"; cases "direction a")
    (auto simp: entry_sync_def localCarriesHtlc_def remoteCarriesHtlc_def removed_def flip_direction_def
      signedLocalCarriesRemoval_def signedLocalLacksReceivedAdd_def localCommitmentCarriesAdd_def)

lemma entry_sync_credit:
  assumes "entry_sync a b" "\<not> (direction a = RECEIVED \<and> entry_state a = FULFILLED \<and> is_false (addLocallyRevoked a))"
  shows "local_credit False b = remote_credit a"
  using assms by (cases "entry_state a"; cases "entry_state b"; cases "direction a")
    (auto simp: entry_sync_def local_credit_def remote_credit_def localBalanceStep_def remoteBalanceStep_def
      flip_direction_def signedLocalCarriesRemoval_def signedLocalLacksReceivedAdd_def localCommitmentCarriesAdd_def)

lemma sum_list_perm: "mset xs = mset ys \<Longrightarrow> (\<Sum>x\<leftarrow>xs. f x) = (\<Sum>y\<leftarrow>ys. (f y :: int))"
  by (metis mset_map sum_mset_sum_list)

lemma in_sync_balances:
  assumes "in_sync s t" "settles_after_add s"
  shows "localBalances t False = remoteBalances s"
proof -
  obtain zs where z: "mset zs = mset (htlcs t)" "list_all2 entry_sync (htlcs s) zs"
    using assms(1) unfolding in_sync_def htlcs_sync_def by blast
  have "map (local_credit False) zs = map remote_credit (htlcs s)"
    using z(2) assms(2) unfolding settles_after_add_def
    by (induction rule: list_all2_induct) (auto simp: entry_sync_credit)
  then have "map (\<lambda>e. fst (local_credit False e)) zs = map (\<lambda>e. fst (remote_credit e)) (htlcs s)"
    "map (\<lambda>e. snd (local_credit False e)) zs = map (\<lambda>e. snd (remote_credit e)) (htlcs s)"
    by (metis (no_types, lifting) map_map comp_def list.map_cong0)+
  then show ?thesis
    using assms(1) sum_list_perm [OF z(1), of "\<lambda>e. fst (local_credit False e)"]
      sum_list_perm [OF z(1), of "\<lambda>e. snd (local_credit False e)"]
    by (simp add: localBalances_sum remoteBalances_sum signedLocalRetainedRemovals_def in_sync_def)
qed


lemma list_all2_filter:
  assumes "list_all2 R xs ys" "\<And>x y. R x y \<Longrightarrow> P x = Q y"
  shows "list_all2 R (List.filter P xs) (List.filter Q ys)"
  using assms(1) by (induction rule: list_all2_induct) (auto simp: assms(2))

lemma map_res_perm:
  assumes "map_res g xs = Inr hs" "mset xs = mset ys"
  obtains hs' where "map_res g ys = Inr hs'" "mset hs' = mset hs"
proof -
  define v where "v x = (case g x of Inr h \<Rightarrow> h | Inl _ \<Rightarrow> undefined)" for x
  have g: "list_all2 (\<lambda>x h. g x = Inr h) xs hs" using assms(1) by (simp add: map_res_Inr)
  then have hs: "hs = map v xs" "\<forall>x \<in> set xs. g x = Inr (v x)"
    by (induction rule: list_all2_induct) (auto simp: v_def)
  then have "list_all2 (\<lambda>x h. g x = Inr h) ys (map v ys)"
    using mset_eq_setD [OF assms(2)] by (auto simp: list_all2_conv_all_nth)
  then show thesis using that [of "map v ys"] assms(2) hs(1) by (simp add: map_res_Inr)
qed

lemma htlcRow_sync:
  assumes "mirror_face a = face b" "htlcRow lib ct (flip_direction (direction a)) keys i d a = Inr h"
  shows "\<exists>h'. htlcRow lib ct (direction b) keys i' d' b = Inr h' \<and> core h' = core h \<and> hm_direction h' = d'"
proof -
  have b: "direction b = flip_direction (direction a)" "paymentHash b = paymentHash a" "cltvExpiry b = cltvExpiry a"
    "amountMsat b = amountMsat a"
    using assms(1) by (simp_all add: face_def mirror_face_def)
  have script: "htlcScriptOf lib ct kind keys b = htlcScriptOf lib ct kind keys a" for kind
    by (simp add: htlcScriptOf_def b)
  show ?thesis
    using assms(2) unfolding htlcRow_def b script by (auto simp: rbind_eq_Inr core_def)
qed

definition row_sync :: "HtlcOutputMeta \<Rightarrow> HtlcOutputMeta \<Rightarrow> bool" where
  "row_sync h h' \<longleftrightarrow> core h' = core h \<and> hm_direction h' = flip_direction (hm_direction h)"

lemma rows_sync:
  assumes "list_all2 (\<lambda>a b. mirror_face a = face b) xs zs" "channelType t = channelType s"
    "map_res (\<lambda>a. htlcRow lib (channelType s) (flip_direction (direction a)) keys (Some (entry_id a)) (direction a) a)
       xs = Inr rows"
  shows "\<exists>rows'. map_res (buildLocalHtlcOutput lib t keys) zs = Inr rows' \<and> list_all2 row_sync rows rows'"
  using assms(1,3)
proof (induction arbitrary: rows rule: list_all2_induct)
  case (Cons a as b bs)
  from Cons.prems obtain h hs where h:
      "htlcRow lib (channelType s) (flip_direction (direction a)) keys (Some (entry_id a)) (direction a) a = Inr h"
      "rows = h # hs"
    and hs: "map_res (\<lambda>a. htlcRow lib (channelType s) (flip_direction (direction a)) keys (Some (entry_id a))
      (direction a) a) as = Inr hs"
    by (auto simp: rbind_eq_Inr)
  obtain h' where h': "htlcRow lib (channelType s) (direction b) keys None (direction b) b = Inr h'"
      "core h' = core h" "hm_direction h' = direction b"
    using htlcRow_sync [OF Cons.hyps(1) h(1)] by blast
  have "row_sync h h'"
    using h'(2,3) htlcRow_fields(3) [OF h(1)] Cons.hyps(1)
    by (simp add: row_sync_def face_def mirror_face_def)
  then show ?case
    using Cons.IH [OF hs] h h'(1) assms(2) by (auto simp: buildLocalHtlcOutput_def)
qed simp

text \<open>A row with the direction its holder gives it, and as the other end sees it.\<close>

definition seen :: "HtlcOutputMeta \<Rightarrow> IHtlcOutput \<times> HtlcDirection" where
  "seen h = (core h, hm_direction h)"

definition mirrored :: "HtlcOutputMeta \<Rightarrow> IHtlcOutput \<times> HtlcDirection" where
  "mirrored h = (core h, flip_direction (hm_direction h))"

lemma seen_core: "mset (map seen hs) = mset (map mirrored hs') \<Longrightarrow> mset (map core hs) = mset (map core hs')"
  by (drule arg_cong [where f = "image_mset fst"]) (simp add: seen_def mirrored_def multiset.map_comp comp_def)

lemma untrimmed_sync:
  assumes "list_all2 row_sync rows rows'"
    "\<And>h. h \<in> set rows \<Longrightarrow> (ho_amount h \<ge> d + htlcFeeSat (hm_direction h) f anc) =
       (ho_amount h \<ge> d + htlcFeeSat (flip_direction (hm_direction h)) f anc)"
  shows "map seen (filterUntrimmedHtlcs ho_amount hm_direction rows' d f anc) =
    map mirrored (filterUntrimmedHtlcs ho_amount hm_direction rows d f anc)"
  using assms
proof (induction rule: list_all2_induct)
  case (Cons h hs h' hs')
  have "ho_amount h' = ho_amount h"
    using Cons.hyps(1) core_fields(1) [of h'] core_fields(1) [of h] by (simp add: row_sync_def)
  then show ?case using Cons by (auto simp: filterUntrimmedHtlcs_def row_sync_def seen_def mirrored_def)
qed (simp add: filterUntrimmedHtlcs_def)

lemma applyTaproot_htlcs:
  "applyTaprootCommitOverrides lib ct (p\<lparr>p_htlcOutputs := x\<rparr>) =
     rbind (applyTaprootCommitOverrides lib ct p) (\<lambda>q. Inr (q\<lparr>p_htlcOutputs := x\<rparr>))"
  by (cases p) (simp add: applyTaprootCommitOverrides_def rbind_assoc)

text \<open>Two built commitments with one transaction, made from the same parameters up to the HTLC rows.\<close>

definition same_body :: "btc \<Rightarrow> IBuiltCommitment \<Rightarrow> IBuiltCommitment \<Rightarrow> bool" where
  "same_body lib a b \<longleftrightarrow> ct_tx (bc_result b) = ct_tx (bc_result a) \<and>
     bc_fundingWitnessScript b = bc_fundingWitnessScript a \<and> bc_funderBalanceMsat b = bc_funderBalanceMsat a \<and>
     bc_fundingAmount b = bc_fundingAmount a \<and>
     (\<exists>q. buildCommitmentTx lib (q\<lparr>p_htlcOutputs := Some (bc_htlcOutputs a)\<rparr>) = Inr (bc_result a) \<and>
          buildCommitmentTx lib (q\<lparr>p_htlcOutputs := Some (bc_htlcOutputs b)\<rparr>) = Inr (bc_result b))"

lemma finishCommitment_perm:
  assumes "finishCommitment lib s rbp f outs params = Inr a"
    "channelType t = channelType s" "fundingSatoshis t = fundingSatoshis s"
    "createFundingScript lib (fundingPubkey (localBasepoints t)) (fundingPubkey rbp') =
      createFundingScript lib (fundingPubkey (localBasepoints s)) (fundingPubkey rbp)"
    "mset (map core outs') = mset (map core outs)" "p_htlcOutputs params = Some outs"
  shows "\<exists>b. finishCommitment lib t rbp' f outs' (params\<lparr>p_htlcOutputs := Some outs'\<rparr>) = Inr b \<and>
    same_body lib a b \<and> bc_htlcOutputs b = outs' \<and> bc_htlcOutputs a = outs"
proof -
  obtain q r ws where q: "applyTaprootCommitOverrides lib (channelType s) params = Inr q"
      "buildCommitmentTx lib q = Inr r"
      "createFundingScript lib (fundingPubkey (localBasepoints s)) (fundingPubkey rbp) = Inr ws"
    and a: "a = \<lparr>bc_funderBalanceMsat = f, bc_result = r, bc_fundingWitnessScript = ws,
      bc_fundingAmount = fundingSatoshis s, bc_htlcOutputs = outs\<rparr>"
    using assms(1) by (auto simp: finishCommitment_def rbind_eq_Inr)
  have "q\<lparr>p_htlcOutputs := Some outs\<rparr> = q"
    using applyTaproot_fields(3) [OF q(1)] assms(6) by simp
  then have r: "buildCommitmentTx lib (q\<lparr>p_htlcOutputs := Some outs\<rparr>) = Inr r" using q(2) by simp
  then obtain r' where r': "buildCommitmentTx lib (q\<lparr>p_htlcOutputs := Some outs'\<rparr>) = Inr r'" "ct_tx r' = ct_tx r"
    by (rule buildCommitmentTx_perm [OF _ assms(5) [symmetric]])
  define b where "b = \<lparr>bc_funderBalanceMsat = f, bc_result = r', bc_fundingWitnessScript = ws,
      bc_fundingAmount = fundingSatoshis s, bc_htlcOutputs = outs'\<rparr>"
  have "finishCommitment lib t rbp' f outs' (params\<lparr>p_htlcOutputs := Some outs'\<rparr>) = Inr b"
    using r'(1) q by (simp add: finishCommitment_def applyTaproot_htlcs assms(2-4) b_def)
  moreover have "same_body lib a b"
    unfolding same_body_def using r r' by (intro conjI exI [of _ q]) (simp_all add: a b_def)
  ultimately show ?thesis by (intro exI [of _ b]) (simp add: a b_def)
qed

lemma finishCommitment_sync:
  assumes "finishCommitment lib s (localBasepoints t) f outs params = Inr a"
    "channelType t = channelType s" "fundingSatoshis t = fundingSatoshis s"
    "mset (map core outs') = mset (map core outs)" "p_htlcOutputs params = Some outs"
  shows "\<exists>b. finishCommitment lib t (localBasepoints s) f outs' (params\<lparr>p_htlcOutputs := Some outs'\<rparr>) = Inr b \<and>
    same_body lib a b \<and> bc_htlcOutputs b = outs' \<and> bc_htlcOutputs a = outs"
  by (rule finishCommitment_perm [OF assms(1-3) createFundingScript_sym assms(4,5)])

lemma params_sync:
  assumes "views_agree s t" "length outs' = length outs"
  shows "localParams lib t (localBasepoints s) txid keys n False outs' =
    (remoteParams lib s (localBasepoints t) txid keys n outs)\<lparr>p_htlcOutputs := Some outs'\<rparr>"
proof -
  have v: "same_channel s t" "localBalances t False = remoteBalances s"
    "getLocalCommitmentFeeRate t False = getRemoteCommitmentFeeRate s"
    "getLocalCommitmentLeaseBlockheight t False = getRemoteCommitmentLeaseBlockheight s"
    using assms(1) by (simp_all add: views_agree_def)
  have r: "role t = OPENER \<longleftrightarrow> role s \<noteq> OPENER"
    using v(1) by (cases "role s"; cases "role t") (auto simp: same_channel_def)
  then have "obscuredFor lib (role t) (localBasepoints t) (localBasepoints s) n =
      obscuredFor lib (role s) (localBasepoints s) (localBasepoints t) n"
    by (auto simp: obscuredFor_def)
  moreover have "isLessor t = (\<not> isLessor s) \<or> leaseCsvBlocks (leaseExpiry s) h = None" for h
    using v(1) by (cases "leaseExpiry s") (auto simp: same_channel_def leaseCsvBlocks_def)
  ultimately show ?thesis
    using v(1) r unfolding localParams_def remoteParams_def Let_def v(2-) assms(2) by (auto simp: same_channel_def)
qed

lemma mset_map_align:
  assumes "mset (map f xs) = mset (map g ys)"
  shows "\<exists>zs. mset zs = mset ys \<and> list_all2 (\<lambda>x z. f x = g z) xs zs"
  using assms
proof (induction xs arbitrary: ys)
  case (Cons x xs)
  then have "f x \<in> set (map g ys)" by (metis list.set_intros(1) list.simps(9) mset_eq_setD)
  then obtain as y bs where ys: "ys = as @ y # bs" "g y = f x" by (auto dest!: split_list)
  then have "mset (map f xs) = mset (map g (as @ bs))" using Cons.prems by simp
  then obtain zs where "mset zs = mset (as @ bs)" "list_all2 (\<lambda>x z. f x = g z) xs zs" using Cons.IH by blast
  then show ?case using ys by (intro exI [of _ "y # zs"]) simp
qed simp

lemma rows_agree:
  assumes "views_agree s t" "buildHtlcOutputsForRemote lib s keys = Inr rows"
  shows "\<exists>rows1 rows2. list_all2 row_sync rows rows1 \<and> mset rows2 = mset rows1 \<and>
    buildHtlcOutputsForLocal lib t keys False = Inr rows2"
proof -
  obtain zs where z: "mset zs = mset (List.filter (localCarriesHtlc False) (htlcs t))"
      "list_all2 (\<lambda>a b. mirror_face a = face b) (List.filter remoteCarriesHtlc (htlcs s)) zs"
    using assms(1) mset_map_align unfolding views_agree_def by blast
  have ct: "channelType t = channelType s" using assms(1) by (simp add: views_agree_def same_channel_def)
  obtain rows1 where r1: "map_res (buildLocalHtlcOutput lib t keys) zs = Inr rows1" "list_all2 row_sync rows rows1"
    using rows_sync [OF z(2) ct assms(2) [unfolded buildHtlcOutputsForRemote_def]] by blast
  obtain rows2 where
      "map_res (buildLocalHtlcOutput lib t keys) (List.filter (localCarriesHtlc False) (htlcs t)) = Inr rows2"
      "mset rows2 = mset rows1"
    by (rule map_res_perm [OF r1(1) z(1)])
  then show ?thesis
    using r1(2) by (auto simp: buildHtlcOutputsForLocal_def signedLocalRetainedRemovals_def)
qed

lemma list_all2_setD2: "list_all2 R xs ys \<Longrightarrow> y \<in> set ys \<Longrightarrow> \<exists>x \<in> set xs. R x y"
  by (induction rule: list_all2_induct) auto

lemma trim_agrees_row:
  assumes "trim_agrees s" "e \<in> set (List.filter remoteCarriesHtlc (htlcs s))"
  defines "fits \<equiv> \<lambda>d. amountMsat e sdiv 1000 \<ge> dustLimitSatoshis (remoteConfig s) +
    htlcFeeSat d (getRemoteCommitmentFeeRate s) (isAnchorChannel (channelType s))"
  shows "fits d = fits (flip_direction d)"
proof (cases "isAnchorChannel (channelType s)")
  case True
  then show ?thesis by (simp add: fits_def htlcFeeSat_def)
next
  case False
  then have "fits OFFERED = fits RECEIVED"
    using assms(1,2) unfolding fits_def trim_agrees_def list_all_iff by simp
  then show ?thesis by (cases d) (simp_all add: flip_direction_def)
qed

lemma untrimmed_agree:
  assumes "trim_agrees s" "buildHtlcOutputsForRemote lib s keys = Inr rows"
    "list_all2 row_sync rows rows1" "mset rows2 = mset rows1"
  defines "flt \<equiv> \<lambda>rs. filterUntrimmedHtlcs ho_amount hm_direction rs (dustLimitSatoshis (remoteConfig s))
    (getRemoteCommitmentFeeRate s) (isAnchorChannel (channelType s))"
  shows "mset (map seen (flt rows2)) = mset (map mirrored (flt rows))"
proof -
  have rows: "list_all2 (\<lambda>e h. ho_amount h = amountMsat e sdiv 1000) (List.filter remoteCarriesHtlc (htlcs s)) rows"
    by (rule buildHtlcOutputsForRemote_rows [OF assms(2)])
  have "(ho_amount h \<ge> dustLimitSatoshis (remoteConfig s) + htlcFeeSat (hm_direction h) (getRemoteCommitmentFeeRate s)
        (isAnchorChannel (channelType s))) =
      (ho_amount h \<ge> dustLimitSatoshis (remoteConfig s) + htlcFeeSat (flip_direction (hm_direction h))
        (getRemoteCommitmentFeeRate s) (isAnchorChannel (channelType s)))" if "h \<in> set rows" for h
    using trim_agrees_row [OF assms(1)] list_all2_setD2 [OF rows that] by metis
  from untrimmed_sync [OF assms(3) this] have "map seen (flt rows1) = map mirrored (flt rows)"
    unfolding flt_def by blast
  moreover have "mset (flt rows2) = mset (flt rows1)"
    using assms(4) by (simp add: flt_def filterUntrimmedHtlcs_def)
  ultimately show ?thesis by (metis mset_map)
qed

lemma commitments_agree:
  assumes sync: "views_agree s t" "trim_agrees s"
    and a: "buildRemoteCommitment e lib s pt (Some n) = Inr a"
  shows "\<exists>b. buildLocalCommitment e lib t pt (Some n) False = Inr b \<and> same_body lib a b \<and>
    mset (map seen (bc_htlcOutputs b)) = mset (map mirrored (bc_htlcOutputs a))"
proof -
  define flt where "flt rs = filterUntrimmedHtlcs ho_amount hm_direction rs (dustLimitSatoshis (remoteConfig s))
    (getRemoteCommitmentFeeRate s) (isAnchorChannel (channelType s))" for rs :: "HtlcOutputMeta list"
  have st: "remoteBasepoints s = Some (localBasepoints t)" "remoteBasepoints t = Some (localBasepoints s)"
    "fundingTxid t = fundingTxid s" "channelType t = channelType s" "fundingSatoshis t = fundingSatoshis s"
    "dustLimitSatoshis (localConfig t) = dustLimitSatoshis (remoteConfig s)" "(role t = OPENER) = (role s \<noteq> OPENER)"
    using sync(1) by (cases "role s"; cases "role t"; simp add: views_agree_def same_channel_def)+
  define funder where "funder = (if role s = OPENER then snd (remoteBalances s) else fst (remoteBalances s))"
  obtain txid keys rows where txid: "fundingTxid s = Some txid"
    and keys: "deriveCommitmentKeys e lib (localBasepoints s) (localBasepoints t) pt False = Inr keys"
    and rows: "buildHtlcOutputsForRemote lib s keys = Inr rows"
    and fin: "finishCommitment lib s (localBasepoints t) funder (flt rows)
       (remoteParams lib s (localBasepoints t) txid keys n (flt rows)) = Inr a"
    using a by (auto simp: buildRemoteCommitment_def rbind_eq_Inr Let_def st(1) flt_def funder_def split: option.splits)
  obtain rows1 rows2 where r: "list_all2 row_sync rows rows1" "mset rows2 = mset rows1"
      "buildHtlcOutputsForLocal lib t keys False = Inr rows2"
    using rows_agree [OF sync(1) rows] by blast
  have seen: "mset (map seen (flt rows2)) = mset (map mirrored (flt rows))"
    unfolding flt_def by (rule untrimmed_agree [OF sync(2) rows r(1,2)])
  then have ms: "mset (map core (flt rows2)) = mset (map core (flt rows))" by (rule seen_core)
  then have len: "length (flt rows2) = length (flt rows)" by (metis length_map size_mset)
  have keys': "deriveCommitmentKeys e lib (localBasepoints t) (localBasepoints s) pt True = Inr keys"
    using keys by (simp add: deriveCommitmentKeys_def)
  have funder': "funder = (if role t = OPENER then fst (localBalances t False) else snd (localBalances t False))"
    using sync(1) by (simp add: funder_def views_agree_def st(7))
  have po: "p_htlcOutputs (remoteParams lib s (localBasepoints t) txid keys n (flt rows)) = Some (flt rows)"
    by (simp add: remoteParams_def Let_def)
  have rate: "getLocalCommitmentFeeRate t False = getRemoteCommitmentFeeRate s" using sync(1) by (simp add: views_agree_def)
  obtain b where b: "finishCommitment lib t (localBasepoints s) funder (flt rows2)
      (localParams lib t (localBasepoints s) txid keys n False (flt rows2)) = Inr b"
    "same_body lib a b" "bc_htlcOutputs b = flt rows2" "bc_htlcOutputs a = flt rows"
    using finishCommitment_sync [OF fin st(4,5) ms po] unfolding params_sync [OF sync(1) len, symmetric] by blast
  have "buildLocalCommitment e lib t pt (Some n) False = Inr b"
    using txid keys' r(3) b(1) by (simp add: buildLocalCommitment_def st Let_def rate flt_def funder')
  then show ?thesis using b(2-) seen by (intro exI [of _ b]) simp
qed

lemma in_sync_views:
  assumes "in_sync s t" "settles_after_add s"
  shows "views_agree s t"
proof -
  obtain zs where z: "mset zs = mset (htlcs t)" "list_all2 entry_sync (htlcs s) zs"
    using assms(1) unfolding in_sync_def htlcs_sync_def by blast
  have "list_all2 entry_sync (List.filter remoteCarriesHtlc (htlcs s)) (List.filter (localCarriesHtlc False) zs)"
    by (rule list_all2_filter [OF z(2)]) (simp add: entry_sync_carries)
  then have "map mirror_face (List.filter remoteCarriesHtlc (htlcs s)) = map face (List.filter (localCarriesHtlc False) zs)"
    by (induction rule: list_all2_induct) (simp_all add: entry_sync_def face_def mirror_face_def)
  moreover have "mset (map face (List.filter (localCarriesHtlc False) zs)) =
      mset (map face (List.filter (localCarriesHtlc False) (htlcs t)))"
    using z(1) by simp
  ultimately show ?thesis
    using assms in_sync_balances [OF assms] in_sync_feerate [OF assms(1)] in_sync_lease [OF assms(1)]
    by (simp add: views_agree_def in_sync_def del: mset_map)
qed

section \<open>A sample channel\<close>

definition sample_basepoints :: "int \<Rightarrow> IChannelBasepoints" where
  "sample_basepoints k = \<lparr>fundingPubkey = pt_mod k, revocationBasepoint = pt_mod (k + 1), paymentBasepoint = pt_mod (k + 2),
     delayedPaymentBasepoint = pt_mod (k + 3), htlcBasepoint = pt_mod (k + 4), firstPerCommitmentPoint = pt_mod (k + 5)\<rparr>"

definition sample_config :: IChannelConfig where
  "sample_config = \<lparr>dustLimitSatoshis = 354, maxHtlcValueInFlightMsat = 900000000, channelReserveSatoshis = 10000,
     htlcMinimumMsat = 1000, toSelfDelay = 144, maxAcceptedHtlcs = 30, feeratePerKw = 2500\<rparr>"

definition sample_entry :: "int \<Rightarrow> int \<Rightarrow> HtlcDirection \<Rightarrow> HtlcState \<Rightarrow> IHtlcEntry" where
  "sample_entry i amount dir st = \<lparr>entry_id = i, amountMsat = amount, paymentHash = replicate 32 (word_of_int i),
     cltvExpiry = 600 + i, onionRoutingPacket = [], direction = dir, entry_state = st, blindingPoint = None,
     addRemoteCommitted = None, removalRemoteCommitted = None, commitCoverPending = None, addLocallyRevoked = None,
     removalLocallyRevoked = None, addRemotelyRevoked = None, addCoverPending = None, addRemoteSigned = None,
     forwardEmitted = None, fforVoucher = None, fforMismatch = None, dustExposureFailback = None,
     expiredOnArrival = None, funderFeeFailback = None, addedWhileRestoreUnproven = None,
     addedWhileFundingUnaccounted = None\<rparr>"

definition sample_state :: "ChannelRole \<Rightarrow> int \<Rightarrow> int \<Rightarrow> int \<Rightarrow> int \<Rightarrow> IHtlcEntry list \<Rightarrow> IChannelState" where
  "sample_state r k k' mine theirs hs =
     (createOpenerState (replicate 32 1) 1000000 0 sample_config (sample_basepoints k) (replicate 32 (word_of_int k)))
       \<lparr>role := r, chState := NORMAL, channelId := Some (replicate 32 2), fundingTxid := Some (replicate 32 9),
        remoteBasepoints := Some (sample_basepoints k'), remoteConfig := sample_config, localCommitmentNumber := 4,
        remoteCommitmentNumber := 5, localBalanceMsat := mine, remoteBalanceMsat := theirs, htlcs := hs\<rparr>"

text \<open>
  The opener has offered one HTLC of the given amount and received a second, which it has failed;
  the acceptor has yet to revoke the commitment that still shows it. The acceptor's map has the two
  entries in the other order.
\<close>

definition opener_end :: "int \<Rightarrow> IChannelState" where
  "opener_end amount = sample_state OPENER 10 30 (600000000 - amount) 300000000
     [sample_entry 1 amount OFFERED COMMITTED, sample_entry 2 100000000 RECEIVED FAILED]"

definition acceptor_end :: "int \<Rightarrow> IChannelState" where
  "acceptor_end amount = sample_state ACCEPTOR 30 10 300000000 (600000000 - amount)
     [sample_entry 2 100000000 OFFERED FAILED, sample_entry 1 amount RECEIVED COMMITTED]"

lemma ends_in_sync: "in_sync (opener_end amount) (acceptor_end amount)"
proof -
  have "htlcs_sync (htlcs (opener_end amount)) (htlcs (acceptor_end amount))"
    unfolding htlcs_sync_def
    by (rule exI [of _ "[sample_entry 1 amount RECEIVED COMMITTED, sample_entry 2 100000000 OFFERED FAILED]"])
      (simp add: opener_end_def acceptor_end_def sample_state_def createOpenerState_def entry_sync_def sample_entry_def flip_direction_def)
  then show ?thesis
    by (simp add: in_sync_def same_channel_def fee_sync_def lease_sync_def opener_end_def acceptor_end_def sample_state_def
        createOpenerState_def sample_config_def committedFeeRate_def)
qed

lemma ends_settled: "settles_after_add (opener_end amount)"
  by (simp add: settles_after_add_def opener_end_def sample_state_def createOpenerState_def sample_entry_def)

definition built_commitment :: "IBuiltCommitment res \<Rightarrow> IBuiltCommitment" where
  "built_commitment m = (case m of Inr c \<Rightarrow> c | Inl _ \<Rightarrow> undefined)"

lemma built_commitmentI: "(case m of Inr _ \<Rightarrow> True | Inl _ \<Rightarrow> False) \<Longrightarrow> m = Inr (built_commitment m)"
  by (cases m) (simp_all add: built_commitment_def)

definition opener_view :: "int \<Rightarrow> IBuiltCommitment res" where
  "opener_view amount = buildRemoteCommitment ecc_mod sample_lib (opener_end amount) (pt_mod 11) (Some 5)"

definition acceptor_view :: "int \<Rightarrow> IBuiltCommitment res" where
  "acceptor_view amount = buildLocalCommitment ecc_mod sample_lib (acceptor_end amount) (pt_mod 11) (Some 5) False"

lemma opener_view_builds: "opener_view 50000000 = Inr (built_commitment (opener_view 50000000))"
  by (rule built_commitmentI) code_simp

lemma acceptor_view_builds: "acceptor_view 50000000 = Inr (built_commitment (acceptor_view 50000000))"
  by (rule built_commitmentI) code_simp

lemma sample_values:
  "map out_value (tx_outs (ct_tx (bc_result (built_commitment (opener_view 50000000))))) = [50000, 400000, 547760]"
  "map out_value (tx_outs (ct_tx (bc_result (built_commitment (acceptor_view 50000000))))) = [50000, 400000, 547760]"
  by code_simp+

section \<open>Properties\<close>

text \<open>C3: the commitment we sign for the peer is the commitment the peer builds for itself: for two
  ends of one channel the transactions are equal, with the same funding script and funder balance,
  and the peer's build succeeds whenever ours does. The two ends are in sync when every HTLC, feerate and
  lease height is in the same phase on both sides, we settle a received HTLC only after revoking for its
  add, and the ends must agree on trimming, which anchor channels always do.\<close>

theorem commitment_agreement:
  assumes sync: "in_sync s t" "settles_after_add s" "trim_agrees s"
    and a: "buildRemoteCommitment e lib s pt (Some n) = Inr a"
  shows "\<exists>b. buildLocalCommitment e lib t pt (Some n) False = Inr b \<and>
    ct_tx (bc_result b) = ct_tx (bc_result a) \<and> bc_fundingWitnessScript b = bc_fundingWitnessScript a \<and>
    bc_funderBalanceMsat b = bc_funderBalanceMsat a \<and> bc_fundingAmount b = bc_fundingAmount a"
  using commitments_agree [OF in_sync_views [OF sync(1,2)] sync(3) a] unfolding same_body_def by blast

theorem commitment_agreement_witness:
  "\<exists>b. acceptor_view 50000000 = Inr b \<and>
     ct_tx (bc_result b) = ct_tx (bc_result (built_commitment (opener_view 50000000))) \<and>
     map out_value (tx_outs (ct_tx (bc_result b))) = [50000, 400000, 547760]"
proof -
  have "trim_agrees (opener_end 50000000)" by code_simp
  from commitment_agreement [OF ends_in_sync ends_settled this opener_view_builds [unfolded opener_view_def]]
  show ?thesis unfolding acceptor_view_def [symmetric] opener_view_def [symmetric] using sample_values(1) by auto
qed

text \<open>C5: no millisatoshi is created or lost by a commitment: in either commitment, whatever phase its
  HTLCs are in and whether or not the last signed one is rebuilt, the two balances and the HTLCs it
  carries add up to the channel's total.\<close>

theorem commitment_conserves:
  "fst (localBalances s sl) + snd (localBalances s sl) + (\<Sum>e\<leftarrow>List.filter (localCarriesHtlc sl) (htlcs s). amountMsat e)
     + (\<Sum>e\<leftarrow>signedLocalRetainedRemovals s sl. amountMsat e)
   = localBalanceMsat s + remoteBalanceMsat s + (\<Sum>e\<leftarrow>htlcs s. amountMsat e) \<and>
   fst (remoteBalances s) + snd (remoteBalances s) + (\<Sum>e\<leftarrow>List.filter remoteCarriesHtlc (htlcs s). amountMsat e)
   = localBalanceMsat s + remoteBalanceMsat s + (\<Sum>e\<leftarrow>htlcs s. amountMsat e)"
  using localBalances_conserve [of s sl] remoteBalances_conserve [of s] by (simp add: carried_def channelTotalMsat_def)

text \<open>C6: a commitment never spends more than the funding output: when the channel's total is covered by
  the funding amount, no balance is negative and the opener can pay its commitment cost, the outputs
  and the computed fee stay within the funding amount, in our commitment and in the peer's.\<close>

theorem commitment_within_funding:
  assumes "channelTotalMsat s \<le> 1000 * fundingSatoshis s" "list_all (\<lambda>e. 0 \<le> amountMsat e) (htlcs s)"
    "list_all (\<lambda>e. 0 \<le> amountMsat e) (signedLocalRetainedRemovals s sl)"
    "0 \<le> fst (localBalances s sl)" "0 \<le> snd (localBalances s sl)"
    "0 \<le> fst (remoteBalances s)" "0 \<le> snd (remoteBalances s)"
    "buildLocalCommitment e lib s pt n sl = Inr c" "affordable s (getLocalCommitmentFeeRate s sl) c"
    "buildRemoteCommitment e lib s pt' n' = Inr c'" "affordable s (getRemoteCommitmentFeeRate s) c'"
  shows "(\<Sum>o1\<leftarrow>tx_outs (ct_tx (bc_result c)). out_value o1)
      + commitment_fee s (getLocalCommitmentFeeRate s sl) c \<le> fundingSatoshis s \<and>
    (\<Sum>o1\<leftarrow>tx_outs (ct_tx (bc_result c')). out_value o1)
      + commitment_fee s (getRemoteCommitmentFeeRate s) c' \<le> fundingSatoshis s"
proof
  have nn: "list_all (\<lambda>e. 0 \<le> amountMsat e) (carried s sl)"
    "list_all (\<lambda>e. 0 \<le> amountMsat e) (List.filter remoteCarriesHtlc (htlcs s))"
    using assms(2,3) by (auto simp: carried_def list_all_iff)
  show "(\<Sum>o1\<leftarrow>tx_outs (ct_tx (bc_result c)). out_value o1)
      + commitment_fee s (getLocalCommitmentFeeRate s sl) c \<le> fundingSatoshis s"
    by (rule built_from_value [of lib s "role s = OPENER" _ "fst (localBalances s sl)" "snd (localBalances s sl)" "carried s sl"])
      (use buildLocalCommitment_built [OF assms(8)] localBalances_conserve [of s sl] assms(1,4,5,9) nn(1) in simp_all)
  show "(\<Sum>o1\<leftarrow>tx_outs (ct_tx (bc_result c')). out_value o1)
      + commitment_fee s (getRemoteCommitmentFeeRate s) c' \<le> fundingSatoshis s"
    by (rule built_from_value [of lib s "role s \<noteq> OPENER" _ "fst (remoteBalances s)" "snd (remoteBalances s)"
          "List.filter remoteCarriesHtlc (htlcs s)"])
      (use buildRemoteCommitment_built [OF assms(10)] remoteBalances_conserve [of s] assms(1,6,7,11) nn(2) in simp_all)
qed

definition opener_own :: "IBuiltCommitment res" where
  "opener_own = buildLocalCommitment ecc_mod sample_lib (opener_end 50000000) (pt_mod 11) None False"

lemma opener_own_builds: "opener_own = Inr (built_commitment opener_own)"
  by (rule built_commitmentI) code_simp

theorem commitment_within_funding_witness:
  "(\<Sum>o1\<leftarrow>tx_outs (ct_tx (bc_result (built_commitment opener_own))). out_value o1) + 2240 \<le> 1000000 \<and>
   (\<Sum>o1\<leftarrow>tx_outs (ct_tx (bc_result (built_commitment (opener_view 50000000)))). out_value o1) + 2240 \<le> 1000000"
proof -
  let ?s = "opener_end 50000000"
  have st: "channelTotalMsat ?s \<le> 1000 * fundingSatoshis ?s" "list_all (\<lambda>e. 0 \<le> amountMsat e) (htlcs ?s)"
    "list_all (\<lambda>e. 0 \<le> amountMsat e) (signedLocalRetainedRemovals ?s False)"
    "0 \<le> fst (localBalances ?s False)" "0 \<le> snd (localBalances ?s False)"
    "0 \<le> fst (remoteBalances ?s)" "0 \<le> snd (remoteBalances ?s)"
    by code_simp+
  have aff: "affordable ?s (getLocalCommitmentFeeRate ?s False) (built_commitment opener_own)"
    "affordable ?s (getRemoteCommitmentFeeRate ?s) (built_commitment (opener_view 50000000))"
    by code_simp+
  have fee: "commitment_fee ?s (getLocalCommitmentFeeRate ?s False) (built_commitment opener_own) = 2240"
    "commitment_fee ?s (getRemoteCommitmentFeeRate ?s) (built_commitment (opener_view 50000000)) = 2240"
    "fundingSatoshis ?s = 1000000"
    by code_simp+
  show ?thesis
    using commitment_within_funding [OF st opener_own_builds [unfolded opener_own_def] aff(1) [unfolded opener_own_def]
        opener_view_builds [unfolded opener_view_def] aff(2) [unfolded opener_view_def]]
    unfolding opener_own_def [symmetric] opener_view_def [symmetric] fee by simp
qed

end
