(* ===== verification/HtlcPolicy.thy ===== *)
theory HtlcPolicy
  imports CommitmentBuilder
begin

text \<open>
  The HTLC policy: \<^verbatim>\<open>src/lightning/channel/htlc-policy.ts\<close>, every function of it. The splice a channel may have in
  flight is seen through \<open>IPendingSpliceView\<close>, whose methods are the fields of a record; the functions take
  it as an argument as the code does. A refusal is \<open>Some\<close> of its message. Feerates are integers; the
  floor of a weight times a feerate over 1000 is exact. The message of the refusal that names a dust
  limit keeps the limit as a number beside its text.
\<close>

section \<open>Definitions\<close>

type_synonym refusal = "(string \<times> int list) option"

subsection \<open>Reserves\<close>

definition MIN_CHANNEL_RESERVE_SATOSHIS :: int where "MIN_CHANNEL_RESERVE_SATOSHIS = 546"

definition computeChannelReserve :: "int \<Rightarrow> int \<Rightarrow> int" where
  "computeChannelReserve funding dustLimit =
     (let onePercent = funding sdiv 100;
          maxReserve = funding sdiv 5;
          minReserve = (if dustLimit > MIN_CHANNEL_RESERVE_SATOSHIS then dustLimit
                        else MIN_CHANNEL_RESERVE_SATOSHIS);
          reserve = (if onePercent < minReserve then minReserve else onePercent)
      in if reserve > maxReserve then maxReserve else reserve)"

definition v2ReserveWeKeep :: "int \<Rightarrow> int \<Rightarrow> int \<Rightarrow> int" where
  "v2ReserveWeKeep funding ourDustLimit peerDustLimit =
     bigIntMax (bigIntMax (funding sdiv 100) MIN_CHANNEL_RESERVE_SATOSHIS) (bigIntMax ourDustLimit peerDustLimit)"

definition v2ReserveWeEnforce :: "int \<Rightarrow> int \<Rightarrow> int \<Rightarrow> int" where
  "v2ReserveWeEnforce funding ourDustLimit peerDustLimit =
     bigIntMax (funding sdiv 100) (bigIntMin ourDustLimit peerDustLimit)"

definition reserveWeEnforceAt :: "IChannelState \<Rightarrow> int \<Rightarrow> int" where
  "reserveWeEnforceAt s capacity =
     (if remoteReserveWaived s then 0
      else if fundingVersion s = 2 \<or> spliceFundingTxid s \<noteq> None
      then v2ReserveWeEnforce capacity (dustLimitSatoshis (localConfig s)) (dustLimitSatoshis (remoteConfig s))
      else computeChannelReserve capacity (dustLimitSatoshis (localConfig s)))"

record IPendingSpliceView =
  sv_isSplicePendingLock :: bool
  sv_splicedState :: "IChannelState \<Rightarrow> IChannelState option"
  sv_pendingSpliceLocalBalanceMsat :: "int option"
  sv_pendingSpliceKeptReserveSats :: "int option"

subsection \<open>Pending updates and dust\<close>

definition in_flight :: "IHtlcEntry \<Rightarrow> bool" where
  "in_flight e \<longleftrightarrow> entry_state e = PENDING \<or> entry_state e = COMMITTED"

definition hasPendingHtlcs :: "IChannelState \<Rightarrow> bool" where
  "hasPendingHtlcs s \<longleftrightarrow> needsCommitment s \<or>
     list_ex (\<lambda>e. entry_state e = PENDING \<or>
       (entry_state e = FULFILLED \<or> entry_state e = FAILED) \<or>
       (is_false (addRemoteCommitted e) \<or> is_false (addLocallyRevoked e) \<or> is_false (removalRemoteCommitted e) \<or>
        is_false (removalLocallyRevoked e) \<or> commitCoverPending e = Some True)) (htlcs s)"

definition secondLevelFeeSats :: "IChannelState \<Rightarrow> int \<Rightarrow> int" where
  "secondLevelFeeSats s feerate =
     (if \<not> isAnchorChannel (channelType s) then (HTLC_SUCCESS_WEIGHT * feerate) div 1000 else 0)"

definition isDustHtlcAtRate :: "IChannelState \<Rightarrow> int \<Rightarrow> int \<Rightarrow> bool" where
  "isDustHtlcAtRate s amount feerate \<longleftrightarrow>
     (let dustLimitSats =
            (if dustLimitSatoshis (localConfig s) > dustLimitSatoshis (remoteConfig s)
             then dustLimitSatoshis (localConfig s) else dustLimitSatoshis (remoteConfig s))
      in amount < (dustLimitSats + secondLevelFeeSats s feerate) * 1000)"

definition isDustHtlc :: "IChannelState \<Rightarrow> int \<Rightarrow> bool" where
  "isDustHtlc s amount = isDustHtlcAtRate s amount (getCommitmentFeeRate s False)"

definition dustExposureAtRateMsat :: "IChannelState \<Rightarrow> int \<Rightarrow> int" where
  "dustExposureAtRateMsat s feerate =
     (\<Sum>e\<leftarrow>List.filter (\<lambda>e. in_flight e \<and> isDustHtlcAtRate s (amountMsat e) feerate) (htlcs s). amountMsat e)"

definition dustExposureMsat :: "IChannelState \<Rightarrow> int" where
  "dustExposureMsat s = dustExposureAtRateMsat s (getCommitmentFeeRate s False)"

subsection \<open>Waived reserves\<close>

definition initialWaivedCommitmentRefusal :: "IChannelState \<Rightarrow> refusal" where
  "initialWaivedCommitmentRefusal s =
     (if \<not> localReserveWaived s \<and> \<not> remoteReserveWaived s then None
      else let op = (role s = OPENER);
               cost = funderCommitmentCostSats
                 (if op then feeratePerKw (localConfig s) else feeratePerKw (remoteConfig s)) 0 (channelType s) * 1000;
               ours = localBalanceMsat s - (if op then cost else 0);
               theirs = remoteBalanceMsat s - (if op then 0 else cost);
               dust = bigIntMax (dustLimitSatoshis (localConfig s)) (dustLimitSatoshis (remoteConfig s)) * 1000
           in if ours < 0 \<or> theirs < 0 \<or> bigIntMax ours theirs < dust
              then Some (''Initial commitment would have no outputs or insufficient commitment funding'', [])
              else None)"

definition waivedCommitmentFundingRefusal :: "IChannelState \<Rightarrow> IBuiltCommitment \<Rightarrow> bool \<Rightarrow> refusal" where
  "waivedCommitmentFundingRefusal view bc isLocal =
     (let rate = (if isLocal then getLocalCommitmentFeeRate view False else getRemoteCommitmentFeeRate view);
          cost = funderCommitmentCostSats rate (length (bc_htlcOutputs bc)) (channelType view)
      in if bc_funderBalanceMsat bc < cost * 1000
         then Some (''Operation would leave the opener unable to pay its commitment cost'', [])
         else let outputSats = (\<Sum>o1\<leftarrow>tx_outs (ct_tx (bc_result bc)). out_value o1)
              in if outputSats > fundingSatoshis view
                 then Some (''Commitment outputs exceed the funding amount'', []) else None)"

definition nextRemotePoint :: "IChannelState \<Rightarrow> bytes option" where
  "nextRemotePoint s =
     (case remoteNextPerCommitmentPoint s of Some p \<Rightarrow> Some p | None \<Rightarrow> remoteCurrentPerCommitmentPoint s)"

text \<open>
  The peer's commitment is bc at its next point, or its current one. Both can only be missing
  where \<^verbatim>\<open>!\<close> in the code passes a null on, which the build then throws on.
\<close>

definition buildNextRemote :: "ecc \<Rightarrow> btc \<Rightarrow> IChannelState \<Rightarrow> IBuiltCommitment res" where
  "buildNextRemote e lib view =
     (case nextRemotePoint view of
        None \<Rightarrow> Inl (Error ''null point'' [])
      | Some p \<Rightarrow> buildRemoteCommitment e lib view p (Some (remoteCommitmentNumber view + 1)))"

definition waivedCommitmentRefusal :: "ecc \<Rightarrow> btc \<Rightarrow> IChannelState \<Rightarrow> refusal" where
  "waivedCommitmentRefusal e lib view =
     (if \<not> localReserveWaived view \<and> \<not> remoteReserveWaived view then None
      else if localBalanceMsat view < 0 \<or> remoteBalanceMsat view < 0
      then Some (''Splice would leave a negative channel balance'', [])
      else let n = localCommitmentNumber view + 1 in
        (case rbind (getPerCommitmentPoint e lib (localPerCommitmentSeed view) n) (\<lambda>point.
              rbind (buildLocalCommitment e lib view point (Some n) False) (\<lambda>local.
              rbind (buildNextRemote e lib view) (\<lambda>remote. Inr (local, remote)))) of
           Inl _ \<Rightarrow> Some (''Cannot build both commitments for the proposed operation'', [])
         | Inr (local, remote) \<Rightarrow>
             (case waivedCommitmentFundingRefusal view local True of
                Some r \<Rightarrow> Some r
              | None \<Rightarrow>
                  (case waivedCommitmentFundingRefusal view remote False of
                     Some r \<Rightarrow> Some r
                   | None \<Rightarrow>
                       (if tx_outs (ct_tx (bc_result local)) \<noteq> [] \<and> tx_outs (ct_tx (bc_result remote)) \<noteq> []
                        then None
                        else Some (''Operation would leave a commitment with no outputs'', []))))))"

subsection \<open>A commitment without outputs\<close>

record empty_overrides =
  ov_localBalanceMsat :: "int option"
  ov_remoteBalanceMsat :: "int option"
  ov_pendingFeeratePerKw :: "int option"
  ov_addedHtlc :: "IHtlcEntry option"

definition no_overrides :: empty_overrides where
  "no_overrides = \<lparr>ov_localBalanceMsat = None, ov_remoteBalanceMsat = None, ov_pendingFeeratePerKw = None,
     ov_addedHtlc = None\<rparr>"

definition candidateState :: "empty_overrides \<Rightarrow> IChannelState \<Rightarrow> IChannelState" where
  "candidateState ov s =
     (let s = (case ov_localBalanceMsat ov of None \<Rightarrow> s | Some b \<Rightarrow> s\<lparr>localBalanceMsat := b\<rparr>);
          s = (case ov_remoteBalanceMsat ov of None \<Rightarrow> s | Some b \<Rightarrow> s\<lparr>remoteBalanceMsat := b\<rparr>);
          s = (case ov_pendingFeeratePerKw ov of None \<Rightarrow> s | Some f \<Rightarrow> s\<lparr>pendingFeeratePerKw := Some f\<rparr>)
      in case ov_addedHtlc ov of None \<Rightarrow> s | Some entry \<Rightarrow> s\<lparr>htlcs := htlc_set entry (htlcs s)\<rparr>)"

text \<open>The closure \<^verbatim>\<open>emptyRefusal\<close>, for the point and number of our next commitment.\<close>

definition emptyRefusal ::
  "ecc \<Rightarrow> btc \<Rightarrow> bool \<Rightarrow> int \<Rightarrow> bytes \<Rightarrow> int \<Rightarrow> IChannelState \<Rightarrow> string \<Rightarrow> refusal" where
  "emptyRefusal e lib waived ourDust point next view what =
     (case rbind (buildLocalCommitment e lib view point (Some next) False) (\<lambda>local.
           if waived then rbind (buildNextRemote e lib view) (\<lambda>remote. Inr (local, Some remote))
           else Inr (local, None)) of
        Inl _ \<Rightarrow> Some (''Cannot build the '' @ what @ '' this update would leave us holding'', [])
      | Inr (local, remote) \<Rightarrow>
          (case (case remote of
                   None \<Rightarrow> None
                 | Some r \<Rightarrow>
                     (case waivedCommitmentFundingRefusal view local True of
                        Some x \<Rightarrow> Some x
                      | None \<Rightarrow>
                          (case waivedCommitmentFundingRefusal view r False of
                             Some x \<Rightarrow> Some x
                           | None \<Rightarrow>
                               (if tx_outs (ct_tx (bc_result r)) = []
                                then Some (''Update would trim every output of the remote '' @ what, [])
                                else None)))) of
             Some x \<Rightarrow> Some x
           | None \<Rightarrow>
               (if tx_outs (ct_tx (bc_result local)) \<noteq> [] then None
                else Some (''Update would trim every output of the '' @ what @ '' we hold'', [ourDust]))))"

definition checkRates ::
  "ecc \<Rightarrow> btc \<Rightarrow> bool \<Rightarrow> int option \<Rightarrow> int \<Rightarrow> bytes \<Rightarrow> int \<Rightarrow> IChannelState \<Rightarrow> string \<Rightarrow> refusal" where
  "checkRates e lib waived pendingRate ourDust point next view what =
     (case emptyRefusal e lib waived ourDust point next view what of
        Some x \<Rightarrow> Some x
      | None \<Rightarrow>
          (case pendingRate of
             None \<Rightarrow> None
           | Some rate \<Rightarrow>
               (if waived then
                  emptyRefusal e lib waived ourDust point next
                    (view\<lparr>localConfig := (localConfig view)\<lparr>feeratePerKw := rate\<rparr>,
                          remoteConfig := (remoteConfig view)\<lparr>feeratePerKw := rate\<rparr>,
                          pendingFeeratePerKw := None\<rparr>)
                    (what @ '' after the fee update commits'')
                else None)))"

definition localCommitmentEmptyRefusal ::
  "ecc \<Rightarrow> btc \<Rightarrow> IChannelState \<Rightarrow> IPendingSpliceView \<Rightarrow> empty_overrides \<Rightarrow> refusal res" where
  "localCommitmentEmptyRefusal e lib s sv ov =
     (let ourDust = dustLimitSatoshis (localConfig s);
          waived = (localReserveWaived s \<or> remoteReserveWaived s);
          liveHalf = (waived \<or> channelReserveSatoshis (localConfig s) < ourDust);
          spliceHalf = sv_isSplicePendingLock sv
      in if \<not> liveHalf \<and> \<not> spliceHalf then Inr None
         else
           let candidate = candidateState ov s;
               next = localCommitmentNumber s + 1
           in rbind (getPerCommitmentPoint e lib (localPerCommitmentSeed s) next) (\<lambda>point.
              let check = checkRates e lib waived (ov_pendingFeeratePerKw ov) ourDust point next
              in Inr (case (if liveHalf then check candidate ''commitment'' else None) of
                 Some x \<Rightarrow> Some x
               | None \<Rightarrow>
                   (if \<not> spliceHalf then None
                    else (case sv_splicedState sv candidate of
                            Some spliced \<Rightarrow>
                              (if localBalanceMsat spliced < 0 \<or> remoteBalanceMsat spliced < 0
                               then Some (''Update would overdraw the pending-splice capacity'', [fundingSatoshis spliced])
                               else check spliced ''pending-splice commitment'')
                          | None \<Rightarrow>
                              (if waived
                               then Some (''Cannot verify the pending-splice commitments until restoration completes'', [])
                               else None))))))"

subsection \<open>What the funder pays\<close>

type_synonym row = "int \<times> HtlcDirection"

definition countUntrimmedRows :: "IChannelState \<Rightarrow> row list \<Rightarrow> int \<Rightarrow> int \<Rightarrow> nat" where
  "countUntrimmedRows s rows dustLimitSats feerate =
     length (filterUntrimmedHtlcs fst snd rows dustLimitSats feerate (isAnchorChannel (channelType s)))"

definition funderCostMsat :: "IChannelState \<Rightarrow> int \<Rightarrow> nat \<Rightarrow> int" where
  "funderCostMsat s feerate untrimmed = funderCommitmentCostSats feerate untrimmed (channelType s) * 1000"

definition row_of :: "IHtlcEntry \<Rightarrow> row" where
  "row_of e = (amountMsat e sdiv 1000, direction e)"

definition candidate_row :: "int \<times> HtlcDirection \<Rightarrow> row" where
  "candidate_row c = (fst c sdiv 1000, snd c)"

definition remoteFunderLocalCostMsat :: "IChannelState \<Rightarrow> int \<Rightarrow> (int \<times> HtlcDirection) list \<Rightarrow> int" where
  "remoteFunderLocalCostMsat s feerate candidates =
     (let rows = map row_of (List.filter in_flight (htlcs s)) @ map candidate_row candidates;
          untrimmed = countUntrimmedRows s rows (dustLimitSatoshis (localConfig s)) feerate
      in funderCostMsat s feerate untrimmed)"

record funder_view =
  fv_balanceMsat :: int
  fv_untrimmed :: nat
  fv_feeratePerKw :: int
  fv_costMsat :: int

text \<open>The loop of \<^verbatim>\<open>funderSenderView\<close>: what an entry adds to the balance, and whether it is a row.\<close>

definition senderCredit :: "IHtlcEntry \<Rightarrow> int" where
  "senderCredit e =
     (if direction e = OFFERED \<and> ((in_flight e \<and> is_false (addRemoteCommitted e)) \<or> entry_state e = FAILED)
      then amountMsat e else 0)"

definition senderRow :: "IHtlcEntry \<Rightarrow> bool" where
  "senderRow e =
     (if direction e = OFFERED then
        (if in_flight e \<and> is_false (addRemoteCommitted e) then False
         else if entry_state e = FAILED then False
         else in_flight e)
      else \<not> (\<not> in_flight e \<and> \<not> is_false (removalRemoteCommitted e)))"

definition funderSenderView :: "IChannelState \<Rightarrow> (int \<times> HtlcDirection) list \<Rightarrow> funder_view" where
  "funderSenderView s candidates =
     (let balance = localBalanceMsat s + (\<Sum>e\<leftarrow>htlcs s. senderCredit e);
          rows = map row_of (List.filter senderRow (htlcs s)) @ map candidate_row candidates;
          feerate = getLocalCommitmentFeeRate s False;
          untrimmed = countUntrimmedRows s rows (dustLimitSatoshis (localConfig s)) feerate
      in \<lparr>fv_balanceMsat = balance, fv_untrimmed = untrimmed, fv_feeratePerKw = feerate,
          fv_costMsat = funderCostMsat s feerate untrimmed\<rparr>)"

record conservative_view =
  cv_untrimmed :: nat
  cv_feeratePerKw :: int
  cv_costMsat :: int
  cv_creditMsat :: int

definition conservativePresent :: "IHtlcEntry \<Rightarrow> bool" where
  "conservativePresent e \<longleftrightarrow> in_flight e \<or>
     (if direction e = RECEIVED then is_false (removalRemoteCommitted e) else is_false (removalLocallyRevoked e))"

definition conservativeCredit :: "IHtlcEntry \<Rightarrow> int" where
  "conservativeCredit e =
     (if \<not> conservativePresent e \<and> direction e = OFFERED \<and> entry_state e = FAILED then amountMsat e else 0)"

definition priceAt :: "IChannelState \<Rightarrow> row list \<Rightarrow> int \<Rightarrow> int \<Rightarrow> int \<Rightarrow> conservative_view" where
  "priceAt s rows dustLimitSats credit feerate =
     (let untrimmed = countUntrimmedRows s rows dustLimitSats feerate
      in \<lparr>cv_untrimmed = untrimmed, cv_feeratePerKw = feerate, cv_costMsat = funderCostMsat s feerate untrimmed,
          cv_creditMsat = credit\<rparr>)"

definition funderConservativeView :: "IChannelState \<Rightarrow> (int \<times> HtlcDirection) list \<Rightarrow> conservative_view" where
  "funderConservativeView s candidates =
     (let rows = map row_of (List.filter conservativePresent (htlcs s)) @ map candidate_row candidates;
          credit = (\<Sum>e\<leftarrow>htlcs s. conservativeCredit e);
          dustLimitSats = bigIntMin (dustLimitSatoshis (localConfig s)) (dustLimitSatoshis (remoteConfig s));
          local = priceAt s rows dustLimitSats credit (getLocalCommitmentFeeRate s False);
          remoteRate = getRemoteCommitmentFeeRate s
      in if remoteRate = cv_feeratePerKw local then local
         else let remote = priceAt s rows dustLimitSats credit remoteRate
              in if cv_costMsat remote > cv_costMsat local then remote else local)"

definition inSplicedClimbOut :: "IChannelState \<Rightarrow> bool" where
  "inSplicedClimbOut view \<longleftrightarrow> hasBeenSpliced view \<and> length (htlcs view) < 5"

definition funderOutputTrimmedRefusal ::
  "ecc \<Rightarrow> btc \<Rightarrow> IChannelState \<Rightarrow> bool \<Rightarrow> bytes \<Rightarrow> int \<Rightarrow> refusal" where
  "funderOutputTrimmedRefusal e lib view isLocal point number =
     (if role view \<noteq> OPENER then None
      else if remoteBasepoints view = None \<or> fundingTxid view = None then None
      else
        let dustSats = (if isLocal then dustLimitSatoshis (localConfig view) else dustLimitSatoshis (remoteConfig view));
            balanceSats = localBalanceMsat view sdiv 1000
        in if \<not> localReserveWaived view \<and> balanceSats < dustSats then None
           else (case (if isLocal then buildLocalCommitment e lib view point (Some number) False
                       else buildRemoteCommitment e lib view point (Some number)) of
                   Inl _ \<Rightarrow> None
                 | Inr bc \<Rightarrow>
                     (if (if isLocal then om_toLocal (ct_outputMap (bc_result bc))
                          else om_toRemote (ct_outputMap (bc_result bc))) \<noteq> None then None
                      else if localReserveWaived view \<or> inSplicedClimbOut view then
                        (let feerate = (if isLocal then getLocalCommitmentFeeRate view False
                                        else getRemoteCommitmentFeeRate view);
                             feeSats = funderCommitmentCostSats feerate (length (bc_htlcOutputs bc)) (channelType view);
                             funderSats = (if localReserveWaived view then bc_funderBalanceMsat bc sdiv 1000
                                           else balanceSats)
                         in if feeSats \<le> funderSats \<and> tx_outs (ct_tx (bc_result bc)) \<noteq> [] then None
                            else Some (''Commitment would trim our output to fees'', []))
                      else Some (''Commitment would trim our output to fees'', []))))"

subsection \<open>When the peer funds\<close>

definition remoteSenderCredit :: "IHtlcEntry \<Rightarrow> int" where
  "remoteSenderCredit e =
     (if direction e = RECEIVED then
        (if (in_flight e \<and> is_false (addLocallyRevoked e)) \<or> entry_state e = FAILED then amountMsat e else 0)
      else if \<not> in_flight e \<and> \<not> is_false (removalLocallyRevoked e) \<and> entry_state e = FULFILLED
      then amountMsat e else 0)"

definition remoteSenderRow :: "IHtlcEntry \<Rightarrow> bool" where
  "remoteSenderRow e =
     (if direction e = RECEIVED then
        (if in_flight e \<and> is_false (addLocallyRevoked e) then False
         else if entry_state e = FAILED then False
         else in_flight e)
      else \<not> (\<not> in_flight e \<and> \<not> is_false (removalLocallyRevoked e)))"

definition onFunder :: "row \<Rightarrow> row" where
  "onFunder r = (fst r, flip_direction (snd r))"

definition remoteFunderSenderView :: "IChannelState \<Rightarrow> (int \<times> HtlcDirection) list \<Rightarrow> nat \<Rightarrow> funder_view" where
  "remoteFunderSenderView s candidates extraSlots =
     (let balance = remoteBalanceMsat s + (\<Sum>e\<leftarrow>htlcs s. remoteSenderCredit e);
          rows = map (onFunder \<circ> row_of) (List.filter remoteSenderRow (htlcs s));
          candidateRows = map (onFunder \<circ> candidate_row) candidates;
          feerate = getRemoteCommitmentFeeRate s;
          dustLimitSats = dustLimitSatoshis (remoteConfig s);
          untrimmedCandidates = countUntrimmedRows s candidateRows dustLimitSats feerate;
          untrimmed = countUntrimmedRows s rows dustLimitSats feerate + untrimmedCandidates
            + (if untrimmedCandidates > 0 then extraSlots else 0)
      in \<lparr>fv_balanceMsat = balance, fv_untrimmed = untrimmed, fv_feeratePerKw = feerate,
          fv_costMsat = funderCostMsat s feerate untrimmed\<rparr>)"

definition funderHeadroomMsat :: "IChannelState \<Rightarrow> IPendingSpliceView \<Rightarrow> int \<Rightarrow> int" where
  "funderHeadroomMsat s sv balance =
     (let adjust = balance - localBalanceMsat s;
          headroom = balance - channelReserveSatoshis (remoteConfig s) * 1000
      in case (sv_pendingSpliceLocalBalanceMsat sv, sv_pendingSpliceKeptReserveSats sv) of
           (Some pending, Some pendingReserve) \<Rightarrow>
             (let pendingHeadroom = pending + adjust - pendingReserve * 1000
              in if pendingHeadroom < headroom then pendingHeadroom else headroom)
         | _ \<Rightarrow> headroom)"

definition funderLiveBalanceFloorMsat :: "IChannelState \<Rightarrow> IPendingSpliceView \<Rightarrow> int" where
  "funderLiveBalanceFloorMsat s sv =
     (case sv_pendingSpliceLocalBalanceMsat sv of
        Some pending \<Rightarrow> (if pending < localBalanceMsat s then pending else localBalanceMsat s)
      | None \<Rightarrow> localBalanceMsat s)"

definition pendingRemoteView ::
  "IChannelState \<Rightarrow> IPendingSpliceView \<Rightarrow> ISpliceInFlight \<Rightarrow> int option \<times> int" where
  "pendingRemoteView s sv inFlight =
     (case sv_splicedState sv s of
        Some spliced \<Rightarrow> (Some (remoteBalanceMsat spliced), fundingSatoshis spliced)
      | None \<Rightarrow>
          (case sv_pendingSpliceLocalBalanceMsat sv of
             Some pendingLocal \<Rightarrow>
               (Some (newFundingSatoshis inFlight * 1000 - pendingLocal - (\<Sum>e\<leftarrow>htlcs s. amountMsat e)),
                newFundingSatoshis inFlight)
           | None \<Rightarrow> (None, newFundingSatoshis inFlight)))"

definition remoteFunderHeadroomMsat :: "IChannelState \<Rightarrow> IPendingSpliceView \<Rightarrow> int \<Rightarrow> int" where
  "remoteFunderHeadroomMsat s sv balance =
     (let reserveSats = channelReserveSatoshis (localConfig s);
          adjust = balance - remoteBalanceMsat s;
          headroom = balance - reserveSats * 1000
      in case spliceInFlight s of
           None \<Rightarrow> headroom
         | Some inFlight \<Rightarrow>
             (case pendingRemoteView s sv inFlight of
                (None, _) \<Rightarrow> headroom
              | (Some pending, pendingCapacity) \<Rightarrow>
                  (let pendingReserveSats =
                         (if remoteReserveWaived s then 0
                          else bigIntMax reserveSats (v2ReserveWeKeep pendingCapacity
                            (dustLimitSatoshis (remoteConfig s)) (dustLimitSatoshis (localConfig s))));
                       pendingHeadroom = pending + adjust - pendingReserveSats * 1000
                   in if pendingHeadroom < headroom then pendingHeadroom else headroom)))"

definition remoteFunderFeeRefusal :: "IChannelState \<Rightarrow> IPendingSpliceView \<Rightarrow> int list \<Rightarrow> refusal" where
  "remoteFunderFeeRefusal s sv amounts =
     (if role s \<noteq> ACCEPTOR then None
      else let view = remoteFunderSenderView s (map (\<lambda>a. (a, OFFERED)) amounts) 1
           in if remoteFunderHeadroomMsat s sv (fv_balanceMsat view) \<ge> fv_costMsat view then None
              else Some (''Remote funder cannot afford commitment fee for HTLC'', []))"

definition remoteFunderCeilingMsat :: "IChannelState \<Rightarrow> IPendingSpliceView \<Rightarrow> int \<Rightarrow> int" where
  "remoteFunderCeilingMsat s sv spendable =
     (if role s \<noteq> ACCEPTOR then spendable
      else let current = remoteFunderSenderView s [] 0;
               headroom = remoteFunderHeadroomMsat s sv (fv_balanceMsat current)
           in if headroom \<ge> funderCostMsat s (fv_feeratePerKw current) (fv_untrimmed current + 2) then spendable
              else if headroom < fv_costMsat current then 0
              else let trimmedCap = (dustLimitSatoshis (remoteConfig s)
                         + secondLevelFeeSats s (fv_feeratePerKw current)) * 1000 - 1
                   in if trimmedCap < spendable then trimmedCap else spendable)"

subsection \<open>Counting\<close>

definition countActiveHtlcs :: "IChannelState \<Rightarrow> nat" where
  "countActiveHtlcs s = length (List.filter in_flight (htlcs s))"

definition countPendingHtlcs :: "IChannelState \<Rightarrow> HtlcDirection \<Rightarrow> nat" where
  "countPendingHtlcs s d = length (List.filter (\<lambda>e. direction e = d \<and> in_flight e) (htlcs s))"

definition totalInFlightMsat :: "IChannelState \<Rightarrow> HtlcDirection \<Rightarrow> int" where
  "totalInFlightMsat s d = (\<Sum>e\<leftarrow>List.filter (\<lambda>e. direction e = d \<and> in_flight e) (htlcs s). amountMsat e)"

section \<open>The guard and the builder\<close>

text \<open>The sender's view counts the HTLCs our commitment carries.\<close>

lemma senderRow_carries: "senderRow e = localCarriesHtlc False e"
  by (cases "entry_state e"; cases "direction e")
    (auto simp: senderRow_def localCarriesHtlc_def in_flight_def removed_def signedLocalCarriesRemoval_def
      signedLocalLacksReceivedAdd_def localCommitmentCarriesAdd_def)

lemma senderCredit_le: "0 \<le> amountMsat e \<Longrightarrow> senderCredit e \<le> fst (local_credit False e)"
  by (cases "entry_state e"; cases "direction e")
    (auto simp: senderCredit_def local_credit_def localBalanceStep_def in_flight_def
      signedLocalCarriesRemoval_def signedLocalLacksReceivedAdd_def localCommitmentCarriesAdd_def)

lemma senderBalance_le:
  assumes "list_all (\<lambda>e. 0 \<le> amountMsat e) (htlcs s)"
  shows "fv_balanceMsat (funderSenderView s c) \<le> fst (localBalances s False)"
proof -
  have "(\<Sum>e\<leftarrow>htlcs s. senderCredit e) \<le> (\<Sum>e\<leftarrow>htlcs s. fst (local_credit False e))"
    using assms senderCredit_le by (intro sum_list_mono) (auto simp: list_all_iff)
  then show ?thesis
    by (simp add: funderSenderView_def localBalances_sum signedLocalRetainedRemovals_def Let_def)
qed

lemma rows_row_of:
  assumes "map_res (buildLocalHtlcOutput lib s keys) es = Inr rows"
  shows "map (\<lambda>h. (ho_amount h, hm_direction h)) rows = map row_of es"
  using assms
proof (induction es arbitrary: rows)
  case (Cons e es)
  then show ?case
    by (auto simp: rbind_eq_Inr row_of_def buildLocalHtlcOutput_def dest: htlcRow_fields)
qed simp

lemma untrimmed_map:
  "length (filterUntrimmedHtlcs ho_amount hm_direction rows d f anc) =
   length (filterUntrimmedHtlcs fst snd (map (\<lambda>h. (ho_amount h, hm_direction h)) rows) d f anc)"
  by (simp add: filterUntrimmedHtlcs_def filter_map comp_def)

lemma toLocal_present:
  assumes "buildCommitmentTx lib params = Inr r" "dustWsh params \<le> p_localAmount params"
  shows "om_toLocal (ct_outputMap r) \<noteq> None"
proof -
  obtain U a b where U: "commitmentOutputs lib params = Inr (U, a, b)"
    and om: "ct_outputMap r = mapOutputs 0 (js_sort compareOutputs U) emptyOutputMap"
    by (rule buildCommitmentTx_inv [OF assms(1)])
  let ?S = "js_sort compareOutputs U"
  have "mset (of_type to_local ?S) = mset (of_type to_local U)" by (rule mset_of_type) simp
  then have "set (of_type to_local ?S) = set (fst (toLocalOutput lib params))"
    using commitmentOutputs_types(1) [OF U] by (metis set_mset_mset)
  then have "of_type to_local ?S \<noteq> []"
    using assms(2) by (auto simp: toLocalOutput_def Let_def split: option.splits)
  then show ?thesis
    unfolding om outputMap_fields by (simp add: last_pos_def positions_Nil)
qed

lemma buildLocal_outputs:
  assumes "buildLocalCommitment e lib s pt n False = Inr c"
  shows "length (bc_htlcOutputs c) = fv_untrimmed (funderSenderView s [])"
    "dustLimitSatoshis (localConfig s) \<le>
       fst (outputAmounts (role s = OPENER) (commitment_fee s (getLocalCommitmentFeeRate s False) c)
         (isAnchorChannel (channelType s)) (localBalances s False)) \<Longrightarrow>
     om_toLocal (ct_outputMap (bc_result c)) \<noteq> None"
proof -
  obtain bp txid keys rows num where rows: "buildHtlcOutputsForLocal lib s keys False = Inr rows"
    and fin: "finishCommitment lib s bp (if role s = OPENER then fst (localBalances s False) else snd (localBalances s False))
       (filterUntrimmedHtlcs ho_amount hm_direction rows (dustLimitSatoshis (localConfig s))
          (getLocalCommitmentFeeRate s False) (isAnchorChannel (channelType s)))
       (localParams lib s bp txid keys num False
         (filterUntrimmedHtlcs ho_amount hm_direction rows (dustLimitSatoshis (localConfig s))
          (getLocalCommitmentFeeRate s False) (isAnchorChannel (channelType s)))) = Inr c"
    by (rule buildLocalCommitment_inv [OF assms])
  obtain params where p: "applyTaprootCommitOverrides lib (channelType s) (localParams lib s bp txid keys num False
         (filterUntrimmedHtlcs ho_amount hm_direction rows (dustLimitSatoshis (localConfig s))
          (getLocalCommitmentFeeRate s False) (isAnchorChannel (channelType s)))) = Inr params"
      "buildCommitmentTx lib params = Inr (bc_result c)"
      "bc_htlcOutputs c = filterUntrimmedHtlcs ho_amount hm_direction rows (dustLimitSatoshis (localConfig s))
          (getLocalCommitmentFeeRate s False) (isAnchorChannel (channelType s))"
    by (rule finishCommitment_inv [OF fin])
  have "map_res (buildLocalHtlcOutput lib s keys) (List.filter (localCarriesHtlc False) (htlcs s)) = Inr rows"
    using rows by (auto simp: buildHtlcOutputsForLocal_def signedLocalRetainedRemovals_def rbind_eq_Inr)
  from rows_row_of [OF this] show "length (bc_htlcOutputs c) = fv_untrimmed (funderSenderView s [])"
    unfolding p(3) untrimmed_map
    by (simp add: funderSenderView_def countUntrimmedRows_def senderRow_carries [abs_def] Let_def)
  assume "dustLimitSatoshis (localConfig s) \<le>
       fst (outputAmounts (role s = OPENER) (commitment_fee s (getLocalCommitmentFeeRate s False) c)
         (isAnchorChannel (channelType s)) (localBalances s False))"
  then have "dustWsh params \<le> p_localAmount params"
    using applyTaproot_fields(1) [OF p(1)] applyTaproot_dust [OF p(1)]
    by (simp add: localParams_def Let_def dustWsh_def commitment_fee_def p(3))
  then show "om_toLocal (ct_outputMap (bc_result c)) \<noteq> None" by (rule toLocal_present [OF p(2)])
qed

lemma funder_output:
  assumes "1000 * (fee + (if anchors then ANCHOR_TOTAL_COST else 0)) + 1000 * d \<le> l" "0 \<le> d" "0 \<le> fee"
  shows "d \<le> fst (outputAmounts True fee anchors (l, r))"
proof -
  define cost where "cost = fee + (if anchors then ANCHOR_TOTAL_COST else 0)"
  have "0 \<le> cost" using assms(3) by (simp add: cost_def ANCHOR_TOTAL_COST_def ANCHOR_OUTPUT_VALUE_def)
  moreover have l: "1000 * cost + 1000 * d \<le> l" using assms(1) by (simp add: cost_def)
  ultimately have "0 \<le> l" using assms(2) by linarith
  have "d \<le> l div 1000 - cost" using l by linarith
  then show ?thesis
    using assms(2) unfolding outputAmounts_def Let_def sdiv_1000 [OF \<open>0 \<le> l\<close>] prod.case cost_def [symmetric] by simp
qed

lemma mirror_views:
  assumes "in_sync s t" "list_all (\<lambda>e. direction e = OFFERED \<and> entry_state e = FULFILLED \<longrightarrow> is_false (removalLocallyRevoked e)) (htlcs s)"
  shows "remoteFunderSenderView s cands 0 = funderSenderView t (map (\<lambda>c. (fst c, flip_direction (snd c))) cands)"
proof -
  obtain zs where z: "mset zs = mset (htlcs t)" "list_all2 entry_sync (htlcs s) zs"
    using assms(1) unfolding in_sync_def htlcs_sync_def by blast
  have cred: "remoteSenderCredit a = senderCredit b" if "entry_sync a b"
    "direction a = OFFERED \<and> entry_state a = FULFILLED \<longrightarrow> is_false (removalLocallyRevoked a)" for a b
    using that by (cases "entry_state a"; cases "entry_state b"; cases "direction a")
      (auto simp: entry_sync_def remoteSenderCredit_def senderCredit_def in_flight_def flip_direction_def)
  have row: "remoteSenderRow a = senderRow b \<and> onFunder (row_of a) = row_of b" if "entry_sync a b" for a b
    using that by (cases "entry_state a"; cases "entry_state b"; cases "direction a")
      (auto simp: entry_sync_def remoteSenderRow_def senderRow_def in_flight_def flip_direction_def onFunder_def row_of_def)
  have "map remoteSenderCredit (htlcs s) = map senderCredit zs"
    using z(2) assms(2) by (induction rule: list_all2_induct) (auto simp: cred)
  then have bal: "(\<Sum>e\<leftarrow>htlcs s. remoteSenderCredit e) = (\<Sum>e\<leftarrow>htlcs t. senderCredit e)"
    using sum_list_perm [OF z(1), of senderCredit] by simp
  have "map (onFunder \<circ> row_of) (List.filter remoteSenderRow (htlcs s)) = map row_of (List.filter senderRow zs)"
    using z(2) by (induction rule: list_all2_induct) (auto simp: row)
  then have rows: "mset (map (onFunder \<circ> row_of) (List.filter remoteSenderRow (htlcs s))) =
      mset (map row_of (List.filter senderRow (htlcs t)))"
    using z(1) by simp
  have count: "countUntrimmedRows s xs d f = countUntrimmedRows t ys d f" if "mset xs = mset ys"
    "channelType t = channelType s" for xs ys d f
    unfolding countUntrimmedRows_def filterUntrimmedHtlcs_def that(2)
    by (rule mset_eq_length) (use that(1) in simp)
  have app: "countUntrimmedRows u (xs @ ys) d f = countUntrimmedRows u xs d f + countUntrimmedRows u ys d f" for u xs ys d f
    by (simp add: countUntrimmedRows_def filterUntrimmedHtlcs_def)
  have cands: "map (onFunder \<circ> candidate_row) cands =
      map candidate_row (map (\<lambda>c. (fst c, flip_direction (snd c))) cands)"
    by (simp add: onFunder_def candidate_row_def comp_def)
  have st: "channelType t = channelType s" "dustLimitSatoshis (localConfig t) = dustLimitSatoshis (remoteConfig s)"
    "localBalanceMsat t = remoteBalanceMsat s"
    using assms(1) by (simp_all add: in_sync_def same_channel_def)
  show ?thesis
    unfolding remoteFunderSenderView_def funderSenderView_def Let_def bal st in_sync_feerate [OF assms(1)] cands app
      count [OF rows st(1)]
    unfolding count [OF refl st(1)]
    by (simp add: funderCostMsat_def st)
qed

lemma cost_mono: "0 \<le> f \<Longrightarrow> m \<le> n \<Longrightarrow> funderCostMsat s f m \<le> funderCostMsat s f n"
  by (auto simp: funderCostMsat_def funderCommitmentCostSats_def calculateCommitmentFee_def Let_def
      COMMITMENT_TX_HTLC_WEIGHT_def intro!: zdiv_mono1 mult_right_mono add_left_mono)

definition noSplice :: IPendingSpliceView where
  "noSplice = \<lparr>sv_isSplicePendingLock = False, sv_splicedState = \<lambda>_. None,
     sv_pendingSpliceLocalBalanceMsat = None, sv_pendingSpliceKeptReserveSats = None\<rparr>"

lemma sender_view_slots:
  "fv_balanceMsat (remoteFunderSenderView s c n) = fv_balanceMsat (remoteFunderSenderView s c 0)"
  "0 \<le> getRemoteCommitmentFeeRate s \<Longrightarrow>
     fv_costMsat (remoteFunderSenderView s c 0) \<le> fv_costMsat (remoteFunderSenderView s c n)"
  by (simp_all add: remoteFunderSenderView_def Let_def cost_mono)

section \<open>Properties\<close>

text \<open>C35: without candidate HTLCs the funder-fee guard prices the commitment the builder builds: the HTLCs it counts are the
  outputs of our commitment, and when the balance it reads covers the cost and our dust limit, our
  own output is in that commitment and the sign-time refusal does not fire.\<close>

theorem funder_guard_sound:
  assumes "buildLocalCommitment e lib s point (Some number) False = Inr c" "role s = OPENER"
    "list_all (\<lambda>x. 0 \<le> amountMsat x) (htlcs s)" "0 \<le> dustLimitSatoshis (localConfig s)"
    "0 \<le> getLocalCommitmentFeeRate s False"
    "fv_costMsat (funderSenderView s []) + 1000 * dustLimitSatoshis (localConfig s) \<le> fv_balanceMsat (funderSenderView s [])"
  shows "fv_untrimmed (funderSenderView s []) = length (bc_htlcOutputs c) \<and>
    om_toLocal (ct_outputMap (bc_result c)) \<noteq> None \<and>
    funderOutputTrimmedRefusal e lib s True point number = None"
proof -
  let ?f = "getLocalCommitmentFeeRate s False" and ?anc = "isAnchorChannel (channelType s)"
  note len = buildLocal_outputs(1) [OF assms(1)]
  have cost: "fv_costMsat (funderSenderView s []) = 1000 * (commitment_fee s ?f c + (if ?anc then ANCHOR_TOTAL_COST else 0))"
    by (simp add: funderSenderView_def funderCostMsat_def commitment_fee_def funderCommitmentCostSats_def len Let_def)
  have fee: "0 \<le> commitment_fee s ?f c"
    using assms(5) by (simp add: commitment_fee_def calculateCommitmentFee_def Let_def COMMITMENT_TX_HTLC_WEIGHT_def
        COMMITMENT_TX_BASE_WEIGHT_def COMMITMENT_TX_BASE_WEIGHT_ANCHORS_def COMMITMENT_TX_BASE_WEIGHT_TAPROOT_def
        pos_imp_zdiv_nonneg_iff)
  have "fv_balanceMsat (funderSenderView s []) \<le> fst (localBalances s False)"
    by (rule senderBalance_le [OF assms(3)])
  then have "1000 * (commitment_fee s ?f c + (if ?anc then ANCHOR_TOTAL_COST else 0)) + 1000 * dustLimitSatoshis (localConfig s)
      \<le> fst (localBalances s False)"
    using assms(6) unfolding cost by linarith
  from funder_output [OF this assms(4) fee] have
    "dustLimitSatoshis (localConfig s) \<le> fst (outputAmounts (role s = OPENER) (commitment_fee s ?f c) ?anc (localBalances s False))"
    using assms(2) by (cases "localBalances s False") simp
  then have own: "om_toLocal (ct_outputMap (bc_result c)) \<noteq> None" by (rule buildLocal_outputs(2) [OF assms(1)])
  then show ?thesis
    using assms(1,2) len by (simp add: funderOutputTrimmedRefusal_def Let_def)
qed

lemma opener_own_number: "buildLocalCommitment ecc_mod sample_lib (opener_end 50000000) (pt_mod 11) (Some 4) False
    = Inr (built_commitment opener_own)"
proof -
  have "localCommitmentNumber (opener_end 50000000) = 4" by code_simp
  then have "opener_own = buildLocalCommitment ecc_mod sample_lib (opener_end 50000000) (pt_mod 11) (Some 4) False"
    by (simp add: opener_own_def buildLocalCommitment_def Let_def split: option.split)
  then show ?thesis using opener_own_builds by simp
qed

theorem funder_guard_sound_witness:
  "fv_untrimmed (funderSenderView (opener_end 50000000) []) = length (bc_htlcOutputs (built_commitment opener_own)) \<and>
   om_toLocal (ct_outputMap (bc_result (built_commitment opener_own))) \<noteq> None"
proof -
  have "role (opener_end 50000000) = OPENER" "list_all (\<lambda>x. 0 \<le> amountMsat x) (htlcs (opener_end 50000000))"
    "0 \<le> dustLimitSatoshis (localConfig (opener_end 50000000))" "0 \<le> getLocalCommitmentFeeRate (opener_end 50000000) False"
    "fv_costMsat (funderSenderView (opener_end 50000000) []) + 1000 * dustLimitSatoshis (localConfig (opener_end 50000000))
      \<le> fv_balanceMsat (funderSenderView (opener_end 50000000) [])"
    by code_simp+
  from funder_guard_sound [OF opener_own_number this] show ?thesis by blast
qed


lemma ends_in_sync_flipped: "in_sync (acceptor_end amount) (opener_end amount)"
proof -
  have "htlcs_sync (htlcs (acceptor_end amount)) (htlcs (opener_end amount))"
    unfolding htlcs_sync_def
    by (rule exI [of _ "[sample_entry 2 100000000 RECEIVED FAILED, sample_entry 1 amount OFFERED COMMITTED]"])
      (simp add: opener_end_def acceptor_end_def sample_state_def createOpenerState_def entry_sync_def sample_entry_def
        flip_direction_def)
  then show ?thesis
    by (simp add: in_sync_def same_channel_def fee_sync_def lease_sync_def opener_end_def acceptor_end_def
        sample_state_def createOpenerState_def sample_config_def committedFeeRate_def)
qed


text \<open>C37: the dust test is safe for both commitments: an HTLC it does not call dust survives trimming on
  either side's commitment, in either direction, so the exposure it sums bounds what trimming can
  cost.\<close>

theorem not_dust_untrimmed:
  assumes "\<not> isDustHtlcAtRate s amount f" "0 \<le> f"
    "limit = dustLimitSatoshis (localConfig s) \<or> limit = dustLimitSatoshis (remoteConfig s)" "0 \<le> limit"
  shows "filterUntrimmedHtlcs fst snd [(amount sdiv 1000, d)] limit f (isAnchorChannel (channelType s))
    = [(amount sdiv 1000, d)]"
proof -
  let ?anc = "isAnchorChannel (channelType s)"
  have "663 * f \<le> 703 * f" using assms(2) by simp
  then have "(663 * f) div 1000 \<le> (703 * f) div 1000" by (rule zdiv_mono1) simp
  then have fee: "htlcFeeSat d f ?anc \<le> secondLevelFeeSats s f" "0 \<le> htlcFeeSat d f ?anc"
    using assms(2) by (auto simp: htlcFeeSat_def secondLevelFeeSats_def HTLC_TIMEOUT_WEIGHT_def HTLC_SUCCESS_WEIGHT_def
        pos_imp_zdiv_nonneg_iff)
  have "1000 * (limit + htlcFeeSat d f ?anc) \<le> amount"
    using assms(1,3) fee(1) by (auto simp: isDustHtlcAtRate_def Let_def not_less split: if_splits)
  moreover have "0 \<le> 1000 * (limit + htlcFeeSat d f ?anc)" using assms(4) fee(2) by simp
  ultimately have "1000 * (limit + htlcFeeSat d f ?anc) \<le> amount" "0 \<le> amount" by simp_all
  then show ?thesis
    by (simp add: filterUntrimmedHtlcs_def sdiv_1000 less_eq_div_iff_mult_less_eq mult.commute)
qed

theorem not_dust_untrimmed_witness:
  "filterUntrimmedHtlcs fst snd [(2112, RECEIVED)] 354 2500 False = [(2112, RECEIVED)]"
proof -
  have h: "\<not> isDustHtlcAtRate (opener_end 5) 2112000 2500"
    "354 = dustLimitSatoshis (localConfig (opener_end 5)) \<or> 354 = dustLimitSatoshis (remoteConfig (opener_end 5))"
    "isAnchorChannel (channelType (opener_end 5)) = False" "(2112000 :: int) sdiv 1000 = 2112"
    by code_simp+
  show ?thesis
    using not_dust_untrimmed [OF h(1) _ h(2), of RECEIVED] unfolding h(3,4) by simp
qed

end
