(* ===== verification/CommitmentSign.thy ===== *)
theory CommitmentSign
  imports CommitmentBuilder
begin

text \<open>
  Signing and verifying commitments: the signer of \<^verbatim>\<open>src/lightning/keys/signer.ts\<close> and the functions
  \<open>signRemoteCommitment\<close>, \<open>verifyRemoteCommitmentSig\<close> and \<open>verifyRemoteHtlcSignatures\<close> of
  \<^verbatim>\<open>src/lightning/channel/commitment-builder.ts\<close>. The record \<open>txlib\<close> holds what the code calls of the transaction
  class and of ECDSA. The signer interface is the record \<open>ISigner\<close>; \<open>asSigner\<close> is the in-process class behind
  it. The taproot signing sessions are not modelled.
\<close>

section \<open>Definitions\<close>

record txlib =
  getId :: "transaction \<Rightarrow> bytes"
  getHash :: "transaction \<Rightarrow> bytes"
  hashForWitnessV0 :: "transaction \<Rightarrow> int \<Rightarrow> bytes \<Rightarrow> int \<Rightarrow> int \<Rightarrow> bytes"
  ecc_sign :: "bytes \<Rightarrow> bytes \<Rightarrow> bytes res"
  ecc_verify :: "bytes \<Rightarrow> bytes \<Rightarrow> bytes \<Rightarrow> bool \<Rightarrow> bool res"
  ecc_isPoint :: "bytes \<Rightarrow> bool"

definition SIGHASH_ALL :: int where "SIGHASH_ALL = 1"
definition SIGHASH_SINGLE :: int where "SIGHASH_SINGLE = 3"
definition SIGHASH_ANYONECANPAY :: int where "SIGHASH_ANYONECANPAY = 0x80"

subsection \<open>ECDSA wrappers\<close>

definition sign :: "txlib \<Rightarrow> bytes \<Rightarrow> bytes \<Rightarrow> bytes res" where
  "sign txl messageHash privateKey =
     throw_if (length messageHash \<noteq> 32) (Error ''Message hash must be 32 bytes'' [int (length messageHash)])
       (ecc_sign txl messageHash privateKey)"

definition verify :: "txlib \<Rightarrow> bytes \<Rightarrow> bytes \<Rightarrow> bytes \<Rightarrow> bool \<Rightarrow> bool" where
  "verify txl messageHash publicKey signature strict =
     (case ecc_verify txl messageHash publicKey signature strict of Inl _ \<Rightarrow> False | Inr ok \<Rightarrow> ok)"

definition isValidPublicKey :: "txlib \<Rightarrow> bytes \<Rightarrow> bool" where
  "isValidPublicKey txl pubkey \<longleftrightarrow> length pubkey = 33 \<and> ecc_isPoint txl pubkey"

definition verifyCommitmentSignature ::
  "txlib \<Rightarrow> transaction \<Rightarrow> bytes \<Rightarrow> bytes \<Rightarrow> bytes \<Rightarrow> int \<Rightarrow> bool" where
  "verifyCommitmentSignature txl tx signature remoteFundingPubkey fundingWitnessScript fundingAmount =
     (let sigHash = hashForWitnessV0 txl tx 0 fundingWitnessScript fundingAmount SIGHASH_ALL
      in verify txl sigHash remoteFundingPubkey signature True)"

subsection \<open>The signer\<close>

record ISigner =
  sg_fundingPubkey :: bytes
  sg_hasHtlcKeys :: bool
  sg_signFundingDigest :: "bytes \<Rightarrow> bytes res"
  sg_signCommitmentTx :: "transaction \<Rightarrow> bytes \<Rightarrow> int \<Rightarrow> bytes res"
  sg_signClosingTx :: "transaction \<Rightarrow> bytes \<Rightarrow> int \<Rightarrow> bytes res"
  sg_signHtlcTxForCommitment :: "transaction \<Rightarrow> bytes \<Rightarrow> int \<Rightarrow> bytes \<Rightarrow> bytes \<Rightarrow> bool \<Rightarrow> bytes res"
  sg_verifyCommitmentSig :: "transaction \<Rightarrow> bytes \<Rightarrow> bytes \<Rightarrow> bytes \<Rightarrow> int \<Rightarrow> bool"

record ChannelSigner =
  cs_fundingPrivkey :: bytes
  cs_fundingPubkey :: bytes
  cs_htlcBasepointSecret :: "bytes option"

definition newChannelSigner :: "ecc \<Rightarrow> bytes \<Rightarrow> bytes option \<Rightarrow> ChannelSigner res" where
  "newChannelSigner e fundingPrivkey htlcSecret =
     throw_if (length fundingPrivkey \<noteq> 32)
       (Error ''Funding private key must be 32 bytes'' [int (length fundingPrivkey)])
     (throw_if (htlcSecret \<noteq> None \<and> length (the htlcSecret) \<noteq> 32)
       (Error ''HTLC basepoint secret must be 32 bytes'' [int (length (the htlcSecret))])
     (rbind (getPublicKey e fundingPrivkey) (\<lambda>pubkey.
      Inr \<lparr>cs_fundingPrivkey = fundingPrivkey, cs_fundingPubkey = pubkey, cs_htlcBasepointSecret = htlcSecret\<rparr>)))"

definition deriveHtlcPrivkey :: "ecc \<Rightarrow> btc \<Rightarrow> ChannelSigner \<Rightarrow> bytes \<Rightarrow> bytes \<Rightarrow> bytes res" where
  "deriveHtlcPrivkey e lib cs perCommitmentPoint basepoint =
     (case cs_htlcBasepointSecret cs of
        None \<Rightarrow> Inl (Error ''Signer has no HTLC basepoint secret'' [])
      | Some secret \<Rightarrow> derivePrivateKey e (sha256 lib) secret perCommitmentPoint basepoint)"

definition signFundingDigest :: "txlib \<Rightarrow> ChannelSigner \<Rightarrow> bytes \<Rightarrow> bytes res" where
  "signFundingDigest txl cs digest =
     throw_if (length digest \<noteq> 32) (Error ''Digest must be 32 bytes'' [int (length digest)])
       (sign txl digest (cs_fundingPrivkey cs))"

definition signCommitmentTx :: "txlib \<Rightarrow> ChannelSigner \<Rightarrow> transaction \<Rightarrow> bytes \<Rightarrow> int \<Rightarrow> bytes res" where
  "signCommitmentTx txl cs tx fundingWitnessScript fundingAmount =
     (let sigHash = hashForWitnessV0 txl tx 0 fundingWitnessScript fundingAmount SIGHASH_ALL
      in sign txl sigHash (cs_fundingPrivkey cs))"

definition htlcSighashType :: "bool \<Rightarrow> int" where
  "htlcSighashType useAnchorSighash =
     (if useAnchorSighash then SIGHASH_SINGLE OR SIGHASH_ANYONECANPAY else SIGHASH_ALL)"

definition signHtlcTx :: "txlib \<Rightarrow> transaction \<Rightarrow> bytes \<Rightarrow> int \<Rightarrow> bytes \<Rightarrow> bool \<Rightarrow> bytes res" where
  "signHtlcTx txl tx htlcWitnessScript htlcAmount htlcPrivkey useAnchorSighash =
     (let sigHash = hashForWitnessV0 txl tx 0 htlcWitnessScript htlcAmount (htlcSighashType useAnchorSighash)
      in sign txl sigHash htlcPrivkey)"

definition signHtlcTxForCommitment ::
  "ecc \<Rightarrow> btc \<Rightarrow> txlib \<Rightarrow> ChannelSigner \<Rightarrow> transaction \<Rightarrow> bytes \<Rightarrow> int \<Rightarrow> bytes \<Rightarrow> bytes \<Rightarrow> bool \<Rightarrow> bytes res" where
  "signHtlcTxForCommitment e lib txl cs tx htlcWitnessScript htlcAmount perCommitmentPoint basepoint useAnchorSighash =
     rbind (deriveHtlcPrivkey e lib cs perCommitmentPoint basepoint) (\<lambda>htlcPrivkey.
       signHtlcTx txl tx htlcWitnessScript htlcAmount htlcPrivkey useAnchorSighash)"

definition asSigner :: "ecc \<Rightarrow> btc \<Rightarrow> txlib \<Rightarrow> ChannelSigner \<Rightarrow> ISigner" where
  "asSigner e lib txl cs = \<lparr>sg_fundingPubkey = cs_fundingPubkey cs,
     sg_hasHtlcKeys = (cs_htlcBasepointSecret cs \<noteq> None),
     sg_signFundingDigest = signFundingDigest txl cs,
     sg_signCommitmentTx = signCommitmentTx txl cs,
     sg_signClosingTx = signCommitmentTx txl cs,
     sg_signHtlcTxForCommitment = signHtlcTxForCommitment e lib txl cs,
     sg_verifyCommitmentSig = verifyCommitmentSignature txl\<rparr>"

subsection \<open>The funding witness\<close>

text \<open>The leading zeros of a scalar are dropped, but never its last byte.\<close>

fun stripZeros :: "bytes \<Rightarrow> bytes" where
  "stripZeros (a # b # v) = (if a = 0 then stripZeros (b # v) else a # b # v)"
| "stripZeros v = v"

definition encodeInt :: "bytes \<Rightarrow> bytes" where
  "encodeInt val =
     (let v = stripZeros val;
          v = (if v \<noteq> [] \<and> hd v AND 0x80 \<noteq> 0 then 0 # v else v)
      in [0x02, of_nat (length v)] @ v)"

definition toDer :: "bytes \<Rightarrow> bytes res" where
  "toDer sig =
     throw_if (length sig \<noteq> 64) (Error ''Signature must be 64 bytes'' [int (length sig)])
     (let rDer = encodeInt (take 32 sig); sDer = encodeInt (take 32 (drop 32 sig))
      in Inr ([0x30, of_nat (length rDer + length sDer)] @ rDer @ sDer))"

definition buildFundingWitness :: "bytes \<Rightarrow> bytes \<Rightarrow> bytes \<Rightarrow> bytes \<Rightarrow> bytes \<Rightarrow> bytes list res" where
  "buildFundingWitness localSig remoteSig localFundingPubkey remoteFundingPubkey fundingWitnessScript =
     rbind (toDer localSig) (\<lambda>l. rbind (toDer remoteSig) (\<lambda>r.
     let localDer = l @ [0x01]; remoteDer = r @ [0x01];
         (sig1, sig2) = (if buffer_compare localFundingPubkey remoteFundingPubkey < 0
                         then (localDer, remoteDer) else (remoteDer, localDer))
     in Inr [[], sig1, sig2, fundingWitnessScript]))"

subsection \<open>Signatures for a commitment\<close>

definition secondLevelTx ::
  "btc \<Rightarrow> bool \<Rightarrow> ICommitmentKeys \<Rightarrow> int \<Rightarrow> int \<Rightarrow> bool \<Rightarrow> bytes \<Rightarrow> nat \<Rightarrow> HtlcOutputMeta \<Rightarrow> transaction" where
  "secondLevelTx lib success keys delay feerate useAnchors commitTxid outputIndex meta =
     (let htlcSuccessWeight = (if useAnchors then HTLC_SUCCESS_WEIGHT_ANCHORS else HTLC_SUCCESS_WEIGHT);
          htlcTimeoutWeight = (if useAnchors then HTLC_TIMEOUT_WEIGHT_ANCHORS else HTLC_TIMEOUT_WEIGHT)
      in if success
         then buildHtlcSuccessTx lib commitTxid (int outputIndex) (ho_amount meta) (k_revocationPubkey keys)
                (k_localDelayedPubkey keys) delay ((htlcSuccessWeight * feerate) div 1000) useAnchors
         else buildHtlcTimeoutTx lib commitTxid (int outputIndex) (ho_amount meta) (ho_cltvExpiry meta)
                (k_revocationPubkey keys) (k_localDelayedPubkey keys) delay
                ((htlcTimeoutWeight * feerate) div 1000) useAnchors)"

text \<open>The pairs of output index and HTLC row the signature loops run over.\<close>

definition htlcPairs :: "IBuiltCommitment \<Rightarrow> (nat \<times> HtlcOutputMeta) list" where
  "htlcPairs bc =
     (let om = ct_outputMap (bc_result bc)
      in zip (om_htlcs om) (map ((!) (bc_htlcOutputs bc)) (om_htlcOriginalIndices om)))"

definition signRemoteCommitment ::
  "ecc \<Rightarrow> btc \<Rightarrow> txlib \<Rightarrow> IChannelState \<Rightarrow> ISigner \<Rightarrow> bytes \<Rightarrow> int option \<Rightarrow> (bytes \<times> bytes list) res" where
  "signRemoteCommitment e lib txl s signer remotePoint number =
     rbind (buildRemoteCommitment e lib s remotePoint number) (\<lambda>bc.
     rbind (sg_signCommitmentTx signer (ct_tx (bc_result bc)) (bc_fundingWitnessScript bc) (bc_fundingAmount bc))
       (\<lambda>signature.
     if \<not> sg_hasHtlcKeys signer \<or> om_htlcs (ct_outputMap (bc_result bc)) = [] then Inr (signature, [])
     else case remoteBasepoints s of None \<Rightarrow> Inl notReady | Some remoteBp \<Rightarrow>
     rbind (deriveCommitmentKeys e lib (localBasepoints s) remoteBp remotePoint False) (\<lambda>keys.
     let feerate = getRemoteCommitmentFeeRate s;
         useAnchors = isAnchorChannel (channelType s);
         commitTxid = getId txl (ct_tx (bc_result bc))
     in rbind (map_res (\<lambda>(outputIndex, meta).
          sg_signHtlcTxForCommitment signer
            (secondLevelTx lib (hm_direction meta = OFFERED) keys (toSelfDelay (localConfig s)) feerate useAnchors
              commitTxid outputIndex meta)
            (ho_script meta) (ho_amount meta) remotePoint (htlcBasepoint (localBasepoints s)) useAnchors)
          (htlcPairs bc)) (\<lambda>htlcSignatures. Inr (signature, htlcSignatures)))))"

definition verifyRemoteCommitmentSig ::
  "ecc \<Rightarrow> btc \<Rightarrow> IChannelState \<Rightarrow> ISigner \<Rightarrow> bytes \<Rightarrow> bytes \<Rightarrow> int option \<Rightarrow> bool res" where
  "verifyRemoteCommitmentSig e lib s signer point remoteSig number =
     (case remoteBasepoints s of
        None \<Rightarrow> Inl (Error ''No remote basepoints'' [])
      | Some remoteBp \<Rightarrow>
          rbind (buildLocalCommitment e lib s point number False) (\<lambda>bc.
          Inr (sg_verifyCommitmentSig signer (ct_tx (bc_result bc)) remoteSig (fundingPubkey remoteBp)
            (bc_fundingWitnessScript bc) (bc_fundingAmount bc))))"

definition verifyRemoteHtlcSignatures ::
  "ecc \<Rightarrow> btc \<Rightarrow> txlib \<Rightarrow> IChannelState \<Rightarrow> bytes \<Rightarrow> bytes list \<Rightarrow> int option \<Rightarrow> bool res" where
  "verifyRemoteHtlcSignatures e lib txl s point htlcSignatures number =
     (case remoteBasepoints s of None \<Rightarrow> Inr False | Some remoteBp \<Rightarrow>
      let nextCommitNum = (case number of Some n \<Rightarrow> n | None \<Rightarrow> localCommitmentNumber s + 1) in
      rbind (buildLocalCommitment e lib s point (Some nextCommitNum) False) (\<lambda>bc.
      if length htlcSignatures \<noteq> length (om_htlcs (ct_outputMap (bc_result bc))) then Inr False
      else if om_htlcs (ct_outputMap (bc_result bc)) = [] then Inr True
      else rbind (deriveCommitmentKeys e lib (localBasepoints s) remoteBp point True) (\<lambda>keys.
      let feerate = getLocalCommitmentFeeRate s False;
          useAnchors = isAnchorChannel (channelType s);
          commitTxid = getId txl (ct_tx (bc_result bc))
      in Inr (list_all (\<lambda>((outputIndex, meta), sig).
           let htlcTx = secondLevelTx lib (hm_direction meta \<noteq> OFFERED) keys (toSelfDelay (remoteConfig s)) feerate
                 useAnchors commitTxid outputIndex meta;
               sigHash = hashForWitnessV0 txl htlcTx 0 (ho_script meta) (ho_amount meta) (htlcSighashType useAnchors)
           in verify txl sigHash (k_remoteHtlcPubkey keys) sig True)
           (zip (htlcPairs bc) htlcSignatures)))))"

section \<open>The order of the HTLC signatures\<close>

lemma sorted_js_insert:
  assumes "sorted_wrt P ys" "set (x # ys) \<subseteq> A"
    and le: "\<And>a b. a \<in> A \<Longrightarrow> b \<in> A \<Longrightarrow> cmp a b \<le> 0 \<Longrightarrow> P a b" "\<And>a b. a \<in> A \<Longrightarrow> b \<in> A \<Longrightarrow> \<not> cmp a b \<le> 0 \<Longrightarrow> P b a"
    and trans: "\<And>a b c. a \<in> A \<Longrightarrow> b \<in> A \<Longrightarrow> c \<in> A \<Longrightarrow> P a b \<Longrightarrow> P b c \<Longrightarrow> P a c"
  shows "sorted_wrt P (js_insert cmp x ys)"
  using assms(1,2)
proof (induction ys)
  case (Cons y ys)
  have s: "set (js_insert cmp x ys) = insert x (set ys)"
    using mset_js_insert [of cmp x ys] by (metis set_mset_add_mset_insert set_mset_mset)
  show ?case
  proof (cases "cmp x y \<le> 0")
    case True
    then have "P x y" using le(1) Cons.prems(2) by simp
    moreover have "P x z" if "z \<in> set ys" for z
      using trans [of x y z] \<open>P x y\<close> Cons.prems that by auto
    ultimately show ?thesis using True Cons.prems(1) by simp
  next
    case False
    then have "P y x" using le(2) Cons.prems(2) by simp
    then show ?thesis using False s Cons by simp
  qed
qed simp

lemma sorted_js_sort:
  assumes "set xs \<subseteq> A"
    and "\<And>a b. a \<in> A \<Longrightarrow> b \<in> A \<Longrightarrow> cmp a b \<le> 0 \<Longrightarrow> P a b" "\<And>a b. a \<in> A \<Longrightarrow> b \<in> A \<Longrightarrow> \<not> cmp a b \<le> 0 \<Longrightarrow> P b a"
    and "\<And>a b c. a \<in> A \<Longrightarrow> b \<in> A \<Longrightarrow> c \<in> A \<Longrightarrow> P a b \<Longrightarrow> P b c \<Longrightarrow> P a c"
  shows "sorted_wrt P (js_sort cmp xs)"
  using assms(1)
proof (induction xs)
  case (Cons x xs)
  have "sorted_wrt P (js_insert cmp x (js_sort cmp xs))"
  proof (rule sorted_js_insert [where A = A])
    show "sorted_wrt P (js_sort cmp xs)" "set (x # js_sort cmp xs) \<subseteq> A" using Cons by simp_all
  qed (fact assms(2-4))+
  then show ?case by (simp add: js_sort_def)
qed (simp add: js_sort_def)

text \<open>
  The order of two entries, ties of HTLCs broken by expiry. It is transitive where no HTLC output
  coincides with another kind of output.
\<close>

definition entry_le :: "IOutputEntry \<Rightarrow> IOutputEntry \<Rightarrow> bool" where
  "entry_le a b \<longleftrightarrow> out_le (entry_out a) (entry_out b) \<and>
     (entry_out a = entry_out b \<and> oe_type a = htlc \<and> oe_type b = htlc \<longrightarrow> the (oe_cltvExpiry a) \<le> the (oe_cltvExpiry b))"

definition no_clash :: "IOutputEntry list \<Rightarrow> bool" where
  "no_clash U \<longleftrightarrow> (\<forall>a \<in> set U. \<forall>b \<in> set U. entry_out a = entry_out b \<longrightarrow> (oe_type a = htlc) = (oe_type b = htlc))"

definition expiring :: "IOutputEntry \<Rightarrow> bool" where
  "expiring a \<longleftrightarrow> (oe_type a = htlc \<longrightarrow> oe_cltvExpiry a \<noteq> None)"

lemma compareOutputs_tie:
  assumes "entry_out a = entry_out b" "keyed a" "keyed b" "expiring a" "expiring b" "oe_type a = htlc" "oe_type b = htlc"
  shows "compareOutputs a b = the (oe_cltvExpiry a) - the (oe_cltvExpiry b)"
proof -
  have "oe_value a = oe_value b" "oe_sortKey a = oe_sortKey b"
    using assms(1-3) by (simp_all add: entry_out_def keyed_def)
  moreover obtain ca cb where "oe_cltvExpiry a = Some ca" "oe_cltvExpiry b = Some cb"
    using assms(4-) by (auto simp: expiring_def)
  ultimately show ?thesis
    using assms(6,7) by (simp add: compareOutputs_def buffer_compare_eq)
qed

lemma compareOutputs_entry_le:
  assumes "keyed a" "keyed b" "expiring a" "expiring b"
  shows "compareOutputs a b \<le> 0 \<Longrightarrow> entry_le a b" "\<not> compareOutputs a b \<le> 0 \<Longrightarrow> entry_le b a"
  using compareOutputs_le [OF assms(1,2)] compareOutputs_tie [OF _ assms] unfolding entry_le_def by auto

lemma entry_le_trans:
  assumes "no_clash U" "a \<in> set U" "b \<in> set U" "c \<in> set U" "entry_le a b" "entry_le b c"
  shows "entry_le a c"
proof -
  have o: "out_le (entry_out a) (entry_out b)" "out_le (entry_out b) (entry_out c)"
    using assms(5,6) by (simp_all add: entry_le_def)
  have "the (oe_cltvExpiry a) \<le> the (oe_cltvExpiry c)"
    if "entry_out a = entry_out c" "oe_type a = htlc" "oe_type c = htlc"
  proof -
    have e: "entry_out a = entry_out b" using o that(1) by (auto intro: out_le_antisym)
    then have "oe_type b = htlc" using assms(1-3) that(2) unfolding no_clash_def by blast
    then show ?thesis using assms(5,6) e that by (auto simp: entry_le_def)
  qed
  then show ?thesis using out_le_trans [OF o] by (simp add: entry_le_def)
qed

lemma js_sort_entries:
  assumes "no_clash U" "list_all keyed U" "list_all expiring U"
  shows "sorted_wrt entry_le (js_sort compareOutputs U)"
proof (rule sorted_js_sort [where A = "set U"])
  fix a b assume ab: "a \<in> set U" "b \<in> set U"
  then have k: "keyed a" "keyed b" "expiring a" "expiring b" using assms(2,3) by (simp_all add: list_all_iff)
  show "compareOutputs a b \<le> 0 \<Longrightarrow> entry_le a b" "\<not> compareOutputs a b \<le> 0 \<Longrightarrow> entry_le b a"
    by (rule compareOutputs_entry_le [OF k], assumption)+
  fix c assume "c \<in> set U" "entry_le a b" "entry_le b c"
  then show "entry_le a c" using entry_le_trans [OF assms(1) ab] by blast
qed simp

definition htlc_key :: "IOutputEntry \<Rightarrow> tx_output \<times> int" where
  "htlc_key a = (entry_out a, the (oe_cltvExpiry a))"

definition key_le :: "tx_output \<times> int \<Rightarrow> tx_output \<times> int \<Rightarrow> bool" where
  "key_le k l \<longleftrightarrow> out_le (fst k) (fst l) \<and> (fst k = fst l \<longrightarrow> snd k \<le> snd l)"

lemma key_le_antisym: "key_le k l \<Longrightarrow> key_le l k \<Longrightarrow> k = l"
  using out_le_antisym [of "fst k" "fst l"] by (auto simp: key_le_def prod_eq_iff)

lemma htlc_keys_sorted:
  assumes "no_clash U" "list_all keyed U" "list_all expiring U"
  shows "sorted_wrt key_le (map htlc_key (of_type htlc (js_sort compareOutputs U)))"
proof -
  have "sorted_wrt entry_le (of_type htlc (js_sort compareOutputs U))"
    unfolding of_type_def by (rule sorted_wrt_filter [OF js_sort_entries [OF assms]])
  then have "sorted_wrt (\<lambda>a b. key_le (htlc_key a) (htlc_key b)) (of_type htlc (js_sort compareOutputs U))"
    by (rule sorted_wrt_mono_rel [rotated]) (auto simp: of_type_def key_le_def htlc_key_def entry_le_def)
  then show ?thesis by (simp add: sorted_wrt_map)
qed

text \<open>Two lists of outputs that differ only in the order of their HTLC block.\<close>

lemma same_htlc_order:
  assumes "no_clash U" "no_clash V" "list_all keyed U" "list_all keyed V" "list_all expiring U" "list_all expiring V"
    "mset (map htlc_key (of_type htlc U)) = mset (map htlc_key (of_type htlc V))"
  shows "map htlc_key (of_type htlc (js_sort compareOutputs U)) = map htlc_key (of_type htlc (js_sort compareOutputs V))"
proof -
  have "mset (map htlc_key (of_type htlc (js_sort compareOutputs W))) = mset (map htlc_key (of_type htlc W))" for W
    by (simp add: of_type_def)
  then show ?thesis
    using assms(7) htlc_keys_sorted [OF assms(1,3,5)] htlc_keys_sorted [OF assms(2,4,6)]
    by (intro sorted_wrt_unique [OF key_le_antisym]) simp_all
qed

lemma positions_by_out:
  assumes "\<And>a. a \<in> set S \<Longrightarrow> (oe_type a = htlc) = (entry_out a \<in> HO)"
  shows "positions htlc S = List.filter (\<lambda>i. map entry_out S ! i \<in> HO) [0..<length (map entry_out S)]"
  unfolding positions_def by (rule filter_cong) (simp_all add: assms)

section \<open>Signatures verify at the other end\<close>

text \<open>
  No two outputs of the commitment coincide by accident: HTLC rows with one output have one witness
  script and direction, and no other output equals that of an HTLC. It holds as long as SHA-256 does
  not collide on the scripts of the commitment.
\<close>

definition collision_free :: "btc \<Rightarrow> HtlcOutputMeta list \<Rightarrow> ICommitmentTxResult \<Rightarrow> bool" where
  "collision_free lib hs r \<longleftrightarrow>
     list_all (\<lambda>h. list_all (\<lambda>h'. row_out lib h = row_out lib h' \<longrightarrow>
       ho_script h = ho_script h' \<and> hm_direction h = hm_direction h') hs) hs \<and>
     list_all (\<lambda>i. i \<in> set (om_htlcs (ct_outputMap r)) \<or>
       \<not> list_ex (\<lambda>h. row_out lib h = tx_outs (ct_tx r) ! i) hs) [0..<length (tx_outs (ct_tx r))]"

definition signs_alike :: "HtlcOutputMeta \<Rightarrow> HtlcOutputMeta \<Rightarrow> bool" where
  "signs_alike h h' \<longleftrightarrow> ho_amount h' = ho_amount h \<and> ho_script h' = ho_script h \<and>
     ho_cltvExpiry h' = ho_cltvExpiry h \<and> hm_direction h' = flip_direction (hm_direction h)"

definition row_key :: "btc \<Rightarrow> 'a IHtlcOutput_scheme \<Rightarrow> tx_output \<times> int" where
  "row_key lib h = (row_out lib h, ho_cltvExpiry h)"

lemma row_key_core [simp]: "row_key lib (core h) = row_key lib h"
  by (simp add: row_key_def core_def row_out_def htlcSpk_def split: option.split)

lemma htlcEntries_key:
  assumes "a \<in> set (htlcEntries lib d hs)"
  shows "htlc_key a = row_key lib (hs ! the (oe_htlcIndex a))" "the (oe_htlcIndex a) < length hs"
    "oe_type a = htlc" "expiring a"
  using assms by (auto simp: htlcEntries_def htlc_key_def row_key_def row_out_def entry_out_def expiring_def Let_def)

lemma htlcEntries_keys:
  "map htlc_key (htlcEntries lib d hs) = map (row_key lib) (List.filter (\<lambda>h. d \<le> ho_amount h) hs)"
proof -
  have "List.filter (\<lambda>h. d \<le> ho_amount h) hs = map ((!) hs) (List.filter (\<lambda>i. d \<le> ho_amount (hs ! i)) [0..<length hs])"
    using filter_map [of "\<lambda>h. d \<le> ho_amount h" "(!) hs" "[0..<length hs]"] by (simp add: map_nth comp_def)
  then show ?thesis
    by (simp add: htlcEntries_def htlc_key_def row_key_def entry_out_def row_out_def comp_def Let_def)
qed

lemma htlcEntries_keys_perm:
  assumes "mset (map core hs) = mset (map core hs')"
  shows "mset (map htlc_key (htlcEntries lib d hs)) = mset (map htlc_key (htlcEntries lib d hs'))"
proof -
  have *: "mset (map (row_key lib) (List.filter (\<lambda>h. d \<le> ho_amount h) xs)) =
      image_mset (row_key lib) (filter_mset (\<lambda>h. d \<le> ho_amount h) (mset (map core xs)))" for xs :: "'x IHtlcOutput_scheme list"
    by (induction xs) simp_all
  show ?thesis unfolding htlcEntries_keys * assms ..
qed

definition apart :: "tx_output set \<Rightarrow> IOutputEntry list \<Rightarrow> bool" where
  "apart HO W \<longleftrightarrow> (\<forall>a \<in> set W. (oe_type a = htlc) = (entry_out a \<in> HO))"

lemma apart_no_clash: "apart HO W \<Longrightarrow> no_clash W"
  unfolding apart_def no_clash_def by metis

lemma apart_positions:
  "apart HO U \<Longrightarrow> apart HO V \<Longrightarrow> map entry_out (js_sort compareOutputs U) = map entry_out (js_sort compareOutputs V) \<Longrightarrow>
     positions htlc (js_sort compareOutputs U) = positions htlc (js_sort compareOutputs V)"
  using positions_by_out [where HO = HO and S = "js_sort compareOutputs U"]
    positions_by_out [where HO = HO and S = "js_sort compareOutputs V"]
  by (simp add: apart_def)

lemma collision_free_apart:
  assumes "collision_free lib hs r" "tx_outs (ct_tx r) = map entry_out (js_sort compareOutputs U)"
    "om_htlcs (ct_outputMap r) = positions htlc (js_sort compareOutputs U)"
    "a \<in> set U" "oe_type a \<noteq> htlc"
  shows "entry_out a \<notin> row_out lib ` set hs"
proof
  let ?S = "js_sort compareOutputs U"
  assume "entry_out a \<in> row_out lib ` set hs"
  then obtain h where h: "h \<in> set hs" "row_out lib h = entry_out a" by auto
  obtain i where i: "i < length ?S" "?S ! i = a" using assms(4) by (metis in_set_conv_nth set_js_sort)
  have "i \<notin> set (positions htlc ?S)" using i assms(5) by (simp add: positions_def)
  then have "row_out lib h \<noteq> map entry_out ?S ! i"
    using assms(1) i(1) h(1) unfolding collision_free_def assms(2,3) by (auto simp: list_all_iff list_ex_iff)
  then show False using h(2) i by simp
qed

lemma htlc_rows:
  assumes "commitmentOutputs lib (q\<lparr>p_htlcOutputs := Some hs\<rparr>) = Inr (U, a, b)"
  shows "list_all expiring U" "of_type htlc U = htlcEntries lib (dustWsh q) hs"
    "x \<in> set U \<Longrightarrow> oe_type x = htlc \<Longrightarrow> entry_out x \<in> row_out lib ` set hs"
    "map (row_key lib) (map ((!) hs) (map (the \<circ> oe_htlcIndex) (of_type htlc (js_sort compareOutputs U)))) =
       map htlc_key (of_type htlc (js_sort compareOutputs U))"
    "set (map ((!) hs) (map (the \<circ> oe_htlcIndex) (of_type htlc (js_sort compareOutputs U)))) \<subseteq> set hs"
proof -
  show U: "of_type htlc U = htlcEntries lib (dustWsh q) hs"
    using commitmentOutputs_types(3) [OF assms] by (simp add: dustWsh_def)
  have mem: "x \<in> set (htlcEntries lib (dustWsh q) hs)" if "x \<in> set U" "oe_type x = htlc" for x
    using that unfolding U [symmetric] by (simp add: of_type_def)
  have "expiring x" if "x \<in> set U" for x
    using htlcEntries_key(4) [OF mem [OF that]] by (cases "oe_type x = htlc") (simp_all add: expiring_def)
  then show "list_all expiring U" by (simp add: list_all_iff)
  show "entry_out x \<in> row_out lib ` set hs" if "x \<in> set U" "oe_type x = htlc"
    using htlcEntries_key(1,2) [OF mem [OF that]] by (auto simp: htlc_key_def row_key_def)
  have "htlc_key x = row_key lib (hs ! the (oe_htlcIndex x)) \<and> the (oe_htlcIndex x) < length hs"
    if "x \<in> set (of_type htlc (js_sort compareOutputs U))" for x
    using that htlcEntries_key(1,2) [OF mem, of x] by (simp add: of_type_def)
  then show "map (row_key lib) (map ((!) hs) (map (the \<circ> oe_htlcIndex) (of_type htlc (js_sort compareOutputs U)))) =
       map htlc_key (of_type htlc (js_sort compareOutputs U))"
    "set (map ((!) hs) (map (the \<circ> oe_htlcIndex) (of_type htlc (js_sort compareOutputs U)))) \<subseteq> set hs"
    by auto
qed

lemma htlc_order:
  assumes r: "buildCommitmentTx lib (q\<lparr>p_htlcOutputs := Some hs\<rparr>) = Inr r"
    "buildCommitmentTx lib (q\<lparr>p_htlcOutputs := Some hs'\<rparr>) = Inr r'"
    and seen: "mset (map seen hs') = mset (map mirrored hs)" and free: "collision_free lib hs r"
    and tx: "ct_tx r' = ct_tx r"
  defines "ks \<equiv> map ((!) hs) (om_htlcOriginalIndices (ct_outputMap r))"
    and "ks' \<equiv> map ((!) hs') (om_htlcOriginalIndices (ct_outputMap r'))"
  shows "om_htlcs (ct_outputMap r') = om_htlcs (ct_outputMap r)" "map (row_key lib) ks' = map (row_key lib) ks"
    "set ks \<subseteq> set hs" "set ks' \<subseteq> set hs'"
proof -
  have ms: "mset (map core hs') = mset (map core hs)" by (rule seen_core [OF seen])
  obtain U a b where U: "commitmentOutputs lib (q\<lparr>p_htlcOutputs := Some hs\<rparr>) = Inr (U, a, b)"
      "tx_outs (ct_tx r) = map entry_out (js_sort compareOutputs U)"
      "ct_outputMap r = mapOutputs 0 (js_sort compareOutputs U) emptyOutputMap"
    using r(1) by (rule buildCommitmentTx_inv)
  obtain A Z where A: "U = A @ htlcEntries lib (dustWsh q) hs @ Z" "of_type htlc (A @ Z) = []"
      "commitmentOutputs lib (q\<lparr>p_htlcOutputs := Some hs'\<rparr>) = Inr (A @ htlcEntries lib (dustWsh q) hs' @ Z, a, b)"
    using commitmentOutputs_perm [OF U(1) ms [symmetric]] by blast
  define V where "V = A @ htlcEntries lib (dustWsh q) hs' @ Z"
  have V: "commitmentOutputs lib (q\<lparr>p_htlcOutputs := Some hs'\<rparr>) = Inr (V, a, b)"
      "tx_outs (ct_tx r') = map entry_out (js_sort compareOutputs V)"
      "ct_outputMap r' = mapOutputs 0 (js_sort compareOutputs V) emptyOutputMap"
    using r(2) A(3) by (auto simp: V_def elim!: buildCommitmentTx_inv)
  have HO: "row_out lib ` set hs' = row_out lib ` set hs"
    using mset_eq_setD [OF ms] by (metis (no_types, lifting) core_fields(2) image_cong image_image list.set_map)
  note far = collision_free_apart [OF free U(2) U(3) [THEN arg_cong, of om_htlcs, unfolded outputMap_fields]]
  have "apart (row_out lib ` set hs) U"
    unfolding apart_def using far htlc_rows(3) [OF U(1)] by blast
  moreover have "entry_out x \<notin> row_out lib ` set hs" if "x \<in> set V" "oe_type x \<noteq> htlc" for x
  proof (rule far)
    show "x \<in> set U" using that htlcEntries_key(3) by (auto simp: V_def A(1))
  qed (rule that)
  then have "apart (row_out lib ` set hs) V"
    unfolding apart_def using htlc_rows(3) [OF V(1)] HO by blast
  ultimately have ap: "apart (row_out lib ` set hs) U" "apart (row_out lib ` set hs) V" .
  have outs: "map entry_out (js_sort compareOutputs U) = map entry_out (js_sort compareOutputs V)"
    using U(2) V(2) tx by simp
  show "om_htlcs (ct_outputMap r') = om_htlcs (ct_outputMap r)"
    unfolding U(3) V(3) outputMap_fields by (rule apart_positions [OF ap outs, symmetric])
  have keys: "map htlc_key (of_type htlc (js_sort compareOutputs U)) = map htlc_key (of_type htlc (js_sort compareOutputs V))"
    by (rule same_htlc_order [OF apart_no_clash [OF ap(1)] apart_no_clash [OF ap(2)] commitmentOutputs_keyed [OF U(1)]
          commitmentOutputs_keyed [OF V(1)] htlc_rows(1) [OF U(1)] htlc_rows(1) [OF V(1)]])
      (unfold htlc_rows(2) [OF U(1)] htlc_rows(2) [OF V(1)], rule htlcEntries_keys_perm [OF ms [symmetric]])
  show "map (row_key lib) ks' = map (row_key lib) ks" "set ks \<subseteq> set hs" "set ks' \<subseteq> set hs'"
    unfolding ks_def ks'_def U(3) V(3) outputMap_fields
    using htlc_rows(4,5) [OF U(1)] htlc_rows(4,5) [OF V(1)] keys by simp_all
qed

lemma rows_sign_alike:
  assumes "collision_free lib hs r" "mset (map seen hs') = mset (map mirrored hs)"
    "row_key lib h' = row_key lib h" "h \<in> set hs" "h' \<in> set hs'"
  shows "signs_alike h h'"
proof -
  have "seen ` set hs' = mirrored ` set hs" using mset_eq_setD [OF assms(2)] by (simp only: set_map)
  then have "seen h' \<in> mirrored ` set hs" using assms(5) by blast
  then obtain g where g: "g \<in> set hs" "core h' = core g" "hm_direction h' = flip_direction (hm_direction g)"
    by (auto simp: seen_def mirrored_def)
  have "row_out lib h' = row_out lib g"
    using core_fields(2) [of lib h'] core_fields(2) [of lib g] unfolding g(2) by simp
  then have out: "row_out lib h = row_out lib g" using assms(3) by (simp add: row_key_def)
  have "row_out lib h = row_out lib g \<longrightarrow> ho_script h = ho_script g \<and> hm_direction h = hm_direction g"
    using assms(1,4) g(1) unfolding collision_free_def list_all_iff by blast
  moreover have "ho_script h' = ho_script g" using g(2) by (simp add: core_def)
  ultimately show ?thesis
    using g(3) assms(3) out by (simp add: signs_alike_def row_key_def row_out_def)
qed

subsection \<open>What the signer relies on\<close>

text \<open>
  A signature the library makes verifies under the public key of the private key, as a low-S signature, and
  a witness digest is 32 bytes long.
\<close>

definition ecdsa_laws :: "ecc \<Rightarrow> txlib \<Rightarrow> bool" where
  "ecdsa_laws e txl \<longleftrightarrow>
     (\<forall>h k p sig. length h = 32 \<longrightarrow> getPublicKey e k = Inr p \<longrightarrow> ecc_sign txl h k = Inr sig \<longrightarrow>
        ecc_verify txl h p sig True = Inr True) \<and>
     (\<forall>tx i script v ty. length (hashForWitnessV0 txl tx i script v ty) = 32)"

definition holds_keys :: "ecc \<Rightarrow> ChannelSigner \<Rightarrow> IChannelBasepoints \<Rightarrow> bool" where
  "holds_keys e cs bp \<longleftrightarrow> getPublicKey e (cs_fundingPrivkey cs) = Inr (fundingPubkey bp) \<and>
     (case cs_htlcBasepointSecret cs of
        None \<Rightarrow> False | Some secret \<Rightarrow> scalar secret \<and> getPublicKey e secret = Inr (htlcBasepoint bp))"

lemma signed_verifies:
  assumes "ecdsa_laws e txl" "getPublicKey e k = Inr p" "sign txl (hashForWitnessV0 txl tx i script v ty) k = Inr sig"
  shows "verify txl (hashForWitnessV0 txl tx i script v ty) p sig True"
  using assms unfolding ecdsa_laws_def sign_def verify_def throw_if_def by simp

lemma htlc_signature_verifies:
  assumes "secp256k1_laws e pt" "ecdsa_laws e txl" "holds_keys e cs bp" "scalar (sha256 lib (point @ htlcBasepoint bp))"
    "derivePublicKey e (sha256 lib) (htlcBasepoint bp) point = Inr key"
    "signHtlcTxForCommitment e lib txl cs tx script amount point (htlcBasepoint bp) anchors = Inr sig"
  shows "verify txl (hashForWitnessV0 txl tx 0 script amount (htlcSighashType anchors)) key sig True"
proof -
  obtain secret where secret: "cs_htlcBasepointSecret cs = Some secret" "scalar secret"
      "getPublicKey e secret = Inr (htlcBasepoint bp)"
    using assms(3) by (auto simp: holds_keys_def split: option.splits)
  obtain k where k: "derivePrivateKey e (sha256 lib) secret point (htlcBasepoint bp) = Inr k"
      "signHtlcTx txl tx script amount k anchors = Inr sig"
    using assms(6) by (auto simp: signHtlcTxForCommitment_def deriveHtlcPrivkey_def secret(1) rbind_eq_Inr)
  have "rbind (derivePrivateKey e (sha256 lib) secret point (htlcBasepoint bp)) (getPublicKey e) = Inr key"
    using derived_key_pair [OF assms(1) secret(2,3), of "sha256 lib" point key] assms(4,5) by blast
  then have "getPublicKey e k = Inr key" using k(1) by simp
  from signed_verifies [OF assms(2) this] show ?thesis
    using k(2) by (simp add: signHtlcTx_def Let_def)
qed

lemma commitmentKeys_mirror:
  "deriveCommitmentKeys e lib a b p True = deriveCommitmentKeys e lib b a p False"
  "deriveCommitmentKeys e lib a b p True = Inr keys \<Longrightarrow>
     derivePublicKey e (sha256 lib) (htlcBasepoint b) p = Inr (k_remoteHtlcPubkey keys)"
  by (auto simp: deriveCommitmentKeys_def rbind_eq_Inr Let_def)

lemma htlc_counts:
  "buildCommitmentTx lib params = Inr r \<Longrightarrow>
     length (om_htlcOriginalIndices (ct_outputMap r)) = length (om_htlcs (ct_outputMap r))"
  by (erule buildCommitmentTx_inv) (metis length_map map_nth_positions outputMap_fields(1,2))

definition pairs_alike :: "nat \<times> HtlcOutputMeta \<Rightarrow> nat \<times> HtlcOutputMeta \<Rightarrow> bool" where
  "pairs_alike p q \<longleftrightarrow> fst q = fst p \<and> signs_alike (snd p) (snd q)"

lemma htlcPairs_alike:
  assumes "same_body lib a b" "mset (map seen (bc_htlcOutputs b)) = mset (map mirrored (bc_htlcOutputs a))"
    "collision_free lib (bc_htlcOutputs a) (bc_result a)"
  shows "om_htlcs (ct_outputMap (bc_result b)) = om_htlcs (ct_outputMap (bc_result a))"
    "length (htlcPairs a) = length (om_htlcs (ct_outputMap (bc_result a)))"
    "list_all2 pairs_alike (htlcPairs a) (htlcPairs b)"
proof -
  obtain q where q: "buildCommitmentTx lib (q\<lparr>p_htlcOutputs := Some (bc_htlcOutputs a)\<rparr>) = Inr (bc_result a)"
      "buildCommitmentTx lib (q\<lparr>p_htlcOutputs := Some (bc_htlcOutputs b)\<rparr>) = Inr (bc_result b)"
    and tx: "ct_tx (bc_result b) = ct_tx (bc_result a)"
    using assms(1) unfolding same_body_def by blast
  note order = htlc_order [OF q assms(2,3) tx]
  define ks where "ks = map ((!) (bc_htlcOutputs a)) (om_htlcOriginalIndices (ct_outputMap (bc_result a)))"
  define ks' where "ks' = map ((!) (bc_htlcOutputs b)) (om_htlcOriginalIndices (ct_outputMap (bc_result b)))"
  note keys = order(2-4) [folded ks_def ks'_def]
  show om: "om_htlcs (ct_outputMap (bc_result b)) = om_htlcs (ct_outputMap (bc_result a))" by (rule order(1))
  have len: "length ks = length (om_htlcs (ct_outputMap (bc_result a)))" "length ks' = length ks"
    using htlc_counts [OF q(1)] arg_cong [OF keys(1), of length] by (simp_all add: ks_def)
  then show "length (htlcPairs a) = length (om_htlcs (ct_outputMap (bc_result a)))"
    by (simp add: htlcPairs_def ks_def Let_def)
  have "signs_alike (ks ! i) (ks' ! i)" if "i < length ks" for i
  proof (rule rows_sign_alike [OF assms(3,2)])
    show "row_key lib (ks' ! i) = row_key lib (ks ! i)"
      using arg_cong [OF keys(1), of "\<lambda>l. l ! i"] that len(2) by simp
    show "ks ! i \<in> set (bc_htlcOutputs a)" "ks' ! i \<in> set (bc_htlcOutputs b)"
      using keys(2,3) nth_mem [of i ks] nth_mem [of i ks'] that len(2) by auto
  qed
  then show "list_all2 pairs_alike (htlcPairs a) (htlcPairs b)"
    using len om by (simp add: htlcPairs_def ks_def ks'_def Let_def list_all2_conv_all_nth pairs_alike_def)
qed

lemma secondLevel_alike:
  assumes "signs_alike h h'"
  shows "secondLevelTx lib (hm_direction h' \<noteq> OFFERED) keys d f anchors txid i h' =
    secondLevelTx lib (hm_direction h = OFFERED) keys d f anchors txid i h"
proof -
  have "(hm_direction h' \<noteq> OFFERED) = (hm_direction h = OFFERED)"
    using assms by (cases "hm_direction h") (simp_all add: signs_alike_def flip_direction_def)
  then show ?thesis using assms by (simp add: secondLevelTx_def signs_alike_def Let_def)
qed

lemma list_all_zip_chain:
  assumes "list_all2 P xs ys" "list_all2 Q xs zs" "\<And>x y z. P x y \<Longrightarrow> Q x z \<Longrightarrow> R (y, z)"
  shows "list_all R (zip ys zs)"
  using assms(1,2)
proof (induction arbitrary: zs rule: list_all2_induct)
  case (Cons x xs y ys)
  then obtain z zs' where "zs = z # zs'" "Q x z" "list_all2 Q xs zs'" by (auto simp: list_all2_Cons1)
  then show ?case using Cons assms(3) by simp
qed simp

lemma pairs_verify:
  fixes ck :: ICommitmentKeys and d f :: int and anc :: bool and txid :: bytes
  assumes "secp256k1_laws e pt" "ecdsa_laws e txl" "holds_keys e cs bp" "scalar (sha256 lib (point @ htlcBasepoint bp))"
    "derivePublicKey e (sha256 lib) (htlcBasepoint bp) point = Inr key" "list_all2 pairs_alike ps qs"
  defines "tx \<equiv> \<lambda>p success. secondLevelTx lib success ck d f anc txid (fst p) (snd p)"
  assumes "list_all2 (\<lambda>p sg. signHtlcTxForCommitment e lib txl cs (tx p (hm_direction (snd p) = OFFERED))
      (ho_script (snd p)) (ho_amount (snd p)) point (htlcBasepoint bp) anc = Inr sg) ps hsigs"
  shows "list_all (\<lambda>(q, sg). verify txl (hashForWitnessV0 txl (tx q (hm_direction (snd q) \<noteq> OFFERED)) 0
      (ho_script (snd q)) (ho_amount (snd q)) (htlcSighashType anc)) key sg True) (zip qs hsigs)"
proof (rule list_all_zip_chain [OF assms(6,8)])
  fix x y z
  assume xy: "pairs_alike x y" and z: "signHtlcTxForCommitment e lib txl cs (tx x (hm_direction (snd x) = OFFERED))
      (ho_script (snd x)) (ho_amount (snd x)) point (htlcBasepoint bp) anc = Inr z"
  show "case (y, z) of (q, sg) \<Rightarrow> verify txl (hashForWitnessV0 txl (tx q (hm_direction (snd q) \<noteq> OFFERED)) 0
      (ho_script (snd q)) (ho_amount (snd q)) (htlcSighashType anc)) key sg True"
    using htlc_signature_verifies [OF assms(1-5) z] xy secondLevel_alike [of "snd x" "snd y"]
    by (simp add: pairs_alike_def signs_alike_def tx_def)
qed

definition sample_txlib :: txlib where
  "sample_txlib = \<lparr>getId = \<lambda>tx. be_bytes 32 (tx_locktime tx), getHash = \<lambda>tx. rev (be_bytes 32 (tx_locktime tx)),
     hashForWitnessV0 = \<lambda>tx i script v ty. be_bytes 32 (tx_locktime tx + 7 * v + 11 * ty + sum_list (map out_value (tx_outs tx))),
     ecc_sign = \<lambda>h k. rbind (getPublicKey ecc_mod k) (\<lambda>p. Inr (h @ p)),
     ecc_verify = \<lambda>h p sig strict. Inr (sig = h @ p),
     ecc_isPoint = \<lambda>p. pt_val p mod curve_order \<noteq> 0\<rparr>"

lemma sample_ecdsa: "ecdsa_laws ecc_mod sample_txlib"
  by (simp add: ecdsa_laws_def sample_txlib_def)

definition sample_signer :: ChannelSigner where
  "sample_signer = \<lparr>cs_fundingPrivkey = be_bytes 32 10, cs_fundingPubkey = pt_mod 10,
     cs_htlcBasepointSecret = Some (be_bytes 32 14)\<rparr>"

lemma sample_keys: "holds_keys ecc_mod sample_signer (localBasepoints (opener_end amount))"
proof -
  have "getPublicKey ecc_mod (be_bytes 32 10) = Inr (pt_mod 10)" "getPublicKey ecc_mod (be_bytes 32 14) = Inr (pt_mod 14)"
    "scalar (be_bytes 32 14)" by code_simp+
  then show ?thesis
    by (simp add: holds_keys_def sample_signer_def opener_end_def sample_state_def createOpenerState_def sample_basepoints_def)
qed

definition sample_signed :: "(bytes \<times> bytes list) res" where
  "sample_signed = signRemoteCommitment ecc_mod sample_lib sample_txlib (opener_end 50000000)
     (asSigner ecc_mod sample_lib sample_txlib sample_signer) (pt_mod 11) (Some 5)"

definition signed_value :: "(bytes \<times> bytes list) res \<Rightarrow> bytes \<times> bytes list" where
  "signed_value r = (case r of Inr v \<Rightarrow> v | Inl _ \<Rightarrow> ([], []))"

lemma signed_valueI: "(case r of Inr _ \<Rightarrow> True | Inl _ \<Rightarrow> False) \<Longrightarrow> r = Inr (signed_value r)"
  by (cases r) (simp_all add: signed_value_def)

lemma sample_signs: "sample_signed = Inr (signed_value sample_signed)" "length (snd (signed_value sample_signed)) = 1"
proof -
  show "sample_signed = Inr (signed_value sample_signed)" by (rule signed_valueI) code_simp
qed code_simp

text \<open>The two halves of a signed commitment.\<close>

lemma signRemote_inv:
  assumes "signRemoteCommitment e lib txl s (asSigner e lib txl cs) point (Some n) = Inr (sig, hsigs)"
    "buildRemoteCommitment e lib s point (Some n) = Inr a" "cs_htlcBasepointSecret cs \<noteq> None"
    "remoteBasepoints s = Some bp"
  defines "om \<equiv> om_htlcs (ct_outputMap (bc_result a))"
  shows "signCommitmentTx txl cs (ct_tx (bc_result a)) (bc_fundingWitnessScript a) (bc_fundingAmount a) = Inr sig"
    "om = [] \<Longrightarrow> hsigs = []"
    "om \<noteq> [] \<Longrightarrow> \<exists>ck. deriveCommitmentKeys e lib (localBasepoints s) bp point False = Inr ck \<and>
       list_all2 (\<lambda>p sg. signHtlcTxForCommitment e lib txl cs
          (secondLevelTx lib (hm_direction (snd p) = OFFERED) ck (toSelfDelay (localConfig s)) (getRemoteCommitmentFeeRate s)
            (isAnchorChannel (channelType s)) (getId txl (ct_tx (bc_result a))) (fst p) (snd p))
          (ho_script (snd p)) (ho_amount (snd p)) point
          (htlcBasepoint (localBasepoints s)) (isAnchorChannel (channelType s)) = Inr sg) (htlcPairs a) hsigs"
proof -
  note s = assms(1) [unfolded signRemoteCommitment_def assms(2) asSigner_def assms(4) Let_def, simplified]
  show "signCommitmentTx txl cs (ct_tx (bc_result a)) (bc_fundingWitnessScript a) (bc_fundingAmount a) = Inr sig"
    using s by (auto simp: rbind_eq_Inr split: if_splits)
  show "om = [] \<Longrightarrow> hsigs = []" using s by (auto simp: rbind_eq_Inr om_def)
  show "om \<noteq> [] \<Longrightarrow> \<exists>ck. deriveCommitmentKeys e lib (localBasepoints s) bp point False = Inr ck \<and>
       list_all2 (\<lambda>p sg. signHtlcTxForCommitment e lib txl cs
          (secondLevelTx lib (hm_direction (snd p) = OFFERED) ck (toSelfDelay (localConfig s)) (getRemoteCommitmentFeeRate s)
            (isAnchorChannel (channelType s)) (getId txl (ct_tx (bc_result a))) (fst p) (snd p))
          (ho_script (snd p)) (ho_amount (snd p)) point
          (htlcBasepoint (localBasepoints s)) (isAnchorChannel (channelType s)) = Inr sg) (htlcPairs a) hsigs"
    using s assms(3) by (auto simp: rbind_eq_Inr om_def map_res_Inr case_prod_unfold)
qed

text \<open>C4: what one end signs the other end accepts: when the views two ends have of the commitment agree, no
  HTLC falls between the trimming thresholds and no two of its outputs collide, the funding signature and
  all the second-level HTLC signatures that one end makes for the peer's commitment verify at the peer,
  in the order they are sent. The signature scheme and the curve are the laws assumed of the libraries.\<close>

theorem signatures_verify:
  assumes laws: "secp256k1_laws e pt" "ecdsa_laws e txl"
    and agree: "views_agree s t" "trim_agrees s"
    and keys: "holds_keys e cs (localBasepoints s)" "scalar (sha256 lib (point @ htlcBasepoint (localBasepoints s)))"
    and bc: "buildRemoteCommitment e lib s point (Some n) = Inr a" "collision_free lib (bc_htlcOutputs a) (bc_result a)"
    and signed: "signRemoteCommitment e lib txl s (asSigner e lib txl cs) point (Some n) = Inr (sig, hsigs)"
  shows "verifyRemoteCommitmentSig e lib t (asSigner e lib txl cs') point sig (Some n) = Inr True \<and>
    verifyRemoteHtlcSignatures e lib txl t point hsigs (Some n) = Inr True"
proof
  let ?tx = "ct_tx (bc_result a)" and ?om = "om_htlcs (ct_outputMap (bc_result a))"
  obtain b where b: "buildLocalCommitment e lib t point (Some n) False = Inr b" "same_body lib a b"
      "mset (map seen (bc_htlcOutputs b)) = mset (map mirrored (bc_htlcOutputs a))"
    using commitments_agree [OF agree bc(1)] by blast
  note body = b(2) [unfolded same_body_def]
  have st: "remoteBasepoints s = Some (localBasepoints t)" "remoteBasepoints t = Some (localBasepoints s)"
    "channelType t = channelType s" "toSelfDelay (remoteConfig t) = toSelfDelay (localConfig s)"
    "getLocalCommitmentFeeRate t False = getRemoteCommitmentFeeRate s"
    using agree(1) by (simp_all add: views_agree_def same_channel_def)
  have has: "cs_htlcBasepointSecret cs \<noteq> None" using keys(1) by (auto simp: holds_keys_def split: option.splits)
  note inv = signRemote_inv [OF signed bc(1) has st(1)]
  have "verifyCommitmentSignature txl ?tx sig (fundingPubkey (localBasepoints s)) (bc_fundingWitnessScript a) (bc_fundingAmount a)"
    using inv(1) keys(1) unfolding signCommitmentTx_def verifyCommitmentSignature_def Let_def
    by (intro signed_verifies [OF laws(2)]) (simp_all add: holds_keys_def)
  then show "verifyRemoteCommitmentSig e lib t (asSigner e lib txl cs') point sig (Some n) = Inr True"
    using body by (simp add: verifyRemoteCommitmentSig_def st b(1) asSigner_def)
  note pairs = htlcPairs_alike [OF b(2,3) bc(2)]
  show "verifyRemoteHtlcSignatures e lib txl t point hsigs (Some n) = Inr True"
  proof (cases "?om = []")
    case True
    then show ?thesis using inv(2) pairs(1) by (simp add: verifyRemoteHtlcSignatures_def st b(1))
  next
    case False
    then obtain ck where ck: "deriveCommitmentKeys e lib (localBasepoints s) (localBasepoints t) point False = Inr ck"
      and hs: "list_all2 (\<lambda>p sg. signHtlcTxForCommitment e lib txl cs
          (secondLevelTx lib (hm_direction (snd p) = OFFERED) ck (toSelfDelay (localConfig s)) (getRemoteCommitmentFeeRate s)
            (isAnchorChannel (channelType s)) (getId txl ?tx) (fst p) (snd p)) (ho_script (snd p)) (ho_amount (snd p)) point
          (htlcBasepoint (localBasepoints s)) (isAnchorChannel (channelType s)) = Inr sg) (htlcPairs a) hsigs"
      using inv(3) by blast
    note mirror = ck [folded commitmentKeys_mirror(1)]
    from pairs_verify [OF laws keys commitmentKeys_mirror(2) [OF mirror] pairs(3) hs] show ?thesis
      using False pairs(1,2) list_all2_lengthD [OF hs] body mirror
      by (simp add: verifyRemoteHtlcSignatures_def st b(1) Let_def case_prod_unfold)
  qed
qed


theorem signatures_verify_witness:
  "verifyRemoteCommitmentSig ecc_mod sample_lib (acceptor_end 50000000)
     (asSigner ecc_mod sample_lib sample_txlib sample_signer) (pt_mod 11) (fst (signed_value sample_signed)) (Some 5) = Inr True \<and>
   verifyRemoteHtlcSignatures ecc_mod sample_lib sample_txlib (acceptor_end 50000000) (pt_mod 11)
     (snd (signed_value sample_signed)) (Some 5) = Inr True \<and> length (snd (signed_value sample_signed)) = 1"
proof -
  let ?s = "opener_end 50000000" and ?a = "built_commitment (opener_view 50000000)"
  have h: "trim_agrees ?s" "scalar (sha256 sample_lib (pt_mod 11 @ htlcBasepoint (localBasepoints ?s)))"
    "collision_free sample_lib (bc_htlcOutputs ?a) (bc_result ?a)"
    by code_simp+
  have "signRemoteCommitment ecc_mod sample_lib sample_txlib ?s (asSigner ecc_mod sample_lib sample_txlib sample_signer)
      (pt_mod 11) (Some 5) = Inr (fst (signed_value sample_signed), snd (signed_value sample_signed))"
    using sample_signs(1) by (simp add: sample_signed_def)
  from signatures_verify [OF ecc_mod_laws sample_ecdsa in_sync_views [OF ends_in_sync ends_settled] h(1) sample_keys h(2)
      opener_view_builds [unfolded opener_view_def] h(3) [unfolded opener_view_def] this]
  show ?thesis using sample_signs(2) by blast
qed

section \<open>Where trimming disagrees\<close>

text \<open>
  The carried HTLCs of one direction whose amount reaches the lower of the two trimming thresholds of a channel
  without anchors, that of an HTLC-timeout transaction, but not the higher one, that of an HTLC-success
  transaction.
\<close>

definition straddling :: "IChannelState \<Rightarrow> HtlcDirection \<Rightarrow> nat" where
  "straddling s dir = length (List.filter (\<lambda>e. direction e = dir \<and>
     dustLimitSatoshis (remoteConfig s) + htlcFeeSat OFFERED (getRemoteCommitmentFeeRate s) False \<le> amountMsat e sdiv 1000 \<and>
     amountMsat e sdiv 1000 < dustLimitSatoshis (remoteConfig s) + htlcFeeSat RECEIVED (getRemoteCommitmentFeeRate s) False)
     (List.filter remoteCarriesHtlc (htlcs s)))"

lemma untrimmed_count:
  assumes "list_all2 (\<lambda>e h. ho_amount h = amountMsat e sdiv 1000 \<and> hm_direction h = direction e) es rows"
  shows "length (filterUntrimmedHtlcs ho_amount hm_direction rows d f anc) =
    length (List.filter (\<lambda>e. d + htlcFeeSat (direction e) f anc \<le> amountMsat e sdiv 1000) es)"
  using assms by (induction rule: list_all2_induct) (simp_all add: filterUntrimmedHtlcs_def)

lemma length_filter_face:
  assumes "mset (map g xs) = mset (map f ys)"
  shows "length (List.filter (\<lambda>y. P (f y)) ys) = length (List.filter (\<lambda>x. P (g x)) xs)"
proof -
  have "size (filter_mset P (mset (map f ys))) = size (filter_mset P (mset (map g xs)))" by (simp only: assms)
  then show ?thesis by (simp add: filter_mset_image_mset flip: mset_filter)
qed

lemma htlcFee_order: "0 \<le> f \<Longrightarrow> 0 \<le> htlcFeeSat OFFERED f False \<and> htlcFeeSat OFFERED f False \<le> htlcFeeSat RECEIVED f False"
  by (simp add: htlcFeeSat_def HTLC_TIMEOUT_WEIGHT_def HTLC_SUCCESS_WEIGHT_def zdiv_mono1)

lemma flipped_count:
  assumes "o1 \<le> (r1 :: int)"
  defines "fits \<equiv> \<lambda>dir e. (if dir = OFFERED then o1 else r1) \<le> amountMsat e sdiv 1000"
  shows "int (length (List.filter (\<lambda>e. fits (direction e) e) es)) - int (length (List.filter (\<lambda>e. fits (flip_direction (direction e)) e) es)) =
    int (length (List.filter (\<lambda>e. direction e = OFFERED \<and> o1 \<le> amountMsat e sdiv 1000 \<and> amountMsat e sdiv 1000 < r1) es)) -
    int (length (List.filter (\<lambda>e. direction e = RECEIVED \<and> o1 \<le> amountMsat e sdiv 1000 \<and> amountMsat e sdiv 1000 < r1) es))"
proof (induction es)
  case (Cons e es)
  then show ?case using assms(1) by (cases "direction e") (simp_all add: fits_def flip_direction_def)
qed simp

lemma fee_as_if: "d + htlcFeeSat dir f anc =
    (if dir = OFFERED then d + htlcFeeSat OFFERED f anc else d + htlcFeeSat RECEIVED f anc)"
  by (cases dir) simp_all

text \<open>Every row that survives the trimming is above the dust limit, so each has its output.\<close>

lemma om_htlcs_count:
  assumes "buildCommitmentTx lib params = Inr r" "p_htlcOutputs params = Some hs"
    "list_all (\<lambda>h. dustWsh params \<le> ho_amount h) hs"
  shows "length (om_htlcs (ct_outputMap r)) = length hs"
proof -
  obtain U a b where U: "commitmentOutputs lib params = Inr (U, a, b)"
    and om: "ct_outputMap r = mapOutputs 0 (js_sort compareOutputs U) emptyOutputMap"
    by (rule buildCommitmentTx_inv [OF assms(1)])
  have "length (of_type htlc (js_sort compareOutputs U)) = length (of_type htlc U)"
    using mset_of_type [of "js_sort compareOutputs U" U htlc] by (metis mset_js_sort size_mset)
  also have "\<dots> = length hs"
    using assms(3) by (simp add: commitmentOutputs_types(3) [OF U] assms(2) htlcEntries_def list_all_length)
  finally show ?thesis unfolding om outputMap_fields(1) by (metis length_map map_nth_positions)
qed

lemma finished_htlcs:
  assumes "finishCommitment lib s bp fb (filterUntrimmedHtlcs ho_amount hm_direction rows d f False) params = Inr c"
    "p_htlcOutputs params = Some (filterUntrimmedHtlcs ho_amount hm_direction rows d f False)" "dustWsh params = d" "0 \<le> f"
  shows "length (om_htlcs (ct_outputMap (bc_result c))) = length (filterUntrimmedHtlcs ho_amount hm_direction rows d f False)"
proof -
  obtain params' where p: "applyTaprootCommitOverrides lib (channelType s) params = Inr params'"
      "buildCommitmentTx lib params' = Inr (bc_result c)"
    by (rule finishCommitment_inv [OF assms(1)])
  have "0 \<le> htlcFeeSat dir f False" for dir using htlcFee_order [OF assms(4)] by (cases dir) simp_all
  then have "list_all (\<lambda>h. d \<le> ho_amount h) (filterUntrimmedHtlcs ho_amount hm_direction rows d f False)"
    by (auto simp: list_all_iff filterUntrimmedHtlcs_def) (smt (verit, best))
  then show ?thesis
    by (intro om_htlcs_count [OF p(2)])
      (simp_all add: applyTaproot_fields(3) [OF p(1)] applyTaproot_dust [OF p(1)] assms(2,3))
qed

lemma remote_htlc_count:
  assumes "buildRemoteCommitment e lib s pt n = Inr a" "\<not> isAnchorChannel (channelType s)" "0 \<le> getRemoteCommitmentFeeRate s"
  shows "length (om_htlcs (ct_outputMap (bc_result a))) = length (List.filter (\<lambda>e. dustLimitSatoshis (remoteConfig s) +
    htlcFeeSat (direction e) (getRemoteCommitmentFeeRate s) False \<le> amountMsat e sdiv 1000) (List.filter remoteCarriesHtlc (htlcs s)))"
proof (rule buildRemoteCommitment_inv [OF assms(1)])
  fix bp txid keys rows num
  assume rows: "buildHtlcOutputsForRemote lib s keys = Inr rows"
    and fin: "finishCommitment lib s bp (if role s = OPENER then snd (remoteBalances s) else fst (remoteBalances s))
       (filterUntrimmedHtlcs ho_amount hm_direction rows (dustLimitSatoshis (remoteConfig s))
          (getRemoteCommitmentFeeRate s) (isAnchorChannel (channelType s)))
       (remoteParams lib s bp txid keys num
         (filterUntrimmedHtlcs ho_amount hm_direction rows (dustLimitSatoshis (remoteConfig s))
          (getRemoteCommitmentFeeRate s) (isAnchorChannel (channelType s)))) = Inr a"
  have "list_all2 (\<lambda>e h. ho_amount h = amountMsat e sdiv 1000 \<and> hm_direction h = direction e)
      (List.filter remoteCarriesHtlc (htlcs s)) rows"
    using rows unfolding buildHtlcOutputsForRemote_def map_res_Inr
    by (rule list_all2_mono) (auto dest: htlcRow_fields)
  from untrimmed_count [OF this] show ?thesis
    using finished_htlcs [OF fin [simplified assms(2) simp_thms]] assms(3)
    by (simp add: remoteParams_def dustWsh_def Let_def del: filter_filter)
qed

lemma local_htlc_count:
  assumes "buildLocalCommitment e lib t pt n False = Inr b" "\<not> isAnchorChannel (channelType t)" "0 \<le> getLocalCommitmentFeeRate t False"
  shows "length (om_htlcs (ct_outputMap (bc_result b))) = length (List.filter (\<lambda>e. dustLimitSatoshis (localConfig t) +
    htlcFeeSat (direction e) (getLocalCommitmentFeeRate t False) False \<le> amountMsat e sdiv 1000)
    (List.filter (localCarriesHtlc False) (htlcs t)))"
proof (rule buildLocalCommitment_inv [OF assms(1)])
  fix bp txid keys rows num
  assume rows: "buildHtlcOutputsForLocal lib t keys False = Inr rows"
    and fin: "finishCommitment lib t bp (if role t = OPENER then fst (localBalances t False) else snd (localBalances t False))
       (filterUntrimmedHtlcs ho_amount hm_direction rows (dustLimitSatoshis (localConfig t))
          (getLocalCommitmentFeeRate t False) (isAnchorChannel (channelType t)))
       (localParams lib t bp txid keys num False
         (filterUntrimmedHtlcs ho_amount hm_direction rows (dustLimitSatoshis (localConfig t))
          (getLocalCommitmentFeeRate t False) (isAnchorChannel (channelType t)))) = Inr b"
  have "list_all2 (\<lambda>e h. buildLocalHtlcOutput lib t keys e = Inr h) (List.filter (localCarriesHtlc False) (htlcs t)) rows"
    using rows by (auto simp: buildHtlcOutputsForLocal_def signedLocalRetainedRemovals_def rbind_eq_Inr map_res_Inr)
  then have "list_all2 (\<lambda>e h. ho_amount h = amountMsat e sdiv 1000 \<and> hm_direction h = direction e)
      (List.filter (localCarriesHtlc False) (htlcs t)) rows"
    by (rule list_all2_mono) (auto simp: buildLocalHtlcOutput_def dest: htlcRow_fields)
  from untrimmed_count [OF this] show ?thesis
    using finished_htlcs [OF fin [simplified assms(2) simp_thms]] assms(3)
    by (simp add: localParams_def dustWsh_def Let_def del: filter_filter)
qed

lemma straddling_difference:
  assumes "views_agree s t" "\<not> isAnchorChannel (channelType s)" "0 \<le> getRemoteCommitmentFeeRate s"
    "buildRemoteCommitment e lib s pt n = Inr a" "buildLocalCommitment e lib t pt n False = Inr b"
  shows "int (length (om_htlcs (ct_outputMap (bc_result a)))) - int (length (om_htlcs (ct_outputMap (bc_result b)))) =
    int (straddling s OFFERED) - int (straddling s RECEIVED)"
proof -
  let ?d = "dustLimitSatoshis (remoteConfig s)" and ?f = "getRemoteCommitmentFeeRate s"
    and ?es = "List.filter remoteCarriesHtlc (htlcs s)" and ?es' = "List.filter (localCarriesHtlc False) (htlcs t)"
  have st: "channelType t = channelType s" "dustLimitSatoshis (localConfig t) = ?d" "getLocalCommitmentFeeRate t False = ?f"
    and faces: "mset (map mirror_face ?es) = mset (map face ?es')"
    using assms(1) by (simp_all add: views_agree_def same_channel_def)
  have "length (om_htlcs (ct_outputMap (bc_result b))) =
      length (List.filter (\<lambda>e. ?d + htlcFeeSat (direction e) ?f False \<le> amountMsat e sdiv 1000) ?es')"
    using local_htlc_count [OF assms(5)] assms(2,3) by (simp add: st)
  also have "\<dots> = length (List.filter (\<lambda>e. ?d + htlcFeeSat (flip_direction (direction e)) ?f False \<le> amountMsat e sdiv 1000) ?es)"
    using length_filter_face [OF faces, of "\<lambda>(amount, _, _, dir). ?d + htlcFeeSat dir ?f False \<le> amount sdiv 1000"]
    by (simp add: face_def mirror_face_def)
  finally show ?thesis
    using flipped_count [of "?d + htlcFeeSat OFFERED ?f False" "?d + htlcFeeSat RECEIVED ?f False" ?es]
      htlcFee_order [OF assms(3)] remote_htlc_count [OF assms(4,2,3)]
    unfolding straddling_def fee_as_if [of ?d "direction _"] fee_as_if [of ?d "flip_direction _"] by simp
qed

lemma signed_htlc_count:
  assumes "signRemoteCommitment e lib txl s (asSigner e lib txl cs) point (Some n) = Inr (sig, hsigs)"
    "buildRemoteCommitment e lib s point (Some n) = Inr a" "cs_htlcBasepointSecret cs \<noteq> None" "remoteBasepoints s = Some bp"
  shows "length hsigs = length (om_htlcs (ct_outputMap (bc_result a)))"
proof (cases "om_htlcs (ct_outputMap (bc_result a)) = []")
  case True
  then show ?thesis using signRemote_inv(2) [OF assms] by simp
next
  case False
  have "length (htlcPairs a) = length (om_htlcs (ct_outputMap (bc_result a)))"
    if "buildCommitmentTx lib params = Inr (bc_result a)" for params :: "HtlcOutputMeta ICommitmentTxParams"
    using htlc_counts [OF that] by (simp add: htlcPairs_def Let_def)
  moreover have "\<exists>params :: HtlcOutputMeta ICommitmentTxParams. buildCommitmentTx lib params = Inr (bc_result a)"
    by (rule buildRemoteCommitment_inv [OF assms(2)], erule finishCommitment_inv) blast
  ultimately show ?thesis using signRemote_inv(3) [OF assms False] by (auto dest!: list_all2_lengthD)
qed

text \<open>C14: on a channel without anchors the two ends can disagree. The commitment signed for the peer is trimmed
  with our view of each HTLC's direction, so it has one output more than the commitment the peer builds
  for every HTLC we offered between the two trimming thresholds and one less for every such HTLC we
  received. When these numbers differ the peer rejects the HTLC signatures made for the commitment, although
  the two ends agree on everything the commitment carries.\<close>

theorem trimming_diverges:
  assumes "views_agree s t" "\<not> isAnchorChannel (channelType s)" "0 \<le> getRemoteCommitmentFeeRate s"
    "buildRemoteCommitment e lib s point (Some n) = Inr a" "buildLocalCommitment e lib t point (Some n) False = Inr b"
    "signRemoteCommitment e lib txl s (asSigner e lib txl cs) point (Some n) = Inr (sig, hsigs)"
    "cs_htlcBasepointSecret cs \<noteq> None"
  shows "int (length (om_htlcs (ct_outputMap (bc_result a)))) - int (length (om_htlcs (ct_outputMap (bc_result b)))) =
      int (straddling s OFFERED) - int (straddling s RECEIVED) \<and>
    (straddling s OFFERED \<noteq> straddling s RECEIVED \<longrightarrow>
      verifyRemoteHtlcSignatures e lib txl t point hsigs (Some n) = Inr False)"
proof -
  have bp: "remoteBasepoints s = Some (localBasepoints t)" "remoteBasepoints t = Some (localBasepoints s)"
    using assms(1) by (simp_all add: views_agree_def same_channel_def)
  note diff = straddling_difference [OF assms(1-5)]
  have "length hsigs \<noteq> length (om_htlcs (ct_outputMap (bc_result b)))" if "straddling s OFFERED \<noteq> straddling s RECEIVED"
    using diff that signed_htlc_count [OF assms(6,4,7) bp(1)] by simp
  then show ?thesis using diff by (simp add: verifyRemoteHtlcSignatures_def bp(2) assms(5))
qed

lemma close_views_build:
  "opener_view 2050000 = Inr (built_commitment (opener_view 2050000))"
  "acceptor_view 2050000 = Inr (built_commitment (acceptor_view 2050000))"
  by (rule built_commitmentI, code_simp)+

definition close_signed :: "(bytes \<times> bytes list) res" where
  "close_signed = signRemoteCommitment ecc_mod sample_lib sample_txlib (opener_end 2050000)
     (asSigner ecc_mod sample_lib sample_txlib sample_signer) (pt_mod 11) (Some 5)"

theorem trimming_diverges_witness:
  "straddling (opener_end 2050000) OFFERED = 1 \<and> straddling (opener_end 2050000) RECEIVED = 0 \<and>
   verifyRemoteHtlcSignatures ecc_mod sample_lib sample_txlib (acceptor_end 2050000) (pt_mod 11)
     (snd (signed_value close_signed)) (Some 5) = Inr False"
proof -
  have st: "straddling (opener_end 2050000) OFFERED = 1" "straddling (opener_end 2050000) RECEIVED = 0"
    "\<not> isAnchorChannel (channelType (opener_end 2050000))" "0 \<le> getRemoteCommitmentFeeRate (opener_end 2050000)"
    "cs_htlcBasepointSecret sample_signer \<noteq> None"
    by code_simp+
  have "close_signed = Inr (signed_value close_signed)" by (rule signed_valueI) code_simp
  then have "close_signed = Inr (fst (signed_value close_signed), snd (signed_value close_signed))" by simp
  from trimming_diverges [OF in_sync_views [OF ends_in_sync ends_settled] st(3,4)
      close_views_build(1) [unfolded opener_view_def] close_views_build(2) [unfolded acceptor_view_def]
      this [unfolded close_signed_def] st(5)]
  show ?thesis by (simp add: st(1,2) close_signed_def)
qed

section \<open>The funding witness\<close>

lemma be_val_Cons: "be_val (b # bs) = uint b * 256 ^ length bs + be_val bs"
proof (induction bs rule: rev_induct)
  case (snoc x bs)
  then show ?case
    using be_val_snoc [of "b # bs" x] by (simp add: be_val_snoc algebra_simps)
qed (simp add: be_val_def)

text \<open>The content of a DER integer: non-negative, without a superfluous leading zero.\<close>

definition der_int :: "bytes \<Rightarrow> bool" where
  "der_int v \<longleftrightarrow> v \<noteq> [] \<and> uint (hd v) < 128 \<and> (\<forall>b bs. v = 0 # b # bs \<longrightarrow> 128 \<le> uint b)"

lemma stripZeros_value: "length (stripZeros v) \<le> length v" "v \<noteq> [] \<Longrightarrow> stripZeros v \<noteq> []"
  "be_val (stripZeros v) = be_val v"
  by (induction v rule: stripZeros.induct) (auto simp: be_val_Cons)

lemma stripZeros_lead: "stripZeros v = 0 # b # bs \<Longrightarrow> False"
  by (induction v rule: stripZeros.induct) (auto split: if_splits)

lemma byte_top_bit: "((b :: 8 word) AND 0x80 \<noteq> 0) = (128 \<le> uint b)"
proof -
  have "\<forall>c \<in> set (map (word_of_int :: int \<Rightarrow> 8 word) [0..255]). (c AND 0x80 \<noteq> 0) = (128 \<le> uint c)"
    by code_simp
  moreover have "uint b < 256" using uint_lt2p [of b] by simp
  then have "uint b \<le> 255" by linarith
  then have "b = word_of_int (uint b)" "uint b \<in> set [0..255]" by (simp, simp only: set_upto atLeastAtMost_iff uint_ge_0)
  ultimately show ?thesis by (metis imageI list.set_map)
qed

lemma encodeInt_der:
  assumes "length v = 32"
  obtains w where "encodeInt v = [0x02, of_nat (length w)] @ w" "der_int w" "be_val w = be_val v" "length w \<le> 33"
proof -
  define z where "z = stripZeros v"
  have z: "z \<noteq> []" "length z \<le> 32" "be_val z = be_val v" "\<And>b bs. z \<noteq> 0 # b # bs"
    using stripZeros_value(1,3) [of v] stripZeros_value(2) [of v] stripZeros_lead [of v] assms
    by (cases "v = []"; auto simp: z_def)+
  define w where "w = (if 128 \<le> uint (hd z) then 0 # z else z)"
  have "encodeInt v = [0x02, of_nat (length w)] @ w"
    using z(1) by (simp add: encodeInt_def z_def [symmetric] w_def byte_top_bit Let_def)
  moreover have "der_int w"
    using z(1,4) by (cases z) (auto simp: w_def der_int_def)
  moreover have "be_val w = be_val v" "length w \<le> 33"
    using z by (simp_all add: w_def be_val_Cons)
  ultimately show thesis using that by blast
qed

text \<open>C39: the DER form of a compact signature is the canonical one: two integers that are non-negative,
  without superfluous zeros and equal to the two halves, framed by their exact lengths, in at most 72 bytes;
  any other input length is refused.\<close>

theorem toDer_canonical:
  "case toDer sig of
     Inl _ \<Rightarrow> length sig \<noteq> 64
   | Inr der \<Rightarrow> length sig = 64 \<and> length der \<le> 72 \<and>
       (\<exists>r s. der = [0x30, of_nat (length r + length s + 4), 0x02, of_nat (length r)] @ r @ [0x02, of_nat (length s)] @ s \<and>
          der_int r \<and> der_int s \<and> be_val r = be_val (take 32 sig) \<and> be_val s = be_val (drop 32 sig))"
proof (cases "length sig = 64")
  case True
  obtain r where r: "encodeInt (take 32 sig) = [0x02, of_nat (length r)] @ r" "der_int r"
      "be_val r = be_val (take 32 sig)" "length r \<le> 33"
    by (rule encodeInt_der [of "take 32 sig"]) (simp add: True)
  obtain s where s: "encodeInt (take 32 (drop 32 sig)) = [0x02, of_nat (length s)] @ s" "der_int s"
      "be_val s = be_val (take 32 (drop 32 sig))" "length s \<le> 33"
    by (rule encodeInt_der [of "take 32 (drop 32 sig)"]) (simp add: True)
  have half: "take 32 (drop 32 sig) = drop 32 sig" using True by simp
  have "toDer sig = Inr ([0x30, of_nat (length r + length s + 4), 0x02, of_nat (length r)] @ r @ [0x02, of_nat (length s)] @ s)"
    using True by (simp add: toDer_def r(1) s(1) [unfolded half] half Let_def algebra_simps)
  then show ?thesis using True r s half by auto
qed (simp add: toDer_def)

end
