(* ===== verification/Channel.thy ===== *)
theory Channel
  imports HtlcPolicy CommitmentSign Quiescence
begin

text \<open>
  The class \<open>Channel\<close> of \<^verbatim>\<open>src/lightning/channel/channel.ts\<close>: the fields its update and commitment handlers use,
  the actions they return (\<^verbatim>\<open>src/lightning/channel/channel-actions.ts\<close>), the view of a splice in flight, the
  spendable balance and the failure of a channel with a wire error. A handler takes a \<open>chan\<close> and returns
  it with the actions, or with the exception it throws; what it wrote before throwing stays written.

  The model is of a channel without a fast-forward epoch (\<^verbatim>\<open>state.ffor\<close> is undefined), for which every
  \<^verbatim>\<open>_ffor\<close> hook of the handlers returns null or nothing.
\<close>

section \<open>Definitions\<close>

subsection \<open>Actions\<close>

datatype ChannelErrorCode =
  WRONG_STATE | BUSY | INVALID_PARAMS | INSUFFICIENT_BALANCE | LIMIT_EXCEEDED | NOT_PERMITTED | FFOR_REFUSED | HELD
  | UNSUPPORTED | OPEN_NOT_FUNDED

datatype cleanup = cleanup_none | cleanup_lifecycle

record IErrorAction =
  ea_message :: "string \<times> int list"
  ea_code :: "ChannelErrorCode option"
  ea_cleanup :: "cleanup option"

datatype ChannelAction =
  PERSIST_STATE
  | SEND_MESSAGE channel_msg
  | ERROR IErrorAction
  | HTLC_FORWARDED int int bytes
  | HTLC_FULFILLED int bytes
  | HTLC_FAILED int bytes "int option"
  | BROADCAST_TX transaction "bytes list"
  | CHANNEL_CLOSED "bytes option"

definition error_action :: "string \<times> int list \<Rightarrow> ChannelErrorCode option \<Rightarrow> ChannelAction" where
  "error_action message code = ERROR \<lparr>ea_message = message, ea_code = code, ea_cleanup = None\<rparr>"

subsection \<open>The channel\<close>

record splice_session =
  ss_isInitiator :: bool
  ss_localRelativeSatoshis :: int
  ss_remoteRelativeSatoshis :: int
  ss_localFundingPubkey :: bytes
  ss_remoteFundingPubkey :: "bytes option"

record chan =
  ch_state :: IChannelState
  ch_endpoint :: endpoint
  ch_currentBlockHeight :: int
  ch_signer :: "ISigner option"
  ch_spliceSession :: "splice_session option"
  ch_spliceTx :: "(transaction \<times> int) option"
  ch_spliceRemoteCommitmentSig :: "bytes option"
  ch_spliceRemoteHtlcSigs :: "bytes list"
  ch_spliceAbortIgnoreCommitment :: bool
  ch_pendingBatch :: "(int \<times> ICommitmentSignedMessage list) option"
  ch_lastSentBatch :: "(IStartBatchMessage \<times> ICommitmentSignedMessage list) option"
  ch_hasDualFundingSession :: bool

type_synonym outcome = "chan \<times> ChannelAction list res"

definition attempt :: "'a res \<Rightarrow> chan \<Rightarrow> ('a \<Rightarrow> outcome) \<Rightarrow> outcome" where
  "attempt r c f = (case r of Inl err \<Rightarrow> (c, Inl err) | Inr x \<Rightarrow> f x)"

definition on_state :: "(IChannelState \<Rightarrow> IChannelState) \<Rightarrow> chan \<Rightarrow> chan" where
  "on_state f c = c\<lparr>ch_state := f (ch_state c)\<rparr>"

definition on_entry :: "HtlcDirection \<Rightarrow> int \<Rightarrow> (IHtlcEntry \<Rightarrow> IHtlcEntry) \<Rightarrow> IChannelState \<Rightarrow> IChannelState" where
  "on_entry d i f s = s\<lparr>htlcs := map (\<lambda>x. if keyed_as d i x then f x else x) (htlcs s)\<rparr>"

definition quiescing :: "chan \<Rightarrow> bool" where
  "quiescing c = isQuiescing (mgr (ch_endpoint c))"

subsection \<open>Where updates may flow\<close>

definition isSplicePendingLock :: "IChannelState \<Rightarrow> bool" where
  "isSplicePendingLock s \<longleftrightarrow> chState s = SPLICING \<and>
     (case spliceInFlight s of None \<Rightarrow> False | Some f \<Rightarrow> sentTxSignatures f \<and> receivedTxSignatures f)"

definition canUpdateHtlcsDuringSplice :: "IChannelState \<Rightarrow> bool" where
  "canUpdateHtlcsDuringSplice s \<longleftrightarrow> isSplicePendingLock s \<and> \<not> isTaprootChannel (channelType s)"

definition canSettleHtlcs :: "IChannelState \<Rightarrow> bool" where
  "canSettleHtlcs s \<longleftrightarrow> chState s = ChannelState.NORMAL \<or> chState s = SHUTTING_DOWN \<or> canUpdateHtlcsDuringSplice s"

definition inConflictRevertWindow :: "IChannelState \<Rightarrow> bool" where
  "inConflictRevertWindow s \<longleftrightarrow> isSplicePendingLock s \<and>
     (case spliceInFlight s of
        None \<Rightarrow> False
      | Some f \<Rightarrow> (case sif_lockAtDepth f of None \<Rightarrow> False | Some d \<Rightarrow> d \<noteq> 0) \<and>
          \<not> sif_confirmed f \<and> \<not> sif_localSpliceLocked f)"

definition quiescenceAdmitsState :: "IChannelState \<Rightarrow> bool" where
  "quiescenceAdmitsState s \<longleftrightarrow> chState s = ChannelState.NORMAL \<or> inConflictRevertWindow s"

subsection \<open>The commitment round\<close>

definition remoteRevocationCount :: "IChannelState \<Rightarrow> int" where
  "remoteRevocationCount s =
     (case remoteRevocationNumber s of Some n \<Rightarrow> n | None \<Rightarrow> remoteCommitmentNumber s)"

definition remoteRevocationCountForRaa :: "IChannelState \<Rightarrow> int" where
  "remoteRevocationCountForRaa s =
     (case remoteRevocationNumber s of
        Some n \<Rightarrow> n
      | None \<Rightarrow> (if remoteCommitmentNumber s > 0 then remoteCommitmentNumber s - 1 else 0))"

definition isAwaitingRemoteRevocation :: "IChannelState \<Rightarrow> bool" where
  "isAwaitingRemoteRevocation s \<longleftrightarrow> remoteRevocationCount s < remoteCommitmentNumber s"

subsection \<open>Failing the channel\<close>

definition ensureRecoveryCloseDisposition :: "IChannelState \<Rightarrow> IChannelState" where
  "ensureRecoveryCloseDisposition s =
     (if recoveryCloseReason s \<noteq> None then s
      else if dataLossDetected s then s\<lparr>recoveryCloseReason := Some local_data_loss\<rparr>
      else if stateUncertain s then s\<lparr>recoveryCloseReason := Some state_uncertain\<rparr>
      else s)"

definition currentChannelId :: "IChannelState \<Rightarrow> bytes" where
  "currentChannelId s = (case channelId s of Some i \<Rightarrow> i | None \<Rightarrow> temporaryChannelId s)"

definition wireErrorFor :: "bytes \<Rightarrow> string \<times> int list \<Rightarrow> ChannelAction option" where
  "wireErrorFor cid reason = (if \<not> canScopeWireError cid then None else Some (SEND_MESSAGE (WIRE_ERROR cid reason)))"

definition failChannelWithWireError ::
  "chan \<Rightarrow> string \<times> int list \<Rightarrow> cleanup option \<Rightarrow> (string \<times> int list) option \<Rightarrow> outcome" where
  "failChannelWithWireError c message cleanup localMessage =
     (let c = on_state (\<lambda>s. (ensureRecoveryCloseDisposition s)\<lparr>chState := ERRORED\<rparr>) c
      in (c, Inr ([PERSIST_STATE]
             @ (case wireErrorFor (currentChannelId (ch_state c)) message of None \<Rightarrow> [] | Some wire \<Rightarrow> [wire])
             @ [ERROR \<lparr>ea_message = (case localMessage of None \<Rightarrow> message | Some m \<Rightarrow> m), ea_code = None,
                       ea_cleanup = cleanup\<rparr>])))"

definition fail_with :: "chan \<Rightarrow> string \<Rightarrow> int list \<Rightarrow> outcome" where
  "fail_with c text numbers = failChannelWithWireError c (text, numbers) None None"

definition refuse :: "chan \<Rightarrow> string \<Rightarrow> int list \<Rightarrow> outcome" where
  "refuse c text numbers = (c, Inr [error_action (text, numbers) None])"

definition refuse_code :: "chan \<Rightarrow> string \<Rightarrow> int list \<Rightarrow> ChannelErrorCode \<Rightarrow> outcome" where
  "refuse_code c text numbers code = (c, Inr [error_action (text, numbers) (Some code)])"

definition refuse_keeping :: "chan \<Rightarrow> string \<Rightarrow> outcome" where
  "refuse_keeping c text = (c, Inr [ERROR \<lparr>ea_message = (text, []), ea_code = None, ea_cleanup = Some cleanup_none\<rparr>])"

subsection \<open>The splice in flight\<close>

text \<open>The channel state re-anchored on the funding output of the splice transaction.\<close>

definition splicedState :: "txlib \<Rightarrow> chan \<Rightarrow> IChannelState \<Rightarrow> IChannelState option" where
  "splicedState txl c base =
     (case (ch_spliceTx c, ch_spliceSession c) of
        (Some (tx, idx), Some session) \<Rightarrow>
          (if idx < 0 \<or> idx \<ge> int (length (tx_outs tx)) then None
           else
             let newCapacity = out_value (tx_outs tx ! nat idx);
                 netChange = ss_localRelativeSatoshis session + ss_remoteRelativeSatoshis session;
                 feeFromChannelSats = fundingSatoshis base + netChange - newCapacity;
                 myFeeMsat = (if ss_isInitiator session then feeFromChannelSats * 1000 else 0);
                 myNewLocalMsat = localBalanceMsat base + ss_localRelativeSatoshis session * 1000 - myFeeMsat;
                 htlcInFlightMsat = (\<Sum>e\<leftarrow>htlcs base. amountMsat e);
                 theirNewMsat = newCapacity * 1000 - myNewLocalMsat - htlcInFlightMsat;
                 splicedRemoteBasepoints = map_option (\<lambda>bp. bp\<lparr>fundingPubkey :=
                   (case ss_remoteFundingPubkey session of Some k \<Rightarrow> k | None \<Rightarrow> fundingPubkey bp)\<rparr>) (remoteBasepoints base);
                 splicedLocalBasepoints = (localBasepoints base)\<lparr>fundingPubkey := ss_localFundingPubkey session\<rparr>
             in Some (base\<lparr>fundingTxid := Some (getHash txl tx), fundingOutputIndex := idx,
                  fundingSatoshis := newCapacity, localBalanceMsat := myNewLocalMsat,
                  remoteBalanceMsat := theirNewMsat, localBasepoints := splicedLocalBasepoints,
                  remoteBasepoints := splicedRemoteBasepoints\<rparr>))
      | _ \<Rightarrow> None)"

definition getPendingSpliceLocalBalanceMsat :: "txlib \<Rightarrow> chan \<Rightarrow> int option" where
  "getPendingSpliceLocalBalanceMsat txl c =
     (case spliceInFlight (ch_state c) of
        None \<Rightarrow> None
      | Some f \<Rightarrow>
          (case splicedState txl c (ch_state c) of
             Some spliced \<Rightarrow> Some (localBalanceMsat spliced)
           | None \<Rightarrow> Some (localBalanceMsat (ch_state c) + sif_localRelativeSatoshis f * 1000)))"

definition reserveWeKeep :: "IChannelState \<Rightarrow> int \<Rightarrow> int \<Rightarrow> int \<Rightarrow> int" where
  "reserveWeKeep s capacity ourDust peerDust =
     (if localReserveWaived s then 0 else v2ReserveWeKeep capacity ourDust peerDust)"

definition pendingSpliceKeptReserveSats :: "txlib \<Rightarrow> chan \<Rightarrow> int option" where
  "pendingSpliceKeptReserveSats txl c =
     (let s = ch_state c in
      case spliceInFlight s of
        None \<Rightarrow> None
      | Some f \<Rightarrow>
          (if localReserveWaived s then Some 0
           else let pendingCapacity =
                      (case splicedState txl c s of Some spliced \<Rightarrow> fundingSatoshis spliced | None \<Rightarrow> newFundingSatoshis f)
                in Some (bigIntMax (channelReserveSatoshis (remoteConfig s))
                     (reserveWeKeep s pendingCapacity (dustLimitSatoshis (localConfig s))
                       (dustLimitSatoshis (remoteConfig s))))))"

definition pendingSpliceView :: "txlib \<Rightarrow> chan \<Rightarrow> IPendingSpliceView" where
  "pendingSpliceView txl c =
     \<lparr>sv_isSplicePendingLock = isSplicePendingLock (ch_state c),
      sv_splicedState = splicedState txl c,
      sv_pendingSpliceLocalBalanceMsat = getPendingSpliceLocalBalanceMsat txl c,
      sv_pendingSpliceKeptReserveSats = pendingSpliceKeptReserveSats txl c\<rparr>"

subsection \<open>What may be sent\<close>

definition spendableFor :: "IChannelState \<Rightarrow> int \<Rightarrow> int \<Rightarrow> int" where
  "spendableFor s localMsat keptReserveSats =
     (let reserveMsat = (if localReserveWaived s then 0
            else bigIntMax keptReserveSats (dustLimitSatoshis (localConfig s)) * 1000);
          feerate = max (getLocalCommitmentFeeRate s False) (getRemoteCommitmentFeeRate s);
          requiredMsat = reserveMsat +
            (if role s = OPENER
             then funderCommitmentCostSats (feerate * 2) (countActiveHtlcs s + 2) (channelType s) * 1000 else 0);
          spendable = localMsat - requiredMsat
      in if spendable > 0 then spendable else 0)"

definition getSpendableOutboundMsat :: "txlib \<Rightarrow> chan \<Rightarrow> int" where
  "getSpendableOutboundMsat txl c =
     (let s = ch_state c;
          live = spendableFor s (localBalanceMsat s) (channelReserveSatoshis (remoteConfig s));
          own = (case (getPendingSpliceLocalBalanceMsat txl c, pendingSpliceKeptReserveSats txl c) of
                   (Some pendingSplice, Some pendingReserve) \<Rightarrow>
                     (let spliced = spendableFor s pendingSplice pendingReserve
                      in if spliced < live then spliced else live)
                 | _ \<Rightarrow> live)
      in remoteFunderCeilingMsat s (pendingSpliceView txl c) own)"

section \<open>Lemmas\<close>

lemma on_state_sel [simp]: "ch_state (on_state f c) = f (ch_state c)"
  by (simp add: on_state_def)

lemma fail_with_state: "ch_state (fst (fail_with c t n)) = (ensureRecoveryCloseDisposition (ch_state c))\<lparr>chState := ERRORED\<rparr>"
  by (simp add: fail_with_def failChannelWithWireError_def Let_def)

end
