(* ===== verification/ChannelUpdates.thy ===== *)
theory ChannelUpdates
  imports Channel
begin

text \<open>
  The update operations of a channel: offering an HTLC, settling one, changing the fee, and the handlers of
  the same messages from the peer (\<^verbatim>\<open>src/lightning/channel/channel.ts\<close>, normal operation). Each is the whole
  method: its refusals in order, the entry it writes, the balance it moves, the message it queues.
\<close>

section \<open>Definitions\<close>

definition MAX_DUST_HTLC_EXPOSURE_MSAT :: int where "MAX_DUST_HTLC_EXPOSURE_MSAT = 5000000"

text \<open>An entry as the object literals of the code create it: the flags not named are absent.\<close>

definition new_entry ::
  "int \<Rightarrow> int \<Rightarrow> bytes \<Rightarrow> int \<Rightarrow> bytes \<Rightarrow> HtlcDirection \<Rightarrow> bytes option \<Rightarrow> IHtlcEntry" where
  "new_entry i amount hash expiry onion d blinding =
     \<lparr>entry_id = i, amountMsat = amount, paymentHash = hash, cltvExpiry = expiry, onionRoutingPacket = onion,
      direction = d, entry_state = PENDING, blindingPoint = blinding,
      addRemoteCommitted = None, removalRemoteCommitted = None, commitCoverPending = None,
      addLocallyRevoked = None, removalLocallyRevoked = None, addRemotelyRevoked = None, addCoverPending = None,
      addRemoteSigned = None, forwardEmitted = None, fforVoucher = None, fforMismatch = None,
      dustExposureFailback = None, expiredOnArrival = None, funderFeeFailback = None,
      addedWhileRestoreUnproven = None, addedWhileFundingUnaccounted = None\<rparr>"

text \<open>The common end of our updates: encode the message, queue it for retransmission, persist and send.\<close>

definition sendUpdate ::
  "chan \<Rightarrow> (bytes \<Rightarrow> 'm) \<Rightarrow> ('m \<Rightarrow> bytes res) \<Rightarrow> ('m \<Rightarrow> channel_msg) \<Rightarrow> outcome" where
  "sendUpdate c mk encode wrap =
     (case channelId (ch_state c) of
        None \<Rightarrow> (c, Inl (Error ''null channelId'' []))
      | Some cid \<Rightarrow>
          attempt (encode (mk cid)) c (\<lambda>payload.
            (on_state (\<lambda>s. s\<lparr>pendingLocalUpdates := pendingLocalUpdates s @ [wrap (mk cid)]\<rparr>) c,
             Inr [PERSIST_STATE, SEND_MESSAGE (wrap (mk cid))])))"

subsection \<open>Offering an HTLC\<close>

definition held_message :: "RecencyHoldOrigin option \<Rightarrow> string" where
  "held_message origin =
     (case origin of
        Some secret_missing \<Rightarrow> ''Cannot add HTLC: this node could not produce the per-commitment secret its own channel_reestablish owes the peer''
      | Some restore_origin \<Rightarrow> ''Cannot add HTLC: channel was restored from a Recovery Capsule and its state cannot be proven current''
      | _ \<Rightarrow> ''Cannot add HTLC: the peer claimed at channel_reestablish that this channel state is behind'')"

definition local_error :: "string \<Rightarrow> int list \<Rightarrow> ChannelErrorCode \<Rightarrow> ChannelAction list res" where
  "local_error text numbers code = Inr [error_action (text, numbers) (Some code)]"

definition validateOutgoingHtlc ::
  "ecc \<Rightarrow> btc \<Rightarrow> txlib \<Rightarrow> chan \<Rightarrow> int \<Rightarrow> int \<Rightarrow> ChannelAction list res" where
  "validateOutgoingHtlc e lib txl c amount expiry =
     (let s = ch_state c; sv = pendingSpliceView txl c in
      if restoreRevokedRisk s then
        local_error ''Cannot add HTLC: the peer holds the revocation for this commitment'' [] HELD
      else if isRecencyUnproven s then local_error (held_message (recencyHoldOrigin s)) [] HELD
      else if chState s \<noteq> ChannelState.NORMAL \<and> \<not> canUpdateHtlcsDuringSplice s then
        local_error ''Cannot add HTLC: channel in wrong state'' [] WRONG_STATE
      else if fundingUnaccounted s then
        local_error ''Cannot add HTLC: the funding transaction is in neither the mempool nor the chain'' [] HELD
      else if quiescing c then local_error ''Cannot add HTLC: channel is quiescing'' [] WRONG_STATE
      else if expiry \<ge> 500000000 then local_error ''HTLC cltv_expiry is not a block height'' [expiry] INVALID_PARAMS
      else if ch_currentBlockHeight c > 0 \<and> expiry \<le> ch_currentBlockHeight c then
        local_error ''HTLC cltv_expiry has already expired'' [expiry, ch_currentBlockHeight c] INVALID_PARAMS
      else if amount \<le> 0 then local_error ''HTLC amount must be positive'' [] INVALID_PARAMS
      else if amount < htlcMinimumMsat (remoteConfig s) then
        local_error ''HTLC amount below remote minimum'' [] LIMIT_EXCEEDED
      else if int (countPendingHtlcs s OFFERED) \<ge> maxAcceptedHtlcs (remoteConfig s) then
        local_error ''Max pending HTLCs exceeded'' [] LIMIT_EXCEEDED
      else if totalInFlightMsat s OFFERED + amount > maxHtlcValueInFlightMsat (remoteConfig s) then
        local_error ''Max HTLC value in flight exceeded'' [] LIMIT_EXCEEDED
      else if amount > getSpendableOutboundMsat txl c then
        local_error ''Insufficient balance for HTLC'' [] INSUFFICIENT_BALANCE
      else (case remoteFunderFeeRefusal s sv [amount] of
        Some (m, n) \<Rightarrow> local_error m n INSUFFICIENT_BALANCE
      | None \<Rightarrow>
      if isDustHtlc s amount \<and> dustExposureMsat s + amount > MAX_DUST_HTLC_EXPOSURE_MSAT then
        local_error ''Dust HTLC exposure limit exceeded'' [] LIMIT_EXCEEDED
      else if localReserveWaived s \<or> remoteReserveWaived s then
        rbind (localCommitmentEmptyRefusal e lib s sv
          (no_overrides\<lparr>ov_localBalanceMsat := Some (localBalanceMsat s - amount),
             ov_addedHtlc := Some (new_entry (localHtlcCounter s) amount (alloc 32) expiry [] OFFERED None)\<rparr>))
          (\<lambda>refusal. case refusal of Some (m, n) \<Rightarrow> local_error m n INSUFFICIENT_BALANCE | None \<Rightarrow> Inr [])
      else Inr []))"

definition offered_entry :: "int \<Rightarrow> int \<Rightarrow> bytes \<Rightarrow> int \<Rightarrow> bytes \<Rightarrow> bytes option \<Rightarrow> IHtlcEntry" where
  "offered_entry i amount hash expiry onion blinding =
     (new_entry i amount hash expiry onion OFFERED blinding)
       \<lparr>addRemoteCommitted := Some False, addRemoteSigned := Some False\<rparr>"

definition addHtlc ::
  "ecc \<Rightarrow> btc \<Rightarrow> txlib \<Rightarrow> chan \<Rightarrow> int \<Rightarrow> bytes \<Rightarrow> int \<Rightarrow> bytes \<Rightarrow> bytes option \<Rightarrow> int option \<Rightarrow> outcome" where
  "addHtlc e lib txl c amount hash expiry onion blinding skimmedFee =
     (if (case skimmedFee of None \<Rightarrow> False | Some f \<Rightarrow> f < 0 \<or> f > 0xffffffffffffffff)
      then (c, Inl (Error ''skimmedFeeMsat must fit in u64'' []))
      else attempt (validateOutgoingHtlc e lib txl c amount expiry) c (\<lambda>refusal.
        if refusal \<noteq> [] then (c, Inr refusal)
        else
          let htlcId = localHtlcCounter (ch_state c);
              c = on_state (\<lambda>s. s\<lparr>localHtlcCounter := htlcId + 1,
                    htlcs := htlc_set (offered_entry htlcId amount hash expiry onion blinding) (htlcs s),
                    localBalanceMsat := localBalanceMsat s - amount,
                    needsCommitment := True\<rparr>) c
          in sendUpdate c (\<lambda>cid. \<lparr>uah_channelId = cid, uah_id = htlcId, uah_amountMsat = amount,
                 uah_paymentHash = hash, uah_cltvExpiry = expiry, uah_onionRoutingPacket = onion,
                 uah_blindingPoint = blinding, uah_skimmedFeeMsat = skimmedFee\<rparr>)
               encodeUpdateAddHtlcMessage UPDATE_ADD_HTLC))"

subsection \<open>An HTLC from the peer\<close>

definition remoteRequiredMsat :: "IChannelState \<Rightarrow> int \<Rightarrow> int" where
  "remoteRequiredMsat s amount =
     channelReserveSatoshis (localConfig s) * 1000 +
     (if role s = ACCEPTOR
      then bigIntMax (remoteFunderLocalCostMsat s (getLocalCommitmentFeeRate s False) [(amount, RECEIVED)])
             (remoteFunderLocalCostMsat s (getRemoteCommitmentFeeRate s) [(amount, RECEIVED)])
      else 0)"

text \<open>
  The funder-fee thresholds of the receive side: whether the add is past the sender's own bound, and
  whether our output then still clears both dust limits.
\<close>

definition pastSenderBound :: "IChannelState \<Rightarrow> IPendingSpliceView \<Rightarrow> int \<Rightarrow> bool" where
  "pastSenderBound s sv amount \<longleftrightarrow> role s = OPENER \<and>
     (let sender = funderSenderView s [(amount, RECEIVED)];
          senderHeadroomMsat = funderHeadroomMsat s sv (fv_balanceMsat sender);
          climbOut = (inSplicedClimbOut s \<and> fv_balanceMsat sender - fv_costMsat sender > 0)
      in senderHeadroomMsat < fv_costMsat sender \<and> \<not> climbOut)"

definition funderOutputMsat :: "IChannelState \<Rightarrow> IPendingSpliceView \<Rightarrow> int \<Rightarrow> int" where
  "funderOutputMsat s sv amount =
     (let floor = funderConservativeView s [(amount, RECEIVED)]
      in funderLiveBalanceFloorMsat s sv + cv_creditMsat floor - cv_costMsat floor)"

definition outputFloorMsat :: "IChannelState \<Rightarrow> int" where
  "outputFloorMsat s =
     bigIntMax (dustLimitSatoshis (localConfig s)) (dustLimitSatoshis (remoteConfig s)) * 1000"

definition funderFailure :: "chan \<Rightarrow> IPendingSpliceView \<Rightarrow> int \<Rightarrow> outcome" where
  "funderFailure c sv amount =
     (let s = ch_state c;
          sender = funderSenderView s [(amount, RECEIVED)];
          floor = funderConservativeView s [(amount, RECEIVED)];
          wire = ''Cannot afford commitment fee for inbound HTLC above channel reserve''
      in failChannelWithWireError c (wire, []) None
           (Some (wire, [localBalanceMsat s, channelReserveSatoshis (remoteConfig s), fv_balanceMsat sender,
              funderHeadroomMsat s sv (fv_balanceMsat sender), fv_feeratePerKw sender, int (fv_untrimmed sender),
              fv_costMsat sender, cv_feeratePerKw floor, int (cv_untrimmed floor), cv_costMsat floor,
              cv_creditMsat floor, funderOutputMsat s sv amount, outputFloorMsat s, amount])))"

definition flag_if :: "bool \<Rightarrow> bool option" where
  "flag_if b = (if b then Some True else None)"

definition received_entry :: "chan \<Rightarrow> bool \<Rightarrow> IUpdateAddHtlcMessage \<Rightarrow> IHtlcEntry" where
  "received_entry c failback msg =
     (let s = ch_state c in
      (new_entry (uah_id msg) (uah_amountMsat msg) (uah_paymentHash msg) (uah_cltvExpiry msg)
        (uah_onionRoutingPacket msg) RECEIVED (uah_blindingPoint msg))
        \<lparr>dustExposureFailback := flag_if (isDustHtlc s (uah_amountMsat msg) \<and>
            dustExposureMsat s + uah_amountMsat msg > MAX_DUST_HTLC_EXPOSURE_MSAT),
         expiredOnArrival := flag_if (ch_currentBlockHeight c > 0 \<and> uah_cltvExpiry msg \<le> ch_currentBlockHeight c),
         funderFeeFailback := flag_if failback,
         addedWhileRestoreUnproven := flag_if (isRecencyUnproven s \<or> restoreRevokedRisk s),
         addedWhileFundingUnaccounted := flag_if (fundingUnaccounted s)\<rparr>)"

definition same_add :: "IHtlcEntry \<Rightarrow> IUpdateAddHtlcMessage \<Rightarrow> bool" where
  "same_add existing msg \<longleftrightarrow> amountMsat existing = uah_amountMsat msg \<and> paymentHash existing = uah_paymentHash msg \<and>
     cltvExpiry existing = uah_cltvExpiry msg \<and> onionRoutingPacket existing = uah_onionRoutingPacket msg"

definition handleUpdateAddHtlc :: "ecc \<Rightarrow> btc \<Rightarrow> txlib \<Rightarrow> chan \<Rightarrow> IUpdateAddHtlcMessage \<Rightarrow> outcome" where
  "handleUpdateAddHtlc e lib txl c msg =
     (let s = ch_state c; sv = pendingSpliceView txl c; amount = uah_amountMsat msg;
          crossedOurShutdown = (chState s = SHUTTING_DOWN \<and> remoteShutdownScript s = None)
      in
      if chState s \<noteq> ChannelState.NORMAL \<and> \<not> canUpdateHtlcsDuringSplice s \<and> \<not> crossedOurShutdown
      then refuse_keeping c ''Unexpected update_add_htlc''
      else case htlc_get RECEIVED (uah_id msg) (htlcs s) of
        Some existing \<Rightarrow>
          (if same_add existing msg then (c, Inr [])
           else fail_with c ''update_add_htlc reuses an id with different contents'' [uah_id msg])
      | None \<Rightarrow>
      if peerHasSentStfu (mgr (ch_endpoint c)) then fail_with c ''update_add_htlc after your stfu'' []
      else if amount \<le> 0 then fail_with c ''HTLC amount must be greater than 0'' []
      else if amount < htlcMinimumMsat (localConfig s) then fail_with c ''HTLC amount below our minimum'' []
      else if int (countPendingHtlcs s RECEIVED) \<ge> maxAcceptedHtlcs (localConfig s)
      then fail_with c ''Max inbound pending HTLCs exceeded'' []
      else if totalInFlightMsat s RECEIVED + amount > maxHtlcValueInFlightMsat (localConfig s)
      then fail_with c ''Max inbound HTLC value in flight exceeded'' []
      else if remoteBalanceMsat s - amount < remoteRequiredMsat s amount
      then fail_with c ''Remote cannot afford HTLC above channel reserve'' []
      else if pastSenderBound s sv amount \<and> funderOutputMsat s sv amount < outputFloorMsat s
      then funderFailure c sv amount
      else if uah_cltvExpiry msg \<ge> 500000000
      then fail_with c ''HTLC cltv_expiry is not a block height'' [uah_cltvExpiry msg]
      else
        let entry = received_entry c (pastSenderBound s sv amount) msg
        in attempt (localCommitmentEmptyRefusal e lib s sv
             (no_overrides\<lparr>ov_remoteBalanceMsat := Some (remoteBalanceMsat s - amount),
                ov_addedHtlc := Some entry\<rparr>)) c (\<lambda>wouldEmpty.
           case wouldEmpty of
             Some (m, n) \<Rightarrow> fail_with c m n
           | None \<Rightarrow>
               (on_state (\<lambda>s. s\<lparr>htlcs := htlc_set (entry\<lparr>addLocallyRevoked := Some False,
                     addRemotelyRevoked := Some False\<rparr>) (htlcs s),
                   remoteBalanceMsat := remoteBalanceMsat s - amount\<rparr>) c, Inr [])))"

subsection \<open>Settling a received HTLC\<close>

definition guardRepeatSettle :: "IHtlcEntry \<Rightarrow> int \<Rightarrow> HtlcState \<Rightarrow> ChannelAction list option" where
  "guardRepeatSettle entry i intent =
     (if entry_state entry = intent then Some []
      else if entry_state entry = FULFILLED then Some [error_action (''HTLC already fulfilled'', [i]) None]
      else if entry_state entry = FAILED then Some [error_action (''HTLC already failed'', [i]) None]
      else None)"

definition canFulfillHtlc :: "chan \<Rightarrow> int \<Rightarrow> bool" where
  "canFulfillHtlc c i \<longleftrightarrow> canSettleHtlcs (ch_state c) \<and> \<not> quiescing c \<and>
     (case htlc_get RECEIVED i (htlcs (ch_state c)) of
        None \<Rightarrow> False
      | Some entry \<Rightarrow> entry_state entry \<noteq> FULFILLED \<and> entry_state entry \<noteq> FAILED)"

definition canFailHtlc :: "chan \<Rightarrow> int \<Rightarrow> bool" where
  "canFailHtlc c i = canFulfillHtlc c i"

text \<open>What all three settlements write: the entry leaves the commitments in two phases, and we owe a signature.\<close>

definition settle_received :: "int \<Rightarrow> HtlcState \<Rightarrow> chan \<Rightarrow> chan" where
  "settle_received i outcome c =
     on_state (\<lambda>s. (on_entry RECEIVED i (\<lambda>entry. entry\<lparr>entry_state := outcome, removalRemoteCommitted := Some False\<rparr>) s)
       \<lparr>needsCommitment := True\<rparr>) c"

definition fulfillHtlc :: "btc \<Rightarrow> chan \<Rightarrow> int \<Rightarrow> bytes \<Rightarrow> outcome" where
  "fulfillHtlc lib c i preimage =
     (if \<not> canSettleHtlcs (ch_state c) then refuse c ''Cannot fulfill HTLC: wrong state'' []
      else if quiescing c then refuse c ''Cannot fulfill HTLC: channel is quiescing'' []
      else case htlc_get RECEIVED i (htlcs (ch_state c)) of
        None \<Rightarrow> refuse c ''HTLC not found'' [i]
      | Some entry \<Rightarrow>
          (if sha256 lib preimage \<noteq> paymentHash entry then refuse c ''Invalid preimage for HTLC'' []
           else case guardRepeatSettle entry i FULFILLED of
             Some actions \<Rightarrow> (c, Inr actions)
           | None \<Rightarrow>
               sendUpdate (settle_received i FULFILLED c)
                 (\<lambda>cid. \<lparr>ufh_channelId = cid, ufh_id = i, ufh_paymentPreimage = preimage\<rparr>)
                 encodeUpdateFulfillHtlcMessage UPDATE_FULFILL_HTLC))"

definition failHtlc :: "chan \<Rightarrow> int \<Rightarrow> bytes \<Rightarrow> HtlcDirection \<Rightarrow> outcome" where
  "failHtlc c i reason d =
     (if \<not> canSettleHtlcs (ch_state c) then refuse c ''Cannot fail HTLC: wrong state'' []
      else if quiescing c then refuse c ''Cannot fail HTLC: channel is quiescing'' []
      else if d \<noteq> RECEIVED then refuse c ''Cannot fail offered HTLC off-chain'' [i]
      else case htlc_get RECEIVED i (htlcs (ch_state c)) of
        None \<Rightarrow> refuse c ''HTLC not found'' [i]
      | Some entry \<Rightarrow>
          (case guardRepeatSettle entry i FAILED of
             Some actions \<Rightarrow> (c, Inr actions)
           | None \<Rightarrow>
               sendUpdate (settle_received i FAILED c)
                 (\<lambda>cid. \<lparr>ufl_channelId = cid, ufl_id = i, ufl_reason = reason\<rparr>)
                 encodeUpdateFailHtlcMessage UPDATE_FAIL_HTLC))"

definition failMalformedHtlc :: "chan \<Rightarrow> int \<Rightarrow> bytes \<Rightarrow> int \<Rightarrow> outcome" where
  "failMalformedHtlc c i onionHash failureCode =
     (if \<not> canSettleHtlcs (ch_state c) then refuse c ''Cannot fail HTLC: wrong state'' []
      else if quiescing c then refuse c ''Cannot fail HTLC: channel is quiescing'' []
      else if failureCode AND 0x8000 = 0
      then refuse c ''update_fail_malformed_htlc failure_code lacks BADONION'' [failureCode]
      else case htlc_get RECEIVED i (htlcs (ch_state c)) of
        None \<Rightarrow> refuse c ''HTLC not found'' [i]
      | Some entry \<Rightarrow>
          (case guardRepeatSettle entry i FAILED of
             Some actions \<Rightarrow> (c, Inr actions)
           | None \<Rightarrow>
               sendUpdate (settle_received i FAILED c)
                 (\<lambda>cid. \<lparr>ufm_channelId = cid, ufm_id = i, ufm_sha256OfOnion = onionHash, ufm_failureCode = failureCode\<rparr>)
                 encodeUpdateFailMalformedHtlcMessage UPDATE_FAIL_MALFORMED_HTLC))"

subsection \<open>The peer settles an HTLC we offered\<close>

definition addNotYetCommitted :: "IHtlcEntry \<Rightarrow> bool" where
  "addNotYetCommitted entry \<longleftrightarrow> entry_state entry = PENDING \<or> is_false (addRemoteCommitted entry)"

definition settle_offered :: "int \<Rightarrow> HtlcState \<Rightarrow> chan \<Rightarrow> chan" where
  "settle_offered i outcome c =
     on_state (on_entry OFFERED i (\<lambda>entry. entry\<lparr>entry_state := outcome, removalRemoteCommitted := Some False,
       removalLocallyRevoked := Some False\<rparr>)) c"

definition handleUpdateFulfillHtlc :: "btc \<Rightarrow> chan \<Rightarrow> IUpdateFulfillHtlcMessage \<Rightarrow> outcome" where
  "handleUpdateFulfillHtlc lib c msg =
     (if \<not> canSettleHtlcs (ch_state c) then refuse c ''Unexpected update_fulfill_htlc'' []
      else case htlc_get OFFERED (ufh_id msg) (htlcs (ch_state c)) of
        None \<Rightarrow> refuse c ''HTLC not found'' [ufh_id msg]
      | Some entry \<Rightarrow>
          (if sha256 lib (ufh_paymentPreimage msg) \<noteq> paymentHash entry
           then fail_with c ''Invalid preimage for offered HTLC'' []
           else if entry_state entry = FULFILLED
           then (c, Inr [HTLC_FULFILLED (ufh_id msg) (ufh_paymentPreimage msg)])
           else if addNotYetCommitted entry
           then fail_with c ''update_fulfill_htlc for an HTLC not yet committed'' []
           else (settle_offered (ufh_id msg) FULFILLED c,
                 Inr [HTLC_FULFILLED (ufh_id msg) (ufh_paymentPreimage msg)])))"

definition handleUpdateFailHtlc :: "chan \<Rightarrow> IUpdateFailHtlcMessage \<Rightarrow> outcome" where
  "handleUpdateFailHtlc c msg =
     (if \<not> canSettleHtlcs (ch_state c) then refuse c ''Unexpected update_fail_htlc'' []
      else case htlc_get OFFERED (ufl_id msg) (htlcs (ch_state c)) of
        None \<Rightarrow> refuse c ''HTLC not found'' [ufl_id msg]
      | Some entry \<Rightarrow>
          (if entry_state entry = FAILED then (c, Inr [HTLC_FAILED (ufl_id msg) (ufl_reason msg) None])
           else if addNotYetCommitted entry
           then fail_with c ''update_fail_htlc for an HTLC not yet committed'' []
           else (settle_offered (ufl_id msg) FAILED c,
                 Inr [HTLC_FAILED (ufl_id msg) (ufl_reason msg) None])))"

definition malformedReason :: "int \<Rightarrow> bytes res" where
  "malformedReason failureCode =
     rbind (writeUInt16BE (alloc 4) failureCode 0) (\<lambda>reason. writeUInt16BE reason 0 2)"

definition handleUpdateFailMalformedHtlc :: "chan \<Rightarrow> IUpdateFailMalformedHtlcMessage \<Rightarrow> outcome" where
  "handleUpdateFailMalformedHtlc c msg =
     (let i = ufm_id msg; code = ufm_failureCode msg;
          failed = (\<lambda>c. attempt (malformedReason code) c (\<lambda>reason. (c, Inr [HTLC_FAILED i reason (Some code)])))
      in
      if \<not> canSettleHtlcs (ch_state c) then refuse c ''Unexpected update_fail_malformed_htlc'' []
      else if code AND 0x8000 = 0
      then fail_with c ''update_fail_malformed_htlc: failure_code missing BADONION bit'' []
      else case htlc_get OFFERED i (htlcs (ch_state c)) of
        None \<Rightarrow> refuse c ''HTLC not found'' [i]
      | Some entry \<Rightarrow>
          (if entry_state entry = FAILED then failed c
           else if addNotYetCommitted entry
           then fail_with c ''update_fail_malformed_htlc for an HTLC not yet committed'' []
           else failed (settle_offered i FAILED c)))"

subsection \<open>Fee updates\<close>

definition feeHeadroomMsat :: "txlib \<Rightarrow> chan \<Rightarrow> int" where
  "feeHeadroomMsat txl c =
     (let s = ch_state c;
          headroomMsat = localBalanceMsat s - channelReserveSatoshis (remoteConfig s) * 1000
      in case (getPendingSpliceLocalBalanceMsat txl c, pendingSpliceKeptReserveSats txl c) of
           (Some pendingBalance, Some pendingReserve) \<Rightarrow>
             (let pendingHeadroomMsat = pendingBalance - pendingReserve * 1000
              in if pendingHeadroomMsat < headroomMsat then pendingHeadroomMsat else headroomMsat)
         | _ \<Rightarrow> headroomMsat)"

definition stage_fee :: "int \<Rightarrow> IChannelState \<Rightarrow> IChannelState" where
  "stage_fee rate s = s\<lparr>pendingFeeratePerKw := Some rate, pendingFeerateSignable := Some False,
     pendingFeerateCommitted := Some False\<rparr>"

definition updateFee :: "ecc \<Rightarrow> btc \<Rightarrow> txlib \<Rightarrow> chan \<Rightarrow> int \<Rightarrow> outcome" where
  "updateFee e lib txl c rate =
     (let s = ch_state c in
      if chState s \<noteq> ChannelState.NORMAL \<and> \<not> isSplicePendingLock s
      then refuse_code c ''Cannot update fee: wrong state'' [] WRONG_STATE
      else if role s \<noteq> OPENER then refuse_code c ''Only opener can update fee'' [] NOT_PERMITTED
      else if quiescing c then refuse_code c ''Cannot update fee: channel is quiescing'' [] WRONG_STATE
      else if rate < 253 then refuse_code c ''Fee rate below minimum relay fee (253 sat/kw)'' [] INVALID_PARAMS
      else if rate > 100000 then refuse_code c ''Fee rate above absolute maximum (100000 sat/kw)'' [] INVALID_PARAMS
      else if funderCommitmentCostSats rate (countActiveHtlcs s) (channelType s) * 1000 > feeHeadroomMsat txl c
      then refuse_code c ''Fee rate would drain opener below channel reserve'' [] INSUFFICIENT_BALANCE
      else if dustExposureAtRateMsat s rate > MAX_DUST_HTLC_EXPOSURE_MSAT
      then refuse_code c ''update_fee would raise dust HTLC exposure above limit'' [] LIMIT_EXCEEDED
      else if pendingFeeratePerKw s \<noteq> None \<and> pendingFeerateCommitted s = Some True
      then refuse_code c ''Previous fee update still committing'' [] WRONG_STATE
      else attempt (localCommitmentEmptyRefusal e lib s (pendingSpliceView txl c)
             (no_overrides\<lparr>ov_pendingFeeratePerKw := Some rate\<rparr>)) c (\<lambda>emptyRefusal.
        case emptyRefusal of
          Some (m, n) \<Rightarrow> refuse_code c m n INSUFFICIENT_BALANCE
        | None \<Rightarrow>
            sendUpdate (on_state (\<lambda>s. (stage_fee rate s)\<lparr>needsCommitment := True\<rparr>) c)
              (\<lambda>cid. \<lparr>ufe_channelId = cid, ufe_feeratePerKw = rate\<rparr>) encodeUpdateFeeMessage UPDATE_FEE))"

definition currentRate :: "IChannelState \<Rightarrow> int" where
  "currentRate s = max (case pendingFeeratePerKw s of Some r \<Rightarrow> r | None \<Rightarrow> 0)
     (if feeratePerKw (remoteConfig s) = 0 then 253 else feeratePerKw (remoteConfig s))"

definition promote_signable_fee :: "IChannelState \<Rightarrow> IChannelState" where
  "promote_signable_fee s =
     (case pendingFeeratePerKw s of
        Some r \<Rightarrow> (if pendingFeerateSignable s = Some True
                   then s\<lparr>remoteConfig := (remoteConfig s)\<lparr>feeratePerKw := r\<rparr>\<rparr> else s)
      | None \<Rightarrow> s)"

definition handleUpdateFee :: "ecc \<Rightarrow> btc \<Rightarrow> txlib \<Rightarrow> chan \<Rightarrow> IUpdateFeeMessage \<Rightarrow> outcome" where
  "handleUpdateFee e lib txl c msg =
     (let s = ch_state c; rate = ufe_feeratePerKw msg in
      if chState s \<noteq> ChannelState.NORMAL \<and> chState s \<noteq> SHUTTING_DOWN \<and> \<not> isSplicePendingLock s
      then refuse_keeping c ''Unexpected update_fee''
      else if role s \<noteq> ACCEPTOR then fail_with c ''Only opener can send update_fee'' []
      else if rate < 253 then fail_with c ''Fee rate below minimum relay fee (253 sat/kw)'' []
      else if rate > 100000 then fail_with c ''Fee rate above absolute maximum (100000 sat/kw)'' []
      else if rate > currentRate s * 10 then fail_with c ''Fee rate unreasonably high (>10x current rate)'' []
      else if remoteFunderLocalCostMsat s rate []
          > remoteBalanceMsat s - channelReserveSatoshis (localConfig s) * 1000
      then fail_with c ''Fee rate would drain opener below channel reserve'' []
      else if dustExposureAtRateMsat s rate > MAX_DUST_HTLC_EXPOSURE_MSAT
      then fail_with c ''update_fee would raise dust HTLC exposure above limit'' []
      else attempt (localCommitmentEmptyRefusal e lib s (pendingSpliceView txl c)
             (no_overrides\<lparr>ov_pendingFeeratePerKw := Some rate\<rparr>)) c (\<lambda>wouldEmpty.
        case wouldEmpty of
          Some (m, n) \<Rightarrow> fail_with c m n
        | None \<Rightarrow> (on_state (\<lambda>s. stage_fee rate (promote_signable_fee s)) c, Inr [])))"

subsection \<open>The lease height\<close>

definition promoteLeaseBlockheight :: "int \<Rightarrow> IChannelState \<Rightarrow> IChannelState" where
  "promoteLeaseBlockheight height s =
     (let s = (if leaseCommitBlockheight s \<noteq> Some height then
            (let history = (case leaseHeightHistory s of None \<Rightarrow> [] | Some h \<Rightarrow> h);
                 history = (case leaseCommitBlockheight s of
                     None \<Rightarrow> history
                   | Some old \<Rightarrow> (if history \<noteq> [] \<and> last history = old then history else history @ [old]))
             in s\<lparr>leaseHeightHistory := Some (history @ [height])\<rparr>)
          else s)
      in s\<lparr>leaseCommitBlockheight := Some height\<rparr>)"

definition handleUpdateBlockheight :: "chan \<Rightarrow> IUpdateBlockheightMessage \<Rightarrow> outcome" where
  "handleUpdateBlockheight c msg =
     (let s = ch_state c; height = ubh_blockheight msg;
          current = (case pendingLeaseBlockheight s of
              Some h \<Rightarrow> h
            | None \<Rightarrow> (case leaseCommitBlockheight s of Some h \<Rightarrow> h | None \<Rightarrow> 0))
      in
      if chState s \<noteq> ChannelState.NORMAL \<and> chState s \<noteq> SHUTTING_DOWN \<and> \<not> isSplicePendingLock s
      then refuse c ''Unexpected update_blockheight'' []
      else if role s \<noteq> ACCEPTOR then fail_with c ''Only the opener can send update_blockheight'' []
      else if leaseExpiry s = None \<or> \<not> isLessor s then fail_with c ''update_blockheight on a non-leased channel'' []
      else if height < current then fail_with c ''update_blockheight decreased'' [height, current]
      else if height = current then (c, Inr [])
      else if ch_currentBlockHeight c > 0 \<and> height + 1008 < ch_currentBlockHeight c
      then fail_with c ''update_blockheight too old'' [height, ch_currentBlockHeight c]
      else
        (on_state (\<lambda>s.
           (case pendingLeaseBlockheight s of
              Some h \<Rightarrow> (if pendingLeaseBlockheightSignable s = Some True then promoteLeaseBlockheight h s else s)
            | None \<Rightarrow> s)
           \<lparr>pendingLeaseBlockheight := Some height, pendingLeaseBlockheightSignable := Some False,
            pendingLeaseBlockheightCommitted := Some False\<rparr>) c, Inr []))"

end
