(* ===== verification/WatchtowerCache.thy ===== *)
theory WatchtowerCache
  imports Channel
begin

text \<open>
  The watchtower side of revocation: \<^verbatim>\<open>src/lightning/channel/watchtower-cache.ts\<close>. The two maps live on the channel
  state; the cache holds transactions where the code holds their bytes. \<open>isAwaitingRemoteRevocation\<close> and
  \<open>splicedState\<close> are read from the channel the class is given as its host.
\<close>

section \<open>Definitions\<close>

definition REVOKED_TX_CACHE_MAX :: nat where "REVOKED_TX_CACHE_MAX = 8"

definition spendsFunding :: "bytes \<Rightarrow> transaction \<Rightarrow> bool" where
  "spendsFunding funding tx = (case tx_ins tx of [] \<Rightarrow> False | i # _ \<Rightarrow> in_hash i = funding)"

definition cached :: "IChannelState \<Rightarrow> bytes \<Rightarrow> transaction list option" where
  "cached s point = (case watchtowerRemoteCommitmentTxs s of None \<Rightarrow> None | Some m \<Rightarrow> map_of m point)"

definition bound_cache :: "(bytes \<times> transaction list) list \<Rightarrow> (bytes \<times> transaction list) list" where
  "bound_cache m = drop (length m - REVOKED_TX_CACHE_MAX) m"

definition cacheRemoteCommitment ::
  "ecc \<Rightarrow> btc \<Rightarrow> bytes option \<Rightarrow> int \<Rightarrow> IChannelState option \<Rightarrow> IChannelState \<Rightarrow> IChannelState" where
  "cacheRemoteCommitment e lib point number spliced s =
     (let view = (case spliced of Some v \<Rightarrow> v | None \<Rightarrow> s) in
      case point of None \<Rightarrow> s | Some p \<Rightarrow>
      if remoteBasepoints view = None \<or> fundingTxid view = None then s
      else case buildRemoteCommitment e lib view p (Some number) of
        Inl _ \<Rightarrow> s
      | Inr bc \<Rightarrow>
          let cache = (case watchtowerRemoteCommitmentTxs s of None \<Rightarrow> [] | Some m \<Rightarrow> m);
              kept = (case (spliced, fundingTxid s) of
                  (Some _, Some current) \<Rightarrow>
                    List.filter (spendsFunding current) (case map_of cache p of None \<Rightarrow> [] | Some txs \<Rightarrow> txs)
                | _ \<Rightarrow> [])
          in s\<lparr>watchtowerRemoteCommitmentTxs :=
                 Some (bound_cache (map_set p (kept @ [ct_tx (bc_result bc)]) cache))\<rparr>)"

definition repairWatchtowerCommitmentCache :: "ecc \<Rightarrow> btc \<Rightarrow> txlib \<Rightarrow> chan \<Rightarrow> chan" where
  "repairWatchtowerCommitmentCache e lib txl c =
     (if needsCommitment (ch_state c) then c
      else case (if isAwaitingRemoteRevocation (ch_state c) then remoteNextPerCommitmentPoint (ch_state c)
                 else remoteCurrentPerCommitmentPoint (ch_state c)) of
        None \<Rightarrow> c
      | Some point \<Rightarrow>
          let number = remoteCommitmentNumber (ch_state c);
              c = (if cached (ch_state c) point = None
                   then on_state (cacheRemoteCommitment e lib (Some point) number None) c else c);
              spliced = (if spliceInFlight (ch_state c) \<noteq> None then splicedState txl c (ch_state c) else None)
          in case spliced of None \<Rightarrow> c | Some view \<Rightarrow>
             (case fundingTxid view of None \<Rightarrow> c | Some spliceFunding \<Rightarrow>
               let txs = (case cached (ch_state c) point of None \<Rightarrow> [] | Some txs \<Rightarrow> txs)
               in if list_ex (spendsFunding spliceFunding) txs then c
                  else on_state (cacheRemoteCommitment e lib (Some point) number (Some view)) c))"

definition takeRevokedCommitmentTxs :: "ecc \<Rightarrow> bytes \<Rightarrow> IChannelState \<Rightarrow> (IChannelState \<times> transaction list) res" where
  "takeRevokedCommitmentTxs e secret s =
     rbind (perCommitmentPointFromSecret e secret) (\<lambda>point.
       Inr (s\<lparr>watchtowerRemoteCommitmentTxs :=
                map_option (List.filter (\<lambda>kv. fst kv \<noteq> point)) (watchtowerRemoteCommitmentTxs s)\<rparr>,
            case cached s point of None \<Rightarrow> [] | Some txs \<Rightarrow> txs))"

definition oweWatchtowerBackup :: "bytes \<Rightarrow> transaction \<Rightarrow> IChannelState \<Rightarrow> IChannelState" where
  "oweWatchtowerBackup secret tx s =
     s\<lparr>watchtowerBackupsOwed :=
         Some ((case watchtowerBackupsOwed s of None \<Rightarrow> [] | Some owed \<Rightarrow> owed) @ [(secret, tx)])\<rparr>"

definition takeOwedWatchtowerBackups :: "IChannelState \<Rightarrow> IChannelState \<times> (bytes \<times> transaction) list" where
  "takeOwedWatchtowerBackups s =
     (s\<lparr>watchtowerBackupsOwed := None\<rparr>, case watchtowerBackupsOwed s of None \<Rightarrow> [] | Some owed \<Rightarrow> owed)"

end
