(* ===== verification/CommitmentRounds.thy ===== *)
theory CommitmentRounds
  imports ChannelUpdates WatchtowerCache
begin

text \<open>
  The commitment rounds of a channel: signing the peer's commitment, the handlers of commitment_signed (alone
  or in a batch, one per funding output) and revoke_and_ack, and the manager's decision to sign
  (\<^verbatim>\<open>src/lightning/channel/channel.ts\<close>, \<^verbatim>\<open>src/lightning/channel/channel-manager.ts\<close>). The loops over the HTLC map are
  functions on entries. The rounds of a splice or dual-funding negotiation and the verification of taproot
  partial signatures are not modelled: \<open>handleCommitmentSigned\<close> takes them as the argument \<open>other\<close>.
\<close>

section \<open>Definitions\<close>

subsection \<open>Signing\<close>

definition snapshot_entry :: "IHtlcEntry \<Rightarrow> IHtlcSnapshotEntry" where
  "snapshot_entry h = \<lparr>sn_paymentHash = paymentHash h, sn_amountMsat = amountMsat h, sn_cltvExpiry = cltvExpiry h,
     sn_direction = direction h\<rparr>"

definition snapshotRemoteCommitmentHtlcs :: "int \<Rightarrow> IChannelState \<Rightarrow> IChannelState" where
  "snapshotRemoteCommitmentHtlcs number s =
     recordRevokedHtlcSnapshot number
       (map snapshot_entry (List.filter (\<lambda>h. entry_state h = PENDING \<or> entry_state h = COMMITTED \<or>
          entry_state h = FULFILLED \<or> entry_state h = FAILED) (htlcs s))) s"

text \<open>The entries whose phase this signature advances.\<close>

definition stamp_entry :: "IHtlcEntry \<Rightarrow> IHtlcEntry" where
  "stamp_entry h =
     (let live = (entry_state h = PENDING \<or> entry_state h = COMMITTED);
          gone = (entry_state h = FULFILLED \<or> entry_state h = FAILED);
          h = (if is_false (addRemoteCommitted h) \<and> live then h\<lparr>commitCoverPending := Some True\<rparr> else h);
          h = (if is_false (removalRemoteCommitted h) \<and> \<not> is_false (removalLocallyRevoked h) \<and> gone
               then h\<lparr>commitCoverPending := Some True\<rparr> else h)
      in if is_false (addRemotelyRevoked h) \<and> \<not> is_false (addLocallyRevoked h) \<and> live
         then h\<lparr>addCoverPending := Some True\<rparr> else h)"

definition commit_pending :: "IHtlcEntry \<Rightarrow> IHtlcEntry" where
  "commit_pending h = (if entry_state h = PENDING then h\<lparr>entry_state := COMMITTED\<rparr> else h)"

definition bake_fee :: "IChannelState \<Rightarrow> IChannelState" where
  "bake_fee s =
     (if pendingFeeratePerKw s \<noteq> None \<and> (role s = OPENER \<or> pendingFeerateSignable s = Some True)
      then s\<lparr>pendingFeerateCommitted := Some True\<rparr> else s)"

definition bake_height :: "IChannelState \<Rightarrow> IChannelState" where
  "bake_height s =
     (if pendingLeaseBlockheight s \<noteq> None \<and> pendingLeaseBlockheightSignable s = Some True
      then s\<lparr>pendingLeaseBlockheightCommitted := Some True\<rparr> else s)"

text \<open>What a signature writes: the retransmission cache, the snapshot, the tower cache, the stamps and the counters.\<close>

definition remember_signed :: "bytes \<Rightarrow> bytes list \<Rightarrow> bytes option \<Rightarrow> IChannelState \<Rightarrow> IChannelState" where
  "remember_signed signature htlcSignatures partial s =
     s\<lparr>lastSentCommitmentSigned := Some signature,
       lastSentPartialSignatureWithNonce := (if isTaprootChannel (channelType s) then partial else None),
       lastSentHtlcSignatures := htlcSignatures, lastSentWasRevoke := Some False\<rparr>"

definition cache_signed ::
  "ecc \<Rightarrow> btc \<Rightarrow> (IChannelState \<Rightarrow> IChannelState option) \<Rightarrow> IChannelState \<Rightarrow> IChannelState" where
  "cache_signed e lib spliced s =
     (let signedPoint = nextRemotePoint s;
          number = remoteCommitmentNumber s + 1;
          s = cacheRemoteCommitment e lib signedPoint number None s
      in case spliced s of None \<Rightarrow> s | Some view \<Rightarrow> cacheRemoteCommitment e lib signedPoint number (Some view) s)"

definition stamp_entries :: "IChannelState \<Rightarrow> IChannelState" where
  "stamp_entries s = s\<lparr>htlcs := map stamp_entry (htlcs s)\<rparr>"

definition count_signed :: "IChannelState \<Rightarrow> IChannelState" where
  "count_signed s =
     s\<lparr>remoteRevocationNumber := Some (remoteRevocationCount s),
       remoteCommitmentNumber := remoteCommitmentNumber s + 1,
       needsCommitment := False,
       pendingLocalUpdatesSignedCount := length (pendingLocalUpdates s),
       htlcs := map commit_pending (htlcs s)\<rparr>"

definition record_signed ::
  "ecc \<Rightarrow> btc \<Rightarrow> bytes \<Rightarrow> bytes list \<Rightarrow> bytes option \<Rightarrow> (IChannelState \<Rightarrow> IChannelState option) \<Rightarrow>
     IChannelState \<Rightarrow> IChannelState" where
  "record_signed e lib signature htlcSignatures partial spliced s =
     (let s = remember_signed signature htlcSignatures partial s;
          s = snapshotRemoteCommitmentHtlcs (remoteCommitmentNumber s) s
      in count_signed (stamp_entries (bake_height (bake_fee (cache_signed e lib spliced s)))))"

definition trimmedRefusal ::
  "ecc \<Rightarrow> btc \<Rightarrow> IChannelState \<Rightarrow> IChannelState option \<Rightarrow> bytes option \<Rightarrow> refusal" where
  "trimmedRefusal e lib s spliced point =
     (case point of
        None \<Rightarrow> None
      | Some p \<Rightarrow>
          let number = remoteCommitmentNumber s + 1 in
          case funderOutputTrimmedRefusal e lib s False p number of
            Some r \<Rightarrow> Some r
          | None \<Rightarrow> (case spliced of None \<Rightarrow> None | Some view \<Rightarrow> funderOutputTrimmedRefusal e lib view False p number))"

definition signCommitment ::
  "ecc \<Rightarrow> btc \<Rightarrow> txlib \<Rightarrow> chan \<Rightarrow> bytes \<Rightarrow> bytes list \<Rightarrow> bytes option \<Rightarrow> (bytes \<times> bytes list) option \<Rightarrow> outcome" where
  "signCommitment e lib txl c signature htlcSignatures partial spliceBatch =
     (let s = ch_state c; taproot = isTaprootChannel (channelType s);
          spliced = (\<lambda>s. if spliceBatch = None then None else splicedState txl c s) in
      if chState s \<noteq> ChannelState.NORMAL \<and> chState s \<noteq> SHUTTING_DOWN \<and> \<not> isSplicePendingLock s
      then refuse c ''Cannot sign commitment: wrong state'' []
      else if isSplicePendingLock s \<and> spliceBatch = None
      then refuse c ''Cannot sign commitment: pending splice requires a commitment batch'' []
      else if taproot \<and> (case partial of None \<Rightarrow> True | Some p \<Rightarrow> length p \<noteq> 98)
      then refuse c ''Taproot commitment_signed requires a partial_signature_with_nonce'' []
      else case trimmedRefusal e lib s (spliced s) (nextRemotePoint s) of
        Some (m, n) \<Rightarrow> fail_with c m n
      | None \<Rightarrow>
          let c' = on_state (record_signed e lib signature htlcSignatures partial spliced) c;
              msg = (\<lambda>cid. \<lparr>csg_channelId = cid, csg_signature = (if taproot then alloc 64 else signature),
                  csg_htlcSignatures = htlcSignatures,
                  csg_fundingTxid = (if spliceBatch = None then None else fundingTxid s),
                  csg_partialSignatureWithNonce = (if taproot then partial else None)\<rparr>)
          in case channelId s of
               None \<Rightarrow> (c', Inl (Error ''null channelId'' []))
             | Some cid \<Rightarrow>
                 (case (spliceBatch, spliceInFlight s) of
                    (Some (spliceSignature, spliceHtlcSignatures), Some inFlight) \<Rightarrow>
                      (let startBatch = \<lparr>sbt_channelId = cid, sbt_batchSize = 2, sbt_messageType = Some 132\<rparr>;
                           spliceMsg = \<lparr>csg_channelId = cid, csg_signature = spliceSignature,
                             csg_htlcSignatures = spliceHtlcSignatures, csg_fundingTxid = Some (sif_spliceTxid inFlight),
                             csg_partialSignatureWithNonce = None\<rparr>
                       in attempt (encodeStartBatchMessage startBatch) c' (\<lambda>_.
                          attempt (encodeCommitmentSignedMessage (msg cid)) c' (\<lambda>_.
                          attempt (encodeCommitmentSignedMessage spliceMsg) c' (\<lambda>_.
                            (c'\<lparr>ch_lastSentBatch := Some (startBatch, [msg cid, spliceMsg])\<rparr>,
                             Inr [PERSIST_STATE, SEND_MESSAGE (START_BATCH startBatch),
                                  SEND_MESSAGE (COMMITMENT_SIGNED (msg cid)),
                                  SEND_MESSAGE (COMMITMENT_SIGNED spliceMsg)])))))
                  | _ \<Rightarrow>
                      attempt (encodeCommitmentSignedMessage (msg cid)) c' (\<lambda>_.
                        (c', Inr [PERSIST_STATE, SEND_MESSAGE (COMMITMENT_SIGNED (msg cid))]))))"

subsection \<open>A signature from the peer\<close>

definition mark_signed :: "IHtlcEntry \<Rightarrow> IHtlcEntry" where
  "mark_signed h =
     (if direction h = OFFERED \<and> \<not> is_false (addRemoteCommitted h) \<and> entry_state h \<noteq> FAILED
      then h\<lparr>addRemoteSigned := Some True\<rparr> else h)"

definition markOfferedAddsRemoteSigned :: "IChannelState \<Rightarrow> IChannelState" where
  "markOfferedAddsRemoteSigned s = s\<lparr>htlcs := map mark_signed (htlcs s)\<rparr>"

text \<open>The updates of the peer this signature covers become signable; \<open>owes_commitment\<close> says which of them we owe one for.\<close>

definition revoke_entry :: "IHtlcEntry \<Rightarrow> IHtlcEntry" where
  "revoke_entry h =
     (let h = (if is_false (addLocallyRevoked h) then h\<lparr>addLocallyRevoked := Some True\<rparr> else h)
      in if is_false (removalLocallyRevoked h) \<and> (entry_state h = FULFILLED \<or> entry_state h = FAILED)
         then h\<lparr>removalLocallyRevoked := Some True\<rparr> else h)"

definition owes_commitment :: "IHtlcEntry \<Rightarrow> bool" where
  "owes_commitment h \<longleftrightarrow>
     (is_false (addLocallyRevoked h) \<and> (entry_state h = PENDING \<or> entry_state h = COMMITTED)) \<or>
     (is_false (removalLocallyRevoked h) \<and> (entry_state h = FULFILLED \<or> entry_state h = FAILED))"

definition signable_fee :: "IChannelState \<Rightarrow> IChannelState" where
  "signable_fee s =
     (if pendingFeeratePerKw s \<noteq> None \<and> role s = ACCEPTOR \<and> pendingFeerateSignable s \<noteq> Some True
      then s\<lparr>pendingFeerateSignable := Some True, needsCommitment := True\<rparr> else s)"

definition signable_height :: "IChannelState \<Rightarrow> IChannelState" where
  "signable_height s =
     (if pendingLeaseBlockheight s \<noteq> None \<and> role s = ACCEPTOR \<and> pendingLeaseBlockheightSignable s \<noteq> Some True
      then s\<lparr>pendingLeaseBlockheightSignable := Some True, needsCommitment := True\<rparr> else s)"

text \<open>What the verified signature writes before our old commitment is revoked.\<close>

definition store_signature :: "bytes \<Rightarrow> bytes list \<Rightarrow> IChannelState \<Rightarrow> IChannelState" where
  "store_signature signature htlcSignatures s =
     (let s = s\<lparr>remoteCommitmentSignature := Some signature, remoteHtlcSignatures := htlcSignatures\<rparr>
      in s\<lparr>lastSignedCommitFeeratePerKw := Some (getLocalCommitmentFeeRate s False),
           lastSignedCommitLeaseBlockheight := getLocalCommitmentLeaseBlockheight s False,
           awaitingLocalFeeCommitment := False\<rparr>)"

definition revoke_entries :: "IChannelState \<Rightarrow> IChannelState" where
  "revoke_entries s =
     s\<lparr>htlcs := map revoke_entry (htlcs s), needsCommitment := (needsCommitment s \<or> list_ex owes_commitment (htlcs s))\<rparr>"

definition adopt_signature :: "bytes \<Rightarrow> bytes list \<Rightarrow> IChannelState \<Rightarrow> IChannelState" where
  "adopt_signature signature htlcSignatures s =
     (let s = markOfferedAddsRemoteSigned (store_signature signature htlcSignatures s)
      in revoke_entries (signable_height (signable_fee (s\<lparr>signedLocalRemovals := None\<rparr>))))"

definition maybeAnswerOwed :: "chan \<Rightarrow> chan \<times> ChannelAction list" where
  "maybeAnswerOwed c =
     (case maybeAnswerOwedStfu (quiescenceAdmitsState (ch_state c)) (hasPendingHtlcs (ch_state c)) (ch_endpoint c) of
        (ep1, sent, _) \<Rightarrow>
          (c\<lparr>ch_endpoint := ep1\<rparr>, concat (map (\<lambda>i. [PERSIST_STATE, SEND_MESSAGE (STFU i)]) sent)))"

text \<open>The revocation of our current commitment, after its successor was verified and adopted.\<close>

definition revokeAndAdvance :: "ecc \<Rightarrow> btc \<Rightarrow> chan \<Rightarrow> outcome" where
  "revokeAndAdvance e lib c =
     (let seed = localPerCommitmentSeed (ch_state c); number = localCommitmentNumber (ch_state c) in
      attempt (getPerCommitmentSecret lib seed number) c (\<lambda>currentSecret.
      let c = on_state (\<lambda>s. s\<lparr>localCommitmentNumber := number + 1, restoreRevokedRisk := False\<rparr>) c in
      attempt (getPerCommitmentPoint e lib seed (number + 2)) c (\<lambda>nextPoint.
      let c = on_state (\<lambda>s. s\<lparr>lastSentRevokeSecret := Some currentSecret, lastSentRevokeNextPoint := Some nextPoint,
                lastSentWasRevoke := Some True, htlcs := map commit_pending (htlcs s)\<rparr>) c in
      case channelId (ch_state c) of
        None \<Rightarrow> (c, Inl (Error ''null channelId'' []))
      | Some cid \<Rightarrow>
          (let revokeMsg = \<lparr>raa_channelId = cid, raa_perCommitmentSecret = currentSecret,
                 raa_nextPerCommitmentPoint = nextPoint, raa_nextLocalNonce = None\<rparr>
           in attempt (encodeRevokeAndAckMessage revokeMsg) c (\<lambda>_.
              case maybeAnswerOwed c of (c, stfu) \<Rightarrow>
                (c, Inr ([PERSIST_STATE, SEND_MESSAGE (REVOKE_AND_ACK revokeMsg)] @ stfu)))))))"

text \<open>The rounds that are not modelled.\<close>

record other_rounds =
  or_splice :: "chan \<Rightarrow> ICommitmentSignedMessage \<Rightarrow> outcome"
  or_dualFunding :: "chan \<Rightarrow> ICommitmentSignedMessage \<Rightarrow> outcome"
  or_taproot :: "chan \<Rightarrow> ICommitmentSignedMessage \<Rightarrow> outcome"
  or_taprootHtlcSignatures :: "IChannelState \<Rightarrow> bytes \<Rightarrow> bytes list \<Rightarrow> int \<Rightarrow> bool res"

text \<open>The verification of an ECDSA commitment signature and what follows from it.\<close>

definition verifyAndRevoke :: "ecc \<Rightarrow> btc \<Rightarrow> txlib \<Rightarrow> chan \<Rightarrow> ICommitmentSignedMessage \<Rightarrow> outcome" where
  "verifyAndRevoke e lib txl c msg =
     (let s = ch_state c; number = localCommitmentNumber s + 1 in
      case (ch_signer c, remoteBasepoints s) of
        (Some signer, Some _) \<Rightarrow>
          attempt (getPerCommitmentPoint e lib (localPerCommitmentSeed s) number) c (\<lambda>point.
          attempt (verifyRemoteCommitmentSig e lib s signer point (csg_signature msg) (Some number)) c (\<lambda>valid.
          if \<not> valid
          then fail_with c ''Invalid commitment signature on channel'' [localCommitmentNumber s, int (length (htlcs s))]
          else attempt (verifyRemoteHtlcSignatures e lib txl s point (csg_htlcSignatures msg) None) c (\<lambda>htlcSigsValid.
          if \<not> htlcSigsValid then fail_with c ''Invalid HTLC signature'' []
          else revokeAndAdvance e lib
                 (on_state (adopt_signature (csg_signature msg) (csg_htlcSignatures msg)) c))))
      | _ \<Rightarrow> refuse c ''Cannot verify commitment signature: no signer or remote basepoints'' [])"

text \<open>\<^verbatim>\<open>handleCommitmentSigned\<close> for a message that is not collected into a batch.\<close>

definition handleLoneCommitmentSigned ::
  "ecc \<Rightarrow> btc \<Rightarrow> txlib \<Rightarrow> other_rounds \<Rightarrow> chan \<Rightarrow> ICommitmentSignedMessage \<Rightarrow> outcome" where
  "handleLoneCommitmentSigned e lib txl other c msg =
     (let s = ch_state c; next = localCommitmentNumber s + 1 in
      if chState s = SPLICING \<and> ch_spliceSession c \<noteq> None then
        (if isSplicePendingLock s
         then refuse c ''commitment_signed during a pending splice must be a start_batch'' []
         else or_splice other c msg)
      else if chState s = AWAITING_TX_SIGNATURES \<and> ch_hasDualFundingSession c then or_dualFunding other c msg
      else if chState s \<noteq> ChannelState.NORMAL \<and> chState s \<noteq> SHUTTING_DOWN
      then refuse c ''Unexpected commitment_signed'' []
      else attempt (getPerCommitmentPoint e lib (localPerCommitmentSeed s) next) c (\<lambda>point.
        case funderOutputTrimmedRefusal e lib s True point next of
          Some (m, n) \<Rightarrow> fail_with c m n
        | None \<Rightarrow>
            (if isTaprootChannel (channelType s) then or_taproot other c msg
             else verifyAndRevoke e lib txl c msg)))"

subsection \<open>A batch, one signature per funding output\<close>

definition handleStartBatch :: "chan \<Rightarrow> IStartBatchMessage \<Rightarrow> outcome" where
  "handleStartBatch c msg =
     (let s = ch_state c;
          postSpliceNormal = (chState s = ChannelState.NORMAL \<and> spliceFundingTxid s \<noteq> None \<and> fundingTxid s \<noteq> None \<and>
            spliceFundingTxid s = fundingTxid s)
      in if \<not> isSplicePendingLock s \<and> \<not> postSpliceNormal
         then refuse c ''Unexpected start_batch: no fully-signed pending splice'' []
         else if sbt_messageType msg \<noteq> None \<and> sbt_messageType msg \<noteq> Some 132
         then refuse c ''Unsupported start_batch message_type'' [the (sbt_messageType msg)]
         else if sbt_batchSize msg \<noteq> 2 then refuse c ''Unsupported start_batch size'' [sbt_batchSize msg]
         else (c\<lparr>ch_pendingBatch := Some (sbt_batchSize msg, [])\<rparr>, Inr []))"

definition namesCurrent :: "IChannelState \<Rightarrow> ICommitmentSignedMessage \<Rightarrow> bool" where
  "namesCurrent s msg = (case (csg_fundingTxid msg, fundingTxid s) of (Some t, Some cur) \<Rightarrow> t = cur | _ \<Rightarrow> False)"

text \<open>The members of the batch by funding output, or the text of the refusal.\<close>

type_synonym batch_pair = "ICommitmentSignedMessage option \<times> ICommitmentSignedMessage option"

fun sortBatch ::
  "IChannelState \<Rightarrow> ISpliceInFlight \<Rightarrow> ICommitmentSignedMessage list \<Rightarrow> batch_pair \<Rightarrow> string + batch_pair" where
  "sortBatch s inFlight [] found = Inr found"
| "sortBatch s inFlight (m # ms) (cur, spl) =
     (if csg_fundingTxid m = Some (sif_spliceTxid inFlight) then
        (if spl \<noteq> None then Inl ''Commitment batch has two splice-funding commitments''
         else sortBatch s inFlight ms (cur, Some m))
      else if csg_fundingTxid m = None \<or> namesCurrent s m then
        (if cur \<noteq> None then Inl ''Commitment batch has two current-funding commitments''
         else sortBatch s inFlight ms (Some m, spl))
      else Inl ''Commitment batch funding_txid unknown'')"

definition is_error :: "ChannelAction \<Rightarrow> bool" where
  "is_error a = (case a of ERROR _ \<Rightarrow> True | _ \<Rightarrow> False)"

text \<open>The end of a negotiation leaves quiescence on a channel that may update during the splice.\<close>

definition syncSpliceInFlight :: "(ISpliceInFlight \<Rightarrow> ISpliceInFlight) \<Rightarrow> chan \<Rightarrow> chan" where
  "syncSpliceInFlight changes c =
     (let c = on_state (\<lambda>s. s\<lparr>spliceInFlight := map_option changes (spliceInFlight s)\<rparr>) c;
          ep1 = ch_endpoint c
      in if isSplicePendingLock (ch_state c) \<and> isQuiescent (mgr ep1) \<and> \<not> isTaprootChannel (channelType (ch_state c))
         then c\<lparr>ch_endpoint := ep1\<lparr>mgr := snd (exitQuiescence (mgr ep1))\<rparr>\<rparr> else c)"

definition adopt_splice_signature :: "ICommitmentSignedMessage \<Rightarrow> int \<Rightarrow> chan \<Rightarrow> chan" where
  "adopt_splice_signature m rate c =
     (let c = c\<lparr>ch_spliceRemoteCommitmentSig := Some (csg_signature m), ch_spliceRemoteHtlcSigs := csg_htlcSignatures m\<rparr>
      in syncSpliceInFlight (\<lambda>f. f\<lparr>sif_remoteCommitmentSig := Some (csg_signature m),
           sif_remoteCommitmentSigFeeratePerKw := Some rate,
           sif_remoteCommitmentSigLeaseBlockheight := getLocalCommitmentLeaseBlockheight (ch_state c) False,
           sif_remoteHtlcSignatures := csg_htlcSignatures m\<rparr>) c)"

text \<open>
  Both signatures are checked before the standard path revokes. The state reads NORMAL while that path runs and
  SPLICING after it, whether it returns or throws.
\<close>

definition handleVerifiedBatch ::
  "(chan \<Rightarrow> ICommitmentSignedMessage \<Rightarrow> outcome) \<Rightarrow> chan \<Rightarrow> IChannelState \<Rightarrow> ICommitmentSignedMessage \<Rightarrow>
     ICommitmentSignedMessage \<Rightarrow> outcome" where
  "handleVerifiedBatch handle c spliced currentMsg spliceMsg =
     (let rate = getLocalCommitmentFeeRate spliced False in
      case handle (on_state (\<lambda>s. s\<lparr>chState := ChannelState.NORMAL\<rparr>) c) currentMsg of (c, r) \<Rightarrow>
      let c = on_state (\<lambda>s. s\<lparr>chState := SPLICING\<rparr>) c
      in attempt r c (\<lambda>actions.
           if list_ex is_error actions then (c, Inr actions)
           else (adopt_splice_signature spliceMsg rate c, Inr actions)))"

definition handleCommitmentSignedBatch ::
  "ecc \<Rightarrow> btc \<Rightarrow> txlib \<Rightarrow> other_rounds \<Rightarrow> chan \<Rightarrow> ICommitmentSignedMessage list \<Rightarrow> outcome" where
  "handleCommitmentSignedBatch e lib txl other c msgs =
     (let s = ch_state c in
      case spliceInFlight s of
        None \<Rightarrow>
          (case find (namesCurrent s) msgs of
             None \<Rightarrow> refuse c ''Commitment batch without a pending splice or a current-funding commitment'' []
           | Some current \<Rightarrow> handleLoneCommitmentSigned e lib txl other c current)
      | Some inFlight \<Rightarrow>
          (case sortBatch s inFlight msgs (None, None) of
             Inl text \<Rightarrow> refuse c text []
           | Inr (None, _) \<Rightarrow> refuse c ''Commitment batch missing the current-funding commitment'' []
           | Inr (Some _, None) \<Rightarrow> refuse c ''Commitment batch missing the splice-funding commitment'' []
           | Inr (Some currentMsg, Some spliceMsg) \<Rightarrow>
          (case (ch_signer c, remoteBasepoints s) of
             (Some signer, Some _) \<Rightarrow>
          (case splicedState txl c s of
             None \<Rightarrow> refuse c ''Commitment batch: cannot rebuild spliced state'' []
           | Some spliced \<Rightarrow>
               let nextNum = localCommitmentNumber s + 1 in
               attempt (getPerCommitmentPoint e lib (localPerCommitmentSeed s) nextNum) c (\<lambda>ourPoint.
               case funderOutputTrimmedRefusal e lib spliced True ourPoint nextNum of
                 Some (m, n) \<Rightarrow> fail_with c m n
               | None \<Rightarrow>
                   attempt (verifyRemoteCommitmentSig e lib spliced signer ourPoint (csg_signature spliceMsg) (Some nextNum)) c
                     (\<lambda>valid.
                   if \<not> valid then refuse c ''Invalid batched splice commitment signature'' []
                   else attempt (if isTaprootChannel (channelType s)
                           then or_taprootHtlcSignatures other spliced ourPoint (csg_htlcSignatures spliceMsg) nextNum
                           else verifyRemoteHtlcSignatures e lib txl spliced ourPoint (csg_htlcSignatures spliceMsg)
                             (Some nextNum)) c (\<lambda>htlcSigsValid.
                   if \<not> htlcSigsValid then refuse c ''Invalid HTLC signature in a pending-lock batch'' []
                   else handleVerifiedBatch (handleLoneCommitmentSigned e lib txl other) c spliced currentMsg spliceMsg))))
           | _ \<Rightarrow> refuse c ''Commitment batch: no signer or remote basepoints'' [])))"

definition handleCommitmentSigned ::
  "ecc \<Rightarrow> btc \<Rightarrow> txlib \<Rightarrow> other_rounds \<Rightarrow> chan \<Rightarrow> ICommitmentSignedMessage \<Rightarrow> outcome" where
  "handleCommitmentSigned e lib txl other c msg =
     (let s = ch_state c;
          spliceLive = (chState s = SPLICING \<and> ch_spliceSession c \<noteq> None)
      in
      if ch_spliceAbortIgnoreCommitment c \<and> \<not> spliceLive \<and> csg_fundingTxid msg \<noteq> None \<and> \<not> namesCurrent s msg
      then (c\<lparr>ch_pendingBatch := None\<rparr>, Inr [])
      else
        let c = c\<lparr>ch_spliceAbortIgnoreCommitment := False\<rparr> in
        case ch_pendingBatch c of
          Some (sz, msgs) \<Rightarrow>
            (if int (length (msgs @ [msg])) < sz
             then (c\<lparr>ch_pendingBatch := Some (sz, msgs @ [msg])\<rparr>, Inr [])
             else handleCommitmentSignedBatch e lib txl other
                    (c\<lparr>ch_pendingBatch := None\<rparr>) (msgs @ [msg]))
        | None \<Rightarrow> handleLoneCommitmentSigned e lib txl other c msg)"

subsection \<open>A revocation from the peer\<close>

definition promote_entry :: "IHtlcEntry \<Rightarrow> IHtlcEntry" where
  "promote_entry h =
     (let h = (if commitCoverPending h = Some True then
            (if entry_state h = PENDING \<or> entry_state h = COMMITTED
             then h\<lparr>commitCoverPending := Some False, addRemoteCommitted := Some True\<rparr>
             else h\<lparr>commitCoverPending := Some False, removalRemoteCommitted := Some True\<rparr>)
          else h)
      in if addCoverPending h = Some True
         then h\<lparr>addCoverPending := Some False, addRemotelyRevoked := Some True\<rparr> else h)"

definition retainSignedLocalRemoval :: "IHtlcEntry \<Rightarrow> IChannelState \<Rightarrow> IChannelState" where
  "retainSignedLocalRemoval entry s =
     (if is_false (addLocallyRevoked entry) then s
      else s\<lparr>signedLocalRemovals :=
        Some ((case signedLocalRemovals s of None \<Rightarrow> [] | Some r \<Rightarrow> r) @ [entry])\<rparr>)"

definition delete_entry :: "IHtlcEntry \<Rightarrow> IChannelState \<Rightarrow> IChannelState" where
  "delete_entry entry s =
     s\<lparr>htlcs := List.filter (\<lambda>h. \<not> keyed_as (direction entry) (entry_id entry) h) (htlcs s)\<rparr>"

definition settle_entry :: "IHtlcEntry \<Rightarrow> IChannelState \<Rightarrow> IChannelState" where
  "settle_entry entry s =
     (if is_false (removalRemoteCommitted entry) then s
      else if entry_state entry = FULFILLED then
        delete_entry entry
          (if direction entry = RECEIVED
           then retainSignedLocalRemoval entry (s\<lparr>localBalanceMsat := localBalanceMsat s + amountMsat entry\<rparr>)
           else s\<lparr>remoteBalanceMsat := remoteBalanceMsat s + amountMsat entry\<rparr>)
      else if entry_state entry = FAILED then
        delete_entry entry
          (if direction entry = RECEIVED
           then retainSignedLocalRemoval entry (s\<lparr>remoteBalanceMsat := remoteBalanceMsat s + amountMsat entry\<rparr>)
           else s\<lparr>localBalanceMsat := localBalanceMsat s + amountMsat entry\<rparr>)
      else s)"

definition promote_fee :: "IChannelState \<Rightarrow> IChannelState" where
  "promote_fee s =
     (case pendingFeeratePerKw s of
        None \<Rightarrow> s
      | Some rate \<Rightarrow>
          (if pendingFeerateCommitted s = Some True then
             (if role s = OPENER
              then s\<lparr>localConfig := (localConfig s)\<lparr>feeratePerKw := rate\<rparr>, awaitingLocalFeeCommitment := True\<rparr>
              else s\<lparr>remoteConfig := (remoteConfig s)\<lparr>feeratePerKw := rate\<rparr>\<rparr>)
             \<lparr>pendingFeeratePerKw := None, pendingFeerateSignable := Some False, pendingFeerateCommitted := Some False\<rparr>
           else s))"

definition promote_height :: "IChannelState \<Rightarrow> IChannelState" where
  "promote_height s =
     (case pendingLeaseBlockheight s of
        None \<Rightarrow> s
      | Some height \<Rightarrow>
          (if pendingLeaseBlockheightCommitted s = Some True then
             (promoteLeaseBlockheight height s)
             \<lparr>pendingLeaseBlockheight := None, pendingLeaseBlockheightSignable := Some False,
              pendingLeaseBlockheightCommitted := Some False\<rparr>
           else s))"

definition needs_dispatch :: "IHtlcEntry \<Rightarrow> bool" where
  "needs_dispatch h \<longleftrightarrow> direction h = RECEIVED \<and> receivedAddIrrevocablyCommitted h \<and> forwardEmitted h \<noteq> Some True \<and>
     fforVoucher h \<noteq> Some True \<and> fforMismatch h \<noteq> Some True"

definition dispatch_entry :: "IHtlcEntry \<Rightarrow> IHtlcEntry" where
  "dispatch_entry h = (if needs_dispatch h then h\<lparr>forwardEmitted := Some True\<rparr> else h)"

definition dispatch_actions :: "IHtlcEntry list \<Rightarrow> ChannelAction list" where
  "dispatch_actions hs =
     map (\<lambda>h. HTLC_FORWARDED (entry_id h) (amountMsat h) (paymentHash h)) (List.filter needs_dispatch hs)"

text \<open>Everything the accepted revocation commits, from the queue of unacknowledged updates to the dispatch flags.\<close>

definition drop_acked :: "IChannelState \<Rightarrow> IChannelState" where
  "drop_acked s =
     (if pendingLocalUpdatesSignedCount s > 0
      then s\<lparr>pendingLocalUpdates := drop (pendingLocalUpdatesSignedCount s) (pendingLocalUpdates s),
             pendingLocalUpdatesSignedCount := 0\<rparr>
      else s)"

definition settle_all :: "IChannelState \<Rightarrow> IChannelState" where
  "settle_all s = fold settle_entry (htlcs s) s"

definition complete_round :: "IChannelState \<Rightarrow> IChannelState" where
  "complete_round s =
     promote_height (promote_fee (settle_all
       ((drop_acked s)\<lparr>htlcs := map promote_entry (htlcs s)\<rparr>)))"

text \<open>The counters and points after a stored secret, then the round it completes.\<close>

definition acceptRevocation :: "txlib \<Rightarrow> chan \<Rightarrow> IRevokeAndAckMessage \<Rightarrow> outcome" where
  "acceptRevocation txl c msg =
     (let taproot = isTaprootChannel (channelType (ch_state c));
          nonceOk = (case raa_nextLocalNonce msg of None \<Rightarrow> False | Some n \<Rightarrow> length n = 66);
          c = on_state (\<lambda>s. s\<lparr>remoteRevocationNumber := Some (remoteRevocationCountForRaa s + 1),
                remoteCurrentPerCommitmentPoint := remoteNextPerCommitmentPoint s\<rparr>) c in
      if \<not> isValidPublicKey txl (raa_nextPerCommitmentPoint msg)
      then fail_with c ''revoke_and_ack has an invalid next_per_commitment_point'' []
      else
        let c = on_state (\<lambda>s. s\<lparr>remoteNextPerCommitmentPoint := Some (raa_nextPerCommitmentPoint msg)\<rparr>) c
        in if taproot \<and> \<not> nonceOk
           then fail_with c ''Taproot revoke_and_ack missing a valid next_local_nonce'' []
           else
             let c = on_state (\<lambda>s. complete_round
                       (if taproot then s\<lparr>remoteNonce := raa_nextLocalNonce msg\<rparr> else s)) c;
                 htlcActions = dispatch_actions (htlcs (ch_state c));
                 c = on_state (\<lambda>s. s\<lparr>htlcs := map dispatch_entry (htlcs s)\<rparr>) c
             in case maybeAnswerOwed c of (c, stfu) \<Rightarrow> (c, Inr ([PERSIST_STATE] @ htlcActions @ stfu)))"

definition handleRevokeAndAck :: "ecc \<Rightarrow> btc \<Rightarrow> txlib \<Rightarrow> chan \<Rightarrow> IRevokeAndAckMessage \<Rightarrow> outcome" where
  "handleRevokeAndAck e lib txl c msg =
     (let s = ch_state c in
      if chState s \<noteq> ChannelState.NORMAL \<and> chState s \<noteq> SHUTTING_DOWN \<and> \<not> isSplicePendingLock s
      then refuse c ''Unexpected revoke_and_ack'' []
      else
        let c = c\<lparr>ch_lastSentBatch := None\<rparr>;
            revealed = (case remoteCurrentPerCommitmentPoint s of
                None \<Rightarrow> Inr True
              | Some current \<Rightarrow>
                  rbind (perCommitmentPointFromSecret e (raa_perCommitmentSecret msg)) (\<lambda>p. Inr (p = current)))
        in attempt revealed c (\<lambda>matches.
        if \<not> matches
        then fail_with c ''revoke_and_ack secret does not match committed per-commitment point'' []
        else
          let revocationCount = remoteRevocationCountForRaa s in
          if revocationCount \<ge> remoteCommitmentNumber s
          then refuse c ''Unexpected revoke_and_ack: no outstanding commitment'' []
          else attempt (addSecret (sha256 lib) (shaChainStore s) (MAX_INDEX - revocationCount)
                 (raa_perCommitmentSecret msg)) c (\<lambda>(chain, stored).
          let c = on_state (\<lambda>s. s\<lparr>shaChainStore := chain\<rparr>) c in
          if \<not> stored then fail_with c ''Invalid per-commitment secret'' []
          else acceptRevocation txl c msg)))"

subsection \<open>When the manager signs\<close>

text \<open>
  \<^verbatim>\<open>autoSignAndSendCommitment\<close> for a registered channel with a connected peer and nothing withheld: the
  actions it hands to the dispatcher, or the error it returns. The signature of a taproot channel comes
  from the musig session and is not modelled; the definition refuses such a channel.
\<close>

definition autoSignAndSendCommitment :: "ecc \<Rightarrow> btc \<Rightarrow> txlib \<Rightarrow> chan \<Rightarrow> chan \<times> (string + ChannelAction list) res" where
  "autoSignAndSendCommitment e lib txl c =
     (let s = ch_state c; number = remoteCommitmentNumber s + 1;
          result = (\<lambda>out. case out of (c, Inl err) \<Rightarrow> (c, Inl err) | (c, Inr actions) \<Rightarrow> (c, Inr (Inr actions))) in
      if \<not> needsCommitment s then (c, Inr (Inr []))
      else if isAwaitingRemoteRevocation s then (c, Inr (Inr []))
      else case ch_signer c of
        None \<Rightarrow> (c, Inr (Inl ''No signer available for channel''))
      | Some signer \<Rightarrow>
      (case nextRemotePoint s of
        None \<Rightarrow> (c, Inr (Inl ''No remote per-commitment point''))
      | Some point \<Rightarrow>
          if isTaprootChannel (channelType s) then (c, Inr (Inl ''taproot channel''))
          else (case signRemoteCommitment e lib txl s signer point (Some number) of
            Inl err \<Rightarrow> (c, Inl err)
          | Inr (signature, htlcSignatures) \<Rightarrow>
              (if isSplicePendingLock s then
                 (case splicedState txl c s of
                    None \<Rightarrow> (c, Inr (Inl ''Pending splice: spliced state unavailable for batch signing''))
                  | Some spliced \<Rightarrow>
                      (case signRemoteCommitment e lib txl spliced signer point (Some number) of
                         Inl err \<Rightarrow> (c, Inl err)
                       | Inr batch \<Rightarrow> result (signCommitment e lib txl c signature htlcSignatures None (Some batch))))
               else result (signCommitment e lib txl c signature htlcSignatures None None)))))"

end
