(* ===== verification/ChannelMachine.thy ===== *)
theory ChannelMachine
  imports CommitmentRounds
begin

text \<open>
  A channel as a machine: \<open>channel_do\<close> runs one operation or handler on it, whatever its arguments and whatever
  the peer sends. The abstract machine \<open>state_step\<close> has one transition per effect the handlers have on the
  channel state, with the guards that matter; every handler is a sequence of such transitions, so an
  invariant of the transitions is one of the code.
\<close>

section \<open>Definitions\<close>

datatype channel_event =
  Offer int bytes int bytes "bytes option" "int option"
  | Fulfill int bytes
  | Fail int bytes HtlcDirection
  | FailMalformed int bytes int
  | ChangeFee int
  | Sign
  | Receive channel_msg
  | NewBlock int
  | Quiesce

text \<open>
  The stfu handlers of the endpoint with the tests of this channel: a local initiation needs the NORMAL state,
  and its errors carry a code; a peer's stfu that is latched because updates are pending is persisted.
\<close>

definition quiesce :: "chan \<Rightarrow> outcome" where
  "quiesce c =
     (let normal = (chState (ch_state c) = ChannelState.NORMAL); pending = hasPendingHtlcs (ch_state c);
          code = (if normal \<and> pending then BUSY else WRONG_STATE)
      in case initiateQuiescence normal None pending (ch_endpoint c) of (ep1, sent, errors) \<Rightarrow>
        (c\<lparr>ch_endpoint := ep1\<rparr>,
         Inr (map (\<lambda>i. SEND_MESSAGE (STFU i)) sent @ map (\<lambda>t. error_action (t, []) (Some code)) errors)))"

definition handleStfu :: "chan \<Rightarrow> bool \<Rightarrow> outcome" where
  "handleStfu c peerInitiator =
     (case handleStfuMessage (quiescenceAdmitsState (ch_state c)) None (hasPendingHtlcs (ch_state c)) peerInitiator (ch_endpoint c) of
        (ep1, sent, errors) \<Rightarrow>
        (let latched = (qstate (mgr (ch_endpoint c)) = QuiescenceState.NORMAL \<and> qstate (mgr ep1) = RECEIVED_STFU)
         in (c\<lparr>ch_endpoint := ep1\<rparr>,
             Inr ((if latched then [PERSIST_STATE] else []) @ map (\<lambda>i. SEND_MESSAGE (STFU i)) sent
               @ map (\<lambda>t. error_action (t, []) None) errors))))"

text \<open>
  An error message of the peer fails the channel it names, or every channel of the peer when it names none. The
  attempts of a dual-funded open, which \<^verbatim>\<open>markErrored\<close> also repairs, are not part of this channel.
\<close>

definition markErrored :: "chan \<Rightarrow> bool \<times> chan" where
  "markErrored c =
     (if chState (ch_state c) = CLOSED \<or> chState (ch_state c) = FORCE_CLOSED \<or> chState (ch_state c) = ERRORED then (False, c)
      else (True, (on_state (\<lambda>s. s\<lparr>chState := ERRORED\<rparr>) c)
        \<lparr>ch_endpoint := (ch_endpoint c)\<lparr>mgr := reset (mgr (ch_endpoint c)), stfuReplyOwed := False\<rparr>,
         ch_spliceSession := None, ch_spliceTx := None, ch_spliceRemoteCommitmentSig := None,
         ch_spliceRemoteHtlcSigs := [], ch_pendingBatch := None, ch_lastSentBatch := None\<rparr>))"

definition handleErrorMsg :: "chan \<Rightarrow> bytes \<Rightarrow> outcome" where
  "handleErrorMsg c cid =
     (let s = ch_state c; connectionWide = list_all (\<lambda>b. b = 0) cid
      in if connectionWide \<or> channelId s = Some cid \<or> temporaryChannelId s = cid then (snd (markErrored c), Inr [])
         else (c, Inr []))"

fun channel_do :: "ecc \<Rightarrow> btc \<Rightarrow> txlib \<Rightarrow> other_rounds \<Rightarrow> channel_event \<Rightarrow> chan \<Rightarrow> outcome" where
  "channel_do e lib txl other (Offer amount hash expiry onion blinding skimmed) c =
     addHtlc e lib txl c amount hash expiry onion blinding skimmed"
| "channel_do e lib txl other (Fulfill i preimage) c = fulfillHtlc lib c i preimage"
| "channel_do e lib txl other (Fail i reason d) c = failHtlc c i reason d"
| "channel_do e lib txl other (FailMalformed i onionHash code) c = failMalformedHtlc c i onionHash code"
| "channel_do e lib txl other (ChangeFee rate) c = updateFee e lib txl c rate"
| "channel_do e lib txl other Sign c =
     (case autoSignAndSendCommitment e lib txl c of
        (c', Inl err) \<Rightarrow> (c', Inl err)
      | (c', Inr (Inl text)) \<Rightarrow> (c', Inr [])
      | (c', Inr (Inr actions)) \<Rightarrow> (c', Inr actions))"
| "channel_do e lib txl other (NewBlock height) c = (c\<lparr>ch_currentBlockHeight := height\<rparr>, Inr [])"
| "channel_do e lib txl other Quiesce c = quiesce c"
| "channel_do e lib txl other (Receive (UPDATE_ADD_HTLC m)) c = handleUpdateAddHtlc e lib txl c m"
| "channel_do e lib txl other (Receive (UPDATE_FULFILL_HTLC m)) c = handleUpdateFulfillHtlc lib c m"
| "channel_do e lib txl other (Receive (UPDATE_FAIL_HTLC m)) c = handleUpdateFailHtlc c m"
| "channel_do e lib txl other (Receive (UPDATE_FAIL_MALFORMED_HTLC m)) c = handleUpdateFailMalformedHtlc c m"
| "channel_do e lib txl other (Receive (UPDATE_FEE m)) c = handleUpdateFee e lib txl c m"
| "channel_do e lib txl other (Receive (UPDATE_BLOCKHEIGHT m)) c = handleUpdateBlockheight c m"
| "channel_do e lib txl other (Receive (COMMITMENT_SIGNED m)) c = handleCommitmentSigned e lib txl other c m"
| "channel_do e lib txl other (Receive (REVOKE_AND_ACK m)) c = handleRevokeAndAck e lib txl c m"
| "channel_do e lib txl other (Receive (START_BATCH m)) c = handleStartBatch c m"
| "channel_do e lib txl other (Receive (STFU i)) c = handleStfu c i"
| "channel_do e lib txl other (Receive (WIRE_ERROR cid text)) c = handleErrorMsg c cid"

text \<open>A run: the channel after the events, newest last, and the outcome of each.\<close>

fun channel_run :: "ecc \<Rightarrow> btc \<Rightarrow> txlib \<Rightarrow> other_rounds \<Rightarrow> channel_event list \<Rightarrow> chan \<Rightarrow> chan \<times> ChannelAction list res list" where
  "channel_run e lib txl other [] c = (c, [])"
| "channel_run e lib txl other (ev # evs) c =
     (case channel_do e lib txl other ev c of (c', r) \<Rightarrow>
      case channel_run e lib txl other evs c' of (c'', rs) \<Rightarrow> (c'', r # rs))"

subsection \<open>The abstract machine\<close>

definition entry_live :: "IHtlcEntry \<Rightarrow> bool" where
  "entry_live h \<longleftrightarrow> entry_state h = PENDING \<or> entry_state h = COMMITTED"

definition offer_entry :: "IHtlcEntry \<Rightarrow> IChannelState \<Rightarrow> IChannelState" where
  "offer_entry h s = s\<lparr>localHtlcCounter := localHtlcCounter s + 1, htlcs := htlc_set h (htlcs s),
     localBalanceMsat := localBalanceMsat s - amountMsat h, needsCommitment := True\<rparr>"

definition receive_entry :: "IHtlcEntry \<Rightarrow> IChannelState \<Rightarrow> IChannelState" where
  "receive_entry h s = s\<lparr>htlcs := htlc_set h (htlcs s), remoteBalanceMsat := remoteBalanceMsat s - amountMsat h\<rparr>"

definition mark_received :: "int \<Rightarrow> HtlcState \<Rightarrow> IChannelState \<Rightarrow> IChannelState" where
  "mark_received i outcome s =
     (on_entry RECEIVED i (\<lambda>h. h\<lparr>entry_state := outcome, removalRemoteCommitted := Some False\<rparr>) s)
       \<lparr>needsCommitment := True\<rparr>"

definition mark_offered :: "int \<Rightarrow> HtlcState \<Rightarrow> IChannelState \<Rightarrow> IChannelState" where
  "mark_offered i outcome s =
     on_entry OFFERED i (\<lambda>h. h\<lparr>entry_state := outcome, removalRemoteCommitted := Some False,
       removalLocallyRevoked := Some False\<rparr>) s"

definition accept_revocation :: "ShaChainStore \<Rightarrow> IChannelState \<Rightarrow> IChannelState" where
  "accept_revocation chain s = s\<lparr>shaChainStore := chain,
     remoteRevocationNumber := Some (remoteRevocationCountForRaa s + 1),
     remoteCurrentPerCommitmentPoint := remoteNextPerCommitmentPoint s\<rparr>"

definition next_point :: "bytes \<Rightarrow> bytes option \<Rightarrow> IChannelState \<Rightarrow> IChannelState" where
  "next_point p nonce s = s\<lparr>remoteNextPerCommitmentPoint := Some p, remoteNonce := nonce\<rparr>"

definition dispatch_all :: "IChannelState \<Rightarrow> IChannelState" where
  "dispatch_all s = s\<lparr>htlcs := map dispatch_entry (htlcs s)\<rparr>"

text \<open>The secret a revoke_and_ack reveals: its point is the one we signed for, and the store takes it.\<close>

definition revocation_ok :: "ecc \<Rightarrow> btc \<Rightarrow> IChannelState \<Rightarrow> bytes \<Rightarrow> ShaChainStore \<Rightarrow> bool" where
  "revocation_ok e lib s secret chain \<longleftrightarrow>
     (case remoteCurrentPerCommitmentPoint s of None \<Rightarrow> True | Some p \<Rightarrow> perCommitmentPointFromSecret e secret = Inr p) \<and>
     remoteRevocationCountForRaa s < remoteCommitmentNumber s \<and>
     addSecret (sha256 lib) (shaChainStore s) (MAX_INDEX - remoteRevocationCountForRaa s) secret = Inr (chain, True)"

text \<open>
  A signature of the peer that verifies on our next commitment, and the step to that commitment. The mode
  of the machine is \<open>None\<close> for a channel with any signer, or the signer of the channel; with a signer, only what a
  correct node and peer do is a transition.
\<close>

definition commitment_verified ::
  "ISigner option \<Rightarrow> ecc \<Rightarrow> btc \<Rightarrow> txlib \<Rightarrow> IChannelState \<Rightarrow> bytes \<Rightarrow> bytes list \<Rightarrow> bool" where
  "commitment_verified mode e lib txl s sig hsigs \<longleftrightarrow> (\<exists>signer point. (mode = None \<or> mode = Some signer) \<and>
     getPerCommitmentPoint e lib (localPerCommitmentSeed s) (localCommitmentNumber s + 1) = Inr point \<and>
     funderOutputTrimmedRefusal e lib s True point (localCommitmentNumber s + 1) = None \<and>
     verifyRemoteCommitmentSig e lib s signer point sig (Some (localCommitmentNumber s + 1)) = Inr True \<and>
     verifyRemoteHtlcSignatures e lib txl s point hsigs None = Inr True)"

definition advance :: "IChannelState \<Rightarrow> IChannelState" where
  "advance s = s\<lparr>localCommitmentNumber := localCommitmentNumber s + 1, restoreRevokedRisk := False\<rparr>"

definition splice_signed :: "IChannelState \<Rightarrow> bool option" where
  "splice_signed s = map_option (\<lambda>f. sentTxSignatures f \<and> receivedTxSignatures f) (spliceInFlight s)"

inductive state_step :: "ISigner option \<Rightarrow> ecc \<Rightarrow> btc \<Rightarrow> txlib \<Rightarrow> IChannelState \<Rightarrow> IChannelState \<Rightarrow> bool"
  for mode :: "ISigner option" and e :: ecc and lib :: btc and txl :: txlib where
  step_fail: "state_step mode e lib txl s ((ensureRecoveryCloseDisposition s)\<lparr>chState := ERRORED\<rparr>)"
| step_relabel: "x = ChannelState.NORMAL \<or> x = ERRORED \<or> x = SPLICING \<and> splice_signed s \<noteq> None \<Longrightarrow> state_step mode e lib txl s (s\<lparr>chState := x\<rparr>)"
| step_queue: "state_step mode e lib txl s (s\<lparr>pendingLocalUpdates := pendingLocalUpdates s @ [u]\<rparr>)"
| step_offer: "h = offered_entry (localHtlcCounter s) amount hash expiry onion blinding \<Longrightarrow> 0 < amount \<Longrightarrow>
    amount \<le> getSpendableOutboundMsat txl c \<Longrightarrow> ch_state c = s \<Longrightarrow> state_step mode e lib txl s (offer_entry h s)"
| step_receive: "direction h = RECEIVED \<Longrightarrow> entry_state h = PENDING \<Longrightarrow> removalRemoteCommitted h = None \<Longrightarrow>
    addRemoteCommitted h = None \<Longrightarrow> commitCoverPending h = None \<Longrightarrow> addLocallyRevoked h = Some False \<Longrightarrow> addRemotelyRevoked h = Some False \<Longrightarrow> forwardEmitted h = None \<Longrightarrow>
    htlc_get RECEIVED (entry_id h) (htlcs s) = None \<Longrightarrow> 0 < amountMsat h \<Longrightarrow>
    remoteRequiredMsat s (amountMsat h) \<le> remoteBalanceMsat s - amountMsat h \<Longrightarrow>
    state_step mode e lib txl s (receive_entry h s)"
| step_settle_received: "htlc_get RECEIVED i (htlcs s) = Some h \<Longrightarrow> entry_live h \<Longrightarrow>
    (mode \<noteq> None \<longrightarrow> outcome = FULFILLED \<longrightarrow> \<not> is_false (addLocallyRevoked h)) \<Longrightarrow>
    outcome = FAILED \<or> outcome = FULFILLED \<and> sha256 lib preimage = paymentHash h \<Longrightarrow>
    state_step mode e lib txl s (mark_received i outcome s)"
| step_settle_offered: "htlc_get OFFERED i (htlcs s) = Some h \<Longrightarrow> \<not> addNotYetCommitted h \<Longrightarrow>
    (mode \<noteq> None \<longrightarrow> entry_live h \<or> is_false (removalLocallyRevoked h)) \<Longrightarrow>
    outcome = FAILED \<or> outcome = FULFILLED \<and> sha256 lib preimage = paymentHash h \<Longrightarrow>
    state_step mode e lib txl s (mark_offered i outcome s)"
| step_own_fee: "role s = OPENER \<Longrightarrow> 253 \<le> rate \<Longrightarrow> rate \<le> 100000 \<Longrightarrow>
    \<not> (pendingFeeratePerKw s \<noteq> None \<and> pendingFeerateCommitted s = Some True) \<Longrightarrow>
    state_step mode e lib txl s ((stage_fee rate s)\<lparr>needsCommitment := True\<rparr>)"
| step_their_fee: "role s = ACCEPTOR \<Longrightarrow> 253 \<le> rate \<Longrightarrow> rate \<le> 100000 \<Longrightarrow>
    state_step mode e lib txl s (stage_fee rate (promote_signable_fee s))"
| step_height: "role s = ACCEPTOR \<Longrightarrow>
    state_step mode e lib txl s ((case pendingLeaseBlockheight s of
        Some h \<Rightarrow> (if pendingLeaseBlockheightSignable s = Some True then promoteLeaseBlockheight h s else s)
      | None \<Rightarrow> s)\<lparr>pendingLeaseBlockheight := Some height, pendingLeaseBlockheightSignable := Some False,
        pendingLeaseBlockheightCommitted := Some False\<rparr>)"
| step_sign: "\<not> isAwaitingRemoteRevocation s \<Longrightarrow> nextRemotePoint s = Some point \<Longrightarrow>
    funderOutputTrimmedRefusal e lib s False point (remoteCommitmentNumber s + 1) = None \<Longrightarrow>
    signRemoteCommitment e lib txl s signer point (Some (remoteCommitmentNumber s + 1)) = Inr (sig, hsigs) \<Longrightarrow>
    state_step mode e lib txl s (record_signed e lib sig hsigs None spliced s)"
| step_adopt: "commitment_verified mode e lib txl s sig hsigs \<Longrightarrow>
    getPerCommitmentSecret lib (localPerCommitmentSeed s) (localCommitmentNumber s) = Inl err \<Longrightarrow>
    state_step mode e lib txl s (adopt_signature sig hsigs s)"
| step_adopt_advance: "commitment_verified mode e lib txl s sig hsigs \<Longrightarrow>
    getPerCommitmentSecret lib (localPerCommitmentSeed s) (localCommitmentNumber s) = Inr secret \<Longrightarrow>
    state_step mode e lib txl s (advance (adopt_signature sig hsigs s))"
| step_commit: "state_step mode e lib txl s (s\<lparr>lastSentRevokeSecret := a, lastSentRevokeNextPoint := b,
      lastSentWasRevoke := Some True, htlcs := map commit_pending (htlcs s)\<rparr>)"
| step_revoked_bad: "revocation_ok e lib s secret chain \<Longrightarrow>
    state_step mode e lib txl s ((ensureRecoveryCloseDisposition (accept_revocation chain s))\<lparr>chState := ERRORED\<rparr>)"
| step_revoked_bad_nonce: "revocation_ok e lib s secret chain \<Longrightarrow> isValidPublicKey txl p \<Longrightarrow>
    state_step mode e lib txl s ((ensureRecoveryCloseDisposition (next_point p (remoteNonce s) (accept_revocation chain s)))
      \<lparr>chState := ERRORED\<rparr>)"
| step_revoked: "revocation_ok e lib s secret chain \<Longrightarrow> isValidPublicKey txl p \<Longrightarrow>
    state_step mode e lib txl s (dispatch_all (complete_round (next_point p nonce (accept_revocation chain s))))"
| step_splice: "state_step mode e lib txl s (s\<lparr>spliceInFlight := map_option
      (\<lambda>f. f\<lparr>sif_remoteCommitmentSig := a, sif_remoteCommitmentSigFeeratePerKw := b,
         sif_remoteCommitmentSigLeaseBlockheight := d, sif_remoteHtlcSignatures := g\<rparr>) (spliceInFlight s)\<rparr>)"

text \<open>
  What a correct node and peer do not do: we fulfil an HTLC only once our commitment with its add is signed, and
  the peer does not settle an HTLC again after signing our commitment without it.
\<close>

definition settled_before :: "int \<Rightarrow> IChannelState \<Rightarrow> bool" where
  "settled_before i s = (case htlc_get OFFERED i (htlcs s) of
     None \<Rightarrow> False
   | Some h \<Rightarrow> (entry_state h = FULFILLED \<or> entry_state h = FAILED) \<and> \<not> is_false (removalLocallyRevoked h))"

definition proper :: "channel_event \<Rightarrow> IChannelState \<Rightarrow> bool" where
  "proper ev s \<longleftrightarrow> (case ev of
     Fulfill i _ \<Rightarrow> (case htlc_get RECEIVED i (htlcs s) of None \<Rightarrow> True | Some h \<Rightarrow> \<not> is_false (addLocallyRevoked h))
   | Receive (UPDATE_FULFILL_HTLC m) \<Rightarrow> \<not> settled_before (ufh_id m) s
   | Receive (UPDATE_FAIL_HTLC m) \<Rightarrow> \<not> settled_before (ufl_id m) s
   | Receive (UPDATE_FAIL_MALFORMED_HTLC m) \<Rightarrow> \<not> settled_before (ufm_id m) s
   | _ \<Rightarrow> True)"

fun proper_run :: "ecc \<Rightarrow> btc \<Rightarrow> txlib \<Rightarrow> other_rounds \<Rightarrow> channel_event list \<Rightarrow> chan \<Rightarrow> bool" where
  "proper_run e lib txl other [] c = True"
| "proper_run e lib txl other (ev # evs) c \<longleftrightarrow>
     proper ev (ch_state c) \<and> proper_run e lib txl other evs (fst (channel_do e lib txl other ev c))"

text \<open>
  The channels the model covers: no taproot, no establishment round under way, and a splice only past its
  signatures. The handlers keep a channel in this class, so \<open>other\<close> is never asked.
\<close>

definition covered :: "IChannelState \<Rightarrow> bool" where
  "covered s \<longleftrightarrow> \<not> isTaprootChannel (channelType s) \<and> chState s \<noteq> AWAITING_TX_SIGNATURES \<and>
     (chState s = SPLICING \<or> splice_signed s \<noteq> None \<longrightarrow> splice_signed s = Some True)"

section \<open>Every handler is a sequence of transitions\<close>

definition within :: "ISigner option \<Rightarrow> ecc \<Rightarrow> btc \<Rightarrow> txlib \<Rightarrow> IChannelState \<Rightarrow> outcome \<Rightarrow> bool" where
  "within mode e lib txl s out \<longleftrightarrow> (state_step mode e lib txl)\<^sup>*\<^sup>* s (ch_state (fst out))"

named_theorems within_rules

lemma within_pair: "(state_step mode e lib txl)\<^sup>*\<^sup>* s (ch_state c) \<Longrightarrow> within mode e lib txl s (c, r)"
  by (simp add: within_def)

lemma within_refuse [within_rules]:
  "(state_step mode e lib txl)\<^sup>*\<^sup>* s (ch_state c) \<Longrightarrow> within mode e lib txl s (refuse c t n)"
  "(state_step mode e lib txl)\<^sup>*\<^sup>* s (ch_state c) \<Longrightarrow> within mode e lib txl s (refuse_code c t n k)"
  "(state_step mode e lib txl)\<^sup>*\<^sup>* s (ch_state c) \<Longrightarrow> within mode e lib txl s (refuse_keeping c t)"
  by (simp_all add: within_def refuse_def refuse_code_def refuse_keeping_def)

lemma within_failChannel [within_rules]:
  assumes "(state_step mode e lib txl)\<^sup>*\<^sup>* s (ch_state c)"
  shows "within mode e lib txl s (failChannelWithWireError c m k l)" "within mode e lib txl s (fail_with c t n)"
  using rtranclp.rtrancl_into_rtrancl [OF assms step_fail]
  by (simp_all add: within_def fail_with_def failChannelWithWireError_def Let_def)

lemma within_attempt [within_rules]:
  "(\<And>err. r = Inl err \<Longrightarrow> (state_step mode e lib txl)\<^sup>*\<^sup>* s (ch_state c)) \<Longrightarrow> (\<And>x. r = Inr x \<Longrightarrow> within mode e lib txl s (f x)) \<Longrightarrow>
   within mode e lib txl s (attempt r c f)"
  by (cases r) (simp_all add: attempt_def within_def)

lemma within_if [within_rules]:
  "(P \<Longrightarrow> within mode e lib txl s a) \<Longrightarrow> (\<not> P \<Longrightarrow> within mode e lib txl s b) \<Longrightarrow> within mode e lib txl s (if P then a else b)"
  by simp

lemma within_option [within_rules]:
  "(x = None \<Longrightarrow> within mode e lib txl s a) \<Longrightarrow> (\<And>y. x = Some y \<Longrightarrow> within mode e lib txl s (f y)) \<Longrightarrow>
   within mode e lib txl s (case x of None \<Rightarrow> a | Some y \<Rightarrow> f y)"
  by (cases x) simp_all

lemma within_prod [within_rules]:
  "(\<And>a b. x = (a, b) \<Longrightarrow> within mode e lib txl s (f a b)) \<Longrightarrow> within mode e lib txl s (case x of (a, b) \<Rightarrow> f a b)"
  by (cases x) simp

lemma within_sendUpdate [within_rules]:
  assumes "(state_step mode e lib txl)\<^sup>*\<^sup>* s (ch_state c)"
  shows "within mode e lib txl s (sendUpdate c mk enc wrap)"
  unfolding sendUpdate_def
  by (intro within_rules within_pair) (use assms step_queue in \<open>auto intro: rtranclp.rtrancl_into_rtrancl\<close>)

lemma step_one: "state_step mode e lib txl s s' \<Longrightarrow> (state_step mode e lib txl)\<^sup>*\<^sup>* s s'"
  by (rule r_into_rtranclp)

lemma addHtlc_within: "within mode e lib txl (ch_state c) (addHtlc e lib txl c amount hash expiry onion blinding skimmed)"
proof -
  let ?h = "offered_entry (localHtlcCounter (ch_state c)) amount hash expiry onion blinding"
  have "state_step mode e lib txl (ch_state c) (offer_entry ?h (ch_state c))"
    if "validateOutgoingHtlc e lib txl c amount expiry = Inr refusal" "refusal = []" for refusal
  proof (rule step_offer [OF refl _ _ refl])
    show "0 < amount" "amount \<le> getSpendableOutboundMsat txl c"
      using that by (auto simp: validateOutgoingHtlc_def local_error_def Let_def split: if_splits option.splits)
  qed
  moreover have "amountMsat ?h = amount" by (simp add: offered_entry_def new_entry_def)
  ultimately show ?thesis
    unfolding addHtlc_def Let_def
    by (intro within_rules within_pair) (auto intro!: step_one simp: offer_entry_def)
qed

lemma handleUpdateAddHtlc_within: "within mode e lib txl (ch_state c) (handleUpdateAddHtlc e lib txl c msg)"
proof -
  let ?h = "\<lambda>b. (received_entry c b msg)\<lparr>addLocallyRevoked := Some False, addRemotelyRevoked := Some False\<rparr>"
  have h: "direction (?h b) = RECEIVED" "entry_state (?h b) = PENDING" "removalRemoteCommitted (?h b) = None"
    "addRemoteCommitted (?h b) = None" "commitCoverPending (?h b) = None"
    "forwardEmitted (?h b) = None" "entry_id (?h b) = uah_id msg" "amountMsat (?h b) = uah_amountMsat msg" for b
    by (simp_all add: received_entry_def new_entry_def Let_def)
  have "state_step mode e lib txl (ch_state c) (receive_entry (?h b) (ch_state c))"
    if "htlc_get RECEIVED (uah_id msg) (htlcs (ch_state c)) = None" "\<not> uah_amountMsat msg \<le> 0"
      "\<not> remoteBalanceMsat (ch_state c) - uah_amountMsat msg < remoteRequiredMsat (ch_state c) (uah_amountMsat msg)" for b
    by (rule step_receive) (use that h [of b] in simp_all)
  then show ?thesis
    unfolding handleUpdateAddHtlc_def Let_def funderFailure_def
    by (intro within_rules within_pair) (auto intro!: step_one simp: receive_entry_def h)
qed

lemma settle_received_step:
  assumes "htlc_get RECEIVED i (htlcs (ch_state c)) = Some h" "guardRepeatSettle h i outcome = None"
    and "outcome = FAILED \<or> outcome = FULFILLED \<and> sha256 lib preimage = paymentHash h"
    and "mode \<noteq> None \<longrightarrow> outcome = FULFILLED \<longrightarrow> \<not> is_false (addLocallyRevoked h)"
  shows "(state_step mode e lib txl)\<^sup>*\<^sup>* (ch_state c) (ch_state (settle_received i outcome c))"
proof -
  have "entry_live h"
    using assms(2) by (cases "entry_state h") (auto simp: guardRepeatSettle_def entry_live_def split: if_splits)
  then show ?thesis
    using step_settle_received [OF assms(1) _ assms(4,3)] by (simp add: settle_received_def mark_received_def step_one)
qed

lemma fulfillHtlc_within:
  assumes "mode \<noteq> None \<longrightarrow> proper (Fulfill i preimage) (ch_state c)"
  shows "within mode e lib txl (ch_state c) (fulfillHtlc lib c i preimage)"
  unfolding fulfillHtlc_def
  by (intro within_rules within_pair)
    (use assms in \<open>auto simp: proper_def intro: settle_received_step [where preimage = preimage]\<close>)

lemma failHtlc_within: "within mode e lib txl (ch_state c) (failHtlc c i reason d)"
  unfolding failHtlc_def
  by (intro within_rules within_pair) (auto intro: settle_received_step)

lemma failMalformedHtlc_within: "within mode e lib txl (ch_state c) (failMalformedHtlc c i onionHash code)"
  unfolding failMalformedHtlc_def
  by (intro within_rules within_pair) (auto intro: settle_received_step)

lemma settled_once:
  "mode \<noteq> None \<longrightarrow> \<not> settled_before i s \<Longrightarrow> htlc_get OFFERED i (htlcs s) = Some h \<Longrightarrow>
   mode \<noteq> None \<longrightarrow> entry_live h \<or> is_false (removalLocallyRevoked h)"
  by (cases "entry_state h") (auto simp: settled_before_def entry_live_def)

lemma settle_offered_step:
  assumes "htlc_get OFFERED i (htlcs (ch_state c)) = Some h" "\<not> addNotYetCommitted h"
    and "outcome = FAILED \<or> outcome = FULFILLED \<and> sha256 lib preimage = paymentHash h"
    and "mode \<noteq> None \<longrightarrow> \<not> settled_before i (ch_state c)"
  shows "(state_step mode e lib txl)\<^sup>*\<^sup>* (ch_state c) (ch_state (settle_offered i outcome c))"
  using step_settle_offered [OF assms(1,2) settled_once [OF assms(4,1)] assms(3)] by (simp add: settle_offered_def mark_offered_def step_one)

lemma handleUpdateFulfillHtlc_within:
  assumes "mode \<noteq> None \<longrightarrow> proper (Receive (UPDATE_FULFILL_HTLC msg)) (ch_state c)"
  shows "within mode e lib txl (ch_state c) (handleUpdateFulfillHtlc lib c msg)"
  unfolding handleUpdateFulfillHtlc_def
  by (intro within_rules within_pair) (use assms in \<open>auto simp: proper_def intro: settle_offered_step [where preimage = "ufh_paymentPreimage msg"]\<close>)

lemma handleUpdateFailHtlc_within:
  assumes "mode \<noteq> None \<longrightarrow> proper (Receive (UPDATE_FAIL_HTLC msg)) (ch_state c)"
  shows "within mode e lib txl (ch_state c) (handleUpdateFailHtlc c msg)"
  unfolding handleUpdateFailHtlc_def
  by (intro within_rules within_pair) (use assms in \<open>auto simp: proper_def intro: settle_offered_step\<close>)

lemma handleUpdateFailMalformedHtlc_within:
  assumes "mode \<noteq> None \<longrightarrow> proper (Receive (UPDATE_FAIL_MALFORMED_HTLC msg)) (ch_state c)"
  shows "within mode e lib txl (ch_state c) (handleUpdateFailMalformedHtlc c msg)"
  unfolding handleUpdateFailMalformedHtlc_def Let_def
  by (intro within_rules within_pair) (use assms in \<open>auto simp: proper_def intro: settle_offered_step\<close>)

lemma updateFee_within: "within mode e lib txl (ch_state c) (updateFee e lib txl c rate)"
  unfolding updateFee_def Let_def
  by (intro within_rules within_pair) (auto intro!: step_one step_own_fee)

lemma handleUpdateFee_within: "within mode e lib txl (ch_state c) (handleUpdateFee e lib txl c msg)"
  unfolding handleUpdateFee_def Let_def
  by (intro within_rules within_pair) (auto intro!: step_one step_their_fee)

lemma handleUpdateBlockheight_within: "within mode e lib txl (ch_state c) (handleUpdateBlockheight c msg)"
proof -
  have acc: "role (ch_state c) = ACCEPTOR" if "\<not> role (ch_state c) \<noteq> ACCEPTOR" using that by simp
  show ?thesis
    unfolding handleUpdateBlockheight_def Let_def
    by (intro within_rules within_pair) (simp_all add: step_one step_height)
qed

lemma handleStartBatch_within: "within mode e lib txl (ch_state c) (handleStartBatch c msg)"
  unfolding handleStartBatch_def Let_def by (intro within_rules within_pair) simp_all

lemma signCommitment_within:
  assumes "\<not> isAwaitingRemoteRevocation (ch_state c)" "nextRemotePoint (ch_state c) = Some point"
    "signRemoteCommitment e lib txl (ch_state c) signer point (Some (remoteCommitmentNumber (ch_state c) + 1)) = Inr (sig, hsigs)"
  shows "within mode e lib txl (ch_state c) (signCommitment e lib txl c sig hsigs None batch)"
proof -
  have "(state_step mode e lib txl)\<^sup>*\<^sup>* (ch_state c) (record_signed e lib sig hsigs None spliced (ch_state c))"
    if "trimmedRefusal e lib (ch_state c) x (nextRemotePoint (ch_state c)) = None" for spliced x
    using step_sign [OF assms(1,2) _ assms(3)] that assms(2)
    by (intro step_one) (auto simp: trimmedRefusal_def Let_def split: option.splits)
  then show ?thesis
    unfolding signCommitment_def Let_def
    by (intro within_rules within_pair) simp_all
qed

lemma autoSign_within:
  "within mode e lib txl (ch_state c) (channel_do e lib txl other Sign c)"
proof -
  let ?s = "ch_state c"
  have S: "(state_step mode e lib txl)\<^sup>*\<^sup>* ?s (ch_state x)"
    if "signCommitment e lib txl c a b None batch = (x, r)"
      "signRemoteCommitment e lib txl ?s signer point (Some (remoteCommitmentNumber ?s + 1)) = Inr (a, b)"
      "nextRemotePoint ?s = Some point" "\<not> isAwaitingRemoteRevocation ?s" for a b batch x r signer point
    using signCommitment_within [OF that(4,3,2), of mode batch] that(1) by (simp add: within_def)
  show ?thesis
    unfolding channel_do.simps autoSignAndSendCommitment_def Let_def
    by (auto split: option.splits sum.splits prod.splits intro!: within_pair intro: S)
qed

lemma maybeAnswerOwed_state: "maybeAnswerOwed c = (c', stfu) \<Longrightarrow> ch_state c' = ch_state c"
  by (auto simp: maybeAnswerOwed_def split: prod.splits)

lemma revokeAndAdvance_within:
  assumes "commitment_verified mode e lib txl s sig hsigs" "ch_state c = adopt_signature sig hsigs s"
  shows "within mode e lib txl s (revokeAndAdvance e lib c)"
proof -
  have f: "localPerCommitmentSeed (ch_state c) = localPerCommitmentSeed s" "localCommitmentNumber (ch_state c) = localCommitmentNumber s"
    by (simp_all add: assms(2) adopt_signature_def revoke_entries_def signable_height_def signable_fee_def
        markOfferedAddsRemoteSigned_def store_signature_def Let_def)
  have stuck: "(state_step mode e lib txl)\<^sup>*\<^sup>* s (ch_state c)"
    if "getPerCommitmentSecret lib (localPerCommitmentSeed (ch_state c)) (localCommitmentNumber (ch_state c)) = Inl err" for err
    unfolding assms(2) by (rule step_one [OF step_adopt [OF assms(1)]]) (use that f in simp)
  have adv: "(state_step mode e lib txl)\<^sup>*\<^sup>* s ((ch_state c)\<lparr>localCommitmentNumber := localCommitmentNumber (ch_state c) + 1,
      restoreRevokedRisk := False\<rparr>)"
    if "getPerCommitmentSecret lib (localPerCommitmentSeed (ch_state c)) (localCommitmentNumber (ch_state c)) = Inr secret" for secret
    using step_adopt_advance [OF assms(1), of secret] that f by (intro step_one) (simp add: assms(2) advance_def)
  note commit = rtranclp.rtrancl_into_rtrancl [OF adv step_commit]
  show ?thesis
    unfolding revokeAndAdvance_def Let_def
    by (intro within_rules within_pair) (use stuck adv commit in \<open>auto dest!: maybeAnswerOwed_state\<close>)
qed

definition signed_by :: "ISigner option \<Rightarrow> chan \<Rightarrow> bool" where
  "signed_by mode c \<longleftrightarrow> mode = None \<or> ch_signer c = mode"

lemma verifyAndRevoke_within:
  assumes "getPerCommitmentPoint e lib (localPerCommitmentSeed (ch_state c)) (localCommitmentNumber (ch_state c) + 1) = Inr point"
    and "funderOutputTrimmedRefusal e lib (ch_state c) True point (localCommitmentNumber (ch_state c) + 1) = None"
    and "signed_by mode c"
  shows "within mode e lib txl (ch_state c) (verifyAndRevoke e lib txl c msg)"
proof -
  have "commitment_verified mode e lib txl (ch_state c) (csg_signature msg) (csg_htlcSignatures msg)"
    if "ch_signer c = Some signer" "verifyRemoteCommitmentSig e lib (ch_state c) signer point (csg_signature msg)
          (Some (localCommitmentNumber (ch_state c) + 1)) = Inr True"
      "verifyRemoteHtlcSignatures e lib txl (ch_state c) point (csg_htlcSignatures msg) None = Inr True" for signer
    using assms that unfolding commitment_verified_def signed_by_def by metis
  then show ?thesis
    unfolding verifyAndRevoke_def Let_def
    by (intro within_rules within_pair revokeAndAdvance_within) (use assms(1) in auto)
qed

lemma handleLone_within:
  assumes "covered (ch_state c)" "signed_by mode c"
  shows "within mode e lib txl (ch_state c) (handleLoneCommitmentSigned e lib txl other c msg)"
  unfolding handleLoneCommitmentSigned_def Let_def
  by (intro within_rules within_pair verifyAndRevoke_within)
    (use assms in \<open>auto simp: covered_def splice_signed_def isSplicePendingLock_def split: option.splits\<close>)

lemma addSecret_refused: "addSecret h st j x = Inr (st', False) \<Longrightarrow> st' = st"
  by (auto simp: addSecret_def throw_if_def split: if_splits)

lemma within_step: "state_step mode e lib txl s (ch_state (fst out)) \<Longrightarrow> within mode e lib txl s out"
  by (simp add: within_def step_one)

lemma acceptRevocation_within:
  assumes "revocation_ok e lib s secret chain" "ch_state c = s\<lparr>shaChainStore := chain\<rparr>"
  shows "within mode e lib txl s (acceptRevocation txl c msg)"
proof (rule within_step)
  let ?p = "raa_nextPerCommitmentPoint msg"
  have a: "(s\<lparr>shaChainStore := chain\<rparr>)\<lparr>remoteRevocationNumber := Some (remoteRevocationCountForRaa s + 1),
      remoteCurrentPerCommitmentPoint := remoteNextPerCommitmentPoint s\<rparr> = accept_revocation chain s"
    by (simp add: accept_revocation_def)
  have n: "(accept_revocation chain s)\<lparr>remoteNextPerCommitmentPoint := Some ?p\<rparr> = next_point ?p (remoteNonce s) (accept_revocation chain s)"
    "(next_point ?p (remoteNonce s) (accept_revocation chain s))\<lparr>remoteNonce := nonce\<rparr> = next_point ?p nonce (accept_revocation chain s)"
    for nonce by (simp_all add: next_point_def accept_revocation_def)
  have r: "remoteRevocationCountForRaa (s\<lparr>shaChainStore := chain\<rparr>) = remoteRevocationCountForRaa s"
    by (cases "remoteRevocationNumber s") (simp_all add: remoteRevocationCountForRaa_def)
  note steps = step_revoked_bad [OF assms(1)] step_revoked_bad_nonce [OF assms(1)] step_revoked [OF assms(1)]
  show "state_step mode e lib txl s (ch_state (fst (acceptRevocation txl c msg)))"
    using steps
    by (auto simp: acceptRevocation_def Let_def assms(2) fail_with_state a n r dispatch_all_def
        dest!: maybeAnswerOwed_state split: prod.splits)
qed

lemma handleRevokeAndAck_within: "within mode e lib txl (ch_state c) (handleRevokeAndAck e lib txl c msg)"
proof -
  let ?s = "ch_state c" and ?secret = "raa_perCommitmentSecret msg"
  have ok: "revocation_ok e lib ?s ?secret chain"
    if "(case remoteCurrentPerCommitmentPoint ?s of None \<Rightarrow> Inr True
         | Some p \<Rightarrow> rbind (perCommitmentPointFromSecret e ?secret) (\<lambda>q. Inr (q = p))) = Inr x" "\<not> \<not> x"
      "\<not> remoteCommitmentNumber ?s \<le> remoteRevocationCountForRaa ?s"
      "addSecret (sha256 lib) (shaChainStore ?s) (MAX_INDEX - remoteRevocationCountForRaa ?s) ?secret = Inr y"
      "y = (chain, stored)" "\<not> \<not> stored"
    for x y chain stored
    using that by (auto simp: revocation_ok_def rbind_eq_Inr split: option.splits)
  show ?thesis
    unfolding handleRevokeAndAck_def Let_def
  proof (intro within_rules within_pair, goal_cases)
    case (7 x y chain stored)
    show ?case by (rule acceptRevocation_within [OF ok [OF 7(2-7)]]) simp
  qed (auto dest: addSecret_refused)
qed

subsection \<open>The class of channels is closed\<close>

text \<open>What the transitions leave alone.\<close>

definition frame :: "IChannelState \<Rightarrow> _" where
  "frame s = ((channelType s, splice_signed s, role s, fundingSatoshis s, localPerCommitmentSeed s, channelId s),
     (fundingTxid s, fundingOutputIndex s, localBasepoints s, remoteBasepoints s, isLessor s, leaseExpiry s),
     (toSelfDelay (remoteConfig s), dustLimitSatoshis (localConfig s), dataLossDetected s, stateUncertain s),
     map_option (\<lambda>f. (sif_confirmed f, sif_confirmedHeight f)) (spliceInFlight s))"

lemma frame_simps [simp]:
  "frame (ensureRecoveryCloseDisposition s) = frame s"
  "frame (bake_fee s) = frame s" "frame (bake_height s) = frame s"
  "frame (cacheRemoteCommitment e lib p n v s) = frame s"
  "frame (recordRevokedHtlcSnapshot n es s) = frame s"
  "frame (signable_fee s) = frame s" "frame (signable_height s) = frame s"
  "frame (promote_fee s) = frame s" "frame (promoteLeaseBlockheight n s) = frame s"
  "frame (promote_signable_fee s) = frame s"
  "frame (settle_entry h s) = frame s" "frame (drop_acked s) = frame s"
  by (auto simp: frame_def splice_signed_def ensureRecoveryCloseDisposition_def bake_fee_def bake_height_def
    cacheRemoteCommitment_def recordRevokedHtlcSnapshot_def signable_fee_def signable_height_def promote_fee_def
    promoteLeaseBlockheight_def promote_signable_fee_def settle_entry_def delete_entry_def
    retainSignedLocalRemoval_def drop_acked_def Let_def split: option.splits sum.splits)

lemma frame_fold_settle [simp]: "frame (fold settle_entry es s) = frame s"
  by (induction es arbitrary: s) simp_all

lemma frame_cong:
  "channelType s' = channelType s \<Longrightarrow> spliceInFlight s' = spliceInFlight s \<Longrightarrow> role s' = role s \<Longrightarrow>
   fundingSatoshis s' = fundingSatoshis s \<Longrightarrow> localPerCommitmentSeed s' = localPerCommitmentSeed s \<Longrightarrow>
   channelId s' = channelId s \<Longrightarrow> fundingTxid s' = fundingTxid s \<Longrightarrow> fundingOutputIndex s' = fundingOutputIndex s \<Longrightarrow>
   localBasepoints s' = localBasepoints s \<Longrightarrow> remoteBasepoints s' = remoteBasepoints s \<Longrightarrow> isLessor s' = isLessor s \<Longrightarrow>
   leaseExpiry s' = leaseExpiry s \<Longrightarrow> remoteConfig s' = remoteConfig s \<Longrightarrow> localConfig s' = localConfig s \<Longrightarrow>
   dataLossDetected s' = dataLossDetected s \<Longrightarrow> stateUncertain s' = stateUncertain s \<Longrightarrow> frame s' = frame s"
  by (simp add: frame_def splice_signed_def)

lemma frame_updates [simp]:
  "frame (s\<lparr>chState := x\<rparr>) = frame s"
  "frame (s\<lparr>htlcs := hs\<rparr>) = frame s"
  "frame (on_entry d i f s) = frame s"
  "frame (s\<lparr>needsCommitment := b\<rparr>) = frame s"
  "frame (accept_revocation chain s) = frame s"
  "frame (next_point p nonce s) = frame s"
  "frame (dispatch_all s) = frame s"
  "frame (stage_fee rate s) = frame s"
  "frame (advance s) = frame s"
  "frame (s\<lparr>lastSentRevokeSecret := a, lastSentRevokeNextPoint := q, lastSentWasRevoke := w\<rparr>) = frame s"
  by ((rule frame_cong; simp add: on_entry_def accept_revocation_def next_point_def dispatch_all_def stage_fee_def advance_def)+)

lemma promote_height_frame [simp]: "frame (promote_height s) = frame s"
proof (cases "pendingLeaseBlockheight s")
  case (Some h)
  have "frame ((promoteLeaseBlockheight h s)\<lparr>pendingLeaseBlockheight := None, pendingLeaseBlockheightSignable := Some False,
      pendingLeaseBlockheightCommitted := Some False\<rparr>) = frame (promoteLeaseBlockheight h s)"
    by (rule frame_cong) simp_all
  then show ?thesis using Some by (simp add: promote_height_def)
qed (simp add: promote_height_def)

lemma signing_frames [simp]:
  "frame (remember_signed sig hsigs partial s) = frame s"
  "frame (stamp_entries s) = frame s"
  "frame (count_signed s) = frame s"
  "frame (store_signature sig hsigs s) = frame s"
  "frame (markOfferedAddsRemoteSigned s) = frame s"
  "frame (revoke_entries s) = frame s"
  "frame (s\<lparr>signedLocalRemovals := r\<rparr>) = frame s"
  by ((rule frame_cong; simp add: remember_signed_def stamp_entries_def count_signed_def store_signature_def
      markOfferedAddsRemoteSigned_def revoke_entries_def Let_def)+)

lemma cache_signed_frame [simp]: "frame (cache_signed e lib spliced s) = frame s"
  by (simp add: cache_signed_def Let_def split: option.split)

lemma record_signed_frame [simp]: "frame (record_signed e lib sig hsigs partial spliced s) = frame s"
  by (simp add: record_signed_def snapshotRemoteCommitmentHtlcs_def Let_def)

lemma adopt_signature_frame [simp]: "frame (adopt_signature sig hsigs s) = frame s"
  by (simp add: adopt_signature_def Let_def)

lemma complete_round_frame [simp]: "frame (complete_round s) = frame s"
  by (simp add: complete_round_def settle_all_def)

lemma state_step_frame: "state_step mode e lib txl s s' \<Longrightarrow> frame s' = frame s"
proof (induction rule: state_step.induct)
  case (step_splice s a b d g)
  then show ?case by (cases "spliceInFlight s") (simp_all add: frame_def splice_signed_def)
next
  case (step_height s height)
  have "frame (s'\<lparr>pendingLeaseBlockheight := a, pendingLeaseBlockheightSignable := b, pendingLeaseBlockheightCommitted := c\<rparr>) =
    frame s'" for s' a b c by (rule frame_cong) simp_all
  then show ?case by (simp split: option.splits)
qed (simp_all add: mark_received_def mark_offered_def, (rule frame_cong; simp add: offer_entry_def receive_entry_def)+)

lemma steps_frame: "(state_step mode e lib txl)\<^sup>*\<^sup>* s s' \<Longrightarrow> frame s' = frame s"
  by (induction rule: rtranclp_induct) (simp_all add: state_step_frame)

lemma adopt_splice_step: "state_step mode e lib txl (ch_state c) (ch_state (adopt_splice_signature m rate c))"
  using step_splice [of mode e lib txl "ch_state c"]
  by (simp add: adopt_splice_signature_def syncSpliceInFlight_def Let_def)

lemma covered_normal: "covered s \<Longrightarrow> covered (s\<lparr>chState := ChannelState.NORMAL\<rparr>)"
  by (auto simp: covered_def splice_signed_def)

lemma handleVerifiedBatch_within:
  assumes "covered (ch_state c)" "signed_by mode c" "spliceInFlight (ch_state c) \<noteq> None"
  shows "within mode e lib txl (ch_state c) (handleVerifiedBatch (handleLoneCommitmentSigned e lib txl other) c spliced m1 m2)"
proof -
  let ?c = "on_state (\<lambda>s. s\<lparr>chState := ChannelState.NORMAL\<rparr>) c"
  have "covered (ch_state ?c)" "signed_by mode ?c"
    using covered_normal [OF assms(1)] assms(2) by (simp_all add: signed_by_def on_state_def)
  then have "(state_step mode e lib txl)\<^sup>*\<^sup>* (ch_state ?c) (ch_state (fst (handleLoneCommitmentSigned e lib txl other ?c m1)))"
    using handleLone_within [of ?c] unfolding within_def by blast
  then have 1: "(state_step mode e lib txl)\<^sup>*\<^sup>* (ch_state c) (ch_state (fst (handleLoneCommitmentSigned e lib txl other ?c m1)))"
    using step_relabel [of ChannelState.NORMAL "ch_state c" mode e lib txl]
    by (simp add: converse_rtranclp_into_rtranclp [where r = "state_step mode e lib txl"])
  have 2: "(state_step mode e lib txl)\<^sup>*\<^sup>* (ch_state c) (ch_state (on_state (\<lambda>s. s\<lparr>chState := SPLICING\<rparr>) c'))"
    if "handleLoneCommitmentSigned e lib txl other ?c m1 = (c', r)" for c' r
  proof -
    have "splice_signed (ch_state c') \<noteq> None"
      using steps_frame [OF 1] that assms(3) by (simp add: frame_def splice_signed_def)
    then show ?thesis using rtranclp.rtrancl_into_rtrancl [OF 1 step_relabel [of SPLICING]] that by simp
  qed
  show ?thesis
    unfolding handleVerifiedBatch_def Let_def
    by (intro within_rules within_pair)
      (use 2 in \<open>auto intro: rtranclp.rtrancl_into_rtrancl [OF 2 adopt_splice_step]\<close>)
qed

lemma within_sum [within_rules]:
  "(\<And>y. x = Inl y \<Longrightarrow> within mode e lib txl s (f y)) \<Longrightarrow> (\<And>y. x = Inr y \<Longrightarrow> within mode e lib txl s (g y)) \<Longrightarrow>
   within mode e lib txl s (case x of Inl y \<Rightarrow> f y | Inr y \<Rightarrow> g y)"
  by (cases x) simp_all

lemma handleBatch_within:
  assumes "covered (ch_state c)" "signed_by mode c"
  shows "within mode e lib txl (ch_state c) (handleCommitmentSignedBatch e lib txl other c msgs)"
  unfolding handleCommitmentSignedBatch_def Let_def
  by (intro within_rules within_pair handleVerifiedBatch_within [OF assms] handleLone_within [OF assms]) simp_all

lemma handleCommitmentSigned_within:
  assumes "covered (ch_state c)" "signed_by mode c"
  shows "within mode e lib txl (ch_state c) (handleCommitmentSigned e lib txl other c msg)"
proof -
  have "within mode e lib txl (ch_state c) (handleCommitmentSignedBatch e lib txl other c' msgs)"
    "within mode e lib txl (ch_state c) (handleLoneCommitmentSigned e lib txl other c' msg)"
    if "ch_state c' = ch_state c" "ch_signer c' = ch_signer c" for c' msgs
    using handleBatch_within [of c'] handleLone_within [of c'] assms that by (simp_all add: signed_by_def)
  then show ?thesis
    unfolding handleCommitmentSigned_def Let_def
    by (intro within_rules within_pair) simp_all
qed

text \<open>No handler exchanges the signer.\<close>

definition keeps_signer :: "chan \<Rightarrow> outcome \<Rightarrow> bool" where
  "keeps_signer c out \<longleftrightarrow> ch_signer (fst out) = ch_signer c"

named_theorems keeps_rules

lemma keeps_pair: "ch_signer c' = ch_signer c \<Longrightarrow> keeps_signer c (c', r)"
  by (simp add: keeps_signer_def)

lemma keeps_refusals [keeps_rules]:
  "ch_signer c' = ch_signer c \<Longrightarrow> keeps_signer c (refuse c' t n)"
  "ch_signer c' = ch_signer c \<Longrightarrow> keeps_signer c (refuse_code c' t n k)"
  "ch_signer c' = ch_signer c \<Longrightarrow> keeps_signer c (refuse_keeping c' t)"
  "ch_signer c' = ch_signer c \<Longrightarrow> keeps_signer c (failChannelWithWireError c' m k' l)"
  "ch_signer c' = ch_signer c \<Longrightarrow> keeps_signer c (fail_with c' t n)"
  by (simp_all add: keeps_signer_def refuse_def refuse_code_def refuse_keeping_def fail_with_def
      failChannelWithWireError_def on_state_def Let_def)

lemma keeps_branches [keeps_rules]:
  "ch_signer c' = ch_signer c \<Longrightarrow> (\<And>x. keeps_signer c (f1 x)) \<Longrightarrow> keeps_signer c (attempt r c' f1)"
  "keeps_signer c a \<Longrightarrow> keeps_signer c b \<Longrightarrow> keeps_signer c (if P then a else b)"
  "keeps_signer c a \<Longrightarrow> (\<And>y. keeps_signer c (f2 y)) \<Longrightarrow> keeps_signer c (case x2 of None \<Rightarrow> a | Some y \<Rightarrow> f2 y)"
  "(\<And>y. keeps_signer c (f3 y)) \<Longrightarrow> (\<And>y. keeps_signer c (g3 y)) \<Longrightarrow> keeps_signer c (case x3 of Inl y \<Rightarrow> f3 y | Inr y \<Rightarrow> g3 y)"
  by (auto simp: keeps_signer_def attempt_def split: sum.split option.split)

lemma keeps_prod [keeps_rules]:
  "(\<And>a b. x = (a, b) \<Longrightarrow> keeps_signer c (f a b)) \<Longrightarrow> keeps_signer c (case x of (a, b) \<Rightarrow> f a b)"
  by (cases x) simp

lemma keeps_sendUpdate [keeps_rules]: "ch_signer c' = ch_signer c \<Longrightarrow> keeps_signer c (sendUpdate c' mk enc wrap)"
  unfolding sendUpdate_def by (intro keeps_rules keeps_pair) (simp_all add: on_state_def)

lemma updates_keep_signer:
  "keeps_signer c (addHtlc e lib txl c amount hash expiry onion blinding skimmed)"
  "keeps_signer c (fulfillHtlc lib c i preimage)"
  "keeps_signer c (failHtlc c i reason d)"
  "keeps_signer c (failMalformedHtlc c i onionHash code)"
  "keeps_signer c (updateFee e lib txl c rate)"
  "keeps_signer c (handleUpdateAddHtlc e lib txl c m1)"
  "keeps_signer c (handleUpdateFulfillHtlc lib c m2)"
  "keeps_signer c (handleUpdateFailHtlc c m3)"
  "keeps_signer c (handleUpdateFailMalformedHtlc c m4)"
  "keeps_signer c (handleUpdateFee e lib txl c m5)"
  "keeps_signer c (handleUpdateBlockheight c m6)"
  unfolding addHtlc_def fulfillHtlc_def failHtlc_def failMalformedHtlc_def updateFee_def handleUpdateAddHtlc_def
    handleUpdateFulfillHtlc_def handleUpdateFailHtlc_def handleUpdateFailMalformedHtlc_def handleUpdateFee_def
    handleUpdateBlockheight_def funderFailure_def Let_def
  by ((intro keeps_rules keeps_pair; simp add: on_state_def settle_received_def settle_offered_def)+)

lemma maybeAnswerOwed_signer: "maybeAnswerOwed c = (c', stfu) \<Longrightarrow> ch_signer c' = ch_signer c"
  by (auto simp: maybeAnswerOwed_def split: prod.splits)

lemma rounds_keep_signer:
  "ch_signer c' = ch_signer c \<Longrightarrow> keeps_signer c (revokeAndAdvance e lib c')"
  "keeps_signer c (signCommitment e lib txl c sig hsigs partial batch)"
  "ch_signer c' = ch_signer c \<Longrightarrow> keeps_signer c (acceptRevocation txl c' m)"
  unfolding revokeAndAdvance_def signCommitment_def acceptRevocation_def Let_def
  by ((intro keeps_rules keeps_pair; (simp add: on_state_def; fail)?;
      (auto dest!: maybeAnswerOwed_signer simp: on_state_def)?)+)

lemma receiving_keeps_signer:
  "ch_signer c' = ch_signer c \<Longrightarrow> keeps_signer c (verifyAndRevoke e lib txl c' m)"
  "keeps_signer c (handleRevokeAndAck e lib txl c m2)"
  "keeps_signer c (handleStartBatch c m3)"
  "keeps_signer c (quiesce c)" "keeps_signer c (handleStfu c i)" "keeps_signer c (handleErrorMsg c cid)"
  unfolding verifyAndRevoke_def handleRevokeAndAck_def handleStartBatch_def quiesce_def handleStfu_def
    handleErrorMsg_def markErrored_def Let_def
  by ((intro keeps_rules keeps_pair rounds_keep_signer; simp add: on_state_def)+)

lemma lone_keeps_signer:
  assumes "covered (ch_state c)"
  shows "keeps_signer c (handleLoneCommitmentSigned e lib txl other c msg)"
proof -
  have "chState (ch_state c) = SPLICING \<Longrightarrow> isSplicePendingLock (ch_state c)" "\<not> isTaprootChannel (channelType (ch_state c))"
    "chState (ch_state c) \<noteq> AWAITING_TX_SIGNATURES"
    using assms by (auto simp: covered_def splice_signed_def isSplicePendingLock_def split: option.splits)
  then show ?thesis
    unfolding handleLoneCommitmentSigned_def Let_def
    by (simp; intro conjI impI keeps_rules keeps_pair receiving_keeps_signer) (simp_all add: keeps_rules)
qed

lemma batch_keeps_signer:
  assumes "covered (ch_state c)"
  shows "keeps_signer c (handleCommitmentSignedBatch e lib txl other c msgs)"
proof -
  let ?c = "on_state (\<lambda>s. s\<lparr>chState := ChannelState.NORMAL\<rparr>) c"
  have on: "ch_signer (on_state f x) = ch_signer x" for f x by (simp add: on_state_def)
  have lone: "handleLoneCommitmentSigned e lib txl other ?c m = (c', r) \<Longrightarrow> ch_signer c' = ch_signer c" for m c' r
    using lone_keeps_signer [of ?c e lib txl other m] covered_normal [OF assms] by (simp add: keeps_signer_def on)
  have "keeps_signer c (handleVerifiedBatch (handleLoneCommitmentSigned e lib txl other) c spliced m1 m2)" for spliced m1 m2
    unfolding handleVerifiedBatch_def Let_def
    by (intro keeps_rules keeps_pair)
      (auto simp: on adopt_splice_signature_def syncSpliceInFlight_def Let_def dest!: lone)
  then show ?thesis
    unfolding handleCommitmentSignedBatch_def Let_def
    by (intro keeps_rules keeps_pair lone_keeps_signer [OF assms]) simp_all
qed

lemma signed_keeps_signer:
  assumes "covered (ch_state c)"
  shows "keeps_signer c (handleCommitmentSigned e lib txl other c msg)"
proof -
  have "keeps_signer c (handleCommitmentSignedBatch e lib txl other c' msgs)"
    "keeps_signer c (handleLoneCommitmentSigned e lib txl other c' msg)"
    if "ch_state c' = ch_state c" "ch_signer c' = ch_signer c" for c' msgs
    using batch_keeps_signer [of c'] lone_keeps_signer [of c'] assms that by (simp_all add: keeps_signer_def)
  then show ?thesis
    unfolding handleCommitmentSigned_def Let_def by (intro keeps_rules keeps_pair) simp_all
qed

lemma autoSign_keeps_signer: "keeps_signer c (channel_do e lib txl other Sign c)"
proof -
  have "signCommitment e lib txl c sig hsigs partial batch = (c', r) \<Longrightarrow> ch_signer c' = ch_signer c" for sig hsigs partial batch c' r
    using rounds_keep_signer(2) [of c e lib txl sig hsigs partial batch] by (simp add: keeps_signer_def)
  then show ?thesis
    by (auto simp: autoSignAndSendCommitment_def Let_def keeps_signer_def split: option.splits sum.splits prod.splits)
qed

lemma channel_do_signer:
  assumes "covered (ch_state c)"
  shows "ch_signer (fst (channel_do e lib txl other ev c)) = ch_signer c"
proof -
  have "keeps_signer c (channel_do e lib txl other ev c)"
  proof (cases ev)
    case (Receive m)
    then show ?thesis
      by (cases m) (simp_all add: updates_keep_signer receiving_keeps_signer signed_keeps_signer [OF assms] keeps_pair)
  next
    case Sign
    then show ?thesis using autoSign_keeps_signer by simp
  qed (simp_all add: updates_keep_signer receiving_keeps_signer keeps_pair)
  then show ?thesis by (simp add: keeps_signer_def)
qed

lemma session_within:
  "within mode e lib txl (ch_state c) (quiesce c)" "within mode e lib txl (ch_state c) (handleStfu c i)"
  by (simp_all add: quiesce_def handleStfu_def within_def Let_def split: prod.splits)

lemma handleErrorMsg_within: "within mode e lib txl (ch_state c) (handleErrorMsg c cid)"
  using step_relabel [of ERRORED "ch_state c" mode e lib txl]
  by (auto simp: handleErrorMsg_def markErrored_def on_state_def within_def Let_def)

lemma channel_do_within:
  assumes "covered (ch_state c)" "mode \<noteq> None \<longrightarrow> proper ev (ch_state c)" "signed_by mode c"
  shows "within mode e lib txl (ch_state c) (channel_do e lib txl other ev c)"
proof (cases ev)
  case (Receive m)
  then show ?thesis
    using assms(2) by (cases m) (simp_all add: handleUpdateAddHtlc_within handleUpdateFulfillHtlc_within handleUpdateFailHtlc_within
      handleUpdateFailMalformedHtlc_within handleUpdateFee_within handleUpdateBlockheight_within
      handleCommitmentSigned_within [OF assms(1,3)] handleRevokeAndAck_within handleStartBatch_within
      session_within handleErrorMsg_within)
next
  case Sign
  then show ?thesis using autoSign_within by simp
next
  case (Fulfill i preimage)
  then show ?thesis using fulfillHtlc_within assms(2) by simp
qed (simp_all add: addHtlc_within failHtlc_within failMalformedHtlc_within updateFee_within
   session_within within_pair)

subsection \<open>What the invariants speak of\<close>

record core =
  k_state :: ChannelState
  k_local :: int
  k_remote :: int
  k_htlcs :: "IHtlcEntry list"
  k_counter :: int
  k_number :: int
  k_signed :: int
  k_revocations :: "int option"
  k_store :: ShaChainStore
  k_current :: "bytes option"
  k_next :: "bytes option"

definition core_of :: "IChannelState \<Rightarrow> core" where
  "core_of s = \<lparr>k_state = chState s, k_local = localBalanceMsat s, k_remote = remoteBalanceMsat s, k_htlcs = htlcs s,
     k_counter = localHtlcCounter s, k_number = localCommitmentNumber s, k_signed = remoteCommitmentNumber s,
     k_revocations = remoteRevocationNumber s, k_store = shaChainStore s,
     k_current = remoteCurrentPerCommitmentPoint s, k_next = remoteNextPerCommitmentPoint s\<rparr>"

text \<open>Bookkeeping that the core does not see.\<close>

lemma core_of_same [simp]:
  "core_of (ensureRecoveryCloseDisposition s) = core_of s"
  "core_of (bake_fee s) = core_of s" "core_of (bake_height s) = core_of s"
  "core_of (cacheRemoteCommitment e lib p n v s) = core_of s"
  "core_of (recordRevokedHtlcSnapshot n es s) = core_of s"
  "core_of (signable_fee s) = core_of s" "core_of (signable_height s) = core_of s"
  "core_of (promote_fee s) = core_of s" "core_of (promoteLeaseBlockheight n s) = core_of s"
  "core_of (promote_signable_fee s) = core_of s" "core_of (stage_fee rate s) = core_of s"
  "core_of (drop_acked s) = core_of s" "core_of (remember_signed sig hsigs partial s) = core_of s"
  "core_of (store_signature sig hsigs s) = core_of s" "core_of (s\<lparr>signedLocalRemovals := r\<rparr>) = core_of s"
  "core_of (s\<lparr>needsCommitment := b\<rparr>) = core_of s" "core_of (s\<lparr>pendingLocalUpdates := u\<rparr>) = core_of s"
  "core_of (s\<lparr>spliceInFlight := f\<rparr>) = core_of s" "core_of (retainSignedLocalRemoval h s) = core_of s"
  "core_of (s\<lparr>pendingLeaseBlockheight := x, pendingLeaseBlockheightSignable := y, pendingLeaseBlockheightCommitted := z\<rparr>) = core_of s"
  by (auto simp: core_of_def ensureRecoveryCloseDisposition_def bake_fee_def bake_height_def
    cacheRemoteCommitment_def recordRevokedHtlcSnapshot_def signable_fee_def signable_height_def promote_fee_def
    promoteLeaseBlockheight_def promote_signable_fee_def stage_fee_def retainSignedLocalRemoval_def drop_acked_def
    remember_signed_def store_signature_def Let_def split: option.splits sum.splits)

lemma core_of_promote_height [simp]: "core_of (promote_height s) = core_of s"
  by (simp add: promote_height_def split: option.split)

lemma core_of_cache_signed [simp]: "core_of (cache_signed e lib spliced s) = core_of s"
  by (simp add: cache_signed_def Let_def split: option.split)

lemma core_of_drop: "core_of ((drop_acked s)\<lparr>htlcs := hs\<rparr>) = (core_of s)\<lparr>k_htlcs := hs\<rparr>"
  using core_of_same(12) [of s] by (simp add: core_of_def)

text \<open>The effects the core sees.\<close>

definition k_count :: "core \<Rightarrow> int" where
  "k_count k = (case k_revocations k of Some n \<Rightarrow> n | None \<Rightarrow> k_signed k)"

definition k_countForRaa :: "core \<Rightarrow> int" where
  "k_countForRaa k = (case k_revocations k of Some n \<Rightarrow> n | None \<Rightarrow> (if k_signed k > 0 then k_signed k - 1 else 0))"

definition map_htlcs :: "(IHtlcEntry \<Rightarrow> IHtlcEntry) \<Rightarrow> core \<Rightarrow> core" where
  "map_htlcs f k = k\<lparr>k_htlcs := map f (k_htlcs k)\<rparr>"

lemma map_htlcs_comp: "map_htlcs f (map_htlcs g k) = map_htlcs (f \<circ> g) k"
  by (simp add: map_htlcs_def)

lemma core_counts: "remoteRevocationCount s = k_count (core_of s)" "remoteRevocationCountForRaa s = k_countForRaa (core_of s)"
  by (simp_all add: core_of_def remoteRevocationCount_def remoteRevocationCountForRaa_def k_count_def k_countForRaa_def
      split: option.split)

lemma core_of_effects [simp]:
  "core_of (s\<lparr>chState := x\<rparr>) = (core_of s)\<lparr>k_state := x\<rparr>"
  "core_of (dispatch_all s) = map_htlcs dispatch_entry (core_of s)"
  "core_of (stamp_entries s) = map_htlcs stamp_entry (core_of s)"
  "core_of (markOfferedAddsRemoteSigned s) = map_htlcs mark_signed (core_of s)"
  "core_of (revoke_entries s) = map_htlcs revoke_entry (core_of s)"
  "core_of (advance s) = (core_of s)\<lparr>k_number := k_number (core_of s) + 1\<rparr>"
  "core_of (s\<lparr>lastSentRevokeSecret := a, lastSentRevokeNextPoint := q, lastSentWasRevoke := w,
      htlcs := map commit_pending (htlcs s)\<rparr>) = map_htlcs commit_pending (core_of s)"
  "core_of (count_signed s) = map_htlcs commit_pending ((core_of s)\<lparr>k_signed := k_signed (core_of s) + 1,
     k_revocations := Some (k_count (core_of s))\<rparr>)"
  "core_of (accept_revocation chain s) = (core_of s)\<lparr>k_store := chain,
     k_revocations := Some (k_countForRaa (core_of s) + 1), k_current := k_next (core_of s)\<rparr>"
  "core_of (next_point p nonce s) = (core_of s)\<lparr>k_next := Some p\<rparr>"
  "core_of (mark_received i outcome s) = map_htlcs (\<lambda>h. if keyed_as RECEIVED i h
     then h\<lparr>entry_state := outcome, removalRemoteCommitted := Some False\<rparr> else h) (core_of s)"
  "core_of (mark_offered i outcome s) = map_htlcs (\<lambda>h. if keyed_as OFFERED i h
     then h\<lparr>entry_state := outcome, removalRemoteCommitted := Some False, removalLocallyRevoked := Some False\<rparr> else h)
     (core_of s)"
  "core_of (offer_entry h s) = (core_of s)\<lparr>k_counter := k_counter (core_of s) + 1,
     k_htlcs := htlc_set h (k_htlcs (core_of s)), k_local := k_local (core_of s) - amountMsat h\<rparr>"
  "core_of (receive_entry h s) = (core_of s)\<lparr>k_htlcs := htlc_set h (k_htlcs (core_of s)),
     k_remote := k_remote (core_of s) - amountMsat h\<rparr>"
  by (simp_all add: core_of_def count_signed_def advance_def accept_revocation_def next_point_def dispatch_all_def stamp_entries_def
    markOfferedAddsRemoteSigned_def revoke_entries_def map_htlcs_def mark_received_def mark_offered_def on_entry_def
    offer_entry_def receive_entry_def k_count_def k_countForRaa_def remoteRevocationCount_def remoteRevocationCountForRaa_def
    split: option.split)

lemma core_of_signed: "core_of (record_signed e lib sig hsigs partial spliced s) =
    map_htlcs (commit_pending \<circ> stamp_entry) ((core_of s)\<lparr>k_signed := k_signed (core_of s) + 1,
      k_revocations := Some (k_count (core_of s))\<rparr>)"
  by (simp add: record_signed_def snapshotRemoteCommitmentHtlcs_def Let_def map_htlcs_def k_count_def split: option.split)

lemma core_of_adopted: "core_of (adopt_signature sig hsigs s) = map_htlcs (revoke_entry \<circ> mark_signed) (core_of s)"
  by (simp add: adopt_signature_def Let_def map_htlcs_comp)

lemma core_sel:
  "k_state (core_of s) = chState s" "k_local (core_of s) = localBalanceMsat s" "k_remote (core_of s) = remoteBalanceMsat s"
  "k_htlcs (core_of s) = htlcs s" "k_counter (core_of s) = localHtlcCounter s" "k_number (core_of s) = localCommitmentNumber s"
  "k_signed (core_of s) = remoteCommitmentNumber s" "k_revocations (core_of s) = remoteRevocationNumber s"
  "k_store (core_of s) = shaChainStore s" "k_current (core_of s) = remoteCurrentPerCommitmentPoint s"
  "k_next (core_of s) = remoteNextPerCommitmentPoint s"
  by (simp_all add: core_of_def)

subsection \<open>Settlement\<close>

definition settles :: "IHtlcEntry \<Rightarrow> bool" where
  "settles h \<longleftrightarrow> \<not> is_false (removalRemoteCommitted h) \<and> \<not> entry_live h"

definition key :: "IHtlcEntry \<Rightarrow> HtlcDirection \<times> int" where
  "key h = (direction h, entry_id h)"

definition local_gain :: "IHtlcEntry \<Rightarrow> int" where
  "local_gain h = (if settles h \<and> (direction h = RECEIVED) = (entry_state h = FULFILLED) then amountMsat h else 0)"

definition remote_gain :: "IHtlcEntry \<Rightarrow> int" where
  "remote_gain h = (if settles h \<and> (direction h = RECEIVED) \<noteq> (entry_state h = FULFILLED) then amountMsat h else 0)"

lemma keyed_key: "keyed_as (direction h) (entry_id h) x \<longleftrightarrow> key h = key x"
  by (auto simp: keyed_as_def key_def)

lemma core_of_delete: "core_of (delete_entry h s) =
    (core_of s)\<lparr>k_htlcs := filter (\<lambda>x. key h \<noteq> key x) (k_htlcs (core_of s))\<rparr>"
  by (simp add: delete_entry_def keyed_key core_of_def)

lemma core_of_settle_entry:
  "core_of (settle_entry h s) = (core_of s)\<lparr>k_local := k_local (core_of s) + local_gain h,
     k_remote := k_remote (core_of s) + remote_gain h,
     k_htlcs := (if settles h then filter (\<lambda>x. key h \<noteq> key x) (k_htlcs (core_of s)) else k_htlcs (core_of s))\<rparr>"
  by (cases "entry_state h"; cases "direction h")
    (simp_all add: settle_entry_def settles_def entry_live_def local_gain_def remote_gain_def core_of_delete,
     simp_all add: core_of_def)

lemma core_of_fold_settle:
  "core_of (fold settle_entry es s) = (core_of s)\<lparr>k_local := k_local (core_of s) + sum_list (map local_gain es),
     k_remote := k_remote (core_of s) + sum_list (map remote_gain es),
     k_htlcs := filter (\<lambda>x. \<not> list_ex (\<lambda>h. settles h \<and> key h = key x) es) (k_htlcs (core_of s))\<rparr>"
proof (induction es arbitrary: s)
  case (Cons h es)
  show ?case
    by (cases "settles h") (simp_all add: Cons.IH core_of_settle_entry add.assoc)
qed simp

lemma core_of_complete_round:
  assumes "distinct (map key (htlcs s))"
  shows "core_of (complete_round s) = (core_of s)\<lparr>
     k_local := k_local (core_of s) + sum_list (map (local_gain \<circ> promote_entry) (htlcs s)),
     k_remote := k_remote (core_of s) + sum_list (map (remote_gain \<circ> promote_entry) (htlcs s)),
     k_htlcs := filter (\<lambda>h. \<not> settles h) (map promote_entry (htlcs s))\<rparr>"
proof -
  let ?hs = "map promote_entry (htlcs s)"
  have k: "map key ?hs = map key (htlcs s)" by (simp add: promote_entry_def key_def Let_def)
  then have "inj_on key (set ?hs)" using assms by (metis distinct_map)
  then have "filter (\<lambda>x. \<not> list_ex (\<lambda>h. settles h \<and> key h = key x) ?hs) ?hs = filter (\<lambda>h. \<not> settles h) ?hs"
    by (intro filter_cong) (auto simp: list_ex_iff dest: inj_onD)
  then show ?thesis
    by (simp add: complete_round_def settle_all_def core_of_fold_settle core_of_drop)
qed

subsection \<open>Runs\<close>

lemma state_step_state:
  assumes "state_step mode e lib txl s s'"
  shows "chState s' = chState s \<or> chState s' = ERRORED \<or> chState s' = ChannelState.NORMAL \<or>
    chState s' = SPLICING \<and> splice_signed s \<noteq> None"
proof -
  have "k_state (core_of s') = k_state (core_of s) \<or> k_state (core_of s') = ERRORED \<or> k_state (core_of s') = ChannelState.NORMAL \<or>
      k_state (core_of s') = SPLICING \<and> splice_signed s \<noteq> None"
    using assms
    by (cases rule: state_step.cases)
      (auto simp: core_of_signed core_of_adopted map_htlcs_def complete_round_def settle_all_def core_of_fold_settle
        core_of_drop split: option.split)
  then show ?thesis by (simp add: core_sel)
qed

lemma state_step_covered: "state_step mode e lib txl s s' \<Longrightarrow> covered s \<Longrightarrow> covered s'"
  using state_step_state [of mode e lib txl s s'] state_step_frame [of mode e lib txl s s']
  by (auto simp: covered_def frame_def)

text \<open>
  An invariant of the transitions is one of every run, whatever the peer sends; one of the transitions of a mode with a signer is
  one of the proper runs.
\<close>

locale channel_invariant =
  fixes mode :: "ISigner option" and e :: ecc and lib :: btc and txl :: txlib and I :: "IChannelState \<Rightarrow> bool"
  assumes kept: "state_step mode e lib txl s s' \<Longrightarrow> covered s \<Longrightarrow> I s \<Longrightarrow> I s'"
begin

lemma steps_keep:
  "(state_step mode e lib txl)\<^sup>*\<^sup>* s s' \<Longrightarrow> covered s \<and> I s \<Longrightarrow> covered s' \<and> I s'"
  by (induction rule: rtranclp_induct) (use state_step_covered kept in blast)+

lemma run_keeps:
  "covered (ch_state c) \<and> I (ch_state c) \<Longrightarrow>
   mode \<noteq> None \<longrightarrow> proper_run e lib txl other evs c \<and> ch_signer c = mode \<Longrightarrow>
   covered (ch_state (fst (channel_run e lib txl other evs c))) \<and> I (ch_state (fst (channel_run e lib txl other evs c)))"
proof (induction evs arbitrary: c)
  case (Cons ev evs)
  obtain c' r where do1: "channel_do e lib txl other ev c = (c', r)" by fastforce
  then have "covered (ch_state c') \<and> I (ch_state c')"
    using steps_keep [of "ch_state c" "ch_state c'"] channel_do_within [of c mode ev e lib txl other] Cons.prems
    by (cases mode) (simp_all add: within_def signed_by_def)
  moreover have "ch_signer c' = ch_signer c" using channel_do_signer [of c e lib txl other ev] Cons.prems(1) do1 by simp
  ultimately show ?case using Cons.IH [of c'] Cons.prems(2) do1 by (simp add: case_prod_beta)
qed simp

end

end
