(* ===== verification/ChannelSample.thy ===== *)
theory ChannelSample
  imports ChannelMachine
begin

text \<open>
  The two ends of an open channel on the sample libraries, for the examples of the channel theories. The hash
  gives small scalars, so the examples compute.
\<close>

unbundle bit_operations_syntax

definition small_lib :: btc where
  "small_lib = sample_lib\<lparr>sha256 := \<lambda>b. replicate 31 0 @ [foldl (+) 1 b OR 1]\<rparr>"

definition sample_signer_of :: "int \<Rightarrow> ChannelSigner" where
  "sample_signer_of k = \<lparr>cs_fundingPrivkey = be_bytes 32 k, cs_fundingPubkey = pt_mod k,
     cs_htlcBasepointSecret = Some (be_bytes 32 (k + 4))\<rparr>"

definition sample_open :: "IChannelState \<Rightarrow> int \<Rightarrow> chan" where
  "sample_open s k = \<lparr>ch_state = s, ch_endpoint = newEndpoint (role s = OPENER), ch_currentBlockHeight = 500,
     ch_signer = Some (asSigner ecc_mod small_lib sample_txlib (sample_signer_of k)), ch_spliceSession = None, ch_spliceTx = None,
     ch_spliceRemoteCommitmentSig = None, ch_spliceRemoteHtlcSigs = [], ch_spliceAbortIgnoreCommitment = False,
     ch_pendingBatch = None, ch_lastSentBatch = None, ch_hasDualFundingSession = False\<rparr>"

definition sample_seed :: "int \<Rightarrow> bytes" where
  "sample_seed k = replicate 32 (word_of_int k)"

definition sample_secret :: "int \<Rightarrow> int \<Rightarrow> bytes" where
  "sample_secret k n = (case getPerCommitmentSecret small_lib (sample_seed k) n of Inr p \<Rightarrow> p | Inl _ \<Rightarrow> [])"

definition sample_point :: "int \<Rightarrow> int \<Rightarrow> bytes" where
  "sample_point k n = (case getPerCommitmentPoint ecc_mod small_lib (sample_seed k) n of Inr p \<Rightarrow> p | Inl _ \<Rightarrow> [])"

text \<open>The state of an end whose first commitments are in place, with keys from \<open>k\<close> on and those of the peer from \<open>k'\<close> on.\<close>

definition sample_end :: "ChannelRole \<Rightarrow> int \<Rightarrow> int \<Rightarrow> int \<Rightarrow> int \<Rightarrow> chan" where
  "sample_end r k k' mine theirs = sample_open ((sample_state r k k' mine theirs [])
     \<lparr>localCommitmentNumber := 0, remoteCommitmentNumber := 0, remoteRevocationNumber := Some 0,
      remoteCurrentPerCommitmentPoint := Some (sample_point k' 0), remoteNextPerCommitmentPoint := Some (sample_point k' 1),
      needsCommitment := True\<rparr>) k"

definition opener_chan :: chan where
  "opener_chan = sample_end OPENER 10 30 600000000 400000000"

definition acceptor_chan :: chan where
  "acceptor_chan = sample_end ACCEPTOR 30 10 400000000 600000000"

text \<open>The rounds outside the model refuse.\<close>

definition no_rounds :: other_rounds where
  "no_rounds = \<lparr>or_splice = \<lambda>c m. refuse c ''splice'' [], or_dualFunding = \<lambda>c m. refuse c ''dual funding'' [],
     or_taproot = \<lambda>c m. refuse c ''taproot'' [], or_taprootHtlcSignatures = \<lambda>_ _ _ _. Inr False\<rparr>"

definition sample_run :: "channel_event list \<Rightarrow> chan \<Rightarrow> chan \<times> ChannelAction list res list" where
  "sample_run = channel_run ecc_mod small_lib sample_txlib no_rounds"

definition sample_add :: "int \<Rightarrow> int \<Rightarrow> IUpdateAddHtlcMessage" where
  "sample_add i amount = \<lparr>uah_channelId = replicate 32 2, uah_id = i, uah_amountMsat = amount, uah_paymentHash = replicate 32 7,
     uah_cltvExpiry = 600, uah_onionRoutingPacket = [], uah_blindingPoint = None, uah_skimmedFeeMsat = None\<rparr>"

definition sample_revocation :: "int \<Rightarrow> int \<Rightarrow> IRevokeAndAckMessage" where
  "sample_revocation k n = \<lparr>raa_channelId = replicate 32 2, raa_perCommitmentSecret = sample_secret k n,
     raa_nextPerCommitmentPoint = sample_point k (n + 2), raa_nextLocalNonce = None\<rparr>"

lemma sample_covered: "covered (ch_state opener_chan)" "covered (ch_state acceptor_chan)"
  by (simp_all add: covered_def splice_signed_def opener_chan_def acceptor_chan_def sample_end_def sample_open_def
      sample_state_def createOpenerState_def isTaprootChannel_def)

end
