(* ===== verification/ChannelFunds.thy ===== *)
theory ChannelFunds
  imports ChannelSample
begin

text \<open>
  The money of a channel over a run of the machine: no balance is ever negative, the two balances and the
  HTLCs in flight always add up to the funding output, and every HTLC is in the map once, whatever the peer
  sends.
\<close>

section \<open>The negotiated terms\<close>

definition terms :: "IChannelState \<Rightarrow> IChannelConfig \<times> IChannelConfig \<times> int option" where
  "terms s = (localConfig s, remoteConfig s, pendingFeeratePerKw s)"

definition terms_ok :: "IChannelConfig \<times> IChannelConfig \<times> int option \<Rightarrow> bool" where
  "terms_ok t \<longleftrightarrow> (case t of (ours, theirs, pending) \<Rightarrow>
     0 \<le> dustLimitSatoshis ours \<and> 0 \<le> channelReserveSatoshis ours \<and> 0 \<le> feeratePerKw ours \<and> 0 \<le> feeratePerKw theirs \<and>
     (case pending of None \<Rightarrow> True | Some rate \<Rightarrow> 0 \<le> rate))"

lemma terms_same [simp]:
  "terms (ensureRecoveryCloseDisposition s) = terms s"
  "terms (bake_fee s) = terms s" "terms (bake_height s) = terms s"
  "terms (cacheRemoteCommitment e lib p n v s) = terms s"
  "terms (recordRevokedHtlcSnapshot n es s) = terms s"
  "terms (signable_fee s) = terms s" "terms (signable_height s) = terms s"
  "terms (promoteLeaseBlockheight n s) = terms s" "terms (on_entry d i f s) = terms s"
  "terms (drop_acked s) = terms s" "terms (remember_signed sig hsigs partial s) = terms s"
  "terms (store_signature sig hsigs s) = terms s" "terms (settle_entry h s) = terms s"
  "terms (accept_revocation chain s) = terms s" "terms (next_point pt nonce s) = terms s"
  "terms (dispatch_all s) = terms s" "terms (stamp_entries s) = terms s" "terms (count_signed s) = terms s"
  "terms (markOfferedAddsRemoteSigned s) = terms s" "terms (revoke_entries s) = terms s"
  "terms (offer_entry h s) = terms s" "terms (receive_entry h s) = terms s"
  by (auto simp: terms_def ensureRecoveryCloseDisposition_def bake_fee_def bake_height_def cacheRemoteCommitment_def
    recordRevokedHtlcSnapshot_def signable_fee_def signable_height_def promoteLeaseBlockheight_def on_entry_def
    drop_acked_def remember_signed_def store_signature_def settle_entry_def delete_entry_def retainSignedLocalRemoval_def
    accept_revocation_def next_point_def dispatch_all_def stamp_entries_def count_signed_def markOfferedAddsRemoteSigned_def
    revoke_entries_def offer_entry_def receive_entry_def Let_def split: option.splits sum.splits)

lemma terms_updates [simp]:
  "terms (s\<lparr>chState := x\<rparr>) = terms s" "terms (s\<lparr>htlcs := hs\<rparr>) = terms s"
  "terms (s\<lparr>needsCommitment := b\<rparr>) = terms s" "terms (s\<lparr>signedLocalRemovals := r\<rparr>) = terms s"
  "terms (s\<lparr>pendingLocalUpdates := u\<rparr>) = terms s" "terms (s\<lparr>spliceInFlight := f\<rparr>) = terms s"
  "terms (s\<lparr>pendingLeaseBlockheight := lh, pendingLeaseBlockheightSignable := y, pendingLeaseBlockheightCommitted := z\<rparr>) = terms s"
  "terms (advance s) = terms s"
  "terms (s\<lparr>lastSentRevokeSecret := a, lastSentRevokeNextPoint := q, lastSentWasRevoke := w, htlcs := hs\<rparr>) = terms s"
  "terms (s\<lparr>lastSentRevokeSecret := a, lastSentRevokeNextPoint := q, lastSentWasRevoke := w\<rparr>) = terms s"
  by (simp_all add: terms_def advance_def)

lemma terms_rounds [simp]:
  "terms (promote_height s) = terms s" "terms (cache_signed e lib spliced s) = terms s"
  "terms (fold settle_entry es s) = terms s"
proof -
  show "terms (promote_height s) = terms s" by (simp add: promote_height_def split: option.split)
  show "terms (cache_signed e lib spliced s) = terms s" by (simp add: cache_signed_def Let_def split: option.split)
  show "terms (fold settle_entry es s) = terms s" by (induction es arbitrary: s) simp_all
qed

lemma terms_signed [simp]:
  "terms (record_signed e lib sig hsigs partial spliced s) = terms s" "terms (adopt_signature sig hsigs s) = terms s"
  "terms (mark_received i outcome s) = terms s" "terms (mark_offered i outcome s) = terms s"
  by (simp_all add: record_signed_def adopt_signature_def snapshotRemoteCommitmentHtlcs_def mark_received_def mark_offered_def Let_def)

lemma promotes_ok:
  "terms_ok (terms s) \<Longrightarrow> terms_ok (terms (promote_fee s))"
  "terms_ok (terms s) \<Longrightarrow> terms_ok (terms (promote_signable_fee s))"
  "0 \<le> rate \<Longrightarrow> terms_ok (terms s) \<Longrightarrow> terms_ok (terms (stage_fee rate s))"
  by (auto simp: terms_def terms_ok_def promote_fee_def promote_signable_fee_def stage_fee_def split: option.splits)

lemma state_step_terms: "state_step mode e lib txl s s' \<Longrightarrow> terms_ok (terms s) \<Longrightarrow> terms_ok (terms s')"
  by (induction rule: state_step.induct)
    (simp_all add: promotes_ok complete_round_def settle_all_def split: option.split)

text \<open>Under such terms the fee and reserve guards are not negative.\<close>

lemma rates_nonneg:
  assumes "terms_ok (terms s)"
  shows "0 \<le> getLocalCommitmentFeeRate s False" "0 \<le> getRemoteCommitmentFeeRate s"
  using assms by (auto simp: terms_ok_def terms_def getLocalCommitmentFeeRate_def getRemoteCommitmentFeeRate_def
      committedFeeRate_def split: option.splits ChannelRole.splits)

lemma cost_nonneg: "0 \<le> rate \<Longrightarrow> 0 \<le> funderCommitmentCostSats rate n ctype"
  by (simp add: funderCommitmentCostSats_def calculateCommitmentFee_def Let_def COMMITMENT_TX_BASE_WEIGHT_TAPROOT_def
      COMMITMENT_TX_BASE_WEIGHT_ANCHORS_def COMMITMENT_TX_BASE_WEIGHT_def COMMITMENT_TX_HTLC_WEIGHT_def ANCHOR_TOTAL_COST_def ANCHOR_OUTPUT_VALUE_def
      pos_imp_zdiv_nonneg_iff)

lemma spendable_le:
  assumes "terms_ok (terms s)" "0 \<le> m"
  shows "spendableFor s m reserve \<le> m"
proof -
  have "0 \<le> bigIntMax reserve (dustLimitSatoshis (localConfig s))"
    using assms(1) by (auto simp: bigIntMax_def terms_ok_def terms_def)
  moreover have "0 \<le> funderCommitmentCostSats (max (getLocalCommitmentFeeRate s False) (getRemoteCommitmentFeeRate s) * 2) n c" for n c
    using rates_nonneg [OF assms(1)] by (intro cost_nonneg) simp
  ultimately show ?thesis
    using assms(2) by (auto simp: spendableFor_def Let_def minus_le_iff intro: order_trans [of _ 0] add_nonneg_nonneg)
qed

lemma getSpendable_le:
  assumes "terms_ok (terms (ch_state c))" "0 \<le> localBalanceMsat (ch_state c)"
  shows "getSpendableOutboundMsat txl c \<le> localBalanceMsat (ch_state c)"
proof -
  let ?s = "ch_state c" and ?m = "localBalanceMsat (ch_state c)"
  have live: "spendableFor ?s ?m r \<le> ?m" for r using assms by (rule spendable_le)
  have "remoteFunderCeilingMsat ?s v own \<le> ?m" if "own \<le> ?m" for v own
    using that assms(2) by (simp add: remoteFunderCeilingMsat_def Let_def)
  moreover have "(case (a, b) of (Some x, Some y) \<Rightarrow> (let spliced = spendableFor ?s x y in
      if spliced < spendableFor ?s ?m r then spliced else spendableFor ?s ?m r) | _ \<Rightarrow> spendableFor ?s ?m r) \<le> ?m" for a b r
    using live by (auto simp: Let_def split: option.split intro: order_trans [OF less_imp_le])
  ultimately show ?thesis unfolding getSpendableOutboundMsat_def Let_def by blast
qed

lemma remoteRequired_nonneg:
  assumes "terms_ok (terms s)"
  shows "0 \<le> remoteRequiredMsat s amount"
proof -
  have "0 \<le> remoteFunderLocalCostMsat s (getLocalCommitmentFeeRate s False) cs" for cs
    using cost_nonneg [OF rates_nonneg(1) [OF assms]] by (simp add: remoteFunderLocalCostMsat_def funderCostMsat_def Let_def)
  then have "0 \<le> bigIntMax (remoteFunderLocalCostMsat s (getLocalCommitmentFeeRate s False) cs) x" for cs x
    by (simp add: bigIntMax_def le_max_iff_disj)
  moreover have "0 \<le> channelReserveSatoshis (localConfig s)" using assms by (simp add: terms_ok_def terms_def)
  ultimately show ?thesis by (simp add: remoteRequiredMsat_def add_nonneg_nonneg)
qed

section \<open>Conservation\<close>

definition funds_ok :: "IChannelState \<Rightarrow> bool" where
  "funds_ok s \<longleftrightarrow> 0 \<le> localBalanceMsat s \<and> 0 \<le> remoteBalanceMsat s \<and>
     localBalanceMsat s + remoteBalanceMsat s + sum_list (map amountMsat (htlcs s)) = 1000 * fundingSatoshis s \<and>
     list_all (\<lambda>h. 0 < amountMsat h \<and> (direction h = OFFERED \<longrightarrow> entry_id h < localHtlcCounter s)) (htlcs s) \<and>
     distinct (map key (htlcs s))"

definition funds_core :: "core \<Rightarrow> int \<Rightarrow> bool" where
  "funds_core k funding \<longleftrightarrow> 0 \<le> k_local k \<and> 0 \<le> k_remote k \<and>
     k_local k + k_remote k + sum_list (map amountMsat (k_htlcs k)) = 1000 * funding \<and>
     list_all (\<lambda>h. 0 < amountMsat h \<and> (direction h = OFFERED \<longrightarrow> entry_id h < k_counter k)) (k_htlcs k) \<and>
     distinct (map key (k_htlcs k))"

lemma funds_core_of: "funds_ok s \<longleftrightarrow> funds_core (core_of s) (fundingSatoshis s)"
  by (simp add: funds_ok_def funds_core_def core_sel)

text \<open>A change of the phase of the entries moves no money.\<close>

definition phase_change :: "(IHtlcEntry \<Rightarrow> IHtlcEntry) \<Rightarrow> bool" where
  "phase_change f \<longleftrightarrow> (\<forall>h. key (f h) = key h \<and> amountMsat (f h) = amountMsat h)"

lemma phase_changes:
  "phase_change commit_pending" "phase_change stamp_entry" "phase_change mark_signed" "phase_change revoke_entry"
  "phase_change dispatch_entry" "phase_change promote_entry"
  "phase_change (\<lambda>h. if keyed_as d i h then h\<lparr>entry_state := x, removalRemoteCommitted := a\<rparr> else h)"
  "phase_change (\<lambda>h. if keyed_as d i h then h\<lparr>entry_state := x, removalRemoteCommitted := a, removalLocallyRevoked := b\<rparr> else h)"
  by (simp_all add: phase_change_def key_def commit_pending_def stamp_entry_def mark_signed_def revoke_entry_def
    dispatch_entry_def promote_entry_def Let_def)

lemma phase_change_comp: "phase_change f \<Longrightarrow> phase_change g \<Longrightarrow> phase_change (f \<circ> g)"
  by (simp add: phase_change_def)

lemma funds_map:
  assumes "phase_change f"
  shows "funds_core (map_htlcs f k) n = funds_core k n"
proof -
  have "direction (f h) = direction h" "entry_id (f h) = entry_id h" "amountMsat (f h) = amountMsat h" "key (f h) = key h" for h
    using assms by (auto simp: phase_change_def key_def)
  then show ?thesis by (simp add: funds_core_def map_htlcs_def comp_def list.pred_map)
qed

lemma funds_fields [simp]:
  "funds_core (k\<lparr>k_state := x\<rparr>) n = funds_core k n" "funds_core (k\<lparr>k_number := i\<rparr>) n = funds_core k n"
  "funds_core (k\<lparr>k_signed := i\<rparr>) n = funds_core k n" "funds_core (k\<lparr>k_revocations := r\<rparr>) n = funds_core k n"
  "funds_core (k\<lparr>k_store := c\<rparr>) n = funds_core k n" "funds_core (k\<lparr>k_current := p\<rparr>) n = funds_core k n"
  "funds_core (k\<lparr>k_next := p\<rparr>) n = funds_core k n"
  by (simp_all add: funds_core_def)

lemma htlc_set_new: "key h \<notin> set (map key hs) \<Longrightarrow> htlc_set h hs = hs @ [h]"
  by (auto simp: htlc_set_def list_ex_iff keyed_key)

lemma htlc_get_None: "htlc_get (direction h) (entry_id h) hs = None \<longleftrightarrow> key h \<notin> set (map key hs)"
  by (auto simp: htlc_get_def find_None_iff keyed_key)

text \<open>What settlement pays out is what it takes from the map.\<close>

lemma gains_balance:
  "sum_list (map amountMsat (filter (\<lambda>h. \<not> settles h) hs)) + sum_list (map local_gain hs) + sum_list (map remote_gain hs) =
   sum_list (map amountMsat hs)"
  by (induction hs) (auto simp: local_gain_def remote_gain_def)

lemma gains_nonneg:
  assumes "list_all (\<lambda>h. 0 < amountMsat h) hs"
  shows "0 \<le> sum_list (map local_gain hs)" "0 \<le> sum_list (map remote_gain hs)"
proof -
  have "0 \<le> local_gain h \<and> 0 \<le> remote_gain h" if "h \<in> set hs" for h
    using assms that by (fastforce simp: list_all_iff local_gain_def remote_gain_def)
  then show "0 \<le> sum_list (map local_gain hs)" "0 \<le> sum_list (map remote_gain hs)"
    by (auto intro!: sum_list_nonneg)
qed

lemma funds_round:
  assumes "funds_core (core_of s) n"
  shows "funds_core (core_of (complete_round s)) n"
proof -
  let ?hs = "map promote_entry (htlcs s)"
  have d: "distinct (map key (htlcs s))" and pos: "list_all (\<lambda>h. 0 < amountMsat h) (htlcs s)"
    using assms by (auto simp: funds_core_def core_sel list_all_iff)
  have hs: "funds_core (map_htlcs promote_entry (core_of s)) n" using assms by (simp add: funds_map phase_changes)
  then have "0 \<le> sum_list (map local_gain ?hs)" "0 \<le> sum_list (map remote_gain ?hs)"
    by (rule_tac gains_nonneg; simp add: funds_core_def map_htlcs_def core_sel list_all_iff)+
  then show ?thesis
    using hs gains_balance [of ?hs] unfolding core_of_complete_round [OF d]
    by (auto simp: funds_core_def map_htlcs_def core_sel list_all_iff distinct_map_filter comp_def)
qed

lemma state_step_funds:
  assumes "state_step mode e lib txl s s'" "terms_ok (terms s)" "funds_core (core_of s) n"
  shows "funds_core (core_of s') n"
  using assms
proof (induction rule: state_step.induct)
  case (step_offer h s amount hash expiry onion blinding c)
  have h: "key h = (OFFERED, localHtlcCounter s)" "amountMsat h = amount" "direction h = OFFERED" "entry_id h = localHtlcCounter s"
    using step_offer.hyps(1) by (simp_all add: key_def offered_entry_def new_entry_def)
  have "key h \<notin> set (map key (htlcs s))"
    using step_offer.prems(2) unfolding h by (auto simp: funds_core_def core_sel list_all_iff key_def)
  moreover have "amount \<le> localBalanceMsat s"
    using step_offer getSpendable_le [of c txl] by (auto simp: funds_core_def core_sel)
  ultimately show ?case
    using step_offer.prems(2) step_offer.hyps(2) h
    by (auto simp: funds_core_def core_sel htlc_set_new list_all_iff)
next
  case (step_receive h s)
  have "key h \<notin> set (map key (htlcs s))"
    using step_receive.hyps htlc_get_None [of h "htlcs s"] by simp
  moreover have "amountMsat h \<le> remoteBalanceMsat s"
    using step_receive.hyps remoteRequired_nonneg [OF step_receive.prems(1), of "amountMsat h"] by simp
  ultimately show ?case
    using step_receive.prems(2) step_receive.hyps by (auto simp: funds_core_def core_sel htlc_set_new list_all_iff)
next
  case (step_revoked s secret chain p nonce)
  have "funds_core (core_of (next_point p nonce (accept_revocation chain s))) n"
    using step_revoked.prems(2) by simp
  then show ?case using funds_round by (simp add: funds_map phase_changes)
qed (simp_all add: core_of_signed core_of_adopted funds_map phase_changes phase_change_comp split: option.split)

interpretation funds: channel_invariant None e lib txl "\<lambda>s. terms_ok (terms s) \<and> funds_ok s" for e lib txl
proof
  fix s s' assume *: "state_step None e lib txl s s'" "terms_ok (terms s) \<and> funds_ok s"
  then have "fundingSatoshis s' = fundingSatoshis s" using state_step_frame by (simp add: frame_def)
  then show "terms_ok (terms s') \<and> funds_ok s'"
    using * state_step_terms state_step_funds by (auto simp: funds_core_of)
qed

text \<open>C1: in every run of a channel, whatever the peer sends and whatever the node asks for, no balance ever goes
  negative and no satoshi appears or vanishes: the two balances and the HTLCs in flight add up to the funding
  output after every prefix of the run, and every HTLC has one entry.\<close>

theorem channel_funds_safe:
  assumes "covered (ch_state c)" "terms_ok (terms (ch_state c))" "funds_ok (ch_state c)"
  shows "funds_ok (ch_state (fst (channel_run e lib txl other evs c)))"
  using funds.run_keeps [of c e lib txl other evs] assms by simp

theorem channel_funds_safe_witness:
  "funds_ok (ch_state (fst (sample_run [Receive (UPDATE_ADD_HTLC (sample_add 0 50000000)), Fail 0 [] RECEIVED] opener_chan))) \<and>
   map amountMsat (htlcs (ch_state (fst (sample_run
     [Receive (UPDATE_ADD_HTLC (sample_add 0 50000000)), Fail 0 [] RECEIVED] opener_chan)))) = [50000000]"
proof
  have "terms_ok (terms (ch_state opener_chan))" "funds_ok (ch_state opener_chan)" by code_simp+
  then show "funds_ok (ch_state (fst (sample_run
      [Receive (UPDATE_ADD_HTLC (sample_add 0 50000000)), Fail 0 [] RECEIVED] opener_chan)))"
    unfolding sample_run_def by (rule channel_funds_safe [OF sample_covered(1)])
qed code_simp

end
