(* ===== verification/ChannelRevocation.thy ===== *)
theory ChannelRevocation
  imports ChannelSample
begin

text \<open>
  The commitment rounds over a run of the machine: at most one signed commitment of the peer is unrevoked
  beside its current one, and every revoked one can be punished, because the store gives a secret whose
  point is the one that commitment was signed for, whatever the peer sends.
\<close>

section \<open>The rounds part of the state\<close>

definition rounds :: "core \<Rightarrow> int \<times> int option \<times> ShaChainStore \<times> bytes option \<times> bytes option" where
  "rounds k = (k_signed k, k_revocations k, k_store k, k_current k, k_next k)"

lemma rounds_same [simp]:
  "rounds (map_htlcs f k) = rounds k" "rounds (k\<lparr>k_state := x\<rparr>) = rounds k" "rounds (k\<lparr>k_number := i\<rparr>) = rounds k"
  "rounds (core_of (complete_round s)) = rounds (core_of s)"
  "rounds (k\<lparr>k_counter := i, k_htlcs := hs, k_local := m\<rparr>) = rounds k" "rounds (k\<lparr>k_htlcs := hs, k_remote := m\<rparr>) = rounds k"
  by (simp_all add: rounds_def map_htlcs_def complete_round_def settle_all_def core_of_fold_settle core_of_drop)

text \<open>
  \<open>rounds_ok h t\<close>: the peer revoked \<open>r\<close> commitments, holds number \<open>r\<close> and perhaps number \<open>r + 1\<close>, and the store has
  the \<open>r\<close> secrets. \<open>traced\<close> follows one commitment: the peer holds number \<open>n\<close>, made with \<open>point\<close>, or has revoked it
  and the store has its secret.
\<close>

definition rounds_ok :: "(bytes \<Rightarrow> bytes) \<Rightarrow> core \<Rightarrow> bool" where
  "rounds_ok h k \<longleftrightarrow> (\<exists>r sec. k_revocations k = Some r \<and> 0 \<le> r \<and> r \<le> k_signed k \<and> k_signed k \<le> r + 1 \<and>
     k_current k \<noteq> None \<and> k_next k \<noteq> None \<and> chain_inv h sec (MAX_INDEX + 1 - r) (k_store k))"

definition traced :: "ecc \<Rightarrow> (bytes \<Rightarrow> bytes) \<Rightarrow> int \<Rightarrow> bytes \<Rightarrow> core \<Rightarrow> bool" where
  "traced e h n point k \<longleftrightarrow> (\<exists>r sec. k_revocations k = Some r \<and> 0 \<le> r \<and> r \<le> k_signed k \<and> k_signed k \<le> r + 1 \<and>
     k_current k \<noteq> None \<and> k_next k \<noteq> None \<and> chain_inv h sec (MAX_INDEX + 1 - r) (k_store k) \<and> n \<le> k_signed k \<and>
     (n < r \<longrightarrow> perCommitmentPointFromSecret e (sec (MAX_INDEX - n)) = Inr point) \<and>
     (n = r \<longrightarrow> k_current k = Some point) \<and> (n = r + 1 \<longrightarrow> k_next k = Some point))"

lemma rounds_cong:
  assumes "rounds k = rounds k'"
  shows "rounds_ok h k = rounds_ok h k'" "traced e h n point k = traced e h n point k'" "k_signed k = k_signed k'"
  using assms by (simp_all add: rounds_def rounds_ok_def traced_def)

text \<open>The two moves that matter: a signature, and a revocation.\<close>

definition signs :: "core \<Rightarrow> core \<Rightarrow> bool" where
  "signs k k' \<longleftrightarrow> \<not> k_count k < k_signed k \<and>
     rounds k' = (k_signed k + 1, Some (k_count k), k_store k, k_current k, k_next k)"

definition revokes :: "ecc \<Rightarrow> (bytes \<Rightarrow> bytes) \<Rightarrow> core \<Rightarrow> core \<Rightarrow> bool" where
  "revokes e h k k' \<longleftrightarrow> (\<exists>secret chain q.
     (case k_current k of None \<Rightarrow> True | Some p \<Rightarrow> perCommitmentPointFromSecret e secret = Inr p) \<and>
     k_countForRaa k < k_signed k \<and>
     addSecret h (k_store k) (MAX_INDEX - k_countForRaa k) secret = Inr (chain, True) \<and>
     rounds k' = (k_signed k, Some (k_countForRaa k + 1), chain, k_next k, q) \<and> (q = k_next k \<or> q \<noteq> None))"

lemma state_step_rounds:
  assumes "state_step mode e lib txl s s'"
  shows "rounds (core_of s') = rounds (core_of s) \<or> signs (core_of s) (core_of s') \<or> revokes e (sha256 lib) (core_of s) (core_of s')"
  using assms
proof (induction rule: state_step.induct)
  case (step_sign s point signer sig hsigs spliced)
  then show ?case
    by (auto simp: signs_def core_of_signed rounds_def map_htlcs_def isAwaitingRemoteRevocation_def core_counts core_sel)
next
  case (step_revoked s secret chain p nonce)
  then have "revokes e (sha256 lib) (core_of s) (core_of (next_point p nonce (accept_revocation chain s)))"
    unfolding revokes_def revocation_ok_def
    by (intro exI [of _ secret] exI [of _ chain] exI [of _ "Some p"]) (simp add: core_counts core_sel rounds_def)
  then show ?case by (simp add: revokes_def)
next
  case (step_revoked_bad s secret chain)
  then have "revokes e (sha256 lib) (core_of s) (core_of (accept_revocation chain s))"
    unfolding revokes_def revocation_ok_def
    by (intro exI [of _ secret] exI [of _ chain] exI [of _ "k_next (core_of s)"]) (simp add: core_counts core_sel rounds_def)
  then show ?case by (simp add: revokes_def)
next
  case (step_revoked_bad_nonce s secret chain p)
  then have "revokes e (sha256 lib) (core_of s) (core_of (next_point p (remoteNonce s) (accept_revocation chain s)))"
    unfolding revokes_def revocation_ok_def
    by (intro exI [of _ secret] exI [of _ chain] exI [of _ "Some p"]) (simp add: core_counts core_sel rounds_def)
  then show ?case by (simp add: revokes_def)
qed (simp_all add: core_of_adopted split: option.split)

lemma traced_sign:
  assumes "traced e h n point k" "signs k k'"
  shows "traced e h n point k'"
  using assms by (auto simp: traced_def signs_def rounds_def k_count_def)

lemma traced_revoke:
  assumes "traced e h n point k" "revokes e h k k'" "k_signed k \<le> MAX_INDEX + 1"
  shows "traced e h n point k'"
proof -
  obtain r sec where t: "k_revocations k = Some r" "0 \<le> r" "r \<le> k_signed k" "k_signed k \<le> r + 1" "k_next k \<noteq> None"
    "chain_inv h sec (MAX_INDEX + 1 - r) (k_store k)" "n \<le> k_signed k"
    "n < r \<longrightarrow> perCommitmentPointFromSecret e (sec (MAX_INDEX - n)) = Inr point"
    "n = r \<longrightarrow> k_current k = Some point" "n = r + 1 \<longrightarrow> k_next k = Some point"
    using assms(1) unfolding traced_def by blast
  have raa: "k_countForRaa k = r" using t(1) by (simp add: k_countForRaa_def)
  obtain secret chain q where v:
    "case k_current k of None \<Rightarrow> True | Some p \<Rightarrow> perCommitmentPointFromSecret e secret = Inr p" "r < k_signed k"
    "addSecret h (k_store k) (MAX_INDEX - r) secret = Inr (chain, True)"
    "rounds k' = (k_signed k, Some (r + 1), chain, k_next k, q)" "q = k_next k \<or> q \<noteq> None"
    using assms(2) unfolding revokes_def raa by blast
  have "valid_index (MAX_INDEX - r)" using t(2) v(2) assms(3) by (simp add: valid_index_def)
  moreover have "chain_inv h sec (MAX_INDEX - r + 1) (k_store k)" using t(6) by (simp add: algebra_simps)
  ultimately have "chain_inv h (sec(MAX_INDEX - r := secret)) (MAX_INDEX + 1 - (r + 1)) chain"
    using addSecret_chain_inv [OF _ _ v(3)] by simp
  moreover have "n < r + 1 \<longrightarrow> perCommitmentPointFromSecret e ((sec(MAX_INDEX - r := secret)) (MAX_INDEX - n)) = Inr point"
    using t(8,9) v(1) by auto
  moreover have "k_next k' \<noteq> None" "k_revocations k' = Some (r + 1)" "k_signed k' = k_signed k" "k_store k' = chain"
      "k_current k' = k_next k"
    using v(4,5) t(5) by (auto simp: rounds_def)
  ultimately show ?thesis
    unfolding traced_def using t(2,4,5,7,10) v(2)
    by (intro exI [of _ "r + 1"] exI [of _ "sec(MAX_INDEX - r := secret)"]) auto
qed

lemma traced_ok: "traced e h n point k \<Longrightarrow> rounds_ok h k"
  unfolding traced_def rounds_ok_def by blast

lemma ok_traced:
  assumes "rounds_ok h k"
  obtains point where "traced e h (k_signed k) point k"
proof -
  obtain r where r: "k_revocations k = Some r" "r \<le> k_signed k" "k_signed k \<le> r + 1" "k_current k \<noteq> None" "k_next k \<noteq> None"
    using assms unfolding rounds_ok_def by blast
  have "traced e h (k_signed k) (the (if k_signed k = r then k_current k else k_next k)) k"
    using assms r unfolding rounds_ok_def traced_def by auto
  then show ?thesis by (rule that)
qed

text \<open>The commitment a signature makes is followed from then on.\<close>

lemma sign_traced:
  assumes "rounds_ok h k" "signs k k'" "k_next k = Some point"
  shows "traced e h (k_signed k + 1) point k'"
  using assms by (auto simp: rounds_ok_def traced_def signs_def rounds_def k_count_def)

lemma state_step_traced:
  assumes "state_step mode e lib txl s s'" "traced e (sha256 lib) n point (core_of s)" "k_signed (core_of s') \<le> MAX_INDEX + 1"
  shows "traced e (sha256 lib) n point (core_of s')"
proof -
  have "k_signed (core_of s) \<le> k_signed (core_of s')"
    using state_step_rounds [OF assms(1)] by (auto simp: rounds_def signs_def revokes_def)
  then have b: "k_signed (core_of s) \<le> MAX_INDEX + 1" using assms(3) by simp
  show ?thesis
    using state_step_rounds [OF assms(1)]
  proof (elim disjE)
    assume "rounds (core_of s') = rounds (core_of s)"
    then show ?thesis using rounds_cong(2) assms(2) by blast
  next
    assume "signs (core_of s) (core_of s')"
    then show ?thesis by (rule traced_sign [OF assms(2)])
  next
    assume "revokes e (sha256 lib) (core_of s) (core_of s')"
    then show ?thesis by (rule traced_revoke [OF assms(2) _ b])
  qed
qed

lemma state_step_signed: "state_step mode e lib txl s s' \<Longrightarrow> remoteCommitmentNumber s \<le> remoteCommitmentNumber s'"
  using state_step_rounds [of mode e lib txl s s'] by (auto simp: rounds_def signs_def revokes_def core_sel)

interpretation signed_mono: channel_invariant None e lib txl "\<lambda>s. n \<le> remoteCommitmentNumber s" for e lib txl n
  by unfold_locales (use state_step_signed in force)

interpretation trace: channel_invariant None e lib txl
  "\<lambda>s. remoteCommitmentNumber s \<le> MAX_INDEX + 1 \<longrightarrow> traced e (sha256 lib) n point (core_of s)" for e lib txl n point
proof
  fix s s' assume *: "state_step None e lib txl s s'"
    "remoteCommitmentNumber s \<le> MAX_INDEX + 1 \<longrightarrow> traced e (sha256 lib) n point (core_of s)"
  have "k_signed (core_of s) \<le> k_signed (core_of s')"
    using state_step_rounds [OF *(1)] by (auto simp: rounds_def signs_def revokes_def)
  then show "remoteCommitmentNumber s' \<le> MAX_INDEX + 1 \<longrightarrow> traced e (sha256 lib) n point (core_of s')"
    using state_step_traced [OF *(1)] *(2) by (simp add: core_sel)
qed

lemma run_covered: "covered (ch_state c) \<Longrightarrow> covered (ch_state (fst (channel_run e lib txl other evs c)))"
  using signed_mono.run_keeps by blast

lemma channel_do_covered: "covered (ch_state c) \<Longrightarrow> covered (ch_state (fst (channel_do e lib txl other ev c)))"
  using run_covered [of c e lib txl other "[ev]"] by (simp add: case_prod_beta)

lemma run_signed_mono:
  "covered (ch_state c) \<Longrightarrow> remoteCommitmentNumber (ch_state c) \<le>
     remoteCommitmentNumber (ch_state (fst (channel_run e lib txl other evs c)))"
  using signed_mono.run_keeps [of c "remoteCommitmentNumber (ch_state c)" e lib txl] by simp

lemma run_rounds_ok:
  assumes "covered (ch_state c)" "rounds_ok (sha256 lib) (core_of (ch_state c))"
    "remoteCommitmentNumber (ch_state (fst (channel_run e lib txl other evs c))) \<le> MAX_INDEX + 1"
  shows "rounds_ok (sha256 lib) (core_of (ch_state (fst (channel_run e lib txl other evs c))))"
proof -
  obtain p where "traced e (sha256 lib) (k_signed (core_of (ch_state c))) p (core_of (ch_state c))"
    using ok_traced [OF assms(2)] .
  then show ?thesis using trace.run_keeps [of c e lib] assms(1,3) traced_ok by blast
qed

text \<open>The event \<open>Sign\<close> signs once or not at all.\<close>

lemma sign_once:
  "rounds (core_of (ch_state (fst (channel_do e lib txl other Sign c)))) = rounds (core_of (ch_state c)) \<or>
   signs (core_of (ch_state c)) (core_of (ch_state (fst (channel_do e lib txl other Sign c))))"
proof -
  define P where "P s \<longleftrightarrow> rounds (core_of s) = rounds (core_of (ch_state c)) \<or> signs (core_of (ch_state c)) (core_of s)" for s
  have signed: "P (record_signed e lib a b None spliced (ch_state c))" if "\<not> isAwaitingRemoteRevocation (ch_state c)" for a b spliced
    using that
    by (auto simp: P_def signs_def core_of_signed rounds_def map_htlcs_def isAwaitingRemoteRevocation_def core_counts core_sel)
  have failed: "P (ch_state c)" "P ((ensureRecoveryCloseDisposition (ch_state c))\<lparr>chState := x\<rparr>)" for x
    by (simp_all add: P_def)
  have S: "P (ch_state x)"
    if "signCommitment e lib txl c a b None batch = (x, r)" "\<not> isAwaitingRemoteRevocation (ch_state c)" for a b batch x r
    using that(1) signed [OF that(2)] failed
    by (auto simp: signCommitment_def Let_def refuse_def fail_with_def failChannelWithWireError_def attempt_def
        split: if_splits option.splits sum.splits prod.splits)
  have "P (ch_state (fst (channel_do e lib txl other Sign c)))"
    unfolding channel_do.simps autoSignAndSendCommitment_def Let_def
    by (auto split: option.splits sum.splits prod.splits intro: S failed)
  then show ?thesis by (simp add: P_def)
qed

section \<open>Two rounds of the sample channel\<close>

definition two_rounds :: "channel_event list" where
  "two_rounds = [Receive (REVOKE_AND_ACK (sample_revocation 30 0)), ChangeFee 2600, Sign,
     Receive (REVOKE_AND_ACK (sample_revocation 30 1))]"

lemma sample_rounds_ok: "rounds_ok (sha256 small_lib) (core_of (ch_state opener_chan))"
proof -
  have "shaChainStore (ch_state opener_chan) = emptyStore"
    by (simp add: opener_chan_def sample_end_def sample_open_def sample_state_def createOpenerState_def)
  then show ?thesis
    using chain_inv_empty
    by (simp add: rounds_ok_def core_sel) (simp add: opener_chan_def sample_end_def sample_open_def)
qed

lemma sample_signed_once: "remoteCommitmentNumber (ch_state (fst (channel_do ecc_mod small_lib sample_txlib no_rounds Sign opener_chan))) = 1"
  by code_simp

lemma sample_two_rounds:
  "(\<lambda>s. (remoteRevocationNumber s, remoteCommitmentNumber s)) (ch_state (fst (sample_run (Sign # two_rounds) opener_chan))) = (Some 2, 2)"
  by code_simp

section \<open>Properties\<close>

text \<open>C2: a revoked commitment can be punished, whatever the peer did. Take any run, a signature of ours in it that makes
  commitment \<open>n\<close> of the peer with a point, and any continuation after which the peer has revoked \<open>n\<close>: the store then
  gives a secret of that point, and with it the private key whose public key is the revocation key of commitment
  \<open>n\<close>.\<close>

theorem revoked_commitment_punishable:
  assumes start: "covered (ch_state c)" "rounds_ok (sha256 lib) (core_of (ch_state c))"
    and run: "c1 = fst (channel_run e lib txl other evs c)" "c2 = fst (channel_run e lib txl other (Sign # evs') c1)"
    and signed: "nextRemotePoint (ch_state c1) = Some point" "n = remoteCommitmentNumber (ch_state c1) + 1"
      "remoteCommitmentNumber (ch_state (fst (channel_do e lib txl other Sign c1))) = n"
    and revoked: "remoteRevocationNumber (ch_state c2) = Some r" "n < r" "remoteCommitmentNumber (ch_state c2) \<le> MAX_INDEX + 1"
    and keys: "secp256k1_laws e pt" "scalar revocationSecret" "getPublicKey e revocationSecret = Inr revocationBp"
      "scalar (sha256 lib (revocationBp @ point))" "scalar (sha256 lib (point @ revocationBp))"
  shows "\<exists>secret. getSecret (sha256 lib) (shaChainStore (ch_state c2)) (MAX_INDEX - n) = Some secret \<and>
    perCommitmentPointFromSecret e secret = Inr point \<and>
    (scalar secret \<longrightarrow> (rbind (deriveRevocationPrivkey e (sha256 lib) revocationSecret secret revocationBp point)
        (getPublicKey e) = Inr pub) =
      (deriveRevocationPubkey e (sha256 lib) revocationBp point = Inr pub))"
proof -
  define d where "d = fst (channel_do e lib txl other Sign c1)"
  note n = signed(3) [folded d_def]
  have c2: "c2 = fst (channel_run e lib txl other evs' d)" by (simp add: run(2) d_def case_prod_beta)
  have cov: "covered (ch_state c1)" "covered (ch_state d)"
    using run_covered [OF start(1)] channel_do_covered by (simp_all only: run(1) d_def)
  have le: "remoteCommitmentNumber (ch_state c1) \<le> MAX_INDEX + 1" "remoteCommitmentNumber (ch_state d) \<le> MAX_INDEX + 1"
    using run_signed_mono [OF cov(2), of e lib txl other evs'] signed(2) n revoked(3) by (simp_all flip: c2)
  have ok: "rounds_ok (sha256 lib) (core_of (ch_state c1))"
    using run_rounds_ok [OF start] le(1) by (simp add: run(1))
  moreover have "signs (core_of (ch_state c1)) (core_of (ch_state d))"
    using sign_once [of e lib txl other c1, folded d_def] signed(2) n by (auto simp: rounds_def core_sel)
  moreover have "k_next (core_of (ch_state c1)) = Some point"
    using ok signed(1) by (auto simp: rounds_ok_def nextRemotePoint_def core_sel)
  ultimately have "traced e (sha256 lib) n point (core_of (ch_state d))"
    using sign_traced [of "sha256 lib" "core_of (ch_state c1)" "core_of (ch_state d)" point e] signed(2) by (simp add: core_sel)
  then have "traced e (sha256 lib) n point (core_of (ch_state c2))"
    using trace.run_keeps [of d e lib n point txl other evs'] cov(2) revoked(3) by (simp flip: c2)
  then obtain sec where sec: "chain_inv (sha256 lib) sec (MAX_INDEX + 1 - r) (shaChainStore (ch_state c2))"
      "perCommitmentPointFromSecret e (sec (MAX_INDEX - n)) = Inr point" "0 \<le> r" "r \<le> remoteCommitmentNumber (ch_state c2)"
    using revoked(1,2) by (auto simp: traced_def core_sel)
  have "0 \<le> n" using ok signed(2) by (auto simp: rounds_ok_def core_sel)
  then have "getSecret (sha256 lib) (shaChainStore (ch_state c2)) (MAX_INDEX - n) = Some (sec (MAX_INDEX - n))"
    using getSecret_chain_inv [OF sec(1)] sec(3,4) revoked(2,3) by (simp add: valid_index_def)
  then show ?thesis
    using sec(2) revocation_key_pair [OF keys(1,2) _ keys(3) sec(2) keys(4,5)] by blast
qed

theorem revoked_commitment_punishable_witness:
  "\<exists>secret. getSecret (sha256 small_lib) (shaChainStore (ch_state (fst (sample_run (Sign # two_rounds) opener_chan)))) (MAX_INDEX - 1) =
     Some secret \<and> perCommitmentPointFromSecret ecc_mod secret = Inr (sample_point 30 1)"
proof -
  have *: "scalar (be_bytes 32 11)" "getPublicKey ecc_mod (be_bytes 32 11) = Inr (pt_mod 11)"
    "scalar (sha256 small_lib (pt_mod 11 @ sample_point 30 1))" "scalar (sha256 small_lib (sample_point 30 1 @ pt_mod 11))"
    "nextRemotePoint (ch_state opener_chan) = Some (sample_point 30 1)" "remoteCommitmentNumber (ch_state opener_chan) = 0"
    by code_simp+
  note run = sample_two_rounds [simplified]
  have 2: "1 < (2 :: int)" "1 = remoteCommitmentNumber (ch_state opener_chan) + 1" "opener_chan = fst (channel_run ecc_mod small_lib
      sample_txlib no_rounds [] opener_chan)"
    using *(6) by simp_all
  show ?thesis
    using revoked_commitment_punishable [OF sample_covered(1) sample_rounds_ok 2(3) _ *(5) 2(2) sample_signed_once _ 2(1) _
        ecc_mod_laws *(1-4), of "fst (sample_run (Sign # two_rounds) opener_chan)" two_rounds]
      sample_two_rounds unfolding sample_run_def prod.inject by (auto simp: MAX_INDEX_def simp del: channel_run.simps channel_do.simps)
qed

section \<open>The snapshots for the penalty path\<close>

text \<open>
  A signature records a snapshot of the HTLCs under the number the peer's commitments have before it, that of
  the commitment the signature replaces: signing raises the number by one and leaves the snapshot of the
  raised number as it was.
\<close>

definition snapshot_of :: "IChannelState \<Rightarrow> int \<Rightarrow> IHtlcSnapshotEntry list option" where
  "snapshot_of s = map_of (case revokedHtlcSnapshots s of None \<Rightarrow> [] | Some m \<Rightarrow> m)"

lemma snapshot_same:
  "snapshot_of (remember_signed sig hsigs partial s) = snapshot_of s" "snapshot_of (bake_fee s) = snapshot_of s"
  "snapshot_of (bake_height s) = snapshot_of s" "snapshot_of (stamp_entries s) = snapshot_of s"
  "snapshot_of (count_signed s) = snapshot_of s" "snapshot_of (cacheRemoteCommitment e lib p n v s) = snapshot_of s"
  by (simp_all add: snapshot_of_def remember_signed_def bake_fee_def bake_height_def stamp_entries_def count_signed_def
      cacheRemoteCommitment_def Let_def split: option.split sum.split)

lemma snapshot_key:
  "snapshot_of (snapshotRemoteCommitmentHtlcs n s) = (if List.filter (\<lambda>h. entry_state h = PENDING \<or> entry_state h = COMMITTED \<or>
          entry_state h = FULFILLED \<or> entry_state h = FAILED) (htlcs s) = [] then snapshot_of s
     else (snapshot_of s)(n \<mapsto> map snapshot_entry (List.filter (\<lambda>h. entry_state h = PENDING \<or> entry_state h = COMMITTED \<or>
          entry_state h = FULFILLED \<or> entry_state h = FAILED) (htlcs s))))"
  by (simp add: snapshotRemoteCommitmentHtlcs_def recordRevokedHtlcSnapshot_def snapshot_of_def map_of_map_set)

lemma snapshot_number:
  "remoteCommitmentNumber (remember_signed sig hsigs partial s) = remoteCommitmentNumber s"
  "remoteCommitmentNumber (bake_fee s) = remoteCommitmentNumber s" "remoteCommitmentNumber (bake_height s) = remoteCommitmentNumber s"
  "remoteCommitmentNumber (stamp_entries s) = remoteCommitmentNumber s"
  "remoteCommitmentNumber (cacheRemoteCommitment e lib p n v s) = remoteCommitmentNumber s"
  "remoteCommitmentNumber (snapshotRemoteCommitmentHtlcs n s) = remoteCommitmentNumber s"
  "remoteCommitmentNumber (count_signed s) = remoteCommitmentNumber s + 1"
  by (simp_all add: remember_signed_def bake_fee_def bake_height_def stamp_entries_def count_signed_def
      snapshotRemoteCommitmentHtlcs_def recordRevokedHtlcSnapshot_def cacheRemoteCommitment_def Let_def split: option.split sum.split)

lemma snapshot_of_replaced:
  "remoteCommitmentNumber (record_signed e lib sig hsigs partial spliced s) = remoteCommitmentNumber s + 1 \<and>
   snapshot_of (record_signed e lib sig hsigs partial spliced s) (remoteCommitmentNumber s + 1) =
     snapshot_of s (remoteCommitmentNumber s + 1)"
proof -
  have "remoteCommitmentNumber (cache_signed e lib spliced t) = remoteCommitmentNumber t"
    "snapshot_of (cache_signed e lib spliced t) = snapshot_of t" for t
    by (simp_all add: cache_signed_def snapshot_same snapshot_number Let_def split: option.split)
  then show ?thesis by (simp add: record_signed_def Let_def snapshot_same snapshot_number snapshot_key)
qed

end
