(* ===== verification/ForceClose.thy ===== *)
theory ForceClose
  imports ChannelMachine
begin

text \<open>
  The unilateral close of \<^verbatim>\<open>src/lightning/channel/channel.ts\<close>: the plan of a force close (\<open>prepareForceClose\<close>) with the
  rebuild of the commitment the stored signature covers, its fallback views, and its execution. The facts that
  are not fields of the channel state model are the arguments \<open>close_facts\<close>; the plans for taproot channels, for a splice that
  is on chain and for a superseded funding attempt that confirmed are the argument \<open>other_closes\<close>.
\<close>

section \<open>Definitions\<close>

definition MIN_RELAY_FEERATE_SAT_PER_KVB :: int where "MIN_RELAY_FEERATE_SAT_PER_KVB = 1000"

definition minRelayFeeForWeight :: "int \<Rightarrow> int" where
  "minRelayFeeForWeight weightUnits =
     (let vbytes = (weightUnits + 3) sdiv 4 in (vbytes * MIN_RELAY_FEERATE_SAT_PER_KVB + 999) sdiv 1000)"

text \<open>
  What the node knows of the chain, and the recorded mutual close: absent, not parsing, or parsed with its weight.
\<close>

record close_facts =
  cf_fundingSpendConfirmed :: bool
  cf_fundingSpendReverifyPending :: bool
  cf_lastCooperativeClose :: "(transaction \<times> int) option option"
  cf_v2Confirmed :: bool

definition closedWithUnbroadcastableCoopClose :: "close_facts \<Rightarrow> chan \<Rightarrow> bool" where
  "closedWithUnbroadcastableCoopClose facts c =
     (if chState (ch_state c) \<noteq> CLOSED then False
      else case cf_lastCooperativeClose facts of
        None \<Rightarrow> False
      | Some None \<Rightarrow> True
      | Some (Some (tx, weight)) \<Rightarrow>
          (if tx_locktime tx \<ge> 500000000 then True
           else if ch_currentBlockHeight c > 0 \<and> tx_locktime tx > ch_currentBlockHeight c then True
           else
             let outputTotal = (\<Sum>out\<leftarrow>tx_outs tx. out_value out) in
             if outputTotal > fundingSatoshis (ch_state c) then False
             else fundingSatoshis (ch_state c) - outputTotal < minRelayFeeForWeight weight))"

definition spliceSeenOnChain :: "IChannelState \<Rightarrow> bool" where
  "spliceSeenOnChain s =
     (case spliceInFlight s of None \<Rightarrow> False | Some f \<Rightarrow> sif_confirmed f \<or> sif_confirmedHeight f \<noteq> None)"

subsection \<open>The rebuilds the stored signature is asked about\<close>

definition KEPT_REMOVAL_FULL_SEARCH :: nat where "KEPT_REMOVAL_FULL_SEARCH = 6"

definition selection :: "nat \<Rightarrow> 'a list \<Rightarrow> 'a list" where
  "selection bits kept = map snd (List.filter (\<lambda>(i, _). odd (bits div 2 ^ i)) (enumerate 0 kept))"

definition keptRemovalSelections :: "IHtlcEntry list option \<Rightarrow> IHtlcEntry list list" where
  "keptRemovalSelections removals =
     (let kept = (case removals of None \<Rightarrow> [] | Some es \<Rightarrow> es); n = length kept in
      if n = 0 then []
      else if n > KEPT_REMOVAL_FULL_SEARCH
      then map (\<lambda>i. take i kept @ drop (i + 1) kept) [0..<n] @ [[]]
      else sort_key (\<lambda>es. - int (length es)) (map (\<lambda>bits. selection bits kept) (rev [0..<2 ^ n - 1])))"

definition unstamped :: "IHtlcEntry \<Rightarrow> bool" where
  "unstamped h \<longleftrightarrow> direction h = OFFERED \<and> addRemoteSigned h = None \<and> \<not> is_false (addRemoteCommitted h)"

fun readUnsigned :: "IHtlcEntry list \<Rightarrow> IChannelState \<Rightarrow> IChannelState list" where
  "readUnsigned [] view = []"
| "readUnsigned (h # hs) view =
     (let view = view\<lparr>htlcs := htlc_set (h\<lparr>addRemoteSigned := Some False\<rparr>) (htlcs view)\<rparr>
      in view # readUnsigned hs view)"

definition viewsWithUnstampedAddsUnsigned :: "IChannelState \<Rightarrow> IChannelState list" where
  "viewsWithUnstampedAddsUnsigned closing =
     readUnsigned (sort_key (\<lambda>h. - entry_id h) (List.filter unstamped (htlcs closing))) closing"

definition keptRemovalCloseViews :: "IChannelState \<Rightarrow> IChannelState list" where
  "keptRemovalCloseViews closing =
     viewsWithUnstampedAddsUnsigned closing @
     concat (map (\<lambda>kept. let view = closing\<lparr>signedLocalRemovals := (if kept \<noteq> [] then Some kept else None)\<rparr>
       in view # viewsWithUnstampedAddsUnsigned view) (keptRemovalSelections (signedLocalRemovals closing)))"

definition unsignedReceived :: "IHtlcEntry \<Rightarrow> bool" where
  "unsignedReceived h \<longleftrightarrow> direction h = RECEIVED \<and> is_false (addLocallyRevoked h)"

definition viewWithUnsignedReceivedAddsCarried :: "IChannelState \<Rightarrow> IChannelState option" where
  "viewWithUnsignedReceivedAddsCarried closing =
     (if list_ex unsignedReceived (htlcs closing)
      then Some (closing\<lparr>htlcs := map (\<lambda>h. if unsignedReceived h then h\<lparr>addLocallyRevoked := Some True\<rparr> else h)
             (htlcs closing)\<rparr>)
      else None)"

definition fallbackCloseViews :: "IChannelState \<Rightarrow> IChannelState list" where
  "fallbackCloseViews closing =
     keptRemovalCloseViews closing @
     (case viewWithUnsignedReceivedAddsCarried closing of
        None \<Rightarrow> []
      | Some view \<Rightarrow> view # keptRemovalCloseViews view)"

subsection \<open>The plan\<close>

definition witnessForceCloseCommitment ::
  "btc \<Rightarrow> IChannelState \<Rightarrow> IBuiltCommitment \<Rightarrow> ISigner \<Rightarrow> (transaction \<times> bytes list) option res" where
  "witnessForceCloseCommitment lib view bc signer =
     (let tx = ct_tx (bc_result bc); localKey = fundingPubkey (localBasepoints view) in
      case (remoteCommitmentSignature view, remoteBasepoints view) of
        (Some remoteSig, Some remoteBp) \<Rightarrow>
          rbind (createFundingScript lib localKey (fundingPubkey remoteBp)) (\<lambda>script.
          if \<not> sg_verifyCommitmentSig signer tx remoteSig (fundingPubkey remoteBp) script (bc_fundingAmount bc)
          then Inr None
          else rbind (sg_signCommitmentTx signer tx script (bc_fundingAmount bc)) (\<lambda>localSig.
               rbind (buildFundingWitness localSig remoteSig localKey (fundingPubkey remoteBp) script) (\<lambda>witness.
               Inr (Some (tx, witness)))))
      | _ \<Rightarrow> Inl (Error ''null'' []))"

fun firstWitnessed ::
  "ecc \<Rightarrow> btc \<Rightarrow> ISigner \<Rightarrow> bytes \<Rightarrow> IChannelState list \<Rightarrow> ((transaction \<times> bytes list) \<times> IChannelState) option res" where
  "firstWitnessed e lib signer point [] = Inr None"
| "firstWitnessed e lib signer point (view # views) =
     rbind (buildLocalCommitment e lib view point None True) (\<lambda>rebuilt.
     if tx_outs (ct_tx (bc_result rebuilt)) = [] then firstWitnessed e lib signer point views
     else rbind (witnessForceCloseCommitment lib view rebuilt signer) (\<lambda>witnessed.
       case witnessed of
         None \<Rightarrow> firstWitnessed e lib signer point views
       | Some w \<Rightarrow> Inr (Some (w, view))))"

record IForceClosePlanReady =
  fp_commitmentTx :: transaction
  fp_witness :: "bytes list"
  fp_signedLocalRemovals :: "IHtlcEntry list option"
  fp_channelId :: "bytes option"

datatype ForceClosePlan = Refused string | Ready IForceClosePlanReady

record other_closes =
  oc_taproot :: "chan \<Rightarrow> ForceClosePlan res"
  oc_splice :: "chan \<Rightarrow> ForceClosePlan res"
  oc_v2 :: "chan \<Rightarrow> ForceClosePlan res"

definition closable :: "ChannelState \<Rightarrow> bool" where
  "closable x \<longleftrightarrow> x \<in> {ChannelState.NORMAL, SHUTTING_DOWN, NEGOTIATING_CLOSING, AWAITING_FUNDING_CONFIRMED,
     AWAITING_CHANNEL_READY, AWAITING_REESTABLISH, ERRORED, SPLICING, FORCE_CLOSED}"

text \<open>The rebuild of the commitment of \<open>closing\<close> and its witness, or the reason there is none.\<close>

definition planCommitment :: "ecc \<Rightarrow> btc \<Rightarrow> ISigner \<Rightarrow> IChannelState \<Rightarrow> ForceClosePlan res" where
  "planCommitment e lib signer closing =
     rbind (getPerCommitmentPoint e lib (localPerCommitmentSeed closing) (localCommitmentNumber closing)) (\<lambda>point.
     rbind (buildLocalCommitment e lib closing point None True) (\<lambda>bc.
     let outputless = (tx_outs (ct_tx (bc_result bc)) = []) in
     rbind (if outputless then Inr None else witnessForceCloseCommitment lib closing bc signer) (\<lambda>first.
     rbind (case first of
         Some w \<Rightarrow> Inr (Some (w, closing))
       | None \<Rightarrow> firstWitnessed e lib signer point (fallbackCloseViews closing)) (\<lambda>witnessed.
     case witnessed of
       None \<Rightarrow> Inr (Refused (if outputless then ''Cannot force close: every commitment output is below the dust limit''
           else ''Cannot force close: the stored peer signature does not cover the commitment we would broadcast''))
     | Some ((tx, witness), view) \<Rightarrow>
         Inr (Ready \<lparr>fp_commitmentTx = tx, fp_witness = witness, fp_signedLocalRemovals = signedLocalRemovals view,
           fp_channelId = channelId closing\<rparr>)))))"

definition prepareForceClose ::
  "ecc \<Rightarrow> btc \<Rightarrow> other_closes \<Rightarrow> close_facts \<Rightarrow> chan \<Rightarrow> ISigner \<Rightarrow> ForceClosePlan res" where
  "prepareForceClose e lib other facts c signer =
     (let s = ch_state c in
      if mustNotBroadcastCommitment s
      then Inr (Refused (if dataLossDetected s then ''Refusing to broadcast stale commitment after data loss''
        else if restoreRevokedRisk s
        then ''Refusing to broadcast: the peer already holds the revocation for this commitment''
        else ''Refusing to broadcast: restored state is not proven current''))
      else if (cf_fundingSpendConfirmed facts \<or> cf_fundingSpendReverifyPending facts) \<and>
        closedWithUnbroadcastableCoopClose facts c
      then Inr (Refused (if cf_fundingSpendConfirmed facts
        then ''Cannot force close: the recorded mutual close is already confirmed on chain''
        else ''Cannot force close: the recorded mutual close may already be confirmed on chain; retry once the funding watch has re-checked it''))
      else if \<not> closable (chState s) \<and> \<not> closedWithUnbroadcastableCoopClose facts c
      then Inr (Refused ''Cannot force close: wrong state'')
      else if isTaprootChannel (channelType s) then oc_taproot other c
      else if spliceSeenOnChain s then oc_splice other c
      else if cf_v2Confirmed facts then oc_v2 other c
      else if fundingTxid s = None \<or> remoteBasepoints s = None
      then Inr (Refused ''Cannot force close: channel not funded'')
      else if remoteCommitmentSignature s = None then Inr (Refused ''Cannot force close: no remote signature'')
      else planCommitment e lib signer s)"

subsection \<open>Its execution\<close>

definition applyForceClosePlan :: "chan \<Rightarrow> IForceClosePlanReady \<Rightarrow> outcome" where
  "applyForceClosePlan c plan =
     (let c = on_state (\<lambda>s. s\<lparr>closeSpendsSpliceTxid := None,
            closeSpendsFundingTxid := Some (in_hash (tx_ins (fp_commitmentTx plan) ! 0)),
            signedLocalRemovals := fp_signedLocalRemovals plan, chState := FORCE_CLOSED\<rparr>) c
      in (c, Inr [BROADCAST_TX (fp_commitmentTx plan) (fp_witness plan), CHANNEL_CLOSED (fp_channelId plan)]))"

definition forceClose ::
  "ecc \<Rightarrow> btc \<Rightarrow> other_closes \<Rightarrow> close_facts \<Rightarrow> chan \<Rightarrow> ISigner \<Rightarrow> outcome" where
  "forceClose e lib other facts c signer =
     attempt (prepareForceClose e lib other facts c signer) c (\<lambda>plan.
     case plan of
       Refused text \<Rightarrow> refuse c text []
     | Ready ready \<Rightarrow> applyForceClosePlan c ready)"

end
