(* ===== verification/SignedCommitment.thy ===== *)
theory SignedCommitment
  imports ForceClose ChannelFunds
begin

text \<open>
  What the peer's stored signature is for. Between two signatures of the peer our commitment is rebuilt from entries whose
  flags change with every update and revocation; the theory shows that the rebuild stays the transaction the
  signature was verified on. A view of the state has what the rebuild depends on, the book is the share every
  entry has in it, and a transition is steady when it keeps both. The property is that a force close
  (\<open>ForceClose\<close>) can always be prepared.
\<close>

section \<open>What our commitment is built from\<close>

definition local_view :: "bool \<Rightarrow> IChannelState \<Rightarrow> _" where
  "local_view sl s = (mset (map face (carried s sl)), localBalances s sl, getLocalCommitmentFeeRate s sl,
     leaseCsvBlocks (leaseExpiry s) (getLocalCommitmentLeaseBlockheight s sl))"

lemma htlcRow_face:
  assumes "face a = face b" "buildLocalHtlcOutput lib s keys a = Inr h" "channelType t = channelType s"
  shows "\<exists>h'. buildLocalHtlcOutput lib t keys b = Inr h' \<and> seen h' = seen h"
proof -
  have b: "direction b = direction a" "paymentHash b = paymentHash a" "cltvExpiry b = cltvExpiry a"
    "amountMsat b = amountMsat a"
    using assms(1) by (simp_all add: face_def)
  have "htlcScriptOf lib ct kind keys b = htlcScriptOf lib ct kind keys a" for ct kind
    by (simp add: htlcScriptOf_def b)
  then show ?thesis
    using assms(2,3) by (auto simp: buildLocalHtlcOutput_def htlcRow_def b rbind_eq_Inr seen_def core_def)
qed

lemma map_res_append: "map_res f (xs @ ys) = rbind (map_res f xs) (\<lambda>as. rbind (map_res f ys) (\<lambda>bs. Inr (as @ bs)))"
  by (induction xs) (simp_all add: rbind_assoc, simp add: rbind_def split: sum.split)

lemma localRows: "buildHtlcOutputsForLocal lib s keys sl = map_res (buildLocalHtlcOutput lib s keys) (carried s sl)"
  by (simp add: buildHtlcOutputsForLocal_def carried_def map_res_append)

lemma rows_same_view:
  assumes "mset (map face xs) = mset (map face ys)" "map_res (buildLocalHtlcOutput lib s keys) xs = Inr rows"
    "channelType t = channelType s"
  shows "\<exists>rows'. map_res (buildLocalHtlcOutput lib t keys) ys = Inr rows' \<and> mset (map seen rows') = mset (map seen rows)"
proof -
  obtain zs where zs: "mset zs = mset ys" "list_all2 (\<lambda>x z. face x = face z) xs zs"
    using mset_map_align [OF assms(1)] by blast
  have "\<exists>rows1. map_res (buildLocalHtlcOutput lib t keys) zs = Inr rows1 \<and> map seen rows1 = map seen rows"
    using zs(2) assms(2)
  proof (induction arbitrary: rows rule: list_all2_induct)
    case (Cons x xs z zs)
    then obtain h hs where h: "buildLocalHtlcOutput lib s keys x = Inr h" "map_res (buildLocalHtlcOutput lib s keys) xs = Inr hs"
        "rows = h # hs" by (auto simp: rbind_eq_Inr)
    then show ?case using htlcRow_face [OF Cons.hyps(1) h(1) assms(3)] Cons.IH [OF h(2)] by auto
  qed simp
  then obtain rows1 where r1: "map_res (buildLocalHtlcOutput lib t keys) zs = Inr rows1" "map seen rows1 = map seen rows" by blast
  obtain rows' where "map_res (buildLocalHtlcOutput lib t keys) ys = Inr rows'" "mset rows' = mset rows1"
    by (rule map_res_perm [OF r1(1) zs(1)])
  then show ?thesis using r1(2) by (metis mset_map)
qed

lemma untrimmed_seen:
  assumes "mset (map seen rows') = mset (map seen rows)"
  shows "mset (map seen (filterUntrimmedHtlcs ho_amount hm_direction rows' d f anc)) =
    mset (map seen (filterUntrimmedHtlcs ho_amount hm_direction rows d f anc))"
proof -
  define P where "P = (\<lambda>(c :: IHtlcOutput, dir). ho_amount c \<ge> d + htlcFeeSat dir f anc)"
  have "map seen (filterUntrimmedHtlcs ho_amount hm_direction rs d f anc) = filter P (map seen rs)" for rs
    by (induction rs) (auto simp: filterUntrimmedHtlcs_def P_def seen_def)
  then show ?thesis using assms by (simp add: mset_filter del: mset_map filter_map)
qed

text \<open>Two states with one frame and one view build the same transaction.\<close>

lemma same_view_builds:
  assumes "frame t = frame s" "local_view sl t = local_view sl' s"
    "buildLocalCommitment e lib s pt (Some n) sl' = Inr a"
  shows "\<exists>b. buildLocalCommitment e lib t pt (Some n) sl = Inr b \<and> same_body lib a b"
proof -
  define flt where "flt rs = filterUntrimmedHtlcs ho_amount hm_direction rs (dustLimitSatoshis (localConfig s))
    (getLocalCommitmentFeeRate s sl') (isAnchorChannel (channelType s))" for rs :: "HtlcOutputMeta list"
  have fr: "remoteBasepoints t = remoteBasepoints s" "localBasepoints t = localBasepoints s"
    "fundingTxid t = fundingTxid s" "channelType t = channelType s" "fundingSatoshis t = fundingSatoshis s"
    "dustLimitSatoshis (localConfig t) = dustLimitSatoshis (localConfig s)" "role t = role s" "isLessor t = isLessor s"
    "fundingOutputIndex t = fundingOutputIndex s" "toSelfDelay (remoteConfig t) = toSelfDelay (remoteConfig s)"
    using assms(1) by (simp_all add: frame_def)
  have vw: "mset (map face (carried s sl')) = mset (map face (carried t sl))" "localBalances t sl = localBalances s sl'"
    "getLocalCommitmentFeeRate t sl = getLocalCommitmentFeeRate s sl'"
    "leaseCsvBlocks (leaseExpiry t) (getLocalCommitmentLeaseBlockheight t sl) =
     leaseCsvBlocks (leaseExpiry s) (getLocalCommitmentLeaseBlockheight s sl')"
    using assms(2) by (simp_all add: local_view_def)
  define funder where "funder = (if role s = OPENER then fst (localBalances s sl') else snd (localBalances s sl'))"
  obtain rbp txid keys rows where st: "remoteBasepoints s = Some rbp" "fundingTxid s = Some txid"
    and keys: "deriveCommitmentKeys e lib (localBasepoints s) rbp pt True = Inr keys"
    and rows: "map_res (buildLocalHtlcOutput lib s keys) (carried s sl') = Inr rows"
    and fin: "finishCommitment lib s rbp funder (flt rows) (localParams lib s rbp txid keys n sl' (flt rows)) = Inr a"
    using assms(3) by (auto simp: buildLocalCommitment_def rbind_eq_Inr Let_def flt_def funder_def localRows split: option.splits)
  obtain rows' where r: "map_res (buildLocalHtlcOutput lib t keys) (carried t sl) = Inr rows'"
      "mset (map seen rows') = mset (map seen rows)"
    using rows_same_view [OF vw(1) rows fr(4)] by blast
  have "mset (map seen (flt rows')) = mset (map seen (flt rows))" unfolding flt_def by (rule untrimmed_seen [OF r(2)])
  then have ms: "mset (map core (flt rows')) = mset (map core (flt rows))"
    by (drule_tac arg_cong [where f = "image_mset fst"]) (simp add: seen_def multiset.map_comp comp_def)
  then have len: "length (flt rows') = length (flt rows)" by (metis length_map size_mset)
  have po: "p_htlcOutputs (localParams lib s rbp txid keys n sl' (flt rows)) = Some (flt rows)"
    by (simp add: localParams_def Let_def)
  have params: "localParams lib t rbp txid keys n sl (flt rows') =
      (localParams lib s rbp txid keys n sl' (flt rows))\<lparr>p_htlcOutputs := Some (flt rows')\<rparr>"
    unfolding localParams_def Let_def fr vw(2-) len by simp
  obtain b where b: "finishCommitment lib t rbp funder (flt rows') (localParams lib t rbp txid keys n sl (flt rows')) = Inr b"
      "same_body lib a b"
    using finishCommitment_perm [OF fin fr(4,5) _ ms po, of rbp] unfolding params fr(2) by blast
  have "buildLocalCommitment e lib t pt (Some n) sl = Inr b"
    using st keys r(1) b(1) by (simp add: buildLocalCommitment_def fr localRows Let_def vw(2,3) flt_def funder_def)
  then show ?thesis using b(2) by blast
qed


section \<open>What a signature is for\<close>

record seal =
  sl_signature :: "bytes option"
  sl_rate :: "int option"
  sl_height :: "int option"
  sl_lease :: "int option"
  sl_removals :: "IHtlcEntry list"
  sl_risk :: bool

definition seal_of :: "IChannelState \<Rightarrow> seal" where
  "seal_of s = \<lparr>sl_signature = remoteCommitmentSignature s, sl_rate = lastSignedCommitFeeratePerKw s,
     sl_height = lastSignedCommitLeaseBlockheight s, sl_lease = leaseCommitBlockheight s,
     sl_removals = signedLocalRetainedRemovals s True, sl_risk = restoreRevokedRisk s\<rparr>"

lemma seal_same [simp]:
  "seal_of (ensureRecoveryCloseDisposition s) = seal_of s"
  "seal_of (bake_fee s) = seal_of s" "seal_of (bake_height s) = seal_of s"
  "seal_of (cacheRemoteCommitment e lib p n v s) = seal_of s"
  "seal_of (recordRevokedHtlcSnapshot n es s) = seal_of s"
  "seal_of (promote_fee s) = seal_of s" "seal_of (promote_signable_fee s) = seal_of s"
  "seal_of (drop_acked s) = seal_of s" "seal_of (delete_entry h s) = seal_of s"
  "seal_of (promoteLeaseBlockheight n s) = (seal_of s)\<lparr>sl_lease := Some n\<rparr>"
  by (auto simp: seal_of_def signedLocalRetainedRemovals_def ensureRecoveryCloseDisposition_def bake_fee_def bake_height_def
    cacheRemoteCommitment_def recordRevokedHtlcSnapshot_def promote_fee_def promote_signable_fee_def delete_entry_def
    promoteLeaseBlockheight_def drop_acked_def Let_def split: option.splits sum.splits)

lemma seal_updates [simp]:
  "seal_of (s\<lparr>chState := x\<rparr>) = seal_of s" "seal_of (s\<lparr>htlcs := hs\<rparr>) = seal_of s"
  "seal_of (on_entry d i f s) = seal_of s" "seal_of (s\<lparr>needsCommitment := b\<rparr>) = seal_of s"
  "seal_of (accept_revocation chain s) = seal_of s" "seal_of (next_point p nonce s) = seal_of s"
  "seal_of (dispatch_all s) = seal_of s" "seal_of (stage_fee rate s) = seal_of s"
  "seal_of (advance s) = (seal_of s)\<lparr>sl_risk := False\<rparr>" "seal_of (s\<lparr>pendingLocalUpdates := u\<rparr>) = seal_of s"
  "seal_of (s\<lparr>spliceInFlight := f2\<rparr>) = seal_of s" "seal_of (remember_signed sig hsigs partial s) = seal_of s"
  "seal_of (stamp_entries s) = seal_of s" "seal_of (count_signed s) = seal_of s"
  "seal_of (offer_entry h s) = seal_of s" "seal_of (receive_entry h s) = seal_of s"
  "seal_of (s\<lparr>localBalanceMsat := l\<rparr>) = seal_of s" "seal_of (s\<lparr>remoteBalanceMsat := r\<rparr>) = seal_of s"
  "seal_of (s\<lparr>pendingLeaseBlockheight := lh, pendingLeaseBlockheightSignable := y, pendingLeaseBlockheightCommitted := z\<rparr>) = seal_of s"
  "seal_of (s\<lparr>lastSentRevokeSecret := a, lastSentRevokeNextPoint := q, lastSentWasRevoke := w\<rparr>) = seal_of s"
  by (simp_all add: seal_of_def signedLocalRetainedRemovals_def on_entry_def accept_revocation_def next_point_def
    dispatch_all_def stage_fee_def advance_def remember_signed_def stamp_entries_def count_signed_def offer_entry_def receive_entry_def)

text \<open>A settled entry that the signed commitment still has as an output is kept for its rebuild.\<close>

definition kept_removal :: "IHtlcEntry \<Rightarrow> bool" where
  "kept_removal h \<longleftrightarrow> settles h \<and> direction h = RECEIVED \<and> \<not> is_false (addLocallyRevoked h)"

lemma seal_retain: "seal_of (retainSignedLocalRemoval h s) =
    (seal_of s)\<lparr>sl_removals := sl_removals (seal_of s) @ (if is_false (addLocallyRevoked h) then [] else [h])\<rparr>"
  by (simp add: seal_of_def signedLocalRetainedRemovals_def retainSignedLocalRemoval_def split: option.split)

lemma seal_settle_entry: "seal_of (settle_entry h s) =
    (seal_of s)\<lparr>sl_removals := sl_removals (seal_of s) @ (if kept_removal h then [h] else [])\<rparr>"
  by (cases "entry_state h"; cases "direction h")
    (simp_all add: settle_entry_def kept_removal_def settles_def entry_live_def seal_retain)

lemma seal_fold_settle: "seal_of (fold settle_entry es s) =
    (seal_of s)\<lparr>sl_removals := sl_removals (seal_of s) @ filter kept_removal es\<rparr>"
  by (induction es arbitrary: s) (simp_all add: seal_settle_entry)

lemma seal_promote_height:
  "\<exists>lease. seal_of (promote_height s) = (seal_of s)\<lparr>sl_lease := lease\<rparr> \<and> (sl_lease (seal_of s) \<noteq> None \<longrightarrow> lease \<noteq> None)"
proof (cases "pendingLeaseBlockheight s")
  case (Some h)
  then show ?thesis by (cases "pendingLeaseBlockheightCommitted s = Some True") (auto simp: promote_height_def intro: exI [of _ "sl_lease (seal_of s)"])
qed (auto simp: promote_height_def intro: exI [of _ "sl_lease (seal_of s)"])

lemma seal_cache_signed [simp]: "seal_of (cache_signed e lib spliced s) = seal_of s"
  by (simp add: cache_signed_def Let_def split: option.split)

lemma seal_signed [simp]:
  "seal_of (record_signed e lib sig hsigs partial spliced s) = seal_of s"
  "seal_of (mark_received i outcome s) = seal_of s" "seal_of (mark_offered i outcome s) = seal_of s"
  by (simp_all add: record_signed_def snapshotRemoteCommitmentHtlcs_def mark_received_def mark_offered_def Let_def)

lemma seal_complete_round:
  "\<exists>lease. seal_of (complete_round s) = (seal_of s)\<lparr>sl_lease := lease,
     sl_removals := sl_removals (seal_of s) @ filter kept_removal (map promote_entry (htlcs s))\<rparr> \<and>
     (sl_lease (seal_of s) \<noteq> None \<longrightarrow> lease \<noteq> None)"
proof -
  let ?hs = "map promote_entry (htlcs s)"
  obtain lease where "seal_of (complete_round s) =
      (seal_of (promote_fee (fold settle_entry ?hs ((drop_acked s)\<lparr>htlcs := ?hs\<rparr>))))\<lparr>sl_lease := lease\<rparr>"
      "sl_lease (seal_of s) \<noteq> None \<longrightarrow> lease \<noteq> None"
    using seal_promote_height [of "promote_fee (fold settle_entry ?hs ((drop_acked s)\<lparr>htlcs := ?hs\<rparr>))"]
    by (auto simp: complete_round_def settle_all_def seal_fold_settle)
  then show ?thesis by (intro exI [of _ lease]) (simp add: seal_fold_settle)
qed

section \<open>The book of the signed commitment\<close>

definition book :: "IHtlcEntry list \<Rightarrow> IHtlcEntry list \<Rightarrow> int \<Rightarrow> int \<Rightarrow> _" where
  "book hs rs l r = (mset (map face (filter (localCarriesHtlc True) hs)) + mset (map face rs),
     l + (\<Sum>h\<leftarrow>hs. fst (local_credit True h)) + (\<Sum>h\<leftarrow>rs. fst (retained_debit h)),
     r + (\<Sum>h\<leftarrow>hs. snd (local_credit True h)) + (\<Sum>h\<leftarrow>rs. snd (retained_debit h)))"

definition no_lease :: "IChannelState \<Rightarrow> bool" where
  "no_lease s = (case leaseExpiry s of None \<Rightarrow> True | Some x \<Rightarrow> x \<le> 0)"

definition sealed :: "IChannelState \<Rightarrow> bool" where
  "sealed s \<longleftrightarrow> sl_rate (seal_of s) \<noteq> None \<and>
     (no_lease s \<or> sl_height (seal_of s) \<noteq> None \<and> sl_lease (seal_of s) \<noteq> None)"

definition book_of :: "core \<Rightarrow> seal \<Rightarrow> _" where
  "book_of k sl = book (k_htlcs k) (sl_removals sl) (k_local k) (k_remote k)"

lemma signed_view:
  assumes "sealed s"
  shows "local_view True s = (fst (book_of (core_of s) (seal_of s)), snd (book_of (core_of s) (seal_of s)),
    the (sl_rate (seal_of s)), if no_lease s then None else leaseCsvBlocks (leaseExpiry s) (sl_height (seal_of s)))"
proof -
  have "getLocalCommitmentFeeRate s True = the (sl_rate (seal_of s))"
    using assms by (auto simp: sealed_def seal_of_def getLocalCommitmentFeeRate_def)
  moreover have "leaseCsvBlocks (leaseExpiry s) (getLocalCommitmentLeaseBlockheight s True) =
      (if no_lease s then None else leaseCsvBlocks (leaseExpiry s) (sl_height (seal_of s)))"
    using assms by (auto simp: sealed_def seal_of_def no_lease_def leaseCsvBlocks_def getLocalCommitmentLeaseBlockheight_def split: option.splits)
  ultimately show ?thesis
    by (simp add: local_view_def book_of_def book_def carried_def localBalances_sum core_sel seal_of_def)
qed

text \<open>Two sealed states with one book and one seal have one view.\<close>

lemma same_book_view:
  assumes "sealed s" "sealed t" "frame t = frame s" "book_of (core_of t) (seal_of t) = book_of (core_of s) (seal_of s)"
    "sl_rate (seal_of t) = sl_rate (seal_of s)" "sl_height (seal_of t) = sl_height (seal_of s)"
  shows "local_view True t = local_view True s"
proof -
  have "no_lease t = no_lease s" "leaseExpiry t = leaseExpiry s" using assms(3) by (simp_all add: frame_def no_lease_def)
  then show ?thesis using assms by (simp add: signed_view)
qed

text \<open>A change of flags that neither the outputs nor the balances of the signed commitment depend on.\<close>

definition neutral :: "(IHtlcEntry \<Rightarrow> IHtlcEntry) \<Rightarrow> IHtlcEntry \<Rightarrow> bool" where
  "neutral f h \<longleftrightarrow> face (f h) = face h \<and> localCarriesHtlc True (f h) = localCarriesHtlc True h \<and>
     local_credit True (f h) = local_credit True h"

lemma book_map: "list_all (neutral f) hs \<Longrightarrow> book (map f hs) rs l r = book hs rs l r"
  by (induction hs arbitrary: l r) (auto simp: neutral_def book_def)

lemma book_add:
  assumes "\<not> localCarriesHtlc True h"
  shows "book (hs @ [h]) rs (l - fst (local_credit True h)) (r - snd (local_credit True h)) = book hs rs l r"
  using assms by (simp add: book_def)

lemmas carries_defs = localCarriesHtlc_def removed_def signedLocalCarriesRemoval_def signedLocalLacksReceivedAdd_def
  localCommitmentCarriesAdd_def local_credit_def localBalanceStep_def face_def

definition entry_ok :: "IHtlcEntry \<Rightarrow> bool" where
  "entry_ok h \<longleftrightarrow>
     (direction h = OFFERED \<and> is_false (addRemoteCommitted h) \<longrightarrow> entry_live h \<and> is_false (addRemoteSigned h)) \<and>
     (direction h = RECEIVED \<longrightarrow> \<not> is_false (addRemoteCommitted h)) \<and>
     (\<not> entry_live h \<longrightarrow> removalRemoteCommitted h = Some False) \<and>
     (direction h = OFFERED \<and> entry_state h = FULFILLED \<and> \<not> is_false (removalLocallyRevoked h) \<longrightarrow> \<not> is_false (addRemoteSigned h)) \<and>
     (commitCoverPending h = Some True \<longrightarrow>
        entry_live h \<and> direction h = OFFERED \<and> is_false (addRemoteCommitted h) \<or>
        \<not> entry_live h \<and> (direction h = OFFERED \<longrightarrow> \<not> is_false (removalLocallyRevoked h))) \<and>
     (direction h = RECEIVED \<and> entry_state h = FULFILLED \<longrightarrow> \<not> is_false (addLocallyRevoked h))"

lemma phases_neutral: "neutral commit_pending h" "neutral stamp_entry h" "neutral dispatch_entry h"
proof -
  show "neutral commit_pending h" by (auto simp: neutral_def commit_pending_def carries_defs)
  show "neutral stamp_entry h" by (simp add: neutral_def stamp_entry_def Let_def carries_defs)
  show "neutral dispatch_entry h" by (simp add: neutral_def dispatch_entry_def carries_defs)
qed


definition settle_with :: "HtlcState \<Rightarrow> IHtlcEntry \<Rightarrow> IHtlcEntry" where
  "settle_with outcome h = h\<lparr>entry_state := outcome, removalRemoteCommitted := Some False\<rparr>"

definition resettle_with :: "HtlcState \<Rightarrow> IHtlcEntry \<Rightarrow> IHtlcEntry" where
  "resettle_with outcome h =
     h\<lparr>entry_state := outcome, removalRemoteCommitted := Some False, removalLocallyRevoked := Some False\<rparr>"

lemma settles_neutral:
  "direction h = RECEIVED \<Longrightarrow> entry_live h \<Longrightarrow> outcome = FAILED \<or> outcome = FULFILLED \<Longrightarrow> neutral (settle_with outcome) h"
  "direction h = OFFERED \<Longrightarrow> \<not> addNotYetCommitted h \<Longrightarrow> entry_live h \<or> is_false (removalLocallyRevoked h) \<Longrightarrow>
   outcome = FAILED \<or> outcome = FULFILLED \<Longrightarrow> neutral (resettle_with outcome) h"
  by (cases "entry_state h"; auto simp: neutral_def settle_with_def resettle_with_def entry_live_def addNotYetCommitted_def
      is_false_def carries_defs)+

lemma commit_dispatch_ok:
  "entry_ok h \<Longrightarrow> entry_ok (commit_pending h)" "entry_ok h \<Longrightarrow> entry_ok (dispatch_entry h)"
  by (cases "entry_state h"; simp add: entry_ok_def entry_live_def commit_pending_def dispatch_entry_def)+

lemma stamp_ok: "entry_ok h \<Longrightarrow> entry_ok (stamp_entry h)"
  by (cases "entry_state h"; cases "direction h") (auto simp: entry_ok_def entry_live_def stamp_entry_def is_false_def Let_def)

lemma adopt_ok: "entry_ok h \<Longrightarrow> entry_ok (revoke_entry (mark_signed h))"
  by (cases "entry_state h"; cases "direction h")
    (auto simp: entry_ok_def entry_live_def mark_signed_def revoke_entry_def is_false_def Let_def)

lemma promote_ok: "entry_ok h \<Longrightarrow> \<not> settles (promote_entry h) \<Longrightarrow> entry_ok (promote_entry h)"
  by (cases "direction h"; cases "entry_state h"; cases "commitCoverPending h = Some True"; cases "addCoverPending h = Some True")
    (simp_all add: entry_ok_def entry_live_def promote_entry_def settles_def is_false_def Let_def)

lemma settles_ok:
  "entry_ok h \<Longrightarrow> direction h = RECEIVED \<Longrightarrow> entry_live h \<Longrightarrow> outcome = FAILED \<or> outcome = FULFILLED \<and> \<not> is_false (addLocallyRevoked h) \<Longrightarrow>
   entry_ok (settle_with outcome h)"
  "entry_ok h \<Longrightarrow> direction h = OFFERED \<Longrightarrow> \<not> addNotYetCommitted h \<Longrightarrow> entry_live h \<or> is_false (removalLocallyRevoked h) \<Longrightarrow>
   outcome = FAILED \<or> outcome = FULFILLED \<Longrightarrow> entry_ok (resettle_with outcome h)"
  by (auto simp: entry_ok_def settle_with_def resettle_with_def entry_live_def addNotYetCommitted_def is_false_def)

text \<open>One entry through a completed round: it stays with the same share of the book, or its balance is settled.\<close>

lemma promoted_kept: "entry_ok h \<Longrightarrow> \<not> settles (promote_entry h) \<Longrightarrow> neutral promote_entry h"
  by (cases "direction h"; cases "entry_state h"; cases "commitCoverPending h = Some True"; cases "addCoverPending h = Some True")
    (auto simp: entry_ok_def neutral_def promote_entry_def settles_def entry_live_def is_false_def carries_defs Let_def)

lemma promoted_settled:
  assumes "entry_ok h" "settles (promote_entry h)"
  shows "localCarriesHtlc True h = kept_removal (promote_entry h)" "face (promote_entry h) = face h"
    and "local_credit True h = (local_gain (promote_entry h) + (if kept_removal (promote_entry h) then fst (retained_debit (promote_entry h)) else 0),
      remote_gain (promote_entry h) + (if kept_removal (promote_entry h) then snd (retained_debit (promote_entry h)) else 0))"
proof -
  have "commitCoverPending h = Some True" "\<not> entry_live h"
    using assms by (auto simp: entry_ok_def promote_entry_def settles_def entry_live_def is_false_def Let_def split: if_splits)
  then have h: "direction (promote_entry h) = direction h" "entry_state (promote_entry h) = entry_state h"
    "amountMsat (promote_entry h) = amountMsat h" "addLocallyRevoked (promote_entry h) = addLocallyRevoked h"
    "face (promote_entry h) = face h"
    by (simp_all add: promote_entry_def entry_live_def face_def Let_def)
  then show "face (promote_entry h) = face h" by simp
  show "localCarriesHtlc True h = kept_removal (promote_entry h)"
    using assms \<open>\<not> entry_live h\<close> \<open>commitCoverPending h = Some True\<close>
    by (cases "direction h"; cases "entry_state h") (auto simp: kept_removal_def h entry_ok_def is_false_def entry_live_def carries_defs)
  show "local_credit True h = (local_gain (promote_entry h) + (if kept_removal (promote_entry h) then fst (retained_debit (promote_entry h)) else 0),
      remote_gain (promote_entry h) + (if kept_removal (promote_entry h) then snd (retained_debit (promote_entry h)) else 0))"
    using assms \<open>\<not> entry_live h\<close> \<open>commitCoverPending h = Some True\<close>
    by (cases "direction h"; cases "entry_state h")
      (auto simp: kept_removal_def h entry_ok_def is_false_def entry_live_def local_gain_def remote_gain_def
        retained_debit_def retainedBalanceStep_def carries_defs)
qed


lemma book_round:
  assumes "list_all entry_ok hs"
  shows "book (filter (\<lambda>h. \<not> settles h) (map promote_entry hs)) (rs @ filter kept_removal (map promote_entry hs))
      (l + (\<Sum>h\<leftarrow>hs. local_gain (promote_entry h))) (r + (\<Sum>h\<leftarrow>hs. remote_gain (promote_entry h))) = book hs rs l r"
  using assms
proof (induction hs arbitrary: l r)
  case (Cons h hs)
  have IH: "book (filter (\<lambda>h. \<not> settles h) (map promote_entry hs)) (rs @ filter kept_removal (map promote_entry hs))
      (l + (\<Sum>h\<leftarrow>hs. local_gain (promote_entry h))) (r + (\<Sum>h\<leftarrow>hs. remote_gain (promote_entry h))) = book hs rs l r" for l r
    using Cons by simp
  have ok: "entry_ok h" using Cons.prems by simp
  show ?case
  proof (cases "settles (promote_entry h)")
    case True
    then show ?thesis using IH [of l r] promoted_settled [OF ok True] by (auto simp: book_def)
  next
    case False
    then have "\<not> kept_removal (promote_entry h)" "local_gain (promote_entry h) = 0" "remote_gain (promote_entry h) = 0"
      by (simp_all add: kept_removal_def local_gain_def remote_gain_def)
    then show ?thesis using IH [of l r] promoted_kept [OF ok False] False by (auto simp: book_def neutral_def)
  qed
qed (simp add: book_def)

text \<open>A transition that leaves the signed commitment as it is.\<close>

definition steady :: "core \<Rightarrow> seal \<Rightarrow> core \<Rightarrow> seal \<Rightarrow> bool" where
  "steady k sl k' sl' \<longleftrightarrow> book_of k' sl' = book_of k sl \<and> sl_signature sl' = sl_signature sl \<and> sl_rate sl' = sl_rate sl \<and>
     sl_height sl' = sl_height sl \<and> (sl_lease sl \<noteq> None \<longrightarrow> sl_lease sl' \<noteq> None) \<and> k_number k' = k_number k \<and>
     sl_risk sl' = sl_risk sl \<and> list_all entry_ok (k_htlcs k')"

lemma steady_same:
  assumes "list_all entry_ok (k_htlcs k)" "k_htlcs k' = k_htlcs k" "k_local k' = k_local k" "k_remote k' = k_remote k" "k_number k' = k_number k"
  shows "steady k sl k' sl" "steady k sl k' (sl\<lparr>sl_lease := Some n\<rparr>)"
  using assms by (simp_all add: steady_def book_of_def)

lemma steady_map:
  assumes "list_all entry_ok (k_htlcs k)" "\<And>h. h \<in> set (k_htlcs k) \<Longrightarrow> entry_ok h \<Longrightarrow> neutral f h \<and> entry_ok (f h)"
  shows "steady k sl (map_htlcs f k) sl"
proof -
  have "list_all (neutral f) (k_htlcs k)" using assms by (auto simp: list_all_iff)
  then show ?thesis using assms by (auto simp: steady_def book_of_def map_htlcs_def book_map list_all_iff)
qed

lemma steady_trans: "steady k sl k' sl' \<Longrightarrow> steady k' sl' k'' sl'' \<Longrightarrow> steady k sl k'' sl''"
  by (simp add: steady_def)

lemma neutral_comp: "neutral f h \<Longrightarrow> neutral g (f h) \<Longrightarrow> neutral (g \<circ> f) h"
  by (simp add: neutral_def)

lemma steady_add:
  assumes "list_all entry_ok (k_htlcs k)" "entry_ok h" "\<not> localCarriesHtlc True h" "key h \<notin> set (map key (k_htlcs k))"
    "k_htlcs k' = htlc_set h (k_htlcs k)" "k_local k' = k_local k - fst (local_credit True h)"
    "k_remote k' = k_remote k - snd (local_credit True h)" "k_number k' = k_number k"
  shows "steady k sl k' sl"
  using assms book_add [OF assms(3)] by (simp add: steady_def book_of_def htlc_set_new)

lemma steady_round:
  assumes "list_all entry_ok (htlcs s)" "distinct (map key (htlcs s))"
  shows "steady (core_of s) (seal_of s) (core_of (complete_round s)) (seal_of (complete_round s))"
proof -
  obtain lease where seal: "seal_of (complete_round s) = (seal_of s)\<lparr>sl_lease := lease,
      sl_removals := sl_removals (seal_of s) @ filter kept_removal (map promote_entry (htlcs s))\<rparr>"
    "sl_lease (seal_of s) \<noteq> None \<longrightarrow> lease \<noteq> None"
    using seal_complete_round by blast
  have "list_all entry_ok (filter (\<lambda>h. \<not> settles h) (map promote_entry (htlcs s)))"
    using assms(1) promote_ok by (auto simp: list_all_iff)
  then show ?thesis
    using seal(2) book_round [OF assms(1), of "sl_removals (seal_of s)" "localBalanceMsat s" "remoteBalanceMsat s"]
    by (simp add: steady_def seal(1) core_of_complete_round [OF assms(2)] book_of_def core_sel comp_def)
qed


subsection \<open>A new signature\<close>

lemma adopted_entry:
  "face (revoke_entry (mark_signed h)) = face h"
  "localCarriesHtlc True (revoke_entry (mark_signed h)) = localCarriesHtlc False h"
  "local_credit True (revoke_entry (mark_signed h)) = local_credit False h"
  by (cases "direction h"; cases "entry_state h";
      auto simp: revoke_entry_def mark_signed_def is_false_def carries_defs Let_def)+

lemma seal_adopted: "seal_of (adopt_signature sig hsigs s) =
    \<lparr>sl_signature = Some sig, sl_rate = Some (getLocalCommitmentFeeRate s False),
     sl_height = getLocalCommitmentLeaseBlockheight s False, sl_lease = leaseCommitBlockheight s, sl_removals = [],
     sl_risk = restoreRevokedRisk s\<rparr>"
  by (cases "role s") (simp_all add: seal_of_def adopt_signature_def revoke_entries_def signable_height_def signable_fee_def Let_def
      markOfferedAddsRemoteSigned_def store_signature_def signedLocalRetainedRemovals_def
      getLocalCommitmentFeeRate_def getLocalCommitmentLeaseBlockheight_def committedFeeRate_def split: option.split)

lemma adopted_sealed:
  assumes "no_lease s \<or> sl_lease (seal_of s) \<noteq> None"
  shows "sealed (adopt_signature sig hsigs s)"
proof -
  have "no_lease (adopt_signature sig hsigs s) = no_lease s"
    using adopt_signature_frame [of sig hsigs s] by (simp add: frame_def no_lease_def)
  then show ?thesis
    using assms by (auto simp: sealed_def seal_adopted, auto simp: seal_of_def getLocalCommitmentLeaseBlockheight_def)
qed

lemma adopted_view:
  assumes "no_lease s \<or> sl_lease (seal_of s) \<noteq> None"
  shows "local_view True (adopt_signature sig hsigs s) = local_view False s"
proof -
  let ?t = "adopt_signature sig hsigs s"
  have fr: "leaseExpiry ?t = leaseExpiry s" "no_lease ?t = no_lease s"
    using adopt_signature_frame [of sig hsigs s] by (simp_all add: frame_def no_lease_def)
  have "filter (localCarriesHtlc True) (map (revoke_entry \<circ> mark_signed) hs) =
      map (revoke_entry \<circ> mark_signed) (filter (localCarriesHtlc False) hs)" for hs
    by (simp add: filter_map comp_def adopted_entry)
  then have "book_of (core_of ?t) (seal_of ?t) = (mset (map face (carried s False)), localBalances s False)"
    by (simp add: book_of_def book_def core_of_adopted seal_adopted map_htlcs_def core_sel carried_def comp_def adopted_entry
        signedLocalRetainedRemovals_def localBalances_sum)
  moreover have "no_lease s \<Longrightarrow> leaseCsvBlocks (leaseExpiry s) x = None" for x
    by (auto simp: no_lease_def leaseCsvBlocks_def split: option.splits)
  ultimately show ?thesis
    using signed_view [OF adopted_sealed [OF assms], of sig hsigs]
    by (cases "no_lease s") (simp_all add: local_view_def [of False] fr seal_adopted)
qed

subsection \<open>Every other transition\<close>

lemma settle_maps:
  "mark_received i outcome s = (s\<lparr>htlcs := map (\<lambda>h. if keyed_as RECEIVED i h then settle_with outcome h else h) (htlcs s),
     needsCommitment := True\<rparr>)"
  "mark_offered i outcome s = (s\<lparr>htlcs := map (\<lambda>h. if keyed_as OFFERED i h then resettle_with outcome h else h) (htlcs s)\<rparr>)"
  by (simp_all add: mark_received_def mark_offered_def on_entry_def settle_with_def resettle_with_def)

lemma keyed_unique:
  assumes "distinct (map key hs)" "htlc_get d i hs = Some h" "x \<in> set hs" "keyed_as d i x"
  shows "x = h"
proof -
  have "h \<in> set hs" "keyed_as d i h" using assms(2) by (auto simp: htlc_get_def find_Some_iff)
  then show ?thesis using assms by (auto simp: key_def keyed_as_def distinct_map inj_on_def)
qed

lemma state_step_steady:
  assumes "state_step (Some g) e lib txl s s'" "list_all entry_ok (htlcs s)" "funds_core (core_of s) n"
  shows "steady (core_of s) (seal_of s) (core_of s') (seal_of s') \<or>
    (\<exists>sig hsigs. commitment_verified (Some g) e lib txl s sig hsigs \<and>
      (s' = advance (adopt_signature sig hsigs s) \<or>
       s' = adopt_signature sig hsigs s \<and>
       (\<exists>err. getPerCommitmentSecret lib (localPerCommitmentSeed s) (localCommitmentNumber s) = Inl err)))"
proof -
  have ok: "list_all entry_ok (k_htlcs (core_of s))" and d: "distinct (map key (htlcs s))"
    using assms(2,3) by (simp_all add: core_sel funds_core_def)
  note same = steady_same [OF ok]
  from assms(1) show ?thesis
  proof cases
    case (step_offer h amount hash expiry onion blinding c)
    have h: "key h = (OFFERED, localHtlcCounter s)" "amountMsat h = amount"
      using step_offer by (simp_all add: key_def offered_entry_def new_entry_def)
    have new: "key h \<notin> set (map key (k_htlcs (core_of s)))"
      using assms(3) unfolding h by (auto simp: funds_core_def core_sel list_all_iff key_def)
    have "entry_ok h" "\<not> localCarriesHtlc True h" "local_credit True h = (amount, 0)"
      using step_offer by (simp_all add: offered_entry_def new_entry_def entry_ok_def entry_live_def is_false_def carries_defs)
    then have "steady (core_of s) (seal_of s) (core_of s') (seal_of s)"
      using step_offer(1) new h(2) by (intro steady_add [OF ok, of h]) simp_all
    then show ?thesis using step_offer(1) by simp
  next
    case (step_receive h)
    have new: "key h \<notin> set (map key (k_htlcs (core_of s)))"
      using step_receive htlc_get_None [of h "htlcs s"] by (simp add: core_sel)
    have "entry_ok h" "\<not> localCarriesHtlc True h" "local_credit True h = (0, amountMsat h)"
      using step_receive by (simp_all add: entry_ok_def entry_live_def is_false_def carries_defs)
    then have "steady (core_of s) (seal_of s) (core_of s') (seal_of s)"
      using step_receive(1) new by (intro steady_add [OF ok, of h]) simp_all
    then show ?thesis using step_receive(1) by simp
  next
    case (step_settle_received i h outcome preimage)
    have "steady (core_of s) (seal_of s) (core_of s') (seal_of s)"
      unfolding step_settle_received core_of_effects
    proof (rule steady_map [OF ok])
      fix x assume x: "x \<in> set (k_htlcs (core_of s))" "entry_ok x"
      show "neutral (\<lambda>h. if keyed_as RECEIVED i h then h\<lparr>entry_state := outcome, removalRemoteCommitted := Some False\<rparr> else h) x \<and>
          entry_ok (if keyed_as RECEIVED i x then x\<lparr>entry_state := outcome, removalRemoteCommitted := Some False\<rparr> else x)"
        using step_settle_received x keyed_unique [OF d, of RECEIVED i h x] settles_neutral(1) [of h outcome] settles_ok(1) [of h outcome]
        by (auto simp: core_sel settle_with_def neutral_def keyed_as_def)
    qed
    then show ?thesis using step_settle_received by simp
  next
    case (step_settle_offered i h outcome preimage)
    have "steady (core_of s) (seal_of s) (core_of s') (seal_of s)"
      unfolding step_settle_offered core_of_effects
    proof (rule steady_map [OF ok])
      fix x assume x: "x \<in> set (k_htlcs (core_of s))" "entry_ok x"
      show "neutral (\<lambda>h. if keyed_as OFFERED i h then h\<lparr>entry_state := outcome, removalRemoteCommitted := Some False,
              removalLocallyRevoked := Some False\<rparr> else h) x \<and>
          entry_ok (if keyed_as OFFERED i x then x\<lparr>entry_state := outcome, removalRemoteCommitted := Some False,
              removalLocallyRevoked := Some False\<rparr> else x)"
        using step_settle_offered x keyed_unique [OF d, of OFFERED i h x] settles_neutral(2) [of h outcome] settles_ok(2) [of h outcome]
        by (auto simp: core_sel resettle_with_def neutral_def keyed_as_def)
    qed
    then show ?thesis using step_settle_offered by simp
  next
    case (step_sign point signer sig hsigs spliced)
    let ?k = "(core_of s)\<lparr>k_signed := k_signed (core_of s) + 1, k_revocations := Some (k_count (core_of s))\<rparr>"
    have "steady (core_of s) (seal_of s) ?k (seal_of s)" by (rule same) simp_all
    moreover have "steady ?k (seal_of s) (core_of s') (seal_of s)"
      unfolding step_sign core_of_signed
      by (rule steady_map) (use ok in \<open>auto intro: neutral_comp phases_neutral stamp_ok commit_dispatch_ok\<close>)
    ultimately show ?thesis using steady_trans step_sign by auto
  next
    case (step_commit a b)
    have "steady (core_of s) (seal_of s) (core_of s') (seal_of s)"
      unfolding step_commit core_of_effects by (rule steady_map [OF ok]) (simp add: phases_neutral commit_dispatch_ok)
    then show ?thesis using step_commit by simp
  next
    case (step_revoked secret chain p nonce)
    let ?s = "next_point p nonce (accept_revocation chain s)"
    have hs: "htlcs ?s = htlcs s" by (simp add: next_point_def accept_revocation_def)
    have "steady (core_of s) (seal_of s) (core_of ?s) (seal_of ?s)" using same(1) by simp
    moreover have r: "steady (core_of ?s) (seal_of ?s) (core_of (complete_round ?s)) (seal_of (complete_round ?s))"
      using steady_round [of ?s] assms(2) d hs by simp
    moreover have "steady (core_of (complete_round ?s)) (seal_of (complete_round ?s)) (core_of s') (seal_of (complete_round ?s))"
      unfolding step_revoked core_of_effects
      by (rule steady_map) (use r in \<open>auto simp: steady_def phases_neutral commit_dispatch_ok\<close>)
    ultimately show ?thesis using steady_trans step_revoked by (metis seal_updates(7))
  qed (use same in \<open>auto split: option.split\<close>)
qed


section \<open>The way out\<close>

text \<open>The stored signature verifies on the rebuild of the commitment it was given for.\<close>

definition signature_covers :: "ISigner \<Rightarrow> ecc \<Rightarrow> btc \<Rightarrow> IChannelState \<Rightarrow> bool" where
  "signature_covers g e lib s =
     (case rbind (getPerCommitmentPoint e lib (localPerCommitmentSeed s) (localCommitmentNumber s))
             (\<lambda>point. buildLocalCommitment e lib s point None True) of
        Inl _ \<Rightarrow> False
      | Inr bc \<Rightarrow> (case (remoteCommitmentSignature s, remoteBasepoints s) of
          (Some sig, Some rbp) \<Rightarrow> sg_verifyCommitmentSig g (ct_tx (bc_result bc)) sig (fundingPubkey rbp)
             (bc_fundingWitnessScript bc) (bc_fundingAmount bc)
        | _ \<Rightarrow> False))"

lemma build_number: "buildLocalCommitment e lib s pt None sl = buildLocalCommitment e lib s pt (Some (localCommitmentNumber s)) sl"
  by (simp add: buildLocalCommitment_def split: option.split)

lemma signature_coversE:
  assumes "signature_covers g e lib s"
  obtains point bc sig rbp where
    "getPerCommitmentPoint e lib (localPerCommitmentSeed s) (localCommitmentNumber s) = Inr point"
    "buildLocalCommitment e lib s point (Some (localCommitmentNumber s)) True = Inr bc"
    "remoteCommitmentSignature s = Some sig" "remoteBasepoints s = Some rbp"
    "sg_verifyCommitmentSig g (ct_tx (bc_result bc)) sig (fundingPubkey rbp) (bc_fundingWitnessScript bc) (bc_fundingAmount bc)"
  using assms by (auto simp: signature_covers_def rbind_eq_Inr build_number split: sum.splits option.splits)

lemma signature_coversI:
  assumes "getPerCommitmentPoint e lib (localPerCommitmentSeed s) (localCommitmentNumber s) = Inr point"
    "buildLocalCommitment e lib s point (Some (localCommitmentNumber s)) True = Inr bc"
    "remoteCommitmentSignature s = Some sig" "remoteBasepoints s = Some rbp"
    "sg_verifyCommitmentSig g (ct_tx (bc_result bc)) sig (fundingPubkey rbp) (bc_fundingWitnessScript bc) (bc_fundingAmount bc)"
  shows "signature_covers g e lib s"
  using assms by (simp add: signature_covers_def build_number)

lemma steady_covers:
  assumes "steady (core_of s) (seal_of s) (core_of t) (seal_of t)" "frame t = frame s" "sealed s" "signature_covers g e lib s"
  shows "sealed t" "signature_covers g e lib t"
proof -
  have st: "sl_signature (seal_of t) = sl_signature (seal_of s)" "k_number (core_of t) = k_number (core_of s)"
    "no_lease t = no_lease s" "localPerCommitmentSeed t = localPerCommitmentSeed s" "remoteBasepoints t = remoteBasepoints s"
    using assms(1,2) by (simp_all add: steady_def frame_def no_lease_def)
  show t: "sealed t" using assms(1,3) st(3) by (auto simp: sealed_def steady_def)
  have view: "local_view True t = local_view True s"
    using assms(1) by (intro same_book_view [OF assms(3) t assms(2)]) (simp_all add: steady_def)
  obtain point bc sig rbp where c: "getPerCommitmentPoint e lib (localPerCommitmentSeed s) (localCommitmentNumber s) = Inr point"
      "buildLocalCommitment e lib s point (Some (localCommitmentNumber s)) True = Inr bc"
      "remoteCommitmentSignature s = Some sig" "remoteBasepoints s = Some rbp"
      "sg_verifyCommitmentSig g (ct_tx (bc_result bc)) sig (fundingPubkey rbp) (bc_fundingWitnessScript bc) (bc_fundingAmount bc)"
    using assms(4) by (rule signature_coversE)
  obtain b where b: "buildLocalCommitment e lib t point (Some (localCommitmentNumber s)) True = Inr b" "same_body lib bc b"
    using same_view_builds [OF assms(2) view c(2)] by blast
  show "signature_covers g e lib t"
    by (rule signature_coversI [of e lib t point b sig rbp]) (use b c st in \<open>simp_all add: same_body_def core_sel seal_of_def\<close>)
qed

lemma advance_view: "local_view sl (advance s) = local_view sl s" "no_lease (advance s) = no_lease s"
  by (cases "role s"; simp add: no_lease_def local_view_def advance_def carried_def signedLocalRetainedRemovals_def
    localBalances_def getLocalCommitmentFeeRate_def committedFeeRate_def getLocalCommitmentLeaseBlockheight_def split: option.split)+

lemma adopted_covers:
  assumes "commitment_verified (Some g) e lib txl s sig hsigs" "no_lease s \<or> sl_lease (seal_of s) \<noteq> None"
  shows "sealed (advance (adopt_signature sig hsigs s))" "signature_covers g e lib (advance (adopt_signature sig hsigs s))"
proof -
  let ?t = "adopt_signature sig hsigs s" and ?n = "localCommitmentNumber s + 1"
  have fr: "frame (advance ?t) = frame s" by simp
  then have st: "remoteBasepoints (advance ?t) = remoteBasepoints s" "localPerCommitmentSeed (advance ?t) = localPerCommitmentSeed s"
    by (simp_all only: frame_def prod.inject)
  have num: "localCommitmentNumber (advance ?t) = ?n" "remoteCommitmentSignature (advance ?t) = Some sig"
    using core_of_adopted [of sig hsigs s] seal_adopted [of sig hsigs s]
    by (auto simp: advance_def core_of_def map_htlcs_def seal_of_def)
  show "sealed (advance ?t)" using adopted_sealed [OF assms(2), of sig hsigs] by (simp add: sealed_def advance_view)
  obtain point where p: "getPerCommitmentPoint e lib (localPerCommitmentSeed s) ?n = Inr point"
      "verifyRemoteCommitmentSig e lib s g point sig (Some ?n) = Inr True"
    using assms(1) by (auto simp: commitment_verified_def)
  obtain rbp bc where bc: "remoteBasepoints s = Some rbp" "buildLocalCommitment e lib s point (Some ?n) False = Inr bc"
      "sg_verifyCommitmentSig g (ct_tx (bc_result bc)) sig (fundingPubkey rbp) (bc_fundingWitnessScript bc) (bc_fundingAmount bc)"
    using p(2) by (auto simp: verifyRemoteCommitmentSig_def rbind_eq_Inr split: option.splits)
  obtain b where b: "buildLocalCommitment e lib (advance ?t) point (Some ?n) True = Inr b" "same_body lib bc b"
    using same_view_builds [OF fr _ bc(2), of True] adopted_view [OF assms(2), of sig hsigs] by (auto simp: advance_view)
  show "signature_covers g e lib (advance ?t)"
    by (rule signature_coversI [of e lib _ point b sig rbp]) (use b bc p(1) st num in \<open>simp_all add: same_body_def\<close>)
qed


lemma covers_secret:
  assumes "signature_covers g e lib s"
  shows "\<exists>secret. getPerCommitmentSecret lib (localPerCommitmentSeed s) (localCommitmentNumber s) = Inr secret"
  using assms by (auto elim!: signature_coversE simp: getPerCommitmentPoint_def getPerCommitmentSecret_def rbind_eq_Inr)

text \<open>A channel with a way out: nothing forbids the broadcast, and the stored signature covers what is rebuilt.\<close>

definition has_exit :: "ISigner \<Rightarrow> ecc \<Rightarrow> btc \<Rightarrow> IChannelState \<Rightarrow> bool" where
  "has_exit g e lib s \<longleftrightarrow> \<not> mustNotBroadcastCommitment s \<and> closable (chState s) \<and> \<not> spliceSeenOnChain s \<and>
     sealed s \<and> signature_covers g e lib s \<and> list_all entry_ok (htlcs s)"

definition free_to_close :: "IChannelState \<Rightarrow> bool" where
  "free_to_close s \<longleftrightarrow> \<not> mustNotBroadcastCommitment s \<and> closable (chState s) \<and> \<not> spliceSeenOnChain s"

lemma state_step_free:
  assumes "state_step mode e lib txl s s'" "free_to_close s" "sl_risk (seal_of s') \<longrightarrow> sl_risk (seal_of s)"
  shows "free_to_close s'"
proof -
  have "closable (chState s')" using state_step_state [OF assms(1)] assms(2) by (auto simp: closable_def free_to_close_def)
  moreover have "frame s' = frame s" by (rule state_step_frame [OF assms(1)])
  then have "spliceSeenOnChain s' = spliceSeenOnChain s" "dataLossDetected s' = dataLossDetected s" "stateUncertain s' = stateUncertain s"
    by (cases "spliceInFlight s'"; cases "spliceInFlight s"; simp add: frame_def spliceSeenOnChain_def)+
  ultimately show ?thesis
    using assms(2,3) by (auto simp: free_to_close_def mustNotBroadcastCommitment_def seal_of_def)
qed

lemma state_step_exit:
  assumes "state_step (Some g) e lib txl s s'" "has_exit g e lib s" "funds_core (core_of s) n"
  shows "has_exit g e lib s'"
proof -
  have ok: "list_all entry_ok (htlcs s)" "sealed s" "signature_covers g e lib s" "free_to_close s"
    using assms(2) by (simp_all add: has_exit_def free_to_close_def)
  consider "steady (core_of s) (seal_of s) (core_of s') (seal_of s')"
    | sig hsigs where "commitment_verified (Some g) e lib txl s sig hsigs" "s' = advance (adopt_signature sig hsigs s)"
    using state_step_steady [OF assms(1) ok(1) assms(3)] covers_secret [OF ok(3)] by fastforce
  then show ?thesis
  proof cases
    case 1
    then have "free_to_close s'" "list_all entry_ok (htlcs s')"
      using state_step_free [OF assms(1) ok(4)] by (simp_all add: steady_def core_sel)
    then show ?thesis
      using steady_covers [OF 1 state_step_frame [OF assms(1)] ok(2,3)] by (simp add: has_exit_def free_to_close_def)
  next
    case 2
    then have "free_to_close s'" using state_step_free [OF assms(1) ok(4)] by simp
    moreover have "list_all entry_ok (htlcs s')"
      using ok(1) adopt_ok core_of_adopted [of sig hsigs s] 2(2) by (auto simp: core_of_def map_htlcs_def advance_def list_all_iff)
    ultimately show ?thesis
      using adopted_covers [OF 2(1)] ok(2) 2(2) by (auto simp: has_exit_def free_to_close_def sealed_def)
  qed
qed

interpretation exits: channel_invariant "Some g" e lib txl
  "\<lambda>s. terms_ok (terms s) \<and> funds_ok s \<and> has_exit g e lib s" for g e lib txl
proof
  fix s s' assume *: "state_step (Some g) e lib txl s s'" "terms_ok (terms s) \<and> funds_ok s \<and> has_exit g e lib s"
  then have "fundingSatoshis s' = fundingSatoshis s" using state_step_frame by (simp add: frame_def)
  then show "terms_ok (terms s') \<and> funds_ok s' \<and> has_exit g e lib s'"
    using * state_step_terms state_step_funds state_step_exit by (auto simp: funds_core_of)
qed

text \<open>What the signer is expected to do: it signs a commitment, and accepts only signatures of 64 bytes.\<close>

definition signer_laws :: "ISigner \<Rightarrow> bool" where
  "signer_laws g \<longleftrightarrow> (\<forall>tx script amount. \<exists>sig. sg_signCommitmentTx g tx script amount = Inr sig \<and> length sig = 64) \<and>
     (\<forall>tx sig pubkey script amount. sg_verifyCommitmentSig g tx sig pubkey script amount \<longrightarrow> length sig = 64)"

lemma finish_script:
  assumes "buildLocalCommitment e lib s pt n sl = Inr bc" "remoteBasepoints s = Some rbp"
  shows "createFundingScript lib (fundingPubkey (localBasepoints s)) (fundingPubkey rbp) = Inr (bc_fundingWitnessScript bc)"
  using assms by (auto simp: buildLocalCommitment_def finishCommitment_def rbind_eq_Inr Let_def split: option.splits)

lemma covered_plan:
  assumes "signature_covers g e lib s" "signer_laws g"
  obtains bc where "rbind (getPerCommitmentPoint e lib (localPerCommitmentSeed s) (localCommitmentNumber s))
      (\<lambda>point. buildLocalCommitment e lib s point None True) = Inr bc"
    "tx_outs (ct_tx (bc_result bc)) \<noteq> [] \<Longrightarrow> \<exists>witness. planCommitment e lib g s =
      Inr (Ready \<lparr>fp_commitmentTx = ct_tx (bc_result bc), fp_witness = witness,
        fp_signedLocalRemovals = signedLocalRemovals s, fp_channelId = channelId s\<rparr>)"
proof -
  obtain point bc sig rbp where c: "getPerCommitmentPoint e lib (localPerCommitmentSeed s) (localCommitmentNumber s) = Inr point"
      "buildLocalCommitment e lib s point (Some (localCommitmentNumber s)) True = Inr bc"
      "remoteCommitmentSignature s = Some sig" "remoteBasepoints s = Some rbp"
      "sg_verifyCommitmentSig g (ct_tx (bc_result bc)) sig (fundingPubkey rbp) (bc_fundingWitnessScript bc) (bc_fundingAmount bc)"
    using assms(1) by (rule signature_coversE)
  let ?script = "bc_fundingWitnessScript bc"
  obtain own where own: "sg_signCommitmentTx g (ct_tx (bc_result bc)) ?script (bc_fundingAmount bc) = Inr own" "length own = 64"
    using assms(2) unfolding signer_laws_def by blast
  have "length sig = 64" using assms(2) c(5) unfolding signer_laws_def by blast
  then obtain witness where "buildFundingWitness own sig (fundingPubkey (localBasepoints s)) (fundingPubkey rbp) ?script = Inr witness"
    using own(2) by (cases "buffer_compare (fundingPubkey (localBasepoints s)) (fundingPubkey rbp) < 0")
      (auto simp: buildFundingWitness_def toDer_def throw_if_def Let_def)
  then have "witnessForceCloseCommitment lib s bc g = Inr (Some (ct_tx (bc_result bc), witness))"
    using c own(1) finish_script [OF c(2,4)] by (simp add: witnessForceCloseCommitment_def Let_def)
  then show thesis
    using c(1,2) that [of bc] by (simp add: build_number planCommitment_def Let_def)
qed

section \<open>A sample close\<close>

text \<open>The sample libraries with signatures of 64 bytes.\<close>

definition close_txlib :: txlib where
  "close_txlib = sample_txlib\<lparr>ecc_sign := \<lambda>h k. rbind (getPublicKey ecc_mod k) (\<lambda>p. Inr (h @ drop 1 p)),
     ecc_verify := \<lambda>h p sig strict. Inr (length sig = 64 \<and> sig = h @ drop 1 p)\<rparr>"

definition close_signer :: ISigner where
  "close_signer = asSigner ecc_mod small_lib close_txlib (sample_signer_of 10)"

text \<open>The peer's signature on a commitment of ours.\<close>

definition peer_signature :: "IChannelState \<Rightarrow> int \<Rightarrow> bytes" where
  "peer_signature s n =
     (case rbind (getPerCommitmentPoint ecc_mod small_lib (localPerCommitmentSeed s) n) (\<lambda>point.
         rbind (buildLocalCommitment ecc_mod small_lib s point (Some n) False) (\<lambda>bc.
         signCommitmentTx close_txlib (sample_signer_of 30) (ct_tx (bc_result bc)) (bc_fundingWitnessScript bc) (bc_fundingAmount bc))) of
        Inr sig \<Rightarrow> sig | Inl _ \<Rightarrow> [])"

definition offered_sample :: IHtlcEntry where
  "offered_sample = (sample_entry 0 50000000 OFFERED COMMITTED)\<lparr>paymentHash := sha256 small_lib [5],
     addRemoteCommitted := Some True, addRemoteSigned := Some True\<rparr>"

definition close_state :: IChannelState where
  "close_state = (let s = (ch_state (sample_end OPENER 10 30 550000000 400000000))
       \<lparr>htlcs := [offered_sample], localHtlcCounter := 1, lastSignedCommitFeeratePerKw := Some 2500\<rparr>
     in s\<lparr>remoteCommitmentSignature := Some (peer_signature s 0)\<rparr>)"

definition close_chan :: chan where
  "close_chan = (sample_open close_state 10)\<lparr>ch_signer := Some close_signer\<rparr>"

text \<open>The peer fails the HTLC, signs our commitment without it, and fulfils it.\<close>

definition fail_0 :: channel_event where
  "fail_0 = Receive (UPDATE_FAIL_HTLC \<lparr>ufl_channelId = replicate 32 2, ufl_id = 0, ufl_reason = []\<rparr>)"

definition fulfill_0 :: channel_event where
  "fulfill_0 = Receive (UPDATE_FULFILL_HTLC \<lparr>ufh_channelId = replicate 32 2, ufh_id = 0, ufh_paymentPreimage = [5]\<rparr>)"

definition after_fail :: chan where
  "after_fail = fst (channel_do ecc_mod small_lib close_txlib no_rounds fail_0 close_chan)"

definition signed_1 :: channel_event where
  "signed_1 = Receive (COMMITMENT_SIGNED \<lparr>csg_channelId = replicate 32 2, csg_signature = peer_signature (ch_state after_fail) 1,
     csg_htlcSignatures = [], csg_fundingTxid = None, csg_partialSignatureWithNonce = None\<rparr>)"

definition no_closes :: other_closes where
  "no_closes = \<lparr>oc_taproot = \<lambda>_. Inr (Refused ''taproot''), oc_splice = \<lambda>_. Inr (Refused ''splice''),
     oc_v2 = \<lambda>_. Inr (Refused ''dual funding'')\<rparr>"

definition quiet_chain :: close_facts where
  "quiet_chain = \<lparr>cf_fundingSpendConfirmed = False, cf_fundingSpendReverifyPending = False, cf_lastCooperativeClose = None,
     cf_v2Confirmed = False\<rparr>"

lemma close_signer_laws: "signer_laws close_signer"
proof -
  have key: "getPublicKey ecc_mod (be_bytes 32 10) = Inr (pt_mod 10)" by code_simp
  have "sg_signCommitmentTx close_signer tx script amount =
      Inr (hashForWitnessV0 sample_txlib tx 0 script amount SIGHASH_ALL @ drop 1 (pt_mod 10))" for tx script amount
    by (simp add: close_signer_def asSigner_def signCommitmentTx_def sign_def close_txlib_def sample_txlib_def
        sample_signer_of_def key throw_if_def)
  moreover have "length (hashForWitnessV0 sample_txlib tx 0 script amount SIGHASH_ALL @ drop 1 (pt_mod 10)) = 64" for tx script amount
    by (simp add: sample_txlib_def pt_mod_def)
  moreover have "length sig = 64" if "sg_verifyCommitmentSig close_signer tx sig pubkey script amount" for tx sig pubkey script amount
    using that by (auto simp: close_signer_def asSigner_def verifyCommitmentSignature_def verify_def close_txlib_def Let_def)
  ultimately show ?thesis by (auto simp: signer_laws_def)
qed

lemma close_chan_ok:
  "covered (ch_state close_chan)" "terms_ok (terms (ch_state close_chan))" "funds_ok (ch_state close_chan)"
  by code_simp+

lemma close_chan_exit: "has_exit close_signer ecc_mod small_lib (ch_state close_chan)"
  by code_simp

lemma close_proper: "proper_run ecc_mod small_lib close_txlib no_rounds [fail_0, signed_1] close_chan"
  by code_simp

definition closing_chan :: chan where
  "closing_chan = fst (channel_run ecc_mod small_lib close_txlib no_rounds [fail_0, signed_1] close_chan)"

lemma closing_outputs:
  "(case rbind (getPerCommitmentPoint ecc_mod small_lib (localPerCommitmentSeed (ch_state closing_chan))
        (localCommitmentNumber (ch_state closing_chan)))
      (\<lambda>point. buildLocalCommitment ecc_mod small_lib (ch_state closing_chan) point None True) of
     Inl _ \<Rightarrow> False
   | Inr bc \<Rightarrow> map out_value (tx_outs (ct_tx (bc_result bc))) \<noteq> [] \<and> localCommitmentNumber (ch_state closing_chan) = 1)"
  by code_simp

definition contradicted_chan :: chan where
  "contradicted_chan = fst (channel_do ecc_mod small_lib close_txlib no_rounds fulfill_0 closing_chan)"

section \<open>Properties\<close>

text \<open>C38: a channel whose stored signature covers its commitment never loses its unilateral way out. In every run in which we fulfil only HTLCs that our commitment
  carries and the peer does not settle an HTLC again that it already removed from our commitment, the
  commitment rebuilt for a force close is the one the stored signature of the peer was verified on:
  preparing the force close succeeds with that transaction, unless it has no output at all.\<close>

theorem force_close_possible:
  assumes "covered (ch_state c)" "terms_ok (terms (ch_state c))" "funds_ok (ch_state c)" "has_exit g e lib (ch_state c)"
    and "ch_signer c = Some g" "signer_laws g" "proper_run e lib txl other evs c"
    and "d = fst (channel_run e lib txl other evs c)" "\<not> cf_v2Confirmed facts"
  shows "\<exists>bc. rbind (getPerCommitmentPoint e lib (localPerCommitmentSeed (ch_state d)) (localCommitmentNumber (ch_state d)))
      (\<lambda>point. buildLocalCommitment e lib (ch_state d) point None True) = Inr bc \<and>
    (tx_outs (ct_tx (bc_result bc)) \<noteq> [] \<longrightarrow> (\<exists>plan. prepareForceClose e lib closes facts d g = Inr (Ready plan) \<and>
      fp_commitmentTx plan = ct_tx (bc_result bc)))"
proof -
  have ex: "covered (ch_state d)" "has_exit g e lib (ch_state d)"
    using exits.run_keeps [of c g e lib txl other evs] assms by simp_all
  then have sc: "signature_covers g e lib (ch_state d)" by (simp add: has_exit_def)
  obtain bc where bc: "rbind (getPerCommitmentPoint e lib (localPerCommitmentSeed (ch_state d)) (localCommitmentNumber (ch_state d)))
      (\<lambda>point. buildLocalCommitment e lib (ch_state d) point None True) = Inr bc"
    "tx_outs (ct_tx (bc_result bc)) \<noteq> [] \<Longrightarrow> \<exists>witness. planCommitment e lib g (ch_state d) =
      Inr (Ready \<lparr>fp_commitmentTx = ct_tx (bc_result bc), fp_witness = witness,
        fp_signedLocalRemovals = signedLocalRemovals (ch_state d), fp_channelId = channelId (ch_state d)\<rparr>)"
    using covered_plan [OF sc assms(6)] by blast
  have "fundingTxid (ch_state d) \<noteq> None" "remoteBasepoints (ch_state d) \<noteq> None"
    using bc(1) by (auto simp: rbind_eq_Inr buildLocalCommitment_def split: option.splits)
  moreover have "remoteCommitmentSignature (ch_state d) \<noteq> None" using sc by (auto elim: signature_coversE)
  moreover have "closable (chState (ch_state d))" using ex(2) by (simp add: has_exit_def)
  then have "\<not> closedWithUnbroadcastableCoopClose facts d" by (auto simp: closable_def closedWithUnbroadcastableCoopClose_def)
  ultimately have "prepareForceClose e lib closes facts d g = planCommitment e lib g (ch_state d)"
    using ex assms(9) by (auto simp: prepareForceClose_def Let_def has_exit_def covered_def)
  then show ?thesis using bc by (intro exI [of _ bc]) auto
qed

theorem force_close_possible_witness:
  "has_exit close_signer ecc_mod small_lib (ch_state close_chan) \<and> localCommitmentNumber (ch_state closing_chan) = 1 \<and>
   (\<exists>plan. prepareForceClose ecc_mod small_lib no_closes quiet_chain closing_chan close_signer = Inr (Ready plan) \<and>
     tx_outs (fp_commitmentTx plan) \<noteq> [])"
proof -
  have "\<not> cf_v2Confirmed quiet_chain" by (simp add: quiet_chain_def)
  from force_close_possible [OF close_chan_ok close_chan_exit _ close_signer_laws close_proper closing_chan_def this, of no_closes]
  show ?thesis
    using closing_outputs close_chan_exit by (auto simp: close_chan_def split: sum.splits)
qed

text \<open>
  Without the assumption on the peer the way out can be lost: the peer fails an HTLC, signs our commitment without
  it and then fulfils it. The fulfilment is accepted, although the removal is already behind our revocation, and
  counts the HTLC to the commitment again, so no rebuild matches the stored signature any more.
\<close>

lemma contradicted_settle_blocks_close:
  "prepareForceClose ecc_mod small_lib no_closes quiet_chain contradicted_chan close_signer =
     Inr (Refused ''Cannot force close: the stored peer signature does not cover the commitment we would broadcast'')"
  by code_simp

end
