(* ===== verification/Spec2Isabelle.thy ===== *)
theory Spec2Isabelle
  imports ShaChain Quiescence ChannelTypes MsgBasic MsgUpdate MsgCommitment MsgReestablish MsgClose MsgFunding MsgOpen
    MsgSplice MsgInteractive MsgDual Features MsgInit HtlcPolicy CommitmentSign
    ChannelFunds ChannelRevocation SignedCommitment
begin

text \<open>
  A verification of parts of beignet, a Bitcoin wallet and Lightning node in TypeScript. All paths below are
  relative to \<^verbatim>\<open>src/src/lightning\<close>.

  \<^bold>\<open>The program.\<close> A Lightning node exchanges messages with its peers (\<^verbatim>\<open>message/\<close>, \<^verbatim>\<open>features/\<close>), keeps one state
  machine per channel (\<^verbatim>\<open>channel/\<close>), derives the keys of each commitment (\<^verbatim>\<open>keys/\<close>, \<^verbatim>\<open>crypto/\<close>), builds and signs
  commitment transactions from that state (\<^verbatim>\<open>script/\<close>, \<^verbatim>\<open>channel/commitment-builder.ts\<close>) and stores the secrets
  its peer reveals when it revokes a commitment (\<^verbatim>\<open>keys/shachain.ts\<close>).

  \<^bold>\<open>Conventions.\<close> A buffer is a list of bytes (\<open>8 word list\<close>), an exception is the left side of \<open>js_error + 'a\<close>,
  a JavaScript number or bigint is an \<open>int\<close> with its range written out where the code checks or truncates it
  (\<open>sdiv\<close> is the truncating division). Libraries that are not in the repository are records of functions
  given as arguments: \<open>ecc\<close> (the curve), \<open>btc\<close> (script compiler, payment encodings, hashes), \<open>txlib\<close> (transaction
  ids, signature hashes, ECDSA). Their laws are
  hypotheses of the theorems that need them, and the witnesses instantiate them with \<open>ecc_mod\<close>, \<open>pt_mod\<close> and
  \<open>sample_lib\<close>.

  \<^bold>\<open>Theories.\<close>
  \<^item> \<open>Prelude\<close>, \<open>Wire\<close>: the result type, exceptions, reads and writes of big-endian integers with their
    range checks; the locale of a message field codec and its combinators.
  \<^item> \<open>Codec\<close>, \<open>Tlv\<close>: BigSize and message framing (\<^verbatim>\<open>message/codec.ts\<close>), TLV streams (\<^verbatim>\<open>message/tlv.ts\<close>). Round
    trips, canonicity in both directions, agreement of the two decoders.
  \<^item> \<open>MsgBasic\<close>, \<open>MsgUpdate\<close>, \<open>MsgCommitment\<close>, \<open>MsgReestablish\<close>, \<open>MsgClose\<close>, \<open>MsgFunding\<close>, \<open>MsgOpen\<close>, \<open>MsgSplice\<close>,
    \<open>MsgInteractive\<close>, \<open>MsgDual\<close>, \<open>MsgInit\<close>: one encoder and one decoder per message of \<^verbatim>\<open>message/\<close>; every encoded
    message decodes to itself.
  \<^item> \<open>Features\<close>: the feature vector class as a set of bits (\<^verbatim>\<open>features/flags.ts\<close>).
  \<^item> \<open>ShaChain\<close>: generation and compact storage of per-commitment secrets as a refinement of a map.
  \<^item> \<open>Quiescence\<close>: the stfu handshake as a system of two ends with messages in flight, in which either end may
    initiate, refuse, answer late, leave a session or lose the connection at any time; two quiescent ends
    agree on one initiator in every reachable state.
  \<^item> \<open>ChannelTypes\<close>, \<open>ChannelState\<close>: enums, configuration and the state record of a channel.
  \<^item> \<open>Keys\<close>, \<open>Scripts\<close>, \<open>CommitmentTx\<close>: key derivation, scripts, the commitment transaction with its
    obscured number, output order and output map.
  \<^item> \<open>CommitmentBuilder\<close>: from the channel state to the commitment of either side. The two ends build the
    same transaction, balances are conserved, outputs stay within the funding.
  \<^item> \<open>CommitmentSign\<close>: the signer (\<^verbatim>\<open>keys/signer.ts\<close>) and the signatures of a commitment and its HTLC transactions;
    what one end signs the other end verifies, except where the two ends trim differently on a channel without
    anchors, which the last theorem describes.
  \<^item> \<open>HtlcPolicy\<close>: the admission rules of HTLCs and their agreement with the builder.
  \<^item> \<open>Channel\<close>, \<open>ChannelUpdates\<close>, \<open>WatchtowerCache\<close>, \<open>CommitmentRounds\<close>: the channel object and the operations and
    handlers of the update and commitment exchange (\<^verbatim>\<open>channel/channel.ts\<close>, \<^verbatim>\<open>channel/watchtower-cache.ts\<close>,
    \<^verbatim>\<open>channel/channel-manager.ts\<close>). A handler returns the channel and its actions or the exception it throws; what
    it wrote before throwing stays written. The rounds that are not modelled are the argument \<open>other\<close>.
  \<^item> \<open>ChannelMachine\<close>: all of these as one machine over events, the abstract machine \<open>state_step\<close> it refines, and the
    locale \<open>channel_invariant\<close>, by which an invariant of the transitions is one of every run. \<open>ChannelSample\<close> has
    the channels of the examples.
  \<^item> \<open>ChannelFunds\<close>: in every run the money of a channel is conserved and no balance is negative.
  \<^item> \<open>ChannelRevocation\<close>: in every run each revoked commitment of the peer can be punished.
  \<^item> \<open>ForceClose\<close>: the plan and the execution of a unilateral close (\<open>prepareForceClose\<close> of \<^verbatim>\<open>channel/channel.ts\<close>). The
    plans for taproot channels, splices on chain and superseded funding attempts are the argument \<open>other_closes\<close>.
  \<^item> \<open>SignedCommitment\<close>: in every run of a correct node with a peer that settles each HTLC once, the commitment rebuilt
    for a unilateral close is the one the peer's stored signature covers; a run in which the peer settles
    an HTLC twice loses it.

  \<^bold>\<open>Recursion and bounds.\<close> Every loop of the model is structural recursion or has a termination proof; there is no
  fuel. Numbers are unbounded where the code uses bigints, and the wire codecs state the ranges that fit
  their fields. The channels of the machine are those of \<open>covered\<close>: no taproot, no establishment under way, a
  splice only past its signatures, and no fast-forward epoch.

  \<^bold>\<open>Not modelled.\<close> Network, database and file access, timers, the process and HTTP front ends, the Electrum
  client and the on-chain wallet fed by it; the taproot signing sessions, splice and dual-funding sessions,
  fast-forward epochs, gossip and path finding, onion packets, invoices and offers, swaps and recovery.
\<close>

end
